(* ===== verification/Prelude.thy ===== *)
theory Prelude
  imports Main "HOL-Library.Word"
begin

text \<open>
  Shared vocabulary of the development: the Rust integer types and their saturating
  operations, the outcome type of a fallible and possibly non-returning method, the
  combinators that thread \<open>&mut self\<close> through a method body, and the proof rules that let
  the component theories reason about whole method bodies at once.

  Conventions. A register value is a word of its own width (\<open>u8\<close>, \<open>u16\<close>), because the code
  works on it bit by bit. A physical quantity or a counter (\<open>u32\<close>, \<open>u64\<close>, a \<open>u8\<close> retry
  counter) is a natural number with the saturation of the Rust operation written out; a
  signed quantity (\<open>i32\<close>) is an integer. On naturals, \<open>a - b\<close> is Rust's
  \<open>a.saturating_sub(b)\<close>.
\<close>

unbundle bit_operations_syntax

section \<open>Integers\<close>

type_synonym u8 = "8 word"
type_synonym u16 = "16 word"
type_synonym u32 = nat
type_synonym u64 = nat
type_synonym i32 = int

named_theorems rust_int "definitions of the saturating integer operations"

definition u8_max :: nat where [rust_int]: "u8_max = 255"
definition u16_max :: nat where [rust_int]: "u16_max = 65535"
definition u32_max :: nat where [rust_int]: "u32_max = 4294967295"
definition u64_max :: nat where [rust_int]: "u64_max = 18446744073709551615"
definition i32_max :: int where [rust_int]: "i32_max = 2147483647"
definition i32_min :: int where [rust_int]: "i32_min = - 2147483648"

definition sat_add_u8 :: "nat \<Rightarrow> nat \<Rightarrow> nat" where
  [rust_int]: "sat_add_u8 a b = min (a + b) u8_max"

definition sat_add_u32 :: "u32 \<Rightarrow> u32 \<Rightarrow> u32" where
  [rust_int]: "sat_add_u32 a b = min (a + b) u32_max"

definition sat_mul_u32 :: "u32 \<Rightarrow> u32 \<Rightarrow> u32" where
  [rust_int]: "sat_mul_u32 a b = min (a * b) u32_max"

definition sat_add_u64 :: "u64 \<Rightarrow> u64 \<Rightarrow> u64" where
  [rust_int]: "sat_add_u64 a b = min (a + b) u64_max"

definition sat_mul_u64 :: "u64 \<Rightarrow> u64 \<Rightarrow> u64" where
  [rust_int]: "sat_mul_u64 a b = min (a * b) u64_max"

definition sat_sub_i32 :: "i32 \<Rightarrow> i32 \<Rightarrow> i32" where
  [rust_int]: "sat_sub_i32 a b = max i32_min (min i32_max (a - b))"

text \<open>Rust's signed division truncates towards zero.\<close>

definition i32_div :: "i32 \<Rightarrow> i32 \<Rightarrow> i32" where
  "i32_div a b = sgn a * sgn b * (\<bar>a\<bar> div \<bar>b\<bar>)"

text \<open>\<open>u8::try_from(x).unwrap_or(d)\<close> on a \<open>u32\<close>.\<close>

definition u8_try_from :: "u32 \<Rightarrow> u8 option" where
  "u8_try_from x = (if x \<le> u8_max then Some (word_of_nat x) else None)"

definition unwrap_or :: "'a \<Rightarrow> 'a option \<Rightarrow> 'a" where
  "unwrap_or d x = (case x of None \<Rightarrow> d | Some v \<Rightarrow> v)"

text \<open>\<open>u32::try_from(x.max(0)).unwrap_or(0)\<close> and \<open>unsigned_abs\<close> of a positive value.\<close>

definition u32_of_i32 :: "i32 \<Rightarrow> u32" where
  "u32_of_i32 x = nat (max x 0)"

definition u8_of_bool :: "bool \<Rightarrow> u8" where
  "u8_of_bool b = (if b then 1 else 0)"

lemma unwrap_or_simps [simp]: "unwrap_or d None = d" "unwrap_or d (Some v) = v"
  by (simp_all add: unwrap_or_def)

lemma u32_of_i32_nat [simp]: "0 \<le> x \<Longrightarrow> u32_of_i32 x = nat x"
  by (simp add: u32_of_i32_def)

lemma u8_try_from_fits: "x < 256 \<Longrightarrow> u8_try_from x = Some (word_of_nat x)"
  by (simp add: u8_try_from_def u8_max_def)

lemma unat_u8_of_nat: "x < 256 \<Longrightarrow> unat (word_of_nat x :: u8) = x"
  by (simp add: unat_of_nat take_bit_nat_def)

lemma unat_u8_less [simp]: "unat (w :: u8) < 256"
  using unsigned_less [of w] by simp

lemma sat_add_u8_le: "a \<le> u8_max \<Longrightarrow> a \<le> sat_add_u8 a b"
  by (simp add: sat_add_u8_def)

section \<open>Registers and masks\<close>

text \<open>
  A flag test \<open>reg & BIT != 0\<close>, and the masked write that the code computes in every
  read-modify-write: the bits of the mask come from the new value, the rest are kept.
\<close>

definition bit_set :: "u8 \<Rightarrow> u8 \<Rightarrow> bool" where
  "bit_set reg m \<longleftrightarrow> reg AND m \<noteq> 0"

definition masked :: "u8 \<Rightarrow> u8 \<Rightarrow> u8 \<Rightarrow> u8" where
  "masked current m v = (current AND NOT m) OR (v AND m)"

lemma bit_masked:
  "bit (masked c m v) n \<longleftrightarrow> (if bit m n then bit v n else bit c n \<and> n < 8)"
  by (auto simp: masked_def bit_simps dest: bit_imp_le_length)

lemma masked_and_mask: "masked c m v AND m = v AND m"
  by (rule bit_word_eqI) (auto simp: bit_masked bit_simps)

lemma masked_and_rest: "masked c m v AND NOT m = c AND NOT m"
  by (rule bit_word_eqI) (auto simp: bit_masked bit_simps)

lemma masked_idem: "masked (masked c m v) m v = masked c m v"
  by (rule bit_word_eqI) (auto simp: bit_masked bit_simps)

lemma masked_outside: "n AND m = 0 \<Longrightarrow> masked c m v AND n = c AND n"
  by (rule bit_word_eqI) (auto simp: bit_masked bit_simps bit_eq_iff)

lemma masked_inside: "n AND m = n \<Longrightarrow> masked c m v AND n = v AND n"
  by (rule bit_word_eqI) (auto simp: bit_masked bit_simps bit_eq_iff)

text \<open>\<open>u16::from_le_bytes([low, high])\<close>.\<close>

definition byte_pair :: "u8 \<Rightarrow> u8 \<Rightarrow> u16" where
  "byte_pair low high = ucast low OR push_bit 8 (ucast high)"

lemma byte_pair_bytes:
  "int (unat (byte_pair low high AND 0x00FF)) = uint low"
  "int (unat (drop_bit 8 (byte_pair low high) AND 0x00FF)) = uint high"
proof -
  have f: "x AND 0xFF = take_bit 8 x" for x :: u16
    by (simp add: take_bit_eq_mask mask_eq_exp_minus_1)
  have "byte_pair low high AND 0xFF = ucast low" "drop_bit 8 (byte_pair low high) AND 0xFF = ucast high"
    unfolding f byte_pair_def
    by (rule bit_word_eqI, auto simp: bit_simps dest: bit_imp_le_length)+
  moreover have "int (unat (ucast b :: u16)) = uint b" for b :: u8
  proof -
    have "unat b < 2 ^ 16" by (rule order.strict_trans [OF unat_u8_less]) simp
    then have "unat (ucast b :: u16) = unat b" by (simp only: unsigned_ucast_eq) (simp add: take_bit_nat_eq_self_iff)
    then show ?thesis by simp
  qed
  ultimately show "int (unat (byte_pair low high AND 0x00FF)) = uint low"
  "int (unat (drop_bit 8 (byte_pair low high) AND 0x00FF)) = uint high"
    by simp_all
qed

lemma uint_u8: "0 \<le> uint (w :: u8)" "uint (w :: u8) < 256"
  using unsigned_less [of w, where 'a = int] by simp_all

lemma int_and_mask:
  fixes x :: int
  shows "x AND 3 = x mod 4" "x AND 15 = x mod 16" "x AND 63 = x mod 64" "x AND 255 = x mod 256"
proof -
  have m: "x AND mask n = x mod 2 ^ n" for n by (simp add: take_bit_eq_mod flip: take_bit_eq_mask)
  show "x AND 3 = x mod 4" "x AND 15 = x mod 16" "x AND 63 = x mod 64" "x AND 255 = x mod 256"
    using m [of 2] m [of 4] m [of 6] m [of 8] by (simp_all add: mask_eq_exp_minus_1)
qed

lemma int_and_field:
  fixes x :: int
  assumes "push_bit n (mask k) = c" "2 ^ n = d" "2 ^ k = e"
  shows "(x AND c) div d = x div d mod e"
  unfolding assms [symmetric] take_bit_eq_mod [symmetric] drop_bit_eq_div [symmetric]
  by (rule bit_eqI) (auto simp: bit_simps)

lemma int_and_high:
  fixes x :: int
  shows "(x AND 252) div 4 = x div 4 mod 64" "(x AND 240) div 16 = x div 16 mod 16"
    "(x AND 192) div 64 = x div 64 mod 4"
  by (rule int_and_field [of 2 6] int_and_field [of 4 4] int_and_field [of 6 2];
      simp add: mask_eq_exp_minus_1 push_bit_eq_mult)+

section \<open>Method bodies\<close>

text \<open>
  A method with \<open>&mut self\<close> that returns \<open>Result<'a, 'e>\<close> maps the state before to the
  result and the state after; an error keeps the state changes made before it. \<open>None\<close>
  stands for a call that never returns (a retry loop can be one).
\<close>

type_synonym ('s, 'e, 'a) op = "'s \<Rightarrow> (('e + 'a) \<times> 's) option"

named_theorems op_defs "the combinators of method bodies"

definition ret :: "'a \<Rightarrow> ('s, 'e, 'a) op" where
  [op_defs]: "ret x = (\<lambda>s. Some (Inr x, s))"

definition raise :: "'e \<Rightarrow> ('s, 'e, 'a) op" where
  [op_defs]: "raise e = (\<lambda>s. Some (Inl e, s))"

definition get_state :: "('s, 'e, 's) op" where
  [op_defs]: "get_state = (\<lambda>s. Some (Inr s, s))"

definition modify :: "('s \<Rightarrow> 's) \<Rightarrow> ('s, 'e, unit) op" where
  [op_defs]: "modify f = (\<lambda>s. Some (Inr (), f s))"

text \<open>The \<open>?\<close> operator: continue with the value, or return the error at once.\<close>

definition and_then :: "('s, 'e, 'a) op \<Rightarrow> ('a \<Rightarrow> ('s, 'e, 'b) op) \<Rightarrow> ('s, 'e, 'b) op" where
  [op_defs]: "and_then m f = (\<lambda>s. case m s of None \<Rightarrow> None
     | Some (Inl e, s') \<Rightarrow> Some (Inl e, s')
     | Some (Inr x, s') \<Rightarrow> f x s')"

text \<open>\<open>match m { Ok(..) => .., Err(..) => .. }\<close>: the result as a value.\<close>

definition outcome :: "('s, 'e, 'a) op \<Rightarrow> ('s, 'd, 'e + 'a) op" where
  [op_defs]: "outcome m = (\<lambda>s. case m s of None \<Rightarrow> None | Some (r, s') \<Rightarrow> Some (Inr r, s'))"

text \<open>\<open>m.or_else(h)\<close>.\<close>

definition or_else :: "('s, 'e, 'a) op \<Rightarrow> ('e \<Rightarrow> ('s, 'd, 'a) op) \<Rightarrow> ('s, 'd, 'a) op" where
  [op_defs]: "or_else m h = and_then (outcome m)
     (\<lambda>r. case r of Inl e \<Rightarrow> h e | Inr x \<Rightarrow> ret x)"

text \<open>\<open>let _ = m\<close>, and \<open>m.unwrap_or(d)\<close>.\<close>

definition ignore :: "('s, 'e, 'a) op \<Rightarrow> ('s, 'd, unit) op" where
  [op_defs]: "ignore m = and_then (outcome m) (\<lambda>_. ret ())"

definition value_or :: "('s, 'e, 'a) op \<Rightarrow> 'a \<Rightarrow> ('s, 'd, 'a) op" where
  [op_defs]: "value_or m d = and_then (outcome m)
     (\<lambda>r. ret (case r of Inl _ \<Rightarrow> d | Inr x \<Rightarrow> x))"

definition when_op :: "bool \<Rightarrow> ('s, 'e, unit) op \<Rightarrow> ('s, 'e, unit) op" where
  [op_defs]: "when_op b m = (if b then m else ret ())"

text \<open>A block of statements, each followed by \<open>?\<close>.\<close>

primrec block :: "('s, 'e, unit) op list \<Rightarrow> ('s, 'e, unit) op" where
  "block [] = ret ()"
| "block (m # ms) = and_then m (\<lambda>_. block ms)"

subsection \<open>Evaluation\<close>

lemma ret_eq [simp]: "ret x s = Some (Inr x, s)"
  by (simp add: ret_def)

lemma raise_eq [simp]: "raise e s = Some (Inl e, s)"
  by (simp add: raise_def)

lemma get_state_eq [simp]: "get_state s = Some (Inr s, s)"
  by (simp add: get_state_def)

lemma modify_eq [simp]: "modify f s = Some (Inr (), f s)"
  by (simp add: modify_def)

lemma and_then_eq:
  "m s = Some (Inr x, t) \<Longrightarrow> and_then m f s = f x t"
  "m s = Some (Inl e, t) \<Longrightarrow> and_then m f s = Some (Inl e, t)"
  "m s = None \<Longrightarrow> and_then m f s = None"
  by (simp_all add: and_then_def)

lemma outcome_eq:
  "m s = Some (r, t) \<Longrightarrow> outcome m s = Some (Inr r, t)"
  "m s = None \<Longrightarrow> outcome m s = None"
  by (simp_all add: outcome_def)

lemma or_else_eq:
  "m s = Some (Inr x, t) \<Longrightarrow> or_else m h s = Some (Inr x, t)"
  "m s = Some (Inl e, t) \<Longrightarrow> or_else m h s = h e t"
  "m s = None \<Longrightarrow> or_else m h s = None"
  by (simp_all add: or_else_def and_then_def outcome_def)

lemma ignore_eq:
  "m s = Some (r, t) \<Longrightarrow> ignore m s = Some (Inr (), t)"
  "m s = None \<Longrightarrow> ignore m s = None"
  by (simp_all add: ignore_def and_then_def outcome_def)

lemma value_or_eq:
  "m s = Some (Inr x, t) \<Longrightarrow> value_or m d s = Some (Inr x, t)"
  "m s = Some (Inl e, t) \<Longrightarrow> value_or m d s = Some (Inr d, t)"
  "m s = None \<Longrightarrow> value_or m d s = None"
  by (simp_all add: value_or_def and_then_def outcome_def)

lemmas op_eqs = and_then_eq outcome_eq or_else_eq ignore_eq value_or_eq

lemma when_op_simps [simp]: "when_op True m = m" "when_op False m = ret ()"
  by (simp_all add: when_op_def)

lemma and_then_SomeD:
  assumes "and_then m f s = Some (r, t)"
  shows "(\<exists>e. m s = Some (Inl e, t) \<and> r = Inl e) \<or>
         (\<exists>x u. m s = Some (Inr x, u) \<and> f x u = Some (r, t))"
  using assms by (auto simp: and_then_def split: option.splits prod.splits sum.splits)

lemma and_then_assoc: "and_then (and_then m f) g = and_then m (\<lambda>x. and_then (f x) g)"
  by (auto simp: and_then_def fun_eq_iff split: option.splits prod.splits sum.splits)

lemma and_then_ret [simp]:
  "and_then (ret x) f = f x"
  "and_then (\<lambda>s. Some (Inr x, s)) f = f x"
  by (simp_all add: and_then_def fun_eq_iff)

lemma block_append: "block (xs @ ys) = and_then (block xs) (\<lambda>_. block ys)"
  by (induction xs) (simp_all add: and_then_assoc)

subsection \<open>Total correctness of method bodies\<close>

text \<open>
  \<open>keeps P m\<close>: from a state in \<open>P\<close> the method returns (with a value or an error) and ends
  in a state of \<open>P\<close>. \<open>achieves P m Q E\<close>: it returns, with \<open>Q\<close> of its value and final
  state or \<open>E\<close> of its error and final state. Both follow the structure of the body.
\<close>

definition achieves ::
  "('s \<Rightarrow> bool) \<Rightarrow> ('s, 'e, 'a) op \<Rightarrow> ('a \<Rightarrow> 's \<Rightarrow> bool) \<Rightarrow> ('e \<Rightarrow> 's \<Rightarrow> bool) \<Rightarrow> bool" where
  "achieves P m Q E \<longleftrightarrow> (\<forall>s. P s \<longrightarrow>
     (\<exists>t. (\<exists>x. m s = Some (Inr x, t) \<and> Q x t) \<or> (\<exists>e. m s = Some (Inl e, t) \<and> E e t)))"

definition keeps :: "('s \<Rightarrow> bool) \<Rightarrow> ('s, 'e, 'a) op \<Rightarrow> bool" where
  "keeps P m \<longleftrightarrow> (\<forall>s. P s \<longrightarrow> (\<exists>r t. m s = Some (r, t) \<and> P t))"

named_theorems keeps_intros "rules for the invariants of method bodies"

lemma keepsD: "keeps P m \<Longrightarrow> P s \<Longrightarrow> \<exists>r t. m s = Some (r, t) \<and> P t"
  by (simp add: keeps_def)

lemma keeps_final: "keeps P m \<Longrightarrow> P s \<Longrightarrow> \<exists>t. map_option snd (m s) = Some t \<and> P t"
  by (force simp: keeps_def)

lemma keepsI: "(\<And>s. P s \<Longrightarrow> \<exists>r t. m s = Some (r, t) \<and> P t) \<Longrightarrow> keeps P m"
  by (simp add: keeps_def)

lemma keeps_ret [keeps_intros]: "keeps P (ret x)"
  by (simp add: keeps_def)

lemma keeps_raise [keeps_intros]: "keeps P (raise e)"
  by (simp add: keeps_def)

lemma keeps_get [keeps_intros]: "keeps P get_state"
  by (simp add: keeps_def)

lemma keeps_modify [keeps_intros]: "(\<And>s. P s \<Longrightarrow> P (f s)) \<Longrightarrow> keeps P (modify f)"
  by (simp add: keeps_def)

lemma keeps_and_then [keeps_intros]:
  assumes "keeps P m" and "\<And>x. keeps P (f x)"
  shows "keeps P (and_then m f)"
proof (rule keepsI)
  fix s assume "P s"
  with assms(1) obtain r t where m: "m s = Some (r, t)" "P t"
    by (blast dest: keepsD)
  show "\<exists>r t. and_then m f s = Some (r, t) \<and> P t"
  proof (cases r)
    case (Inl e)
    with m show ?thesis by (simp add: and_then_def)
  next
    case (Inr x)
    with m assms(2) [of x] show ?thesis
      by (auto simp: and_then_def dest: keepsD)
  qed
qed

lemma keeps_outcome [keeps_intros]: "keeps P m \<Longrightarrow> keeps P (outcome m)"
  by (fastforce simp: keeps_def outcome_def split: option.splits)

lemma keeps_or_else [keeps_intros]:
  "keeps P m \<Longrightarrow> (\<And>e. keeps P (h e)) \<Longrightarrow> keeps P (or_else m h)"
  by (auto simp: or_else_def intro!: keeps_intros split: sum.split)

lemma keeps_ignore [keeps_intros]: "keeps P m \<Longrightarrow> keeps P (ignore m)"
  by (auto simp: ignore_def intro!: keeps_intros)

lemma keeps_value_or [keeps_intros]: "keeps P m \<Longrightarrow> keeps P (value_or m d)"
  by (auto simp: value_or_def intro!: keeps_intros)

lemma keeps_when [keeps_intros]: "(b \<Longrightarrow> keeps P m) \<Longrightarrow> keeps P (when_op b m)"
  by (auto simp: when_op_def intro!: keeps_intros)

lemma keeps_block [keeps_intros]:
  "(\<And>m. m \<in> set ms \<Longrightarrow> keeps P m) \<Longrightarrow> keeps P (block ms)"
  by (induction ms) (auto intro!: keeps_intros)

lemma keeps_if [keeps_intros]:
  "(b \<Longrightarrow> keeps P m) \<Longrightarrow> (\<not> b \<Longrightarrow> keeps P n) \<Longrightarrow> keeps P (if b then m else n)"
  by simp

lemma keeps_case_option [keeps_intros]:
  "(x = None \<Longrightarrow> keeps P m) \<Longrightarrow> (\<And>y. x = Some y \<Longrightarrow> keeps P (f y)) \<Longrightarrow>
   keeps P (case x of None \<Rightarrow> m | Some y \<Rightarrow> f y)"
  by (cases x) auto

lemma keeps_case_sum [keeps_intros]:
  "(\<And>e. x = Inl e \<Longrightarrow> keeps P (g e)) \<Longrightarrow> (\<And>y. x = Inr y \<Longrightarrow> keeps P (f y)) \<Longrightarrow>
   keeps P (case x of Inl e \<Rightarrow> g e | Inr y \<Rightarrow> f y)"
  by (cases x) auto

lemma keeps_case_prod [keeps_intros]:
  "(\<And>a b. x = (a, b) \<Longrightarrow> keeps P (f a b)) \<Longrightarrow> keeps P (case x of (a, b) \<Rightarrow> f a b)"
  by (cases x) auto

lemma keeps_Let [keeps_intros]: "keeps P (f x) \<Longrightarrow> keeps P (Let x f)"
  by (simp add: Let_def)

lemma achievesD:
  "achieves P m Q E \<Longrightarrow> P s \<Longrightarrow>
   \<exists>t. (\<exists>x. m s = Some (Inr x, t) \<and> Q x t) \<or> (\<exists>e. m s = Some (Inl e, t) \<and> E e t)"
  by (simp add: achieves_def)

lemma keeps_achieves: "keeps P m \<longleftrightarrow> achieves P m (\<lambda>_. P) (\<lambda>_. P)"
proof -
  have "(\<exists>r t. m s = Some (r, t) \<and> P t) \<longleftrightarrow>
    (\<exists>t. (\<exists>x. m s = Some (Inr x, t) \<and> P t) \<or> (\<exists>e. m s = Some (Inl e, t) \<and> P t))" for s
    by (metis sumE)
  then show ?thesis by (simp add: keeps_def achieves_def)
qed

subsection \<open>Weakest preconditions\<close>

text \<open>
  \<open>wp m Q s\<close>: from \<open>s\<close> the method returns, with \<open>Q\<close> of its result and final state. The equations push a
  postcondition through a method body, so that a body is proved by rewriting, one rule per method call.
\<close>

definition wp :: "('s, 'e, 'a) op \<Rightarrow> ('e + 'a \<Rightarrow> 's \<Rightarrow> bool) \<Rightarrow> 's \<Rightarrow> bool" where
  "wp m Q s \<longleftrightarrow> (case m s of None \<Rightarrow> False | Some (r, t) \<Rightarrow> Q r t)"

lemma wp_iff: "wp m Q s \<longleftrightarrow> (\<exists>r t. m s = Some (r, t) \<and> Q r t)"
  by (cases "m s") (auto simp: wp_def)

lemma wpI: "m s = Some (r, t) \<Longrightarrow> Q r t \<Longrightarrow> wp m Q s"
  by (auto simp: wp_def)

lemma wp_mono: "wp m Q s \<Longrightarrow> (\<And>r t. Q r t \<Longrightarrow> R r t) \<Longrightarrow> wp m R s"
  by (auto simp: wp_iff)

lemma wp_ret [simp]: "wp (ret x) Q s \<longleftrightarrow> Q (Inr x) s"
  by (simp add: wp_def)

lemma wp_raise [simp]: "wp (raise e) Q s \<longleftrightarrow> Q (Inl e) s"
  by (simp add: wp_def)

lemma wp_get_state [simp]: "wp get_state Q s \<longleftrightarrow> Q (Inr s) s"
  by (simp add: wp_def)

lemma wp_modify [simp]: "wp (modify f) Q s \<longleftrightarrow> Q (Inr ()) (f s)"
  by (simp add: wp_def)

lemma wp_and_then [simp]:
  "wp (and_then m f) Q s \<longleftrightarrow> wp m (\<lambda>r t. case r of Inl e \<Rightarrow> Q (Inl e) t | Inr x \<Rightarrow> wp (f x) Q t) s"
  by (simp add: wp_def and_then_def split: option.split sum.split prod.split)

lemma wp_outcome [simp]: "wp (outcome m) Q s \<longleftrightarrow> wp m (\<lambda>r. Q (Inr r)) s"
  by (simp add: wp_def outcome_def split: option.split prod.split)

lemma wp_or_else [simp]:
  "wp (or_else m h) Q s \<longleftrightarrow> wp m (\<lambda>r t. case r of Inl e \<Rightarrow> wp (h e) Q t | Inr x \<Rightarrow> Q (Inr x) t) s"
  by (simp add: or_else_def) (simp add: wp_def split: option.split sum.split prod.split)

lemma wp_when [simp]: "wp (when_op b m) Q s \<longleftrightarrow> (if b then wp m Q s else Q (Inr ()) s)"
  by (simp add: when_op_def)

lemma wp_if: "wp (if b then m else n) Q s \<longleftrightarrow> (if b then wp m Q s else wp n Q s)"
  by simp

lemma keeps_wp: "keeps P m \<longleftrightarrow> (\<forall>s. P s \<longrightarrow> wp m (\<lambda>_. P) s)"
  by (simp add: keeps_def wp_iff)

end
