(* ===== verification/Pump_Regs.thy ===== *)
theory Pump_Regs
  imports Prelude
begin

text \<open>
  The register map of the LN8000 charge pump (\<open>crates/ln8000/src/regs.rs\<close>): addresses, bit
  masks and the numeric constants of the vendor header, under the names of the source. They
  are input abbreviations, so a proof sees the numbers and never has to unfold a name. A
  mask written \<open>1 << n\<close> in the source is given as the number it denotes.
\<close>

abbreviation (input) DEVICE_ID :: u8 where "DEVICE_ID \<equiv> 0x00"
abbreviation (input) DEVICE_ID_VALUE :: u8 where "DEVICE_ID_VALUE \<equiv> 0x42"
abbreviation (input) INT1 :: u8 where "INT1 \<equiv> 0x01"
abbreviation (input) INT1_MSK :: u8 where "INT1_MSK \<equiv> 0x02"
abbreviation (input) SYS_STS :: u8 where "SYS_STS \<equiv> 0x03"
abbreviation (input) SAFETY_STS :: u8 where "SAFETY_STS \<equiv> 0x04"
abbreviation (input) FAULT1_STS :: u8 where "FAULT1_STS \<equiv> 0x05"
abbreviation (input) FAULT2_STS :: u8 where "FAULT2_STS \<equiv> 0x06"
abbreviation (input) CURR1_STS :: u8 where "CURR1_STS \<equiv> 0x07"
abbreviation (input) LDO_STS :: u8 where "LDO_STS \<equiv> 0x08"
abbreviation (input) ADC_FIRST_STS :: u8 where "ADC_FIRST_STS \<equiv> 0x09"
abbreviation (input) ADC_LAST_STS :: u8 where "ADC_LAST_STS \<equiv> 0x12"
abbreviation (input) IIN_CTRL :: u8 where "IIN_CTRL \<equiv> 0x1B"
abbreviation (input) REGULATION_CTRL :: u8 where "REGULATION_CTRL \<equiv> 0x1C"
abbreviation (input) PWR_CTRL :: u8 where "PWR_CTRL \<equiv> 0x1D"
abbreviation (input) SYS_CTRL :: u8 where "SYS_CTRL \<equiv> 0x1E"
abbreviation (input) LDO_CTRL :: u8 where "LDO_CTRL \<equiv> 0x1F"
abbreviation (input) GLITCH_CTRL :: u8 where "GLITCH_CTRL \<equiv> 0x20"
abbreviation (input) FAULT_CTRL :: u8 where "FAULT_CTRL \<equiv> 0x21"
abbreviation (input) NTC_CTRL :: u8 where "NTC_CTRL \<equiv> 0x22"
abbreviation (input) ADC_CTRL :: u8 where "ADC_CTRL \<equiv> 0x23"
abbreviation (input) ADC_CFG :: u8 where "ADC_CFG \<equiv> 0x24"
abbreviation (input) RECOVERY_CTRL :: u8 where "RECOVERY_CTRL \<equiv> 0x25"
abbreviation (input) TIMER_CTRL :: u8 where "TIMER_CTRL \<equiv> 0x26"
abbreviation (input) TIMER_CTRL_PAUSE_ADC :: u8 where "TIMER_CTRL_PAUSE_ADC \<equiv> 0x02"
abbreviation (input) TIMER_CTRL_CLEAR_LATCH :: u8 where "TIMER_CTRL_CLEAR_LATCH \<equiv> 0x04"
abbreviation (input) FAULT_CTRL_DISABLE_VIN_OV :: u8 where "FAULT_CTRL_DISABLE_VIN_OV \<equiv> 0x04"
abbreviation (input) FAULT_CTRL_DISABLE_VAC_UV :: u8 where "FAULT_CTRL_DISABLE_VAC_UV \<equiv> 0x08"
abbreviation (input) FAULT_CTRL_DISABLE_VAC_OV :: u8 where "FAULT_CTRL_DISABLE_VAC_OV \<equiv> 0x10"
abbreviation (input) FAULT_CTRL_DISABLE_VBAT_OV :: u8 where "FAULT_CTRL_DISABLE_VBAT_OV \<equiv> 0x20"
abbreviation (input) FAULT_CTRL_MASK_5V_BYPASS :: u8 where "FAULT_CTRL_MASK_5V_BYPASS \<equiv> 0x3C"
abbreviation (input) THRESHOLD_CTRL :: u8 where "THRESHOLD_CTRL \<equiv> 0x27"
abbreviation (input) V_FLOAT_CTRL :: u8 where "V_FLOAT_CTRL \<equiv> 0x28"
abbreviation (input) CHARGE_CTRL :: u8 where "CHARGE_CTRL \<equiv> 0x29"
abbreviation (input) LION_CTRL :: u8 where "LION_CTRL \<equiv> 0x30"
abbreviation (input) BC_OP_1 :: u8 where "BC_OP_1 \<equiv> 0x41"
abbreviation (input) BC_OP_2 :: u8 where "BC_OP_2 \<equiv> 0x42"
abbreviation (input) BC_STS_A :: u8 where "BC_STS_A \<equiv> 0x49"
abbreviation (input) BC_STS_E :: u8 where "BC_STS_E \<equiv> 0x4D"
abbreviation (input) LION_CTRL_UNLOCK :: u8 where "LION_CTRL_UNLOCK \<equiv> 0xC6"
abbreviation (input) SYS_STS_IIN_LOOP :: u8 where "SYS_STS_IIN_LOOP \<equiv> 0x80"
abbreviation (input) SYS_STS_VFLOAT_LOOP :: u8 where "SYS_STS_VFLOAT_LOOP \<equiv> 0x40"
abbreviation (input) SYS_STS_BYPASS_ENABLED :: u8 where "SYS_STS_BYPASS_ENABLED \<equiv> 0x08"
abbreviation (input) SYS_STS_SWITCHING_ENABLED :: u8 where "SYS_STS_SWITCHING_ENABLED \<equiv> 0x04"
abbreviation (input) SYS_STS_STANDBY :: u8 where "SYS_STS_STANDBY \<equiv> 0x02"
abbreviation (input) SYS_STS_SHUTDOWN :: u8 where "SYS_STS_SHUTDOWN \<equiv> 0x01"
abbreviation (input) SYS_CTRL_STANDBY_EN :: u8 where "SYS_CTRL_STANDBY_EN \<equiv> 0x08"
abbreviation (input) SYS_CTRL_REV_IIN_DET :: u8 where "SYS_CTRL_REV_IIN_DET \<equiv> 0x04"
abbreviation (input) SYS_CTRL_EN_1TO1 :: u8 where "SYS_CTRL_EN_1TO1 \<equiv> 0x01"
abbreviation (input) SAFETY_TEMP_MAX :: u8 where "SAFETY_TEMP_MAX \<equiv> 0x40"
abbreviation (input) SAFETY_TEMP_REGULATION :: u8 where "SAFETY_TEMP_REGULATION \<equiv> 0x20"
abbreviation (input) SAFETY_NTC_ALARM :: u8 where "SAFETY_NTC_ALARM \<equiv> 0x10"
abbreviation (input) SAFETY_NTC_SHUTDOWN :: u8 where "SAFETY_NTC_SHUTDOWN \<equiv> 0x08"
abbreviation (input) SAFETY_REV_IIN :: u8 where "SAFETY_REV_IIN \<equiv> 0x04"
abbreviation (input) FAULT1_WATCHDOG :: u8 where "FAULT1_WATCHDOG \<equiv> 0x80"
abbreviation (input) FAULT1_VBAT_OV :: u8 where "FAULT1_VBAT_OV \<equiv> 0x40"
abbreviation (input) FAULT1_VAC_UNPLUG :: u8 where "FAULT1_VAC_UNPLUG \<equiv> 0x10"
abbreviation (input) FAULT1_VAC_OV :: u8 where "FAULT1_VAC_OV \<equiv> 0x08"
abbreviation (input) FAULT1_VIN_OV :: u8 where "FAULT1_VIN_OV \<equiv> 0x02"
abbreviation (input) FAULT1_VFAULTS_MASK :: u8 where "FAULT1_VFAULTS_MASK \<equiv> 0x7F"
abbreviation (input) FAULT2_IIN_OC :: u8 where "FAULT2_IIN_OC \<equiv> 0x80"
abbreviation (input) FAULT2_VOLT_FAULT :: u8 where "FAULT2_VOLT_FAULT \<equiv> 0x20"
abbreviation (input) LDO_CHARGE_TERM :: u8 where "LDO_CHARGE_TERM \<equiv> 0x20"
abbreviation (input) LDO_RECHARGE :: u8 where "LDO_RECHARGE \<equiv> 0x10"
abbreviation (input) VBAT_FLOAT_MIN_UV :: u32 where "VBAT_FLOAT_MIN_UV \<equiv> 3725000"
abbreviation (input) VBAT_FLOAT_MAX_UV :: u32 where "VBAT_FLOAT_MAX_UV \<equiv> 5000000"
abbreviation (input) VBAT_FLOAT_STEP_UV :: u32 where "VBAT_FLOAT_STEP_UV \<equiv> 5000"
abbreviation (input) IIN_MIN_UA :: u32 where "IIN_MIN_UA \<equiv> 500000"
abbreviation (input) IIN_STEP_UA :: u32 where "IIN_STEP_UA \<equiv> 50000"
abbreviation (input) IIN_MAX_UA :: u32 where "IIN_MAX_UA \<equiv> 6350000"
abbreviation (input) VAC_OVP_6V5 :: u8 where "VAC_OVP_6V5 \<equiv> 0x00"
abbreviation (input) VAC_OVP_11V :: u8 where "VAC_OVP_11V \<equiv> 0x01"
abbreviation (input) VAC_OVP_12V :: u8 where "VAC_OVP_12V \<equiv> 0x02"
abbreviation (input) VAC_OVP_13V :: u8 where "VAC_OVP_13V \<equiv> 0x03"
abbreviation (input) NTC_SHUTDOWN_CFG :: u8 where "NTC_SHUTDOWN_CFG \<equiv> 0x02"
abbreviation (input) NTC_ALARM_DEFAULT :: u16 where "NTC_ALARM_DEFAULT \<equiv> 0xE2"
abbreviation (input) THRESHOLD_CTRL_DEFAULT :: u8 where "THRESHOLD_CTRL_DEFAULT \<equiv> 0x0E"
abbreviation (input) SOFT_RESET_DELAY_MS :: u64 where "SOFT_RESET_DELAY_MS \<equiv> 10"

end
