(* ===== verification/Pump_Error.thy ===== *)
theory Pump_Error
  imports Prelude
begin

text \<open>
  \<open>crates/ln8000/src/error.rs\<close>: bus failures and driver errors as values, the stable error
  codes of the journal, and which errors a retry may cure. The static explanation string of
  a bus error (\<open>detail\<close>) is carried as a string.
\<close>

datatype bus_error_kind = BkIo | BkTimeout | BkDisconnected | BkProtocol | BkUnsupported

fun bus_error_kind_str :: "bus_error_kind \<Rightarrow> string" where
  "bus_error_kind_str BkIo = ''io''"
| "bus_error_kind_str BkTimeout = ''timeout''"
| "bus_error_kind_str BkDisconnected = ''disconnected''"
| "bus_error_kind_str BkProtocol = ''protocol''"
| "bus_error_kind_str BkUnsupported = ''unsupported''"

record bus_error =
  be_kind :: bus_error_kind
  be_code :: i32
  be_detail :: string

definition bus_error_new :: "bus_error_kind \<Rightarrow> i32 \<Rightarrow> string \<Rightarrow> bus_error" where
  "bus_error_new k c d = \<lparr>be_kind = k, be_code = c, be_detail = d\<rparr>"

datatype pump_error =
    BusErr bus_error
  | NotOpen
  | WrongDeviceId u8
  | ModeNotReached u8 u8              \<comment> \<open>wanted, raw \<open>SYS_STS\<close>\<close>
  | BypassNeedsFiveVoltVin i32        \<comment> \<open>the input voltage\<close>
  | FaultErr u8 string                \<comment> \<open>mask, detail\<close>
  | OutOfRange string u32             \<comment> \<open>field, requested\<close>
  | WatchdogExpired

fun pump_error_code :: "pump_error \<Rightarrow> string" where
  "pump_error_code (BusErr _) = ''bus''"
| "pump_error_code NotOpen = ''not_open''"
| "pump_error_code (WrongDeviceId _) = ''wrong_device_id''"
| "pump_error_code (ModeNotReached _ _) = ''mode_not_reached''"
| "pump_error_code (BypassNeedsFiveVoltVin _) = ''bypass_needs_five_volt_vin''"
| "pump_error_code (FaultErr _ _) = ''fault''"
| "pump_error_code (OutOfRange _ _) = ''out_of_range''"
| "pump_error_code WatchdogExpired = ''watchdog_expired''"

fun pump_error_recoverable :: "pump_error \<Rightarrow> bool" where
  "pump_error_recoverable (BusErr e) \<longleftrightarrow> be_kind e \<in> {BkTimeout, BkDisconnected, BkIo}"
| "pump_error_recoverable (ModeNotReached _ _) \<longleftrightarrow> True"
| "pump_error_recoverable _ \<longleftrightarrow> False"

text \<open>\<open>bus_recoverable\<close> of \<open>driver.rs\<close>: the failures its retry loops retry.\<close>

definition bus_recoverable :: "bus_error \<Rightarrow> bool" where
  "bus_recoverable e \<longleftrightarrow> be_kind e \<in> {BkTimeout, BkDisconnected, BkIo}"

end
