(* ===== verification/Encoding.thy ===== *)
theory Encoding
  imports Pump_Regs Pump_Error
begin

text \<open>
  \<open>crates/ln8000/src/encoding.rs\<close>: the operating mode of the pump, the charge-mode
  decision from the input and cell voltages, the 2:1 transfer window, and the encodings of
  the current limit, the float voltage, the overvoltage threshold and the NTC alarm.
\<close>

section \<open>Operating mode\<close>

datatype op_mode = Unknown | Standby | Bypass | Switching

fun op_mode_code :: "op_mode \<Rightarrow> u8" where
  "op_mode_code Unknown = 0x0"
| "op_mode_code Standby = 0x1"
| "op_mode_code Bypass = 0x2"
| "op_mode_code Switching = 0x3"

fun op_mode_label :: "op_mode \<Rightarrow> string" where
  "op_mode_label Unknown = ''UNKNOWN''"
| "op_mode_label Standby = ''STANDBY''"
| "op_mode_label Bypass = ''BYPASS''"
| "op_mode_label Switching = ''SWITCHING''"

definition from_sys_sts :: "u8 \<Rightarrow> op_mode" where
  "from_sys_sts sys_sts =
    (if bit_set sys_sts (SYS_STS_SHUTDOWN OR SYS_STS_STANDBY) then Standby
     else if bit_set sys_sts SYS_STS_SWITCHING_ENABLED then Switching
     else if bit_set sys_sts SYS_STS_BYPASS_ENABLED then Bypass
     else Unknown)"

fun sys_ctrl_bits :: "op_mode \<Rightarrow> pump_error + u8" where
  "sys_ctrl_bits Standby = Inr SYS_CTRL_STANDBY_EN"
| "sys_ctrl_bits Bypass = Inr SYS_CTRL_EN_1TO1"
| "sys_ctrl_bits Switching = Inr 0"
| "sys_ctrl_bits Unknown = Inl (OutOfRange ''op_mode'' 0)"

definition sys_ctrl_mask :: u8 where
  "sys_ctrl_mask = SYS_CTRL_STANDBY_EN OR SYS_CTRL_EN_1TO1"

section \<open>Charge mode and the 2:1 window\<close>

abbreviation (input) SWITCHING_MIN_VIN_UV :: i32 where "SWITCHING_MIN_VIN_UV \<equiv> 8000000"
abbreviation (input) ELEVATED_MIN_VIN_UV :: i32 where "ELEVATED_MIN_VIN_UV \<equiv> 6000000"
abbreviation (input) SWITCHING_HEADROOM_UV :: u32 where "SWITCHING_HEADROOM_UV \<equiv> 250000"
abbreviation (input) SWITCHING_WINDOW_TOP_UV :: u32 where "SWITCHING_WINDOW_TOP_UV \<equiv> 400000"
abbreviation (input) SWITCHING_WINDOW_FLOOR_UV :: u32 where "SWITCHING_WINDOW_FLOOR_UV \<equiv> 200000"
abbreviation (input) SWITCHING_WINDOW_TARGET_UV :: u32 where "SWITCHING_WINDOW_TARGET_UV \<equiv> 300000"
abbreviation (input) IIN_USEFUL_UA :: u32 where "IIN_USEFUL_UA \<equiv> 300000"
abbreviation (input) CHARGE_MIN_VIN_UV :: i32 where "CHARGE_MIN_VIN_UV \<equiv> 4200000"
abbreviation (input) NABU_QC3_BAT_VOLT_MAX_UV :: u32 where "NABU_QC3_BAT_VOLT_MAX_UV \<equiv> 4420000"
abbreviation (input) NABU_VBAT_NON_FFC_UV :: u32 where "NABU_VBAT_NON_FFC_UV \<equiv> 4450000"
abbreviation (input) NABU_BAT_OVP_UV :: u32 where "NABU_BAT_OVP_UV \<equiv> 4560000"
abbreviation (input) NABU_VBAT_FLOAT_UV :: u32 where "NABU_VBAT_FLOAT_UV \<equiv> 4470000"
abbreviation (input) VBAT_FLOAT_SOFT_HEADROOM_UV :: u32 where "VBAT_FLOAT_SOFT_HEADROOM_UV \<equiv> 80000"
abbreviation (input) VBAT_FLOAT_SOFT_MAX_UV :: u32 where "VBAT_FLOAT_SOFT_MAX_UV \<equiv> 4500000"
abbreviation (input) VBAT_TAPER_MARGIN_UV :: u32 where "VBAT_TAPER_MARGIN_UV \<equiv> 100000"
abbreviation (input) VBAT_TAPER_IIN_UA :: u32 where "VBAT_TAPER_IIN_UA \<equiv> 1200000"
abbreviation (input) VBAT_VIN_HALF_SLACK_UV :: u32 where "VBAT_VIN_HALF_SLACK_UV \<equiv> 80000"
abbreviation (input) POR_VIN_TOLERANCE_UV :: u32 where "POR_VIN_TOLERANCE_UV \<equiv> 200000"
abbreviation (input) IIN_CODE_MAX :: u8 where "IIN_CODE_MAX \<equiv> 0x7F"

definition min_vin_for_switching_uv :: "u32 \<Rightarrow> u32" where
  "min_vin_for_switching_uv vbat_uv =
    (let pack_gate = sat_add_u32 (sat_mul_u32 vbat_uv 2) SWITCHING_HEADROOM_UV
     in if pack_gate < nat ELEVATED_MIN_VIN_UV then nat ELEVATED_MIN_VIN_UV else pack_gate)"

definition window_top_uv :: "u32 \<Rightarrow> u32" where
  "window_top_uv vbat_uv = sat_add_u32 (sat_mul_u32 vbat_uv 2) SWITCHING_WINDOW_TOP_UV"

definition window_floor_uv :: "u32 \<Rightarrow> u32" where
  "window_floor_uv vbat_uv = sat_add_u32 (sat_mul_u32 vbat_uv 2) SWITCHING_WINDOW_FLOOR_UV"

definition window_target_uv :: "u32 \<Rightarrow> u32" where
  "window_target_uv vbat_uv = sat_add_u32 (sat_mul_u32 vbat_uv 2) SWITCHING_WINDOW_TARGET_UV"

definition vin_in_switching_window :: "i32 \<Rightarrow> u32 \<Rightarrow> bool" where
  "vin_in_switching_window vin_uv vbat_uv =
    (if vin_uv \<le> 0 \<or> vbat_uv = 0 then False
     else let vin = nat \<bar>vin_uv\<bar>
          in window_floor_uv vbat_uv \<le> vin \<and> vin \<le> window_top_uv vbat_uv)"

definition non_negative_uv :: "i32 \<Rightarrow> u32" where
  "non_negative_uv vin_uv = (if vin_uv > 0 then nat \<bar>vin_uv\<bar> else 0)"

definition transfer_is_useful :: "u32 \<Rightarrow> bool" where
  "transfer_is_useful max_iin_ua \<longleftrightarrow> max_iin_ua > IIN_USEFUL_UA"

definition should_walk_window :: "bool \<Rightarrow> bool \<Rightarrow> bool \<Rightarrow> bool" where
  "should_walk_window dead transferring below_band \<longleftrightarrow> dead \<or> \<not> transferring \<or> below_band"

definition stop_running_charge :: "bool \<Rightarrow> bool \<Rightarrow> bool" where
  "stop_running_charge admissible transferring \<longleftrightarrow> \<not> admissible \<and> \<not> transferring"

definition soft_float_for_vbat :: "u32 \<Rightarrow> u32 \<Rightarrow> u32" where
  "soft_float_for_vbat profile_float_uv vbat_uv =
    (let with_headroom = sat_add_u32 vbat_uv VBAT_FLOAT_SOFT_HEADROOM_UV;
         raised = (if with_headroom > profile_float_uv then with_headroom else profile_float_uv)
     in if raised > VBAT_FLOAT_SOFT_MAX_UV then VBAT_FLOAT_SOFT_MAX_UV else raised)"

definition vin_is_doubled_vbat :: "u32 \<Rightarrow> u32 \<Rightarrow> bool" where
  "vin_is_doubled_vbat vbat_uv vin_uv =
    (if vbat_uv = 0 then False
     else let half = vin_uv div 2;
              lo = half - VBAT_VIN_HALF_SLACK_UV;
              hi = sat_add_u32 half VBAT_VIN_HALF_SLACK_UV
          in vbat_uv \<ge> lo \<and> vbat_uv \<le> hi)"

definition vbat_tracks_converter_rail :: "u32 \<Rightarrow> u32 \<Rightarrow> bool" where
  "vbat_tracks_converter_rail vbat_uv vin_uv =
    (if vin_uv < nat SWITCHING_MIN_VIN_UV then False else vin_is_doubled_vbat vbat_uv vin_uv)"

definition vbat_reading_usable :: "bool \<Rightarrow> u32 \<Rightarrow> bool" where
  "vbat_reading_usable read_ok vbat_uv \<longleftrightarrow> read_ok \<and> vbat_uv > 0"

definition vbat_near_float_with_vin :: "u32 \<Rightarrow> u32 \<Rightarrow> bool \<Rightarrow> u32 \<Rightarrow> bool" where
  "vbat_near_float_with_vin vbat_uv float_uv vbat_ov_latched vin_uv =
    (if vbat_ov_latched then True
     else if vin_uv \<noteq> 0 \<and> vbat_tracks_converter_rail vbat_uv vin_uv then False
     else vbat_uv \<ge> float_uv - VBAT_TAPER_MARGIN_UV)"

definition vbat_near_float :: "u32 \<Rightarrow> u32 \<Rightarrow> bool \<Rightarrow> bool" where
  "vbat_near_float vbat_uv float_uv vbat_ov_latched =
     vbat_near_float_with_vin vbat_uv float_uv vbat_ov_latched 0"

definition charge_mode :: "i32 \<Rightarrow> u32 \<Rightarrow> op_mode option" where
  "charge_mode vin_uv vbat_uv =
    (let headroom_ok = non_negative_uv vin_uv \<ge> min_vin_for_switching_uv vbat_uv
     in if headroom_ok then Some Switching
        else if vin_uv \<ge> CHARGE_MIN_VIN_UV \<and> vin_uv < ELEVATED_MIN_VIN_UV then Some Bypass
        else None)"

definition bypass_allowed_by_vin :: "i32 \<Rightarrow> u32 \<Rightarrow> bool" where
  "bypass_allowed_by_vin vin_uv vbat_uv \<longleftrightarrow> charge_mode vin_uv vbat_uv = Some Bypass"

section \<open>Timers and ADC modes\<close>

datatype watchdog_period = WdtSec5 | WdtSec10 | WdtSec20 | WdtSec40

fun watchdog_code :: "watchdog_period \<Rightarrow> u8" where
  "watchdog_code WdtSec5 = 0x0"
| "watchdog_code WdtSec10 = 0x1"
| "watchdog_code WdtSec20 = 0x2"
| "watchdog_code WdtSec40 = 0x3"

fun watchdog_seconds :: "watchdog_period \<Rightarrow> nat" where
  "watchdog_seconds WdtSec5 = 5"
| "watchdog_seconds WdtSec10 = 10"
| "watchdog_seconds WdtSec20 = 20"
| "watchdog_seconds WdtSec40 = 40"

datatype adc_hibernate_delay = DelayMs500 | DelaySec1 | DelaySec2 | DelaySec4

fun hibernate_code :: "adc_hibernate_delay \<Rightarrow> u8" where
  "hibernate_code DelayMs500 = 0x0"
| "hibernate_code DelaySec1 = 0x1"
| "hibernate_code DelaySec2 = 0x2"
| "hibernate_code DelaySec4 = 0x3"

datatype adc_mode = AdcAutoHibernate | AdcAutoShutdown | AdcShutdown | AdcHibernate | AdcNormal

fun adc_mode_code :: "adc_mode \<Rightarrow> u8" where
  "adc_mode_code AdcAutoHibernate = 0x0"
| "adc_mode_code AdcAutoShutdown = 0x1"
| "adc_mode_code AdcShutdown = 0x2"
| "adc_mode_code AdcHibernate = 0x4"
| "adc_mode_code AdcNormal = 0x6"

section \<open>Register encodings\<close>

definition encode_iin_limit :: "u32 \<Rightarrow> pump_error + u8" where
  "encode_iin_limit iin_ua =
    (if iin_ua < IIN_MIN_UA then Inl (OutOfRange ''iin_limit_ua'' iin_ua)
     else let code = iin_ua div IIN_STEP_UA
          in Inr (if code > unat IIN_CODE_MAX then IIN_CODE_MAX
                  else unwrap_or IIN_CODE_MAX (u8_try_from code)))"

definition decode_iin_limit :: "u8 \<Rightarrow> u32" where
  "decode_iin_limit raw =
    (let v = sat_mul_u32 (unat (raw AND IIN_CODE_MAX)) IIN_STEP_UA
     in if v < IIN_MIN_UA then IIN_MIN_UA else v)"

definition encode_vbat_float :: "u32 \<Rightarrow> u8" where
  "encode_vbat_float vbat_uv =
    (if vbat_uv \<le> VBAT_FLOAT_MIN_UV then 0x00
     else if vbat_uv \<ge> VBAT_FLOAT_MAX_UV then 0xFF
     else let steps = (vbat_uv - VBAT_FLOAT_MIN_UV) div VBAT_FLOAT_STEP_UV
          in unwrap_or 0xFF (u8_try_from steps))"

definition decode_vbat_float :: "u8 \<Rightarrow> u32" where
  "decode_vbat_float raw =
     sat_add_u32 VBAT_FLOAT_MIN_UV (sat_mul_u32 (unat raw) VBAT_FLOAT_STEP_UV)"

definition encode_vac_ovp :: "u32 \<Rightarrow> u8" where
  "encode_vac_ovp ovp_uv =
    (if ovp_uv \<le> 6500000 then VAC_OVP_6V5
     else if ovp_uv \<le> 11000000 then VAC_OVP_11V
     else if ovp_uv \<le> 12000000 then VAC_OVP_12V
     else VAC_OVP_13V)"

definition encode_ntc_alarm :: "u16 \<Rightarrow> u8 \<times> u8" where
  "encode_ntc_alarm code = (ucast (code AND 0xFF), ucast (drop_bit 8 code AND 0x03))"

section \<open>Properties\<close>

text \<open>The charge mode is safe on every input the code can see: 2:1 is chosen only at 6 V or
  more and with at least 250 mV above twice the cell voltage, 1:1 only on a bus of 4.2 V to
  less than 6 V. The saturation of \<open>2 * vbat\<close> cannot admit a mode, because no \<open>i32\<close> input
  reaches \<open>u32::MAX\<close>.\<close>

theorem charge_mode_safe:
  assumes "charge_mode vin vbat = Some m" and "vin \<le> i32_max"
  shows "(m = Switching \<and> 6000000 \<le> vin \<and> 2 * int vbat + 250000 \<le> vin) \<or>
         (m = Bypass \<and> 4200000 \<le> vin \<and> vin < 6000000)"
  using assms
  by (auto simp: charge_mode_def Let_def non_negative_uv_def min_vin_for_switching_uv_def rust_int
      split: if_splits)

theorem charge_mode_safe_witness:
  "charge_mode 8900000 4200000 = Some Switching \<and>
   6000000 \<le> (8900000::int) \<and> 2 * int 4200000 + 250000 \<le> (8900000::int)"
proof -
  have m: "charge_mode 8900000 4200000 = Some Switching"
    by (simp add: charge_mode_def non_negative_uv_def min_vin_for_switching_uv_def rust_int)
  show ?thesis using m charge_mode_safe [OF m] by (simp add: i32_max_def)
qed

lemma and_7F: "unat (raw AND (0x7F :: u8)) = unat raw mod 128"
proof -
  have "raw AND 0x7F = take_bit 7 raw"
    by (rule bit_word_eqI) (auto simp: bit_simps take_bit_eq_mask mask_eq_exp_minus_1)
  then show ?thesis by (simp add: unsigned_take_bit_eq take_bit_nat_def)
qed

lemma and_7F_id: "unat raw < 128 \<Longrightarrow> raw AND (0x7F :: u8) = raw"
  by (simp add: word_unat_eq_iff and_7F)

lemma decode_iin_eq: "decode_iin_limit raw = max 500000 ((unat raw mod 128) * 50000)"
  by (simp add: decode_iin_limit_def and_7F rust_int Let_def max_def)

lemma encode_iin_eq:
  assumes "500000 \<le> ua"
  shows "encode_iin_limit ua = Inr (word_of_nat (min (ua div 50000) 127))"
  using assms by (auto simp: encode_iin_limit_def Let_def u8_try_from_fits min_def)

text \<open>The input current limit survives the register: for every current from 500 mA up, the
  code fits the 7-bit field and decodes to the current rounded down to the 50 mA grid,
  capped at 6.35 A. The chip is never given more than was asked.\<close>

theorem iin_limit_roundtrip:
  assumes "500000 \<le> ua"
  shows "\<exists>raw. encode_iin_limit ua = Inr raw \<and> raw AND 0x7F = raw \<and>
           decode_iin_limit raw = min (ua - ua mod 50000) 6350000"
proof -
  define c where "c = min (ua div 50000) 127"
  have c: "c < 128" "10 \<le> c" using assms by (auto simp: c_def)
  then have u: "unat (word_of_nat c :: u8) = c" by (simp add: unat_u8_of_nat)
  have "c * 50000 = min (ua - ua mod 50000) 6350000"
    by (simp add: c_def min_def minus_mod_eq_div_mult)
  with c u show ?thesis
    by (auto simp: encode_iin_eq [OF assms] c_def [symmetric] decode_iin_eq and_7F_id)
qed

theorem iin_limit_roundtrip_witness:
  "\<exists>raw. encode_iin_limit 2030000 = Inr raw \<and> raw AND 0x7F = raw \<and>
     decode_iin_limit raw = 2000000"
  using iin_limit_roundtrip [of 2030000] by simp

lemma iin_code_roundtrip:
  "encode_iin_limit (decode_iin_limit raw) = Inr (if unat raw mod 128 < 10 then 10 else raw AND 0x7F)"
proof -
  have "word_of_nat (unat raw mod 128) = raw AND (0x7F::u8)"
    by (simp flip: and_7F)
  then show ?thesis
    by (auto simp: decode_iin_eq encode_iin_eq max_def)
qed

lemma decode_vbat_float_eq: "decode_vbat_float raw = 3725000 + unat raw * 5000"
proof -
  have "unat raw * 5000 \<le> 1275000" using unat_u8_less [of raw] by linarith
  then show ?thesis by (simp add: decode_vbat_float_def rust_int)
qed

lemma encode_vbat_float_eq:
  "encode_vbat_float uv = word_of_nat (min ((uv - 3725000) div 5000) 255)"
proof -
  have "255 \<le> (uv - 3725000) div 5000" if "5000000 \<le> uv"
    using div_le_mono [of 1275000 "uv - 3725000" 5000] that by simp
  then show ?thesis
    by (auto simp: encode_vbat_float_def u8_try_from_def u8_max_def Let_def min_def)
qed

lemma vbat_float_encode_decode: "encode_vbat_float (decode_vbat_float raw) = raw"
proof -
  have "min (unat raw) 255 = unat raw" using unat_u8_less [of raw] by linarith
  then show ?thesis by (simp add: encode_vbat_float_eq decode_vbat_float_eq)
qed

lemma vbat_float_quantised:
  "decode_vbat_float (encode_vbat_float uv) = max 3725000 (min 5000000 (uv - uv mod 5000))"
proof -
  define c where "c = min ((uv - 3725000) div 5000) 255"
  have "unat (word_of_nat c :: u8) = c" by (simp add: c_def unat_u8_of_nat)
  moreover have "3725000 + c * 5000 = max 3725000 (min 5000000 (uv - uv mod 5000))"
  proof (cases "3725000 \<le> uv")
    case True
    define k where "k = uv - 3725000"
    have "uv = k + 5000 * 745" using True by (simp add: k_def)
    then have "uv - uv mod 5000 = 3725000 + k div 5000 * 5000"
      using div_mult_self1 [of 5000 k 745] by (simp add: minus_mod_eq_div_mult)
    moreover have "255 \<le> k div 5000 \<longleftrightarrow> 5000000 \<le> uv"
      using True by (simp add: k_def less_eq_div_iff_mult_less_eq) linarith
    ultimately show ?thesis by (auto simp: c_def k_def [symmetric])
  qed (auto simp: c_def)
  ultimately show ?thesis
    by (simp add: encode_vbat_float_eq decode_vbat_float_eq flip: c_def)
qed

text \<open>The float voltage survives the register both ways: every register value decodes to a
  voltage that encodes back to it, and every requested voltage reads back as itself rounded
  down to the 5 mV grid and clamped to 3.725 V to 5 V.\<close>

theorem vbat_float_codec:
  "encode_vbat_float (decode_vbat_float raw) = raw \<and>
   decode_vbat_float (encode_vbat_float uv) = max 3725000 (min 5000000 (uv - uv mod 5000))"
  by (simp add: vbat_float_encode_decode vbat_float_quantised)

lemma ntc_alarm_split:
  assumes "encode_ntc_alarm code = (low, high)"
  shows "ucast low OR push_bit 8 (ucast high) = code AND 0x3FF"
proof -
  have "code AND 0xFF = take_bit 8 code" "drop_bit 8 code AND 0x03 = take_bit 2 (drop_bit 8 code)"
    "code AND 0x3FF = take_bit 10 code"
    by (simp_all add: take_bit_eq_mask mask_eq_exp_minus_1)
  with assms show ?thesis
    by (auto simp: encode_ntc_alarm_def bit_simps intro!: bit_word_eqI)
qed

lemma window_order:
  assumes "vbat \<le> 2000000000"
  shows "window_floor_uv vbat = 2 * vbat + 200000" "window_target_uv vbat = 2 * vbat + 300000"
    "window_top_uv vbat = 2 * vbat + 400000"
    "min_vin_for_switching_uv vbat = max 6000000 (2 * vbat + 250000)"
  using assms by (auto simp: window_floor_uv_def window_target_uv_def window_top_uv_def rust_int
     min_vin_for_switching_uv_def Let_def max_def)

text \<open>The voltage the negotiation aims at is inside the transfer window and passes the 2:1
  gate, for every cell voltage from 2.85 V (below it the 6 V floor rules) up to the range in
  which nothing saturates.\<close>

theorem window_target_admits:
  assumes "2850000 \<le> vbat" "vbat \<le> 2000000000" "vin = int (window_target_uv vbat)"
  shows "vin_in_switching_window vin vbat \<and> charge_mode vin vbat = Some Switching"
proof -
  have "vin = int (2 * vbat + 300000)" using assms by (simp add: window_order)
  then have "nat \<bar>vin\<bar> = 2 * vbat + 300000" "0 < vin" by (simp_all del: of_nat_add of_nat_mult)
  with assms show ?thesis
    by (simp add: window_order vin_in_switching_window_def charge_mode_def non_negative_uv_def)
qed

theorem window_target_admits_witness:
  "vin_in_switching_window 8700000 4200000 \<and> charge_mode 8700000 4200000 = Some Switching"
proof (rule window_target_admits)
  show "(8700000::int) = int (window_target_uv 4200000)"
    by (simp add: window_target_uv_def rust_int)
qed simp_all

lemma soft_float_bounds:
  "soft_float_for_vbat profile vbat \<le> 4500000"
  "profile \<le> 4500000 \<Longrightarrow> profile \<le> soft_float_for_vbat profile vbat"
  by (auto simp: soft_float_for_vbat_def Let_def)

end
