(* ===== verification/Status.thy ===== *)
theory Status
  imports Encoding
begin

text \<open>
  \<open>crates/ln8000/src/status.rs\<close>: the ADC channels and their decoding, and the decoded status
  and fault registers with the predicates the driver decides on.
\<close>

section \<open>ADC channels\<close>

datatype adc_channel = Vout | Vin | Vbat | Vac | Iin | DieTemp | TsBat | TsBus

fun adc_register :: "adc_channel \<Rightarrow> u8" where
  "adc_register Iin = ADC_FIRST_STS + 0"
| "adc_register Vac = ADC_FIRST_STS + 1"
| "adc_register Vin = ADC_FIRST_STS + 2"
| "adc_register Vout = ADC_FIRST_STS + 3"
| "adc_register Vbat = ADC_FIRST_STS + 5"
| "adc_register DieTemp = ADC_FIRST_STS + 6"
| "adc_register TsBat = ADC_FIRST_STS + 7"
| "adc_register TsBus = ADC_FIRST_STS + 8"

fun adc_code_number :: "adc_channel \<Rightarrow> u8" where
  "adc_code_number Vout = 1"
| "adc_code_number Vin = 2"
| "adc_code_number Vbat = 3"
| "adc_code_number Vac = 4"
| "adc_code_number Iin = 5"
| "adc_code_number DieTemp = 6"
| "adc_code_number TsBat = 7"
| "adc_code_number TsBus = 8"

fun adc_label :: "adc_channel \<Rightarrow> string" where
  "adc_label Vout = ''vout''"
| "adc_label Vin = ''vin''"
| "adc_label Vbat = ''vbat''"
| "adc_label Vac = ''vac''"
| "adc_label Iin = ''iin''"
| "adc_label DieTemp = ''die_temp''"
| "adc_label TsBat = ''ts_bat''"
| "adc_label TsBus = ''ts_bus''"

definition adc_all :: "adc_channel list" where
  "adc_all = [Vout, Vin, Vbat, Vac, Iin, DieTemp, TsBat, TsBus]"

fun adc_index :: "adc_channel \<Rightarrow> u8" where
  "adc_index Iin = 1"
| "adc_index Vac = 2"
| "adc_index Vin = 3"
| "adc_index Vout = 4"
| "adc_index Vbat = 6"
| "adc_index DieTemp = 7"
| "adc_index TsBat = 8"
| "adc_index TsBus = 9"

text \<open>
  The first \<open>match\<close> of \<open>AdcChannel::decode\<close>: the channel's 10-bit code cut out of the byte
  pair. All operands are non-negative, so \<open>div\<close> is the division of the source.
\<close>

definition adc_slice :: "adc_channel \<Rightarrow> u16 \<Rightarrow> i32" where
  "adc_slice ch raw =
    (let low = int (unat (raw AND 0x00FF));
         high = int (unat (drop_bit 8 raw AND 0x00FF))
     in case ch of
          Iin \<Rightarrow> (high AND 0x03) * 256 + low
        | Vbat \<Rightarrow> (high AND 0x03) * 256 + low
        | Vac \<Rightarrow> (high AND 0x0F) * 64 + (low AND 0xFC) div 4
        | DieTemp \<Rightarrow> (high AND 0x0F) * 64 + (low AND 0xFC) div 4
        | Vin \<Rightarrow> (high AND 0x3F) * 16 + (low AND 0xF0) div 16
        | TsBat \<Rightarrow> (high AND 0x3F) * 16 + (low AND 0xF0) div 16
        | Vout \<Rightarrow> (high AND 0xFF) * 4 + (low AND 0xC0) div 64
        | TsBus \<Rightarrow> (high AND 0xFF) * 4 + (low AND 0xC0) div 64)"

definition clamp_i32 :: "i32 \<Rightarrow> i32 \<Rightarrow> i32 \<Rightarrow> i32" where
  "clamp_i32 lo hi x = (if x < lo then lo else if x > hi then hi else x)"

text \<open>The second \<open>match\<close>: the code in physical units.\<close>

definition adc_decode :: "adc_channel \<Rightarrow> u16 \<Rightarrow> i32" where
  "adc_decode ch raw =
    (let code = adc_slice ch raw
     in case ch of
          Vin \<Rightarrow> code * 16000
        | Vout \<Rightarrow> code * 5000
        | Vbat \<Rightarrow> code * 5000
        | Vac \<Rightarrow> (code + 5) * 16000
        | Iin \<Rightarrow> code * 4890
        | DieTemp \<Rightarrow> (let dc = i32_div ((935 - code) * 4350) 1000 in clamp_i32 (-250) 1600 dc)
        | TsBat \<Rightarrow> code * 2933
        | TsBus \<Rightarrow> code * 2933)"

fun adc_unit :: "adc_channel \<Rightarrow> string" where
  "adc_unit Iin = ''uA''"
| "adc_unit DieTemp = ''dC''"
| "adc_unit _ = ''uV''"

section \<open>Status and fault registers\<close>

record status =
  st_sys_sts :: u8
  st_op_mode :: op_mode
  st_safety_sts :: u8
  st_fault1_sts :: u8
  st_fault2_sts :: u8
  st_ldo_sts :: u8

definition iin_loop_active :: "status \<Rightarrow> bool" where
  "iin_loop_active s \<longleftrightarrow> bit_set (st_sys_sts s) SYS_STS_IIN_LOOP"

definition vfloat_loop_active :: "status \<Rightarrow> bool" where
  "vfloat_loop_active s \<longleftrightarrow> bit_set (st_sys_sts s) SYS_STS_VFLOAT_LOOP"

definition charge_terminated :: "status \<Rightarrow> bool" where
  "charge_terminated s \<longleftrightarrow> bit_set (st_ldo_sts s) LDO_CHARGE_TERM"

definition recharge_requested :: "status \<Rightarrow> bool" where
  "recharge_requested s \<longleftrightarrow> bit_set (st_ldo_sts s) LDO_RECHARGE"

definition watchdog_expired :: "status \<Rightarrow> bool" where
  "watchdog_expired s \<longleftrightarrow> bit_set (st_fault1_sts s) FAULT1_WATCHDOG"

definition volt_qual :: "status \<Rightarrow> bool \<Rightarrow> bool" where
  "volt_qual s charge_enabled =
    (if bit_set (st_fault1_sts s) FAULT1_VFAULTS_MASK then False
     else \<not> (charge_enabled \<and> bit_set (st_fault2_sts s) FAULT2_VOLT_FAULT))"

definition has_critical_fault :: "status \<Rightarrow> bool" where
  "has_critical_fault s \<longleftrightarrow>
     bit_set (st_fault1_sts s) (FAULT1_WATCHDOG OR FAULT1_VBAT_OV OR FAULT1_VAC_OV) \<or>
     bit_set (st_safety_sts s) (SAFETY_NTC_SHUTDOWN OR SAFETY_TEMP_MAX)"

definition fault_summary :: "status \<Rightarrow> string" where
  "fault_summary s =
    (if bit_set (st_safety_sts s) SAFETY_TEMP_MAX then ''temp_max''
     else if bit_set (st_safety_sts s) SAFETY_NTC_SHUTDOWN then ''ntc_shutdown''
     else if bit_set (st_fault1_sts s) FAULT1_VBAT_OV then ''vbat_ov''
     else if bit_set (st_fault1_sts s) FAULT1_VAC_OV then ''vac_ov''
     else if bit_set (st_fault2_sts s) FAULT2_IIN_OC then ''iin_oc''
     else if bit_set (st_fault1_sts s) FAULT1_WATCHDOG then ''watchdog''
     else if bit_set (st_fault1_sts s) FAULT1_VAC_UNPLUG then ''vac_unplug''
     else '''')"

section \<open>The packed ADC stream\<close>

text \<open>
  The ten ADC registers hold eight 10-bit codes back to back, least significant bit first.
  \<open>adc_stream\<close> reads them as one little-endian number and \<open>adc_slot\<close> is the place of a channel
  in it: the reference the hand-written masks of \<open>AdcChannel::decode\<close> are checked against.
\<close>

definition adc_stream :: "(u8 \<Rightarrow> u8) \<Rightarrow> int" where
  "adc_stream regs = (\<Sum>i<10. uint (regs (ADC_FIRST_STS + word_of_nat i)) * 256 ^ i)"

fun adc_slot :: "adc_channel \<Rightarrow> nat" where
  "adc_slot Iin = 0" | "adc_slot Vac = 1" | "adc_slot Vin = 2" | "adc_slot Vout = 3"
| "adc_slot Vbat = 4" | "adc_slot DieTemp = 5" | "adc_slot TsBat = 6" | "adc_slot TsBus = 7"

lemma low_high_mod:
  fixes a h k n c :: int
  assumes "0 \<le> a" "a < k" "0 \<le> n" "k * n = c"
  shows "(a + k * h) mod c = (h mod n) * k + a"
  using assms(1-3) by (simp add: zmod_zmult2_eq flip: assms(4))

lemma div_shift:
  fixes l s t c :: int
  assumes "0 < s" "s * k = c"
  shows "(l + c * t) div s = l div s + k * t"
  using assms(1) by (simp add: mult.assoc flip: assms(2))

lemma slice_arith:
  fixes l h :: int assumes "0 \<le> l" "l < 256"
  shows "(h AND 3) * 256 + l = (l + 256 * h) mod 1024"
  "(h AND 0x0F) * 64 + (l AND 0xFC) div 4 = (l + 256 * h) div 4 mod 1024"
  "(h AND 0x3F) * 16 + (l AND 0xF0) div 16 = (l + 256 * h) div 16 mod 1024"
  "(h AND 0xFF) * 4 + (l AND 0xC0) div 64 = (l + 256 * h) div 64 mod 1024"
proof -
  have d: "(l + 256 * h) div 4 = l div 4 + 64 * h" "(l + 256 * h) div 16 = l div 16 + 16 * h"
    "(l + 256 * h) div 64 = l div 64 + 4 * h"
    by (rule div_shift; simp)+
  have b: "0 \<le> l div 4" "l div 4 < 64" "0 \<le> l div 16" "l div 16 < 16"
    "0 \<le> l div 64" "l div 64 < 4"
    using assms by linarith+
  have m: "l div 4 mod 64 = l div 4" "l div 16 mod 16 = l div 16" "l div 64 mod 4 = l div 64"
    by (intro mod_pos_pos_trivial b)+
  have p: "(l + 256 * h) mod 1024 = (h mod 4) * 256 + l"
    by (rule low_high_mod) (use assms in simp_all)
  have q: "(l div 4 + 64 * h) mod 1024 = (h mod 16) * 64 + l div 4"
    "(l div 16 + 16 * h) mod 1024 = (h mod 64) * 16 + l div 16"
    "(l div 64 + 4 * h) mod 1024 = (h mod 256) * 4 + l div 64"
    by (rule low_high_mod; (rule b | simp))+
  show "(h AND 3) * 256 + l = (l + 256 * h) mod 1024"
  "(h AND 0x0F) * 64 + (l AND 0xFC) div 4 = (l + 256 * h) div 4 mod 1024"
  "(h AND 0x3F) * 16 + (l AND 0xF0) div 16 = (l + 256 * h) div 16 mod 1024"
  "(h AND 0xFF) * 4 + (l AND 0xC0) div 64 = (l + 256 * h) div 64 mod 1024"
    unfolding int_and_mask int_and_high d m p q by (rule refl)+
qed

fun adc_shift :: "adc_channel \<Rightarrow> int" where
  "adc_shift Iin = 1" | "adc_shift Vbat = 1" | "adc_shift Vac = 4" | "adc_shift DieTemp = 4"
| "adc_shift Vin = 16" | "adc_shift TsBat = 16" | "adc_shift Vout = 64" | "adc_shift TsBus = 64"

lemma adc_slice_pair:
  "adc_slice ch (byte_pair low high) = (uint low + 256 * uint high) div adc_shift ch mod 1024"
  by (cases ch) (simp_all only: adc_slice_def Let_def byte_pair_bytes adc_channel.case adc_shift.simps
     slice_arith [OF uint_u8] div_by_1)

lemma field_of_sum:
  fixes A M P R s q c :: int
  assumes "0 \<le> A" "A < M" "0 < s" "c = s * (1024 * q)"
  shows "(A + M * (P + c * R)) div (M * s) mod 1024 = P div s mod 1024"
proof -
  have "(A + M * (P + c * R)) div (M * s) = (A + M * (P + c * R)) div M div s"
    using assms(3) by (simp add: zdiv_zmult2_eq)
  also have "(A + M * (P + c * R)) div M = P + c * R"
    using assms(1,2) by simp
  also have "\<dots> div s = P div s + 1024 * (q * R)"
    unfolding assms(4) using assms(3) by (simp add: mult.assoc)
  finally show ?thesis by simp
qed

fun adc_byte :: "adc_channel \<Rightarrow> nat" where
  "adc_byte Iin = 0" | "adc_byte Vac = 1" | "adc_byte Vin = 2" | "adc_byte Vout = 3"
| "adc_byte Vbat = 5" | "adc_byte DieTemp = 6" | "adc_byte TsBat = 7" | "adc_byte TsBus = 8"

lemma digits_below:
  fixes b :: "nat \<Rightarrow> int"
  assumes "\<And>i. 0 \<le> b i \<and> b i < 256"
  shows "0 \<le> (\<Sum>i<n. b i * 256 ^ i) \<and> (\<Sum>i<n. b i * 256 ^ i) < 256 ^ n"
proof (induction n)
  case (Suc n)
  have "b n * 256 ^ n \<le> 255 * 256 ^ n" "0 \<le> b n * 256 ^ n"
    by (rule mult_right_mono; use assms [of n] in simp) (use assms [of n] in simp)
  then show ?case using Suc unfolding sum.lessThan_Suc power_Suc by linarith
qed simp

lemma digits_split:
  fixes b :: "nat \<Rightarrow> int"
  assumes "m + 2 \<le> n"
  shows "(\<Sum>i<n. b i * 256 ^ i) = (\<Sum>i<m. b i * 256 ^ i) +
    256 ^ m * ((b m + 256 * b (m + 1)) + 65536 * (\<Sum>i<n - m - 2. b (m + 2 + i) * 256 ^ i))"
proof -
  obtain k where n: "n = m + 2 + k" using assms le_Suc_ex by blast
  have "(\<Sum>i<m + 2 + k. b i * 256 ^ i) = (\<Sum>i<m + 2. b i * 256 ^ i) + (\<Sum>i<k. b (m + 2 + i) * 256 ^ (m + 2 + i))"
    by (induction k) (simp_all add: ac_simps)
  then show ?thesis
    by (simp add: n sum_distrib_left power_add distrib_left algebra_simps)
qed

text \<open>
  C40. The four mask-and-shift patterns of the ADC decoder, applied to the register pair the driver
  reads for a channel, extract exactly that channel's 10-bit field of the packed 80-bit stream: no
  channel's mask is off by a bit, reads the wrong register, or leaks bits of a neighbour.
\<close>

theorem adc_slice_packed:
  "adc_slice ch (byte_pair (regs (adc_register ch)) (regs (adc_register ch + 1))) =
   adc_stream regs div 2 ^ (10 * adc_slot ch) mod 1024"
proof -
  define b where "b i = uint (regs (ADC_FIRST_STS + word_of_nat i))" for i :: nat
  define m :: nat where "m = adc_byte ch"
  have r: "0 \<le> b i \<and> b i < 256" for i using uint_u8 by (simp add: b_def)
  have m: "m + 2 \<le> 10" and p: "(2::int) ^ (10 * adc_slot ch) = 256 ^ m * adc_shift ch"
    and s: "0 < adc_shift ch" "65536 = adc_shift ch * (1024 * (64 div adc_shift ch))"
    by (cases ch; simp add: m_def)+
  have l: "uint (regs (adc_register ch)) = b m" "uint (regs (adc_register ch + 1)) = b (m + 1)"
    unfolding b_def m_def by (cases ch; simp)+
  show ?thesis
    unfolding adc_slice_pair l p adc_stream_def b_def [symmetric] digits_split [OF m]
    by (rule field_of_sum [symmetric, where q = "64 div adc_shift ch"]) (use digits_below [of b m, OF r] s in auto)
qed

lemma adc_slice_range: "0 \<le> adc_slice ch raw \<and> adc_slice ch raw < 1024"
proof -
  have f: "x AND 0xFF = take_bit 8 x" for x :: u16
    by (simp add: take_bit_eq_mask mask_eq_exp_minus_1)
  define l where "l = int (unat (raw AND 0x00FF))"
  have "unat (raw AND 0x00FF) < 256"
    unfolding f using take_bit_nat_less_exp [of 8 "unat raw"] by (simp add: unsigned_take_bit_eq)
  then have l: "0 \<le> l" "l < 256" unfolding l_def by linarith+
  show ?thesis
    by (cases ch; simp only: adc_slice_def Let_def adc_channel.case l_def [symmetric] slice_arith [OF l])
      simp_all
qed

text \<open>
  Every 16-bit raw value decodes to a code of 0..1023 and to a value that fits an i32 with all
  its intermediate products: temperatures stay within -25.0..160.0 degrees and the other channels are
  never negative.
\<close>

lemma adc_decode_bounds:
  "0 \<le> adc_slice ch raw \<and> adc_slice ch raw < 1024 \<and>
   \<bar>(935 - adc_slice ch raw) * 4350\<bar> \<le> i32_max \<and>
   (if ch = DieTemp then -250 \<le> adc_decode ch raw \<and> adc_decode ch raw \<le> 1600
    else 0 \<le> adc_decode ch raw \<and> adc_decode ch raw \<le> 16448000)"
  using adc_slice_range [of ch raw]
  by (cases ch) (auto simp: adc_decode_def Let_def clamp_i32_def i32_max_def abs_le_iff)

end
