(* ===== verification/Battery_Policy.thy ===== *)
theory Battery_Policy
  imports Encoding
begin

text \<open>
  \<open>crates/ln8000/src/battery_policy.rs\<close>: what the battery icon decides on. The raw verdicts
  of one telemetry tick (is an adapter present, does the pack take charge), the windows that hold a
  verdict across single-tick gaps (\<open>Hold\<close>), the trend of the gauge counter (\<open>SocTrend\<close>), and the
  run of ticks that confirms a hardware unplug.
\<close>

section \<open>Data\<close>

abbreviation (input) ONLINE_HOLD_MS :: u64 where "ONLINE_HOLD_MS \<equiv> 8000"
abbreviation (input) CHARGING_HOLD_MS :: u64 where "CHARGING_HOLD_MS \<equiv> 20000"
abbreviation (input) IIN_CHARGING_UA :: u32 where "IIN_CHARGING_UA \<equiv> 80000"
abbreviation (input) SOC_RISE_HOLD_MS :: u64 where "SOC_RISE_HOLD_MS \<equiv> 300000"
abbreviation (input) HOLD_ARM_RUN :: u32 where "HOLD_ARM_RUN \<equiv> 2"
abbreviation (input) HOLD_FRONT_RUN :: u32 where "HOLD_FRONT_RUN \<equiv> 1"
abbreviation (input) VBUS_ONLINE_UV :: u32 where "VBUS_ONLINE_UV \<equiv> 4600000"
abbreviation (input) VBUS_CHARGING_MIN_UV :: u32 where "VBUS_CHARGING_MIN_UV \<equiv> 4200000"
abbreviation (input) VBUS_ABOVE_VBAT_UV :: u32 where "VBUS_ABOVE_VBAT_UV \<equiv> 200000"
abbreviation (input) VBUS_ELEVATED_UV :: u32 where "VBUS_ELEVATED_UV \<equiv> 6000000"
abbreviation (input) UNPLUG_RELEASE_RUN :: u32 where "UNPLUG_RELEASE_RUN \<equiv> 3"
abbreviation (input) FG_VBATT_MIN_PLAUSIBLE_UV :: u32 where "FG_VBATT_MIN_PLAUSIBLE_UV \<equiv> 2500000"
abbreviation (input) FG_VBATT_MAX_PLAUSIBLE_UV :: u32 where "FG_VBATT_MAX_PLAUSIBLE_UV \<equiv> 4600000"
abbreviation (input) TICK_MS :: u64 where "TICK_MS \<equiv> 250"
abbreviation (input) IIN_FLOOR_UA :: u32 where "IIN_FLOOR_UA \<equiv> 39000"
abbreviation (input) LIVE_VIN_UV :: u32 where "LIVE_VIN_UV \<equiv> 4416000"
abbreviation (input) LIVE_VBAT_UV :: u32 where "LIVE_VBAT_UV \<equiv> 4145000"
abbreviation (input) FLAP_VIN_UV :: u32 where "FLAP_VIN_UV \<equiv> 8464000"
abbreviation (input) FLAP_VBAT_UV :: u32 where "FLAP_VBAT_UV \<equiv> 4232000"

record soc_trend =
  tr_prev_raw :: u8
  tr_rising :: bool
  tr_last_rise_ms :: u64

definition soc_trend_new :: soc_trend where
  "soc_trend_new = \<lparr>tr_prev_raw = 255, tr_rising = False, tr_last_rise_ms = 0\<rparr>"

definition soc_trend_update :: "soc_trend \<Rightarrow> u8 \<Rightarrow> u64 \<Rightarrow> soc_trend" where
  "soc_trend_update t raw now_ms =
    (if raw > tr_prev_raw t then \<lparr>tr_prev_raw = raw, tr_rising = True, tr_last_rise_ms = now_ms\<rparr>
     else if raw < tr_prev_raw t
     then \<lparr>tr_prev_raw = raw, tr_rising = False, tr_last_rise_ms = tr_last_rise_ms t\<rparr>
     else \<lparr>tr_prev_raw = raw,
           tr_rising = tr_rising t \<and> now_ms - tr_last_rise_ms t < SOC_RISE_HOLD_MS,
           tr_last_rise_ms = tr_last_rise_ms t\<rparr>)"

record hold =
  h_held :: bool
  h_last_true_ms :: u64
  h_true_run :: u32
  h_front_run :: u32

definition hold_new :: hold where
  "hold_new = \<lparr>h_held = False, h_last_true_ms = 0, h_true_run = 0, h_front_run = HOLD_ARM_RUN\<rparr>"

definition hold_front_armed :: hold where
  "hold_front_armed = \<lparr>h_held = False, h_last_true_ms = 0, h_true_run = 0, h_front_run = HOLD_FRONT_RUN\<rparr>"

definition hold_update :: "hold \<Rightarrow> bool \<Rightarrow> u64 \<Rightarrow> u64 \<Rightarrow> hold" where
  "hold_update h raw now_ms hold_ms =
    (if raw then
       (let true_run = sat_add_u32 (h_true_run h) 1;
            needed_run = (if h_held h then HOLD_ARM_RUN else h_front_run h)
        in if true_run \<ge> needed_run
           then \<lparr>h_held = True, h_last_true_ms = now_ms, h_true_run = true_run, h_front_run = h_front_run h\<rparr>
           else \<lparr>h_held = h_held h, h_last_true_ms = h_last_true_ms h, h_true_run = true_run,
                 h_front_run = h_front_run h\<rparr>)
     else if h_held h \<and> now_ms - h_last_true_ms h < hold_ms
     then \<lparr>h_held = h_held h, h_last_true_ms = h_last_true_ms h, h_true_run = 0, h_front_run = h_front_run h\<rparr>
     else \<lparr>h_held = False, h_last_true_ms = h_last_true_ms h, h_true_run = 0, h_front_run = h_front_run h\<rparr>)"

definition hold_update_evidence :: "hold \<Rightarrow> bool option \<Rightarrow> u64 \<Rightarrow> u64 \<Rightarrow> hold" where
  "hold_update_evidence h evidence now_ms hold_ms =
    (case evidence of Some raw \<Rightarrow> hold_update h raw now_ms hold_ms | None \<Rightarrow> h)"

section \<open>Verdicts of one tick\<close>

definition charging_raw :: "bool \<Rightarrow> u32 \<Rightarrow> u32 \<Rightarrow> bool \<Rightarrow> bool" where
  "charging_raw online_held iin_ua iin_peak_ua soc_rising \<longleftrightarrow>
     online_held \<and> (iin_ua \<ge> IIN_CHARGING_UA \<or> iin_peak_ua \<ge> IIN_CHARGING_UA \<or> soc_rising)"

definition is_reflection_tick :: "u32 \<Rightarrow> u32 \<Rightarrow> u32 \<Rightarrow> bool \<Rightarrow> bool" where
  "is_reflection_tick vbus_uv vbat_uv iin_ua vac_unplug =
    (if vbus_uv \<ge> VBUS_CHARGING_MIN_UV \<and> iin_ua \<ge> IIN_CHARGING_UA then False
     else if vac_unplug then False
     else vbus_uv \<ge> VBUS_ONLINE_UV \<and> vin_is_doubled_vbat vbat_uv vbus_uv)"

definition online_raw :: "u32 \<Rightarrow> u32 \<Rightarrow> u32 \<Rightarrow> bool \<Rightarrow> bool" where
  "online_raw vbus_uv vbat_uv iin_ua vac_unplug =
    (if vbus_uv \<ge> VBUS_CHARGING_MIN_UV \<and> iin_ua \<ge> IIN_CHARGING_UA then True
     else if vac_unplug then False
     else if is_reflection_tick vbus_uv vbat_uv iin_ua vac_unplug then False
     else if vbus_uv \<ge> VBUS_ELEVATED_UV then True
     else if vbus_uv < VBUS_CHARGING_MIN_UV then False
     else if vbat_uv > 0 \<and> vbus_uv < sat_add_u32 vbat_uv VBUS_ABOVE_VBAT_UV then False
     else True)"

definition online_raw_with_evidence ::
  "u32 \<Rightarrow> u32 \<Rightarrow> u32 \<Rightarrow> bool \<Rightarrow> bool \<Rightarrow> bool option" where
  "online_raw_with_evidence vbus_uv vbat_uv iin_ua vac_unplug input_readings_usable =
    (if input_readings_usable then
       (if is_reflection_tick vbus_uv vbat_uv iin_ua vac_unplug then None
        else Some (online_raw vbus_uv vbat_uv iin_ua vac_unplug))
     else if vac_unplug then Some False
     else None)"

definition unplug_release :: "bool \<Rightarrow> u32 \<Rightarrow> u32 \<Rightarrow> bool \<times> u32" where
  "unplug_release vac_unplug iin_ua run =
    (if \<not> vac_unplug \<or> iin_ua \<ge> IIN_CHARGING_UA then (False, 0)
     else (let run = sat_add_u32 run 1 in (run \<ge> UNPLUG_RELEASE_RUN, run)))"

definition adc_wake_needed :: "bool \<Rightarrow> bool \<Rightarrow> bool option" where
  "adc_wake_needed input_readings_usable vac_unplug =
    (if vac_unplug then Some False
     else if \<not> input_readings_usable then Some True
     else None)"

definition fg_vbatt_plausible :: "u32 \<Rightarrow> bool" where
  "fg_vbatt_plausible uv \<longleftrightarrow> uv \<ge> FG_VBATT_MIN_PLAUSIBLE_UV \<and> uv \<le> FG_VBATT_MAX_PLAUSIBLE_UV"

definition anchor_cell_vbat_uv :: "u32 \<Rightarrow> u32 \<Rightarrow> u32" where
  "anchor_cell_vbat_uv fg_uv pump_uv = (if fg_vbatt_plausible fg_uv then fg_uv else pump_uv)"

section \<open>The hold window over a trace of ticks\<close>

text \<open>
  A trace is a list of ticks, each the evidence of the tick (\<open>None\<close> where the code has none) and
  its time.
\<close>

definition hold_trace :: "u64 \<Rightarrow> hold \<Rightarrow> (bool option \<times> u64) list \<Rightarrow> hold" where
  "hold_trace hold_ms = foldl (\<lambda>h (e, now). hold_update_evidence h e now hold_ms)"

lemma hold_trace_simps [simp]:
  "hold_trace w h [] = h"
  "hold_trace w h ((e, now) # xs) = hold_trace w (hold_update_evidence h e now w) xs"
  "hold_trace w h (xs @ ys) = hold_trace w (hold_trace w h xs) ys"
  by (simp_all add: hold_trace_def)

lemma hold_update_evidence_simps [simp]:
  "hold_update_evidence h None now w = h"
  "hold_update_evidence h (Some b) now w = hold_update h b now w"
  by (simp_all add: hold_update_evidence_def)

lemma hold_update_False [simp]:
  "h_held (hold_update h False now w) \<longleftrightarrow> h_held h \<and> now - h_last_true_ms h < w"
  "h_last_true_ms (hold_update h False now w) = h_last_true_ms h"
  "h_true_run (hold_update h False now w) = 0"
  by (auto simp: hold_update_def)

lemma hold_update_front [simp]: "h_front_run (hold_update h b now w) = h_front_run h"
  by (simp add: hold_update_def Let_def)

lemma hold_update_held_True:
  "h_held h \<Longrightarrow> h_held (hold_update h True now w)"
  by (simp add: hold_update_def Let_def)

lemma hold_update_last_le:
  "h_last_true_ms h \<le> now \<Longrightarrow>
   h_last_true_ms h \<le> h_last_true_ms (hold_update h b now w) \<and> h_last_true_ms (hold_update h b now w) \<le> now"
  by (simp add: hold_update_def Let_def)

lemma hold_trace_negative:
  assumes "\<forall>(e, now)\<in>set xs. e \<noteq> Some True"
  shows "h_last_true_ms (hold_trace w h xs) = h_last_true_ms h"
    "h_held (hold_trace w h xs) \<longleftrightarrow>
       h_held h \<and> (\<forall>(e, now)\<in>set xs. e = Some False \<longrightarrow> now - h_last_true_ms h < w)"
proof -
  have "h_last_true_ms (hold_trace w h xs) = h_last_true_ms h \<and>
    (h_held (hold_trace w h xs) \<longleftrightarrow>
       h_held h \<and> (\<forall>(e, now)\<in>set xs. e = Some False \<longrightarrow> now - h_last_true_ms h < w))"
    using assms
  proof (induction xs arbitrary: h)
    case (Cons x xs)
    obtain e now where x: "x = (e, now)" by (cases x)
    show ?case
    proof (cases e)
      case None
      with Cons x show ?thesis by simp
    next
      case (Some b)
      with Cons.prems x have "b = False" by auto
      with Cons x Some show ?thesis by auto
    qed
  qed simp
  then show "h_last_true_ms (hold_trace w h xs) = h_last_true_ms h"
    "h_held (hold_trace w h xs) \<longleftrightarrow>
       h_held h \<and> (\<forall>(e, now)\<in>set xs. e = Some False \<longrightarrow> now - h_last_true_ms h < w)"
    by blast+
qed

text \<open>
  A held verdict ends exactly when its window has run out: through any trace without a positive
  tick, in time order and ending in a negative tick, the hold stays held if and only if that last
  tick is less than the window after the last confirmed positive one. Ticks without evidence
  change nothing, however many there are.
\<close>

lemma hold_window_exact:
  assumes "h_held h" "sorted (map snd xs)" "\<forall>(e, now)\<in>set xs. e \<noteq> Some True"
    "xs \<noteq> []" "fst (last xs) = Some False"
  shows "h_held (hold_trace w h xs) \<longleftrightarrow> snd (last xs) - h_last_true_ms h < w"
proof -
  from assms(4) obtain ys y where xs: "xs = ys @ [y]" by (cases xs rule: rev_cases) auto
  have "now - k \<le> snd y - k" if "(e, now) \<in> set ys" for e now k
    using assms(2) that by (force simp: xs sorted_append intro: diff_le_mono)
  then have "(\<forall>(e, now)\<in>set xs. e = Some False \<longrightarrow> now - k < w) \<longleftrightarrow> snd y - k < w" for k
    using assms(5) by (fastforce simp: xs intro: order.strict_trans1)
  then show ?thesis
    unfolding hold_trace_negative(2) [OF assms(3)] using assms(1) by (simp add: xs)
qed

lemma hold_window_exact_witness:
  "h_held (hold_trace 8000 \<lparr>h_held = True, h_last_true_ms = 100, h_true_run = 1, h_front_run = 1\<rparr>
     [(None, 200), (Some False, 8099)])"
  using hold_window_exact [of "\<lparr>h_held = True, h_last_true_ms = 100, h_true_run = 1, h_front_run = 1\<rparr>"
    "[(None, 200), (Some False, 8099)]" 8000] by simp

text \<open>What a trace says tick by tick, and when it never says yes twice in a row.\<close>

fun no_run :: "bool list \<Rightarrow> bool" where
  "no_run (True # True # xs) = False"
| "no_run (x # xs) = no_run xs"
| "no_run [] = True"

definition evidence_of :: "(bool option \<times> u64) list \<Rightarrow> bool list" where
  "evidence_of xs = concat (map (\<lambda>(e, _). case e of None \<Rightarrow> [] | Some b \<Rightarrow> [b]) xs)"

lemma evidence_of_simps [simp]:
  "evidence_of [] = []" "evidence_of ((None, t) # xs) = evidence_of xs"
  "evidence_of ((Some b, t) # xs) = b # evidence_of xs"
  by (simp_all add: evidence_of_def)

lemma no_run_tail: "no_run (x # xs) \<Longrightarrow> no_run xs"
  by (cases "x # xs" rule: no_run.cases) auto

lemma no_run_True: "no_run (True # xs) \<Longrightarrow> xs = [] \<or> hd xs = False"
  by (cases xs) auto

lemma hold_trace_cold:
  assumes "\<not> h_held h" "h_front_run h = HOLD_ARM_RUN" "no_run (evidence_of xs)"
    "h_true_run h = 0 \<or> h_true_run h = 1 \<and> (evidence_of xs = [] \<or> hd (evidence_of xs) = False)"
  shows "\<not> h_held (hold_trace w h xs)"
  using assms
proof (induction xs arbitrary: h)
  case (Cons x xs)
  obtain e now where x: "x = (e, now)" by (cases x)
  show ?case
  proof (cases e)
    case None
    with Cons x show ?thesis by simp
  next
    case (Some b)
    have n: "no_run (evidence_of xs)"
      using Cons.prems(3) x Some by (auto dest: no_run_tail)
    show ?thesis
    proof (cases b)
      case False
      with Cons n x Some show ?thesis by simp
    next
      case True
      with Cons.prems x Some have r: "h_true_run h = 0" "evidence_of xs = [] \<or> hd (evidence_of xs) = False"
        by (auto dest: no_run_True)
      from r(1) Cons.prems(1,2) have "\<not> h_held (hold_update h True now w)" "h_true_run (hold_update h True now w) = 1"
        by (simp_all add: hold_update_def Let_def rust_int)
      with Cons.IH [of "hold_update h True now w"] Cons.prems(2) n r(2) x Some True show ?thesis
        by simp
    qed
  qed
qed simp

text \<open>
  A cold charging hold is immune to bounces: as long as the evidence never holds two positive ticks
  in a row (ticks without evidence are skipped), it never becomes held, however many isolated
  positive ticks there are and whatever their times.
\<close>

lemma hold_bounce_immune:
  "no_run (evidence_of xs) \<Longrightarrow> \<not> h_held (hold_trace w hold_new xs)"
  by (rule hold_trace_cold) (simp_all add: hold_new_def)

lemma hold_bounce_immune_witness:
  "\<not> h_held (hold_trace 20000 hold_new [(Some True, 250), (Some False, 500), (None, 750), (Some True, 1000)])"
  by (rule hold_bounce_immune) simp

section \<open>Unplug run, gauge trend and evidence\<close>

definition unplug_trace :: "(bool \<times> u32) list \<Rightarrow> bool \<times> u32" where
  "unplug_trace = foldl (\<lambda>(_, run) (vac, iin). unplug_release vac iin run) (False, 0)"

definition unplugged_tick :: "bool \<times> u32 \<Rightarrow> bool" where
  "unplugged_tick t \<longleftrightarrow> fst t \<and> snd t < IIN_CHARGING_UA"

lemma unplug_trace_run:
  "unplug_trace ts = (length (takeWhile unplugged_tick (rev ts)) \<ge> UNPLUG_RELEASE_RUN,
     min (length (takeWhile unplugged_tick (rev ts))) u32_max)"
proof (induction ts rule: rev_induct)
  case (snoc t ts)
  have "unplug_trace (ts @ [t]) = unplug_release (fst t) (snd t) (snd (unplug_trace ts))"
    by (simp add: unplug_trace_def split_def)
  with snoc show ?case
    by (auto simp: unplug_release_def unplugged_tick_def Let_def rust_int)
qed (simp add: unplug_trace_def)

lemma takeWhile_length_ge:
  "n \<le> length (takeWhile P xs) \<longleftrightarrow> n \<le> length xs \<and> (\<forall>x\<in>set (take n xs). P x)"
proof (induction xs arbitrary: n)
  case (Cons x xs)
  then show ?case by (cases n) auto
qed simp

text \<open>
  The hardware unplug verdict releases the online window on exactly those ticks that end three
  consecutive ticks with the unplug bit set and no charging current: never earlier, and always from
  the third on, also when the run counter saturates.
\<close>

lemma unplug_release_exact:
  "fst (unplug_trace ts) \<longleftrightarrow>
     3 \<le> length ts \<and> (\<forall>t\<in>set (drop (length ts - 3) ts). fst t \<and> snd t < IIN_CHARGING_UA)"
proof -
  have "take 3 (rev ts) = rev (drop (length ts - 3) ts)" by (simp add: take_rev)
  then show ?thesis
    by (simp add: unplug_trace_run takeWhile_length_ge unplugged_tick_def)
qed

lemma unplug_release_exact_witness:
  "fst (unplug_trace [(False, 0), (True, 39000), (True, 0), (True, 79999)])"
  by (subst unplug_release_exact) simp

lemma evidence_none_iff:
  "online_raw_with_evidence vbus vbat iin vac usable = None \<longleftrightarrow>
     \<not> vac \<and> (usable \<longrightarrow> is_reflection_tick vbus vbat iin vac)"
  by (auto simp: online_raw_with_evidence_def is_reflection_tick_def)

lemma evidence_current_wins:
  "usable \<Longrightarrow> VBUS_CHARGING_MIN_UV \<le> vbus \<Longrightarrow> IIN_CHARGING_UA \<le> iin \<Longrightarrow>
   online_raw_with_evidence vbus vbat iin vac usable = Some True"
  by (simp add: online_raw_with_evidence_def online_raw_def is_reflection_tick_def)

definition trend_trace :: "(u8 \<times> u64) list \<Rightarrow> soc_trend" where
  "trend_trace = foldl (\<lambda>t (raw, now). soc_trend_update t raw now) soc_trend_new"

definition last_reading :: "(u8 \<times> u64) list \<Rightarrow> u8" where
  "last_reading ts = (if ts = [] then 255 else fst (last ts))"

lemma trend_trace_snoc:
  "trend_trace (ts @ [(raw, now)]) = soc_trend_update (trend_trace ts) raw now"
  by (simp add: trend_trace_def)

lemma trend_trace_prev: "tr_prev_raw (trend_trace ts) = last_reading ts"
proof (cases ts rule: rev_cases)
  case (snoc ys y)
  then show ?thesis by (cases y) (auto simp: trend_trace_snoc soc_trend_update_def last_reading_def)
qed (simp add: trend_trace_def soc_trend_new_def last_reading_def)

text \<open>
  The gauge trend says \<open>rising\<close> with the rise at time \<open>t\<close> exactly when the counter rose at a reading
  made at \<open>t\<close> (the first reading counts as a rise over no predecessor only if it is above 255, so never),
  every later reading repeated that value, and each came less than five minutes after the rise. A
  fall, or a plateau of five minutes, ends the verdict.
\<close>

lemma trend_rising_iff:
  "tr_rising (trend_trace ts) \<and> tr_last_rise_ms (trend_trace ts) = t \<longleftrightarrow>
     (\<exists>as r bs. ts = as @ (r, t) # bs \<and> last_reading as < r \<and>
        (\<forall>(r', t')\<in>set bs. r' = r \<and> t' - t < SOC_RISE_HOLD_MS))"
  (is "?L ts \<longleftrightarrow> ?R ts")
proof (induction ts rule: rev_induct)
  case Nil
  then show ?case by (simp add: trend_trace_def soc_trend_new_def)
next
  case (snoc x ts)
  obtain raw now where x: "x = (raw, now)" by (cases x)
  have split: "?R (ts @ [x]) \<longleftrightarrow> last_reading ts < raw \<and> now = t \<or>
     ?R ts \<and> raw = last_reading ts \<and> now - t < SOC_RISE_HOLD_MS"
  proof
    assume "?R (ts @ [x])"
    then obtain as r bs where h: "ts @ [x] = as @ (r, t) # bs" "last_reading as < r"
      "\<forall>(r', t')\<in>set bs. r' = r \<and> t' - t < SOC_RISE_HOLD_MS" by blast
    show "last_reading ts < raw \<and> now = t \<or>
     ?R ts \<and> raw = last_reading ts \<and> now - t < SOC_RISE_HOLD_MS"
    proof (cases bs rule: rev_cases)
      case (snoc cs c)
      with h x have "ts = as @ (r, t) # cs" "raw = r" "now - t < SOC_RISE_HOLD_MS" by auto
      moreover from this h(3) snoc have "last_reading ts = r"
        by (cases cs rule: rev_cases) (auto simp: last_reading_def)
      ultimately show ?thesis using h(2,3) snoc by auto
    qed (use h x in auto)
  next
    assume "last_reading ts < raw \<and> now = t \<or>
     ?R ts \<and> raw = last_reading ts \<and> now - t < SOC_RISE_HOLD_MS"
    then show "?R (ts @ [x])"
    proof
      assume "last_reading ts < raw \<and> now = t"
      with x show ?thesis by (intro exI [of _ ts] exI [of _ raw] exI [of _ "[]"]) simp
    next
      assume R: "?R ts \<and> raw = last_reading ts \<and> now - t < SOC_RISE_HOLD_MS"
      then obtain as r bs where h: "ts = as @ (r, t) # bs" "last_reading as < r"
        "\<forall>(r', t')\<in>set bs. r' = r \<and> t' - t < SOC_RISE_HOLD_MS" by blast
      then have "last_reading ts = r"
        by (cases bs rule: rev_cases) (auto simp: last_reading_def)
      with R h x show ?thesis by (intro exI [of _ as] exI [of _ r] exI [of _ "bs @ [x]"]) auto
    qed
  qed
  have "?L (ts @ [x]) \<longleftrightarrow> last_reading ts < raw \<and> now = t \<or>
     ?L ts \<and> raw = last_reading ts \<and> now - t < SOC_RISE_HOLD_MS"
    by (auto simp: x trend_trace_snoc soc_trend_update_def trend_trace_prev)
  then show ?case unfolding split snoc.IH .
qed

lemma trend_rising_iff_witness:
  "tr_rising (trend_trace [(10, 0), (20, 100), (20, 200)])"
proof -
  have "\<exists>as r bs. [(10, 0), (20, 100), (20, 200)] = as @ (r, 100) # bs \<and> last_reading as < r \<and>
      (\<forall>(r', t')\<in>set bs. r' = r \<and> t' - 100 < SOC_RISE_HOLD_MS)"
    by (intro exI [of _ "[(10, 0)]"] exI [of _ 20] exI [of _ "[(20, 200)]"]) (simp add: last_reading_def)
  with trend_rising_iff [of "[(10, 0), (20, 100), (20, 200)]" 100] show ?thesis by blast
qed

end
