(* ===== verification/Battery_Miniport.thy ===== *)
theory Battery_Miniport
  imports Battery_Policy
begin

text \<open>
  \<open>crates/ln8000-kmdf/src/battery.rs\<close>: the battery miniport the kernel driver publishes to
  Windows. The record holds the module's statics; the operations are the telemetry tick, the gauge
  reading, the class callbacks and the attachment to the battery class. The class driver itself
  (\<open>BatteryClass*\<close>, \<open>Io*\<close>, \<open>Wmi*\<close>) is outside the repository: what it returns is an argument, a
  handle is modelled by whether it is non-null, and a call of \<open>BatteryClassStatusNotify\<close> is
  counted.
\<close>

section \<open>State\<close>

type_synonym flags = "32 word"

abbreviation (input) BATTERY_TAG_INVALID :: u32 where "BATTERY_TAG_INVALID \<equiv> 0"
abbreviation (input) BATTERY_SYSTEM_BATTERY :: u32 where "BATTERY_SYSTEM_BATTERY \<equiv> 0x80000000"
abbreviation (input) BATTERY_POWER_ON_LINE :: flags where "BATTERY_POWER_ON_LINE \<equiv> 1"
abbreviation (input) BATTERY_DISCHARGING :: flags where "BATTERY_DISCHARGING \<equiv> 2"
abbreviation (input) BATTERY_CHARGING :: flags where "BATTERY_CHARGING \<equiv> 4"
abbreviation (input) BATTERY_CRITICAL :: flags where "BATTERY_CRITICAL \<equiv> 8"
abbreviation (input) BATTERY_UNKNOWN_RATE :: i32 where "BATTERY_UNKNOWN_RATE \<equiv> - 2147483648"
abbreviation (input) BATTERY_UNKNOWN_TIME :: u32 where "BATTERY_UNKNOWN_TIME \<equiv> 0xFFFFFFFF"
abbreviation (input) BATTERY_UNKNOWN_CAPACITY :: u32 where "BATTERY_UNKNOWN_CAPACITY \<equiv> 0xFFFFFFFF"
abbreviation (input) SOC_SRC_NONE :: u32 where "SOC_SRC_NONE \<equiv> 0"
abbreviation (input) SOC_SRC_GAUGE :: u32 where "SOC_SRC_GAUGE \<equiv> 1"
abbreviation (input) SOC_SRC_VBAT :: u32 where "SOC_SRC_VBAT \<equiv> 2"
abbreviation (input) VBAT_EMPTY_UV :: u32 where "VBAT_EMPTY_UV \<equiv> 3400000"
abbreviation (input) VBAT_FULL_UV :: u32 where "VBAT_FULL_UV \<equiv> 4350000"

datatype ntstatus = STATUS_SUCCESS | STATUS_NO_SUCH_DEVICE | STATUS_INVALID_PARAMETER
  | STATUS_BUFFER_TOO_SMALL | STATUS_INVALID_DEVICE_REQUEST | STATUS_INVALID_DEVICE_STATE
  | STATUS_NOT_SUPPORTED | STATUS_NOT_IMPLEMENTED | STATUS_OTHER int

record battery =
  bm_class_handle :: bool
  bm_fdo :: bool
  bm_wmi_registered :: bool
  bm_last_pct :: u32
  bm_notified_pct :: u32
  bm_soc_src :: u32
  bm_gauge_fails :: u32
  bm_last_vbat_uv :: u32
  bm_last_vbus_uv :: u32
  bm_last_iin_ua :: u32
  bm_online_hold :: hold
  bm_charging_hold :: hold
  bm_unplug_run :: u32
  bm_soc_trend :: soc_trend
  bm_last_power_state :: flags
  bm_battery_tag :: u32
  bm_notifications :: nat

definition battery_initial :: battery where
  "battery_initial = \<lparr>
     bm_class_handle = False, bm_fdo = False, bm_wmi_registered = False,
     bm_last_pct = BATTERY_UNKNOWN_CAPACITY, bm_notified_pct = BATTERY_UNKNOWN_CAPACITY,
     bm_soc_src = SOC_SRC_NONE, bm_gauge_fails = 0,
     bm_last_vbat_uv = 0, bm_last_vbus_uv = 0, bm_last_iin_ua = 0,
     bm_online_hold = hold_front_armed, bm_charging_hold = hold_new,
     bm_unplug_run = 0, bm_soc_trend = soc_trend_new, bm_last_power_state = 0,
     bm_battery_tag = 1, bm_notifications = 0\<rparr>"

record battery_status =
  bs_power_state :: flags
  bs_capacity :: u32
  bs_voltage :: u32
  bs_rate :: i32

section \<open>Operations\<close>

definition soc_percent :: "u32 \<Rightarrow> u32" where
  "soc_percent vbat_uv =
    (if vbat_uv \<le> VBAT_EMPTY_UV then 0
     else if vbat_uv \<ge> VBAT_FULL_UV then 100
     else (let span = VBAT_FULL_UV - VBAT_EMPTY_UV; rise = vbat_uv - VBAT_EMPTY_UV
           in (rise * 100) div span))"

definition build_status :: "battery \<Rightarrow> battery_status \<times> battery" where
  "build_status m =
    (let vbat = bm_last_vbat_uv m;
         pct = bm_last_pct m;
         online = h_held (bm_online_hold m);
         charging = h_held (bm_charging_hold m) \<and> online;
         power = (if online then BATTERY_POWER_ON_LINE else 0);
         power = (if charging then power OR BATTERY_CHARGING
                  else if \<not> online then power OR BATTERY_DISCHARGING else power);
         power = (if pct \<noteq> BATTERY_UNKNOWN_CAPACITY \<and> pct \<le> 5 then power OR BATTERY_CRITICAL else power)
     in (\<lparr>bs_power_state = power, bs_capacity = pct,
          bs_voltage = (if vbat = 0 then 0 else vbat div 1000),
          bs_rate = (if charging then BATTERY_UNKNOWN_RATE
                     else if online then 0 else BATTERY_UNKNOWN_RATE)\<rparr>,
         m\<lparr>bm_last_power_state := power\<rparr>))"

definition update_from_telemetry ::
  "u32 \<Rightarrow> u32 \<Rightarrow> u32 \<Rightarrow> u32 \<Rightarrow> bool \<Rightarrow> bool \<Rightarrow> bool \<Rightarrow> u64 \<Rightarrow> battery \<Rightarrow> battery" where
  "update_from_telemetry vbat_uv vbus_uv iin_ua iin_peak_ua vac_unplug input_readings_usable
     soc_rising now_ms m =
    (let prev_power = bm_last_power_state m;
         m = (if vbat_uv > 0 then m\<lparr>bm_last_vbat_uv := vbat_uv\<rparr> else m);
         raw_online = online_raw_with_evidence vbus_uv vbat_uv iin_ua vac_unplug input_readings_usable;
         m = (if vbat_uv > 0 \<and> bm_soc_src m \<noteq> SOC_SRC_GAUGE \<and> raw_online = Some False
              then m\<lparr>bm_last_pct := soc_percent vbat_uv, bm_soc_src := SOC_SRC_VBAT\<rparr> else m);
         (hardware_unplug, unplug_run) = unplug_release vac_unplug iin_ua (bm_unplug_run m);
         m = m\<lparr>bm_unplug_run := unplug_run\<rparr>;
         online_hold = (if hardware_unplug then hold_update (bm_online_hold m) False now_ms 0
                        else hold_update_evidence (bm_online_hold m) raw_online now_ms ONLINE_HOLD_MS);
         charging_hold = hold_update (bm_charging_hold m)
           (charging_raw (h_held online_hold) iin_ua iin_peak_ua soc_rising) now_ms CHARGING_HOLD_MS;
         m = m\<lparr>bm_online_hold := online_hold, bm_charging_hold := charging_hold,
               bm_last_vbus_uv := vbus_uv, bm_last_iin_ua := iin_ua\<rparr>;
         m = snd (build_status m);
         new_power = bm_last_power_state m;
         new_pct = bm_last_pct m
     in if new_power = prev_power \<and> new_pct = bm_notified_pct m then m
        else if bm_class_handle m
        then m\<lparr>bm_notified_pct := new_pct, bm_notifications := bm_notifications m + 1\<rparr>
        else m)"

definition gauge_percent :: "u8 \<Rightarrow> u32" where
  "gauge_percent raw =
    (if raw = 255 then 100
     else if raw = 0 then 0
     else ((unat raw - 1) * 98 + 126) div 253 + 1)"

definition set_gauge_raw :: "u8 \<Rightarrow> u64 \<Rightarrow> battery \<Rightarrow> battery" where
  "set_gauge_raw raw now_ms m =
    m\<lparr>bm_last_pct := gauge_percent raw, bm_soc_src := SOC_SRC_GAUGE, bm_gauge_fails := 0,
      bm_soc_trend := soc_trend_update (bm_soc_trend m) raw now_ms\<rparr>"

definition note_gauge_failure :: "battery \<Rightarrow> u32 \<times> battery" where
  "note_gauge_failure m =
    (let fails = sat_add_u32 (bm_gauge_fails m) 1 in (fails, m\<lparr>bm_gauge_fails := fails\<rparr>))"

text \<open>
  Attachment. \<open>fdo\<close> and \<open>pdo\<close> say whether the device objects exist; \<open>class_status\<close> and \<open>handle\<close> are
  what \<open>BatteryClassInitializeDevice\<close> returns, \<open>wmi_status\<close> what the WMI registration returns.
\<close>

definition initialize :: "bool \<Rightarrow> bool \<Rightarrow> int \<Rightarrow> bool \<Rightarrow> int \<Rightarrow> battery \<Rightarrow> ntstatus \<times> battery" where
  "initialize fdo pdo class_status handle wmi_status m =
    (if bm_class_handle m then (STATUS_SUCCESS, m)
     else if \<not> fdo \<or> \<not> pdo then (STATUS_INVALID_DEVICE_STATE, m)
     else if class_status < 0 then (STATUS_OTHER class_status, m)
     else (let m = m\<lparr>bm_class_handle := handle, bm_fdo := fdo\<rparr>;
               m = (if wmi_status \<ge> 0 then m\<lparr>bm_wmi_registered := True\<rparr> else m)
           in (STATUS_SUCCESS, m)))"

definition unload :: "battery \<Rightarrow> battery" where
  "unload m =
    (let m = (if bm_wmi_registered m \<and> bm_fdo m then m\<lparr>bm_wmi_registered := False\<rparr> else m)
     in if \<not> bm_class_handle m then m
        else m\<lparr>bm_class_handle := False, bm_fdo := False\<rparr>)"

section \<open>Class callbacks\<close>

text \<open>
  A caller's buffer is its length, or \<open>None\<close> for a null pointer; the result is the status, the
  value of \<open>*returned_length\<close>, and the bytes written (\<open>None\<close>: the buffer is untouched).
\<close>

type_synonym reply = "ntstatus \<times> u32 \<times> u8 list option"

definition le_bytes :: "nat \<Rightarrow> nat \<Rightarrow> u8 list" where
  "le_bytes n x = map (\<lambda>i. word_of_nat (x div 256 ^ i)) [0..<n]"

definition copy_out :: "u32 option \<Rightarrow> u8 list \<Rightarrow> reply" where
  "copy_out buffer value =
    (let need = length value
     in case buffer of
          None \<Rightarrow> (STATUS_BUFFER_TOO_SMALL, need, None)
        | Some buffer_length \<Rightarrow>
            if buffer_length < need then (STATUS_BUFFER_TOO_SMALL, need, None)
            else (STATUS_SUCCESS, need, Some value))"

definition copy_wstring :: "u32 option \<Rightarrow> string \<Rightarrow> reply" where
  "copy_wstring buffer txt =
    (let chars = length txt + 1; need = chars * 2
     in case buffer of
          None \<Rightarrow> (STATUS_BUFFER_TOO_SMALL, need, None)
        | Some buffer_length \<Rightarrow>
            if buffer_length < need then (STATUS_BUFFER_TOO_SMALL, need, None)
            else (STATUS_SUCCESS, need,
                  Some (concat (map (\<lambda>c. le_bytes 2 (of_char c)) txt) @ le_bytes 2 0)))"

text \<open>\<open>BatteryInformation\<close> in its C layout (36 bytes, no padding).\<close>

definition battery_information :: "u8 list" where
  "battery_information =
     le_bytes 4 BATTERY_SYSTEM_BATTERY @ [1] @ [0, 0, 0] @ map of_char ''LION'' @
     le_bytes 4 100 @ le_bytes 4 100 @ le_bytes 4 10 @ le_bytes 4 5 @ le_bytes 4 0 @ le_bytes 4 0"

definition query_tag :: "battery \<Rightarrow> ntstatus \<times> u32" where
  "query_tag m = (let tag = bm_battery_tag m
     in (if tag = BATTERY_TAG_INVALID then STATUS_NO_SUCH_DEVICE else STATUS_SUCCESS, tag))"

definition query_information :: "u32 \<Rightarrow> u32 \<Rightarrow> u32 option \<Rightarrow> u32 \<Rightarrow> battery \<Rightarrow> reply" where
  "query_information battery_tag level buffer returned_length m =
    (if battery_tag \<noteq> bm_battery_tag m then (STATUS_NO_SUCH_DEVICE, returned_length, None)
     else if level = 0 then copy_out buffer battery_information
     else if level = 3 then copy_out buffer (le_bytes 4 BATTERY_UNKNOWN_TIME)
     else if level = 4 then copy_wstring buffer ''Nabu LN8000''
     else if level = 6 then copy_wstring buffer ''Xiaomi''
     else if level = 7 then copy_wstring buffer ''NABU-LN8000-VBAT''
     else (STATUS_INVALID_DEVICE_REQUEST, 0, None))"

definition set_information :: "battery \<Rightarrow> ntstatus" where
  "set_information m = STATUS_INVALID_DEVICE_REQUEST"

definition query_status ::
  "u32 \<Rightarrow> bool \<Rightarrow> battery \<Rightarrow> (ntstatus \<times> battery_status option) \<times> battery" where
  "query_status battery_tag buffer_null m =
    (if battery_tag \<noteq> bm_battery_tag m then ((STATUS_NO_SUCH_DEVICE, None), m)
     else if buffer_null then ((STATUS_INVALID_PARAMETER, None), m)
     else (let (st, m) = build_status m in ((STATUS_SUCCESS, Some st), m)))"

datatype irp_route = Completed ntstatus | Forwarded

text \<open>\<open>class_ioctl\<close> is the status \<open>BatteryClassIoctl\<close> would return.\<close>

definition evt_wdm_irp_preprocess_device_control :: "ntstatus \<Rightarrow> battery \<Rightarrow> irp_route" where
  "evt_wdm_irp_preprocess_device_control class_ioctl m =
    (let status = (if bm_class_handle m then class_ioctl else STATUS_NOT_SUPPORTED)
     in if status = STATUS_NOT_SUPPORTED then Forwarded else Completed status)"

datatype sysctl_disposition = IrpProcessed | IrpNotCompleted | IrpNotWmi | IrpForward

text \<open>The reply of \<open>BatteryClassSystemControl\<close> is its status and the disposition it stores.\<close>

definition evt_wdm_irp_preprocess_system_control ::
  "ntstatus \<times> sysctl_disposition \<Rightarrow> battery \<Rightarrow> irp_route" where
  "evt_wdm_irp_preprocess_system_control class_control m =
    (let (status, disposition) =
           (if bm_class_handle m then class_control else (STATUS_NOT_IMPLEMENTED, IrpForward))
     in case disposition of
          IrpProcessed \<Rightarrow> Completed status
        | IrpNotCompleted \<Rightarrow> Completed status
        | _ \<Rightarrow> Forwarded)"

section \<open>The driver's use of the miniport\<close>

datatype battery_event =
    Telemetry u32 u32 u32 u32 bool bool bool u64
  | Gauge u8 u64
  | GaugeFailure
  | Initialize bool bool int bool int
  | Unload
  | QueryStatus u32 bool

inductive battery_step :: "battery \<Rightarrow> battery_event \<Rightarrow> battery \<Rightarrow> bool" where
  tick: "battery_step m (Telemetry vbat vbus iin peak vac usable rising now)
     (update_from_telemetry vbat vbus iin peak vac usable rising now m)"
| gauge: "battery_step m (Gauge raw now) (set_gauge_raw raw now m)"
| gauge_failure: "battery_step m GaugeFailure (snd (note_gauge_failure m))"
| attach: "battery_step m (Initialize fdo pdo class_status handle wmi_status)
     (snd (initialize fdo pdo class_status handle wmi_status m))"
| detach: "battery_step m Unload (unload m)"
| status_query: "battery_step m (QueryStatus tag null) (snd (query_status tag null m))"

inductive_cases battery_step_elim: "battery_step m e m'"
inductive_simps battery_step_simps:
  "battery_step m (Gauge raw now) m'"
  "battery_step m GaugeFailure m'"

inductive battery_reachable :: "battery \<Rightarrow> bool" where
  start: "battery_reachable battery_initial"
| step: "battery_reachable m \<Longrightarrow> battery_step m e m' \<Longrightarrow> battery_reachable m'"

section \<open>Lemmas\<close>

lemmas battery_defs = update_from_telemetry_def set_gauge_raw_def note_gauge_failure_def
  initialize_def unload_def query_status_def

text \<open>What a status word says, bit by bit.\<close>

definition power_flags :: "bool \<Rightarrow> bool \<Rightarrow> bool \<Rightarrow> flags" where
  "power_flags online charging critical =
    (if online then 1 else 0) OR (if online \<and> charging then 4 else if online then 0 else 2) OR
    (if critical then 8 else 0)"

lemma power_flags_bits:
  "power_flags on ch cr AND BATTERY_POWER_ON_LINE \<noteq> 0 \<longleftrightarrow> on"
  "power_flags on ch cr AND BATTERY_CHARGING \<noteq> 0 \<longleftrightarrow> on \<and> ch"
  "power_flags on ch cr AND BATTERY_DISCHARGING \<noteq> 0 \<longleftrightarrow> \<not> on"
  "power_flags on ch cr AND BATTERY_CRITICAL \<noteq> 0 \<longleftrightarrow> cr"
  "power_flags on ch cr AND BATTERY_POWER_ON_LINE = 0 \<longleftrightarrow> \<not> on"
  "power_flags on ch cr AND BATTERY_CHARGING = 0 \<longleftrightarrow> \<not> (on \<and> ch)"
  "power_flags on ch cr AND BATTERY_DISCHARGING = 0 \<longleftrightarrow> on"
  by (cases on; cases ch; cases cr; simp add: power_flags_def)+

definition held_power :: "battery \<Rightarrow> flags" where
  "held_power m = power_flags (h_held (bm_online_hold m)) (h_held (bm_charging_hold m))
     (bm_last_pct m \<noteq> BATTERY_UNKNOWN_CAPACITY \<and> bm_last_pct m \<le> 5)"

lemma build_status_power:
  "bs_power_state (fst (build_status m)) = held_power m"
  "bs_capacity (fst (build_status m)) = bm_last_pct m"
  "snd (build_status m) = m\<lparr>bm_last_power_state := held_power m\<rparr>"
  by (simp_all add: build_status_def held_power_def power_flags_def Let_def)

lemma soc_percent_le: "soc_percent vbat \<le> 100"
proof -
  have "(vbat - 3400000) * 100 div 950000 \<le> 100" if "vbat < 4350000" using that by linarith
  then show ?thesis unfolding soc_percent_def Let_def by simp
qed

text \<open>The fields of the state after a telemetry tick.\<close>

definition tick_percent :: "u32 \<Rightarrow> bool option \<Rightarrow> battery \<Rightarrow> u32" where
  "tick_percent vbat raw_online m =
    (if vbat > 0 \<and> bm_soc_src m \<noteq> SOC_SRC_GAUGE \<and> raw_online = Some False then soc_percent vbat
     else bm_last_pct m)"

definition tick_online :: "bool \<Rightarrow> u32 \<Rightarrow> bool option \<Rightarrow> u64 \<Rightarrow> battery \<Rightarrow> hold" where
  "tick_online vac iin raw_online now m =
    (if fst (unplug_release vac iin (bm_unplug_run m)) then hold_update (bm_online_hold m) False now 0
     else hold_update_evidence (bm_online_hold m) raw_online now ONLINE_HOLD_MS)"

definition tick_state ::
  "u32 \<Rightarrow> u32 \<Rightarrow> u32 \<Rightarrow> u32 \<Rightarrow> bool \<Rightarrow> bool \<Rightarrow> bool \<Rightarrow> u64 \<Rightarrow> battery \<Rightarrow> battery" where
  "tick_state vbat vbus iin peak vac usable rising now m =
    (let ev = online_raw_with_evidence vbus vbat iin vac usable;
         online = tick_online vac iin ev now m
     in m\<lparr>bm_last_vbat_uv := (if vbat > 0 then vbat else bm_last_vbat_uv m),
          bm_last_pct := tick_percent vbat ev m,
          bm_soc_src := (if vbat > 0 \<and> bm_soc_src m \<noteq> SOC_SRC_GAUGE \<and> ev = Some False then SOC_SRC_VBAT
            else bm_soc_src m),
          bm_unplug_run := snd (unplug_release vac iin (bm_unplug_run m)),
          bm_online_hold := online,
          bm_charging_hold := hold_update (bm_charging_hold m)
            (charging_raw (h_held online) iin peak rising) now CHARGING_HOLD_MS,
          bm_last_vbus_uv := vbus, bm_last_iin_ua := iin\<rparr>)"

lemma update_from_telemetry_eq:
  fixes vbat vbus iin peak vac usable rising now m
  defines "s \<equiv> tick_state vbat vbus iin peak vac usable rising now m"
  shows "update_from_telemetry vbat vbus iin peak vac usable rising now m =
    (let m' = s\<lparr>bm_last_power_state := held_power s\<rparr>
     in if held_power s = bm_last_power_state m \<and> bm_last_pct s = bm_notified_pct m then m'
        else if bm_class_handle m
        then m'\<lparr>bm_notified_pct := bm_last_pct s, bm_notifications := bm_notifications m + 1\<rparr>
        else m')"
proof -
  define ev where "ev = online_raw_with_evidence vbus vbat iin vac usable"
  obtain ch fd wr lp np ss gf lb lv li oh chh ur st ps bt nt where
    m: "m = \<lparr>bm_class_handle = ch, bm_fdo = fd, bm_wmi_registered = wr, bm_last_pct = lp,
      bm_notified_pct = np, bm_soc_src = ss, bm_gauge_fails = gf, bm_last_vbat_uv = lb,
      bm_last_vbus_uv = lv, bm_last_iin_ua = li, bm_online_hold = oh, bm_charging_hold = chh,
      bm_unplug_run = ur, bm_soc_trend = st, bm_last_power_state = ps, bm_battery_tag = bt,
      bm_notifications = nt\<rparr>"
    by (cases m)
  obtain hw run where u: "unplug_release vac iin ur = (hw, run)" by fastforce
  have c: "vbat > 0 \<and> ss \<noteq> SOC_SRC_GAUGE \<and> ev = Some False \<or>
     vbat > 0 \<and> (vbat > 0 \<and> ss \<noteq> SOC_SRC_GAUGE \<and> ev = Some False) = False \<or>
     (vbat > 0) = False" by blast
  show ?thesis
    unfolding s_def update_from_telemetry_def tick_state_def tick_percent_def tick_online_def
      ev_def [symmetric] build_status_power(3) m
    using c
    by (elim disjE conjE)
       (simp_all only: Let_def u battery.select_convs battery.update_convs fst_conv snd_conv prod.case
         if_True if_False simp_thms)
qed

lemma update_from_telemetry_fields:
  fixes vbat vbus iin peak vac usable rising now m
  defines "ev \<equiv> online_raw_with_evidence vbus vbat iin vac usable"
  defines "m' \<equiv> update_from_telemetry vbat vbus iin peak vac usable rising now m"
  shows "bm_last_pct m' = tick_percent vbat ev m"
    "bm_online_hold m' = tick_online vac iin ev now m"
    "bm_charging_hold m' = hold_update (bm_charging_hold m)
       (charging_raw (h_held (tick_online vac iin ev now m)) iin peak rising) now CHARGING_HOLD_MS"
    "bm_unplug_run m' = snd (unplug_release vac iin (bm_unplug_run m))"
    "bm_last_power_state m' = held_power m'"
    "bm_class_handle m' = bm_class_handle m"
    "bm_soc_src m' = (if vbat > 0 \<and> bm_soc_src m \<noteq> SOC_SRC_GAUGE \<and> ev = Some False then SOC_SRC_VBAT
       else bm_soc_src m)"
    "bm_notified_pct m' = (if bm_class_handle m then bm_last_pct m' else bm_notified_pct m)"
    "bm_notifications m' = bm_notifications m +
       (if bm_class_handle m \<and> (held_power m' \<noteq> bm_last_power_state m \<or> bm_last_pct m' \<noteq> bm_notified_pct m)
        then 1 else 0)"
  unfolding m'_def ev_def update_from_telemetry_eq
  by (simp_all add: Let_def held_power_def tick_state_def) (auto)

lemma tick_percent_known:
  "bm_last_pct m \<le> 100 \<or> bm_last_pct m = BATTERY_UNKNOWN_CAPACITY \<Longrightarrow>
   tick_percent vbat ev m \<le> 100 \<or> tick_percent vbat ev m = BATTERY_UNKNOWN_CAPACITY"
  using soc_percent_le [of vbat] by (simp add: tick_percent_def)

lemma gauge_percent_le: "gauge_percent raw \<le> 100"
proof -
  have "unat raw < 256" by simp
  then have "((unat raw - 1) * 98 + 126) div 253 + 1 \<le> 100" by linarith
  then show ?thesis by (simp add: gauge_percent_def)
qed

text \<open>
  The gauge byte maps onto the percent scale without a jump: 0 exactly for an empty counter, 100
  exactly for a full one, 1..99 in between, and never decreasing.
\<close>

lemma gauge_percent_scale:
  "(gauge_percent a = 0 \<longleftrightarrow> a = 0) \<and> (gauge_percent a = 100 \<longleftrightarrow> a = 255) \<and> gauge_percent a \<le> 100 \<and>
   gauge_percent (min a b) \<le> gauge_percent (max a b)"
proof -
  have z: "unat x = 0 \<longleftrightarrow> x = 0" "unat x = 255 \<longleftrightarrow> x = 255" for x :: u8
    using word_unat_eq_iff [of x 255] by (simp_all add: unat_eq_0)
  have mid: "gauge_percent x = ((unat x - 1) * 98 + 126) div 253 + 1 \<and> gauge_percent x \<le> 99 \<and> 1 \<le> gauge_percent x"
    if "x \<noteq> 0" "x \<noteq> 255" for x
  proof -
    have "unat x < 256" by simp
    moreover have "unat x \<noteq> 255" "unat x \<noteq> 0" using that z by auto
    ultimately have "unat x - 1 \<le> 253" by linarith
    then have "((unat x - 1) * 98 + 126) div 253 \<le> 98" by linarith
    with that show ?thesis by (simp add: gauge_percent_def)
  qed
  have ends: "gauge_percent 0 = 0" "gauge_percent 255 = 100" by (simp_all add: gauge_percent_def)
  have mono: "gauge_percent x \<le> gauge_percent y" if "x \<le> y" for x y
  proof (cases "x = 0 \<or> y = 255 \<or> x = 255")
    case True
    have "unat y < 256" by simp
    with that have "x = 255 \<Longrightarrow> y = 255" unfolding word_le_nat_alt z(2) [symmetric] by linarith
    with True show ?thesis
      using gauge_percent_le [of x] ends by auto
  next
    case False
    with that have "y \<noteq> 0" by (auto simp: word_le_nat_alt unat_eq_0)
    with False that mid [of x] mid [of y] show ?thesis
      by (auto simp: word_le_nat_alt intro!: div_le_mono)
  qed
  have "gauge_percent a = 0 \<longleftrightarrow> a = 0" "gauge_percent a = 100 \<longleftrightarrow> a = 255"
    using mid [of a] ends by fastforce+
  moreover have "gauge_percent (min a b) \<le> gauge_percent (max a b)"
    by (rule mono) (rule order.trans [OF min.cobounded1 max.cobounded1])
  ultimately show ?thesis using gauge_percent_le by blast
qed

section \<open>Invariants of the published state\<close>

definition battery_ok :: "battery \<Rightarrow> bool" where
  "battery_ok m \<longleftrightarrow>
     (bm_last_pct m \<le> 100 \<or> bm_last_pct m = BATTERY_UNKNOWN_CAPACITY) \<and>
     (bm_soc_src m = SOC_SRC_GAUGE \<longrightarrow> bm_last_pct m \<le> 100) \<and>
     (bm_last_power_state m = 0 \<or> (\<exists>on ch cr. bm_last_power_state m = power_flags on ch cr))"

lemma battery_ok_step:
  assumes "battery_step m e m'" "battery_ok m"
  shows "battery_ok m'"
  using assms(1)
proof cases
  case (tick vbat vbus iin peak vac usable rising now)
  with assms(2) tick_percent_known [of m vbat "online_raw_with_evidence vbus vbat iin vac usable"]
  show ?thesis
    by (auto simp: battery_ok_def update_from_telemetry_fields held_power_def tick_percent_def)
next
  case (gauge raw now)
  with assms(2) show ?thesis by (auto simp: battery_ok_def set_gauge_raw_def gauge_percent_le)
next
  case (status_query tag null)
  with assms(2) show ?thesis
    by (auto simp: battery_ok_def query_status_def split_def build_status_power held_power_def)
qed (use assms(2) in \<open>auto simp: battery_ok_def battery_defs Let_def\<close>)

lemma battery_ok_reachable: "battery_reachable m \<Longrightarrow> battery_ok m"
proof (induction rule: battery_reachable.induct)
  case start
  show ?case by (simp add: battery_ok_def battery_initial_def)
qed (rule battery_ok_step)

text \<open>
  C36. In every state the driver can reach, by any interleaving of ticks, gauge readings, queries,
  attachment and removal, the published power state never says charging without saying on-line, says
  discharging exactly when it does not say on-line (once anything has been published), and the
  percentage is 0..100 or the documented unknown value, known whenever the gauge has answered.
\<close>

lemma battery_published_coherent:
  assumes "battery_reachable m"
  shows "(bm_last_power_state m AND BATTERY_CHARGING \<noteq> 0 \<longrightarrow> bm_last_power_state m AND BATTERY_POWER_ON_LINE \<noteq> 0) \<and>
    (bm_last_power_state m \<noteq> 0 \<longrightarrow>
       (bm_last_power_state m AND BATTERY_DISCHARGING \<noteq> 0 \<longleftrightarrow> bm_last_power_state m AND BATTERY_POWER_ON_LINE = 0)) \<and>
    (bm_last_pct m \<le> 100 \<or> bm_last_pct m = BATTERY_UNKNOWN_CAPACITY) \<and>
    (bm_soc_src m = SOC_SRC_GAUGE \<longrightarrow> bm_last_pct m \<le> 100)"
  using battery_ok_reachable [OF assms] unfolding battery_ok_def
  by (auto simp: power_flags_bits)

lemma battery_published_coherent_witness:
  "battery_reachable (set_gauge_raw 255 100 battery_initial) \<and>
   bm_last_pct (set_gauge_raw 255 100 battery_initial) \<le> 100"
proof -
  have r: "battery_reachable (set_gauge_raw 255 100 battery_initial)"
    by (rule battery_reachable.step [OF battery_reachable.start battery_step.gauge])
  then show ?thesis
    using battery_published_coherent [OF r] by (simp add: set_gauge_raw_def)
qed

text \<open>
  C39. Three consecutive ticks with the hardware unplug bit set and no charging current publish
  "discharging, not on-line, not charging" on the third tick, from every state, whatever the
  voltages, the usability of the readings, the gauge trend and the armed windows say.
\<close>

lemma unplug_published_on_third_tick:
  assumes "i1 < IIN_CHARGING_UA" "i2 < IIN_CHARGING_UA" "i3 < IIN_CHARGING_UA"
    and "m' = update_from_telemetry b3 v3 i3 p3 True u3 r3 t3
           (update_from_telemetry b2 v2 i2 p2 True u2 r2 t2
             (update_from_telemetry b1 v1 i1 p1 True u1 r1 t1 m))"
  shows "bm_last_power_state m' AND BATTERY_DISCHARGING \<noteq> 0 \<and>
    bm_last_power_state m' AND BATTERY_POWER_ON_LINE = 0 \<and> bm_last_power_state m' AND BATTERY_CHARGING = 0"
proof -
  have run: "snd (unplug_release True i r) = sat_add_u32 r 1"
    "fst (unplug_release True i r) \<longleftrightarrow> 3 \<le> sat_add_u32 r 1" if "i < IIN_CHARGING_UA" for i r
    using that by (simp_all add: unplug_release_def Let_def)
  have "\<not> h_held (bm_online_hold m')"
    unfolding assms(4) update_from_telemetry_fields tick_online_def run [OF assms(1)] run [OF assms(2)]
      run [OF assms(3)]
    by (simp add: rust_int)
  moreover have "bm_last_power_state m' = held_power m'"
    by (simp add: assms(4) update_from_telemetry_fields(5))
  ultimately show ?thesis
    using power_flags_bits(1-3) [of "h_held (bm_online_hold m')"] by (auto simp: held_power_def)
qed

lemma unplug_published_on_third_tick_witness:
  "bm_last_power_state
     (update_from_telemetry 4000000 0 0 0 True True False 600
       (update_from_telemetry 4000000 0 0 0 True True False 300
         (update_from_telemetry 4000000 0 0 0 True True False 0 battery_initial))) AND BATTERY_DISCHARGING \<noteq> 0"
  using unplug_published_on_third_tick [OF _ _ _ refl, of 0 0 0 4000000 0 0 True False 600 4000000 0 0 True False 300 4000000 0 0 True False 0 battery_initial]
  by simp

text \<open>
  After a telemetry tick with the class attached, the percentage the class was last notified of is
  the published one, and exactly one notification was sent if and only if the power state changed or
  the percentage differs from the notified one; with the class detached none is sent and the pending
  percentage stays pending.
\<close>

lemma telemetry_notifies:
  fixes vbat vbus iin peak vac usable rising now m
  defines "m' \<equiv> update_from_telemetry vbat vbus iin peak vac usable rising now m"
  shows "(if bm_class_handle m
     then bm_notified_pct m' = bm_last_pct m' \<and>
       bm_notifications m' = bm_notifications m +
         (if bm_last_power_state m' \<noteq> bm_last_power_state m \<or> bm_last_pct m' \<noteq> bm_notified_pct m then 1 else 0)
     else bm_notified_pct m' = bm_notified_pct m \<and> bm_notifications m' = bm_notifications m)"
  unfolding m'_def by (simp add: update_from_telemetry_fields)

lemma telemetry_notifies_witness:
  "bm_notifications (update_from_telemetry 4000000 0 0 0 True True False 600
     (battery_initial\<lparr>bm_class_handle := True, bm_last_power_state := BATTERY_POWER_ON_LINE, bm_last_pct := 50,
        bm_soc_src := SOC_SRC_GAUGE\<rparr>)) = 1"
  using telemetry_notifies [of "battery_initial\<lparr>bm_class_handle := True, bm_last_power_state := BATTERY_POWER_ON_LINE,
    bm_last_pct := 50, bm_soc_src := SOC_SRC_GAUGE\<rparr>" 4000000 0 0 0 True True False 600]
  by (simp add: update_from_telemetry_fields battery_initial_def tick_percent_def split: if_splits)

text \<open>
  Once the gauge has answered, no telemetry tick replaces its percentage by the cell-voltage
  estimate, and a tick that brings neither input readings nor the unplug bit changes neither the
  percentage nor the on-line window.
\<close>

lemma gauge_percent_kept:
  fixes vbat vbus iin peak vac usable rising now m
  defines "m' \<equiv> update_from_telemetry vbat vbus iin peak vac usable rising now m"
  shows "(bm_soc_src m = SOC_SRC_GAUGE \<longrightarrow> bm_last_pct m' = bm_last_pct m \<and> bm_soc_src m' = SOC_SRC_GAUGE) \<and>
    (\<not> usable \<and> \<not> vac \<longrightarrow> bm_last_pct m' = bm_last_pct m \<and> bm_online_hold m' = bm_online_hold m)"
  unfolding m'_def
  by (simp add: update_from_telemetry_fields tick_percent_def tick_online_def unplug_release_def
      online_raw_with_evidence_def)

lemma gauge_percent_kept_witness:
  "bm_last_pct (update_from_telemetry 3400000 0 0 0 True True False 100 (set_gauge_raw 255 0 battery_initial)) = 100"
  using gauge_percent_kept [of "set_gauge_raw 255 0 battery_initial" 3400000 0 0 0 True True False 100]
  by (simp add: set_gauge_raw_def gauge_percent_def)

end
