(* ===== verification/Session.thy ===== *)
theory Session
  imports Encoding
begin

text \<open>
  \<open>crates/ln8000/src/session.rs\<close>: the telemetry history, a ring of the last 256 samples, a ring
  of the last 32 completed charge sessions, and the accounting of the current session.
\<close>

section \<open>Data\<close>

abbreviation (input) SAMPLE_RING :: nat where "SAMPLE_RING \<equiv> 256"
abbreviation (input) SESSION_HISTORY :: nat where "SESSION_HISTORY \<equiv> 32"

record telemetry_sample =
  ts_ms :: u64
  vbat_uv :: u32
  vbus_uv :: u32
  iin_ua :: u32
  die_temp_dc :: i32
  ts_op_mode :: op_mode
  input_present :: bool
  vbat_valid :: bool
  die_temp_valid :: bool

record charge_session =
  started_ms :: u64
  ended_ms :: "u64 option"
  cs_samples :: u32
  peak_iin_ua :: u32
  peak_die_temp_dc :: i32
  saw_switching :: bool
  saw_bypass :: bool

definition session_new :: "u64 \<Rightarrow> charge_session" where
  "session_new started = \<lparr>started_ms = started, ended_ms = None, cs_samples = 0, peak_iin_ua = 0,
     peak_die_temp_dc = i32_min, saw_switching = False, saw_bypass = False\<rparr>"

definition duration_ms :: "charge_session \<Rightarrow> u64 \<Rightarrow> u64" where
  "duration_ms s now_ms = (case ended_ms s of Some end \<Rightarrow> end - started_ms s | None \<Rightarrow> now_ms - started_ms s)"

definition had_fast_mode :: "charge_session \<Rightarrow> bool" where
  "had_fast_mode s = saw_switching s"

record telemetry =
  tm_samples :: "telemetry_sample option list"
  tm_sample_next :: nat
  tm_sample_total :: u64
  tm_sessions :: "charge_session option list"
  tm_session_next :: nat
  tm_session_total :: u64
  tm_current :: "charge_session option"

definition telemetry_new :: telemetry where
  "telemetry_new = \<lparr>tm_samples = replicate SAMPLE_RING None, tm_sample_next = 0, tm_sample_total = 0,
     tm_sessions = replicate SESSION_HISTORY None, tm_session_next = 0, tm_session_total = 0,
     tm_current = None\<rparr>"

section \<open>Operations\<close>

text \<open>\<open>if let Some(slot) = xs.get_mut(i) { *slot = x }\<close>, and \<open>xs.get(i).and_then(Option::as_ref)\<close>.\<close>

definition set_slot :: "'a list \<Rightarrow> nat \<Rightarrow> 'a \<Rightarrow> 'a list" where
  "set_slot xs i x = (if i < length xs then xs[i := x] else xs)"

definition get_slot :: "'a option list \<Rightarrow> nat \<Rightarrow> 'a option" where
  "get_slot xs i = (if i < length xs then xs ! i else None)"

definition store_session :: "charge_session \<Rightarrow> telemetry \<Rightarrow> telemetry" where
  "store_session session t =
    t\<lparr>tm_sessions := set_slot (tm_sessions t) (tm_session_next t) (Some session),
      tm_session_next := (tm_session_next t + 1) mod SESSION_HISTORY\<rparr>"

definition session_add :: "telemetry_sample \<Rightarrow> charge_session \<Rightarrow> charge_session" where
  "session_add sample session =
    (let session = session\<lparr>cs_samples := sat_add_u32 (cs_samples session) 1\<rparr>;
         session = (if iin_ua sample > peak_iin_ua session
                    then session\<lparr>peak_iin_ua := iin_ua sample\<rparr> else session);
         session = (if die_temp_dc sample > peak_die_temp_dc session
                    then session\<lparr>peak_die_temp_dc := die_temp_dc sample\<rparr> else session)
     in case ts_op_mode sample of
          Switching \<Rightarrow> session\<lparr>saw_switching := True\<rparr>
        | Bypass \<Rightarrow> session\<lparr>saw_bypass := True\<rparr>
        | _ \<Rightarrow> session)"

text \<open>The ring part of \<open>push\<close>, then the session part.\<close>

definition push_sample :: "telemetry_sample \<Rightarrow> telemetry \<Rightarrow> telemetry" where
  "push_sample sample t =
    t\<lparr>tm_samples := set_slot (tm_samples t) (tm_sample_next t) (Some sample),
      tm_sample_next := (tm_sample_next t + 1) mod SAMPLE_RING,
      tm_sample_total := sat_add_u64 (tm_sample_total t) 1\<rparr>"

definition account_sample :: "telemetry_sample \<Rightarrow> telemetry \<Rightarrow> telemetry" where
  "account_sample sample t =
    (if input_present sample then
       (let t = (if tm_current t = None
                 then t\<lparr>tm_session_total := sat_add_u64 (tm_session_total t) 1,
                        tm_current := Some (session_new (ts_ms sample))\<rparr>
                 else t)
        in t\<lparr>tm_current := map_option (session_add sample) (tm_current t)\<rparr>)
     else (case tm_current t of
             Some session \<Rightarrow>
               store_session (session\<lparr>ended_ms := Some (ts_ms sample)\<rparr>) (t\<lparr>tm_current := None\<rparr>)
           | None \<Rightarrow> t))"

definition push :: "telemetry_sample \<Rightarrow> telemetry \<Rightarrow> telemetry" where
  "push sample t = account_sample sample (push_sample sample t)"

definition last_sample :: "telemetry \<Rightarrow> telemetry_sample option" where
  "last_sample t = get_slot (tm_samples t)
     (if tm_sample_next t = 0 then SAMPLE_RING - 1 else tm_sample_next t - 1)"

definition last_completed :: "telemetry \<Rightarrow> charge_session option" where
  "last_completed t = get_slot (tm_sessions t)
     (if tm_session_next t = 0 then SESSION_HISTORY - 1 else tm_session_next t - 1)"

text \<open>\<open>for_each_sample\<close>, as the list of the samples in the order it visits them.\<close>

definition for_each_sample :: "telemetry \<Rightarrow> telemetry_sample list" where
  "for_each_sample t = concat (map (\<lambda>index.
     case get_slot (tm_samples t) ((tm_sample_next t + index) mod SAMPLE_RING) of
       Some sample \<Rightarrow> [sample] | None \<Rightarrow> []) [0..<SAMPLE_RING])"

section \<open>A bounded history as an interface\<close>

definition lastn :: "nat \<Rightarrow> 'a list \<Rightarrow> 'a list" where
  "lastn n xs = drop (length xs - n) xs"

lemma lastn_simps [simp]: "lastn n [] = []" "length (lastn n xs) = min n (length xs)"
  by (auto simp: lastn_def)

lemma lastn_short: "length xs \<le> n \<Longrightarrow> lastn n xs = xs"
  by (simp add: lastn_def)

lemma lastn_lastn_append: "lastn n (lastn n ys @ zs) = lastn n (ys @ zs)"
  by (auto simp: lastn_def min_def not_le split: nat_diff_split)

text \<open>
  What both rings promise: putting a value keeps the ring well formed, and the values it shows,
  oldest first, are the last \<open>cap\<close> ones put.
\<close>

locale bounded_history =
  fixes put :: "'a \<Rightarrow> 's \<Rightarrow> 's" and shown :: "'s \<Rightarrow> 'a list" and good :: "'s \<Rightarrow> bool" and cap :: nat
  assumes put_good: "good s \<Longrightarrow> good (put x s)"
    and put_shown: "good s \<Longrightarrow> shown (put x s) = lastn cap (shown s @ [x])"
    and shown_le: "good s \<Longrightarrow> length (shown s) \<le> cap"
begin

lemma puts_good: "good s \<Longrightarrow> good (fold put xs s)"
  by (induction xs arbitrary: s) (auto intro: put_good)

lemma puts_shown: "good s \<Longrightarrow> shown (fold put xs s) = lastn cap (shown s @ xs)"
proof (induction xs arbitrary: s)
  case Nil
  then show ?case by (simp add: lastn_short shown_le)
next
  case (Cons x xs)
  then show ?case by (simp add: put_good put_shown lastn_lastn_append)
qed

lemma last_shown: "good s \<Longrightarrow> 0 < cap \<Longrightarrow> last (shown (put x s)) = x"
  by (simp add: put_shown lastn_def)

end

section \<open>Rings\<close>

text \<open>The ring from its oldest slot on: empty slots first, then the values in order.\<close>

definition ring_list :: "'a option list \<Rightarrow> nat \<Rightarrow> 'a list" where
  "ring_list xs nxt = map the (filter (\<lambda>x. x \<noteq> None) (rotate nxt xs))"

definition ring_good :: "nat \<Rightarrow> 'a option list \<Rightarrow> nat \<Rightarrow> bool" where
  "ring_good cap xs nxt \<longleftrightarrow> length xs = cap \<and> nxt < cap \<and>
     (\<exists>k ys. rotate nxt xs = replicate k None @ map Some ys)"

lemma ring_list_eq: "rotate nxt xs = replicate k None @ map Some ys \<Longrightarrow> ring_list xs nxt = ys"
  by (simp add: ring_list_def filter_map comp_def)

lemma rotate_put:
  assumes "length xs = cap" "nxt < cap"
  shows "rotate ((nxt + 1) mod cap) (xs[nxt := x]) = tl (rotate nxt xs) @ [x]"
proof (rule nth_equalityI)
  show "length (rotate ((nxt + 1) mod cap) (xs[nxt := x])) = length (tl (rotate nxt xs) @ [x])"
    using assms by simp
  fix i assume "i < length (rotate ((nxt + 1) mod cap) (xs[nxt := x]))"
  then have i: "i < cap" using assms by simp
  have "((nxt + 1) mod cap + i) mod cap = (nxt + Suc i) mod cap" by (simp add: mod_simps)
  moreover have "(nxt + Suc i) mod cap = nxt \<longleftrightarrow> Suc i = cap"
    using assms(2) i by (auto simp: mod_if)
  ultimately show "rotate ((nxt + 1) mod cap) (xs[nxt := x]) ! i = (tl (rotate nxt xs) @ [x]) ! i"
    using assms i by (auto simp: nth_rotate nth_append nth_tl nth_list_update)
qed

lemma ring_put:
  assumes "ring_good cap xs nxt"
  shows "ring_good cap (set_slot xs nxt (Some x)) ((nxt + 1) mod cap)"
    "ring_list (set_slot xs nxt (Some x)) ((nxt + 1) mod cap) = lastn cap (ring_list xs nxt @ [x])"
proof -
  obtain k ys where r: "rotate nxt xs = replicate k None @ map Some ys" and
    l: "length xs = cap" "nxt < cap" using assms by (auto simp: ring_good_def)
  have n: "cap = k + length ys" using arg_cong [OF r, of length] l by simp
  have p: "rotate ((nxt + 1) mod cap) (set_slot xs nxt (Some x)) =
      replicate (k - 1) None @ map Some (lastn cap (ys @ [x]))"
  proof -
    have "rotate ((nxt + 1) mod cap) (set_slot xs nxt (Some x)) =
        tl (replicate k None @ map Some ys) @ [Some x]"
      using rotate_put [OF l, of "Some x"] l by (simp add: set_slot_def r)
    then show ?thesis using n l by (cases k; cases ys) (auto simp: lastn_def)
  qed
  show "ring_list (set_slot xs nxt (Some x)) ((nxt + 1) mod cap) = lastn cap (ring_list xs nxt @ [x])"
    unfolding ring_list_eq [OF p] ring_list_eq [OF r] ..
  show "ring_good cap (set_slot xs nxt (Some x)) ((nxt + 1) mod cap)"
    using p l by (auto simp: ring_good_def set_slot_def)
qed

lemma ring_list_le: "ring_good cap xs nxt \<Longrightarrow> length (ring_list xs nxt) \<le> cap"
  unfolding ring_good_def ring_list_def by (metis length_filter_le length_map length_rotate)

lemma ring_new: "0 < cap \<Longrightarrow> ring_good cap (replicate cap None) 0"
  "ring_list (replicate cap None) 0 = []"
  by (auto simp: ring_good_def ring_list_def intro!: exI [of _ cap])

lemma ring_last:
  assumes "ring_good cap xs nxt"
  shows "get_slot xs (if nxt = 0 then cap - 1 else nxt - 1) =
    (if ring_list xs nxt = [] then None else Some (last (ring_list xs nxt)))"
proof -
  obtain k ys where r: "rotate nxt xs = replicate k None @ map Some ys" and
    l: "length xs = cap" "nxt < cap" using assms by (auto simp: ring_good_def)
  have "last (rotate nxt xs) = xs ! ((nxt + (cap - 1)) mod cap)"
    using l by (simp add: last_conv_nth nth_rotate flip: length_0_conv)
  moreover have "(nxt + (cap - 1)) mod cap = (if nxt = 0 then cap - 1 else nxt - 1)"
    using l by (auto simp: mod_if)
  ultimately have "get_slot xs (if nxt = 0 then cap - 1 else nxt - 1) = last (rotate nxt xs)"
    using l by (auto simp: get_slot_def)
  moreover have "k = 0 \<longrightarrow> ys \<noteq> []" using arg_cong [OF r, of length] l by auto
  ultimately show ?thesis
    unfolding ring_list_eq [OF r] r by (cases ys rule: rev_cases) (auto simp: last_append)
qed

section \<open>The two rings of the telemetry\<close>

definition telemetry_ok :: "telemetry \<Rightarrow> bool" where
  "telemetry_ok t \<longleftrightarrow> ring_good SAMPLE_RING (tm_samples t) (tm_sample_next t) \<and>
     ring_good SESSION_HISTORY (tm_sessions t) (tm_session_next t)"

definition session_history :: "telemetry \<Rightarrow> charge_session list" where
  "session_history t = ring_list (tm_sessions t) (tm_session_next t)"

lemma concat_option: "concat (map (\<lambda>i. case f i of Some x \<Rightarrow> [x] | None \<Rightarrow> []) is) =
  map the (filter (\<lambda>x. x \<noteq> None) (map f is))"
  by (induction "is") (auto split: option.splits)

lemma for_each_sample_ring:
  assumes "telemetry_ok t"
  shows "for_each_sample t = ring_list (tm_samples t) (tm_sample_next t)"
proof -
  have l: "length (tm_samples t) = 256" using assms by (simp add: telemetry_ok_def ring_good_def)
  have "map (\<lambda>i. get_slot (tm_samples t) ((tm_sample_next t + i) mod 256)) [0..<256] =
    rotate (tm_sample_next t) (tm_samples t)"
    by (rule nth_equalityI) (simp_all add: l nth_rotate get_slot_def)
  then show ?thesis
    unfolding for_each_sample_def concat_option ring_list_def by simp
qed

lemma push_sample_ok: "telemetry_ok t \<Longrightarrow> telemetry_ok (push_sample x t)"
  using ring_put(1) [of SAMPLE_RING] by (auto simp: telemetry_ok_def push_sample_def)

lemma push_sample_frame:
  "session_history (push_sample x t) = session_history t"
  "tm_current (push_sample x t) = tm_current t"
  "tm_session_total (push_sample x t) = tm_session_total t"
  "tm_sample_total (push_sample x t) = sat_add_u64 (tm_sample_total t) 1"
  by (simp_all add: push_sample_def session_history_def)

lemma store_session_ok: "telemetry_ok t \<Longrightarrow> telemetry_ok (store_session s t)"
  using ring_put(1) [of SESSION_HISTORY] by (auto simp: telemetry_ok_def store_session_def)

interpretation samples: bounded_history push_sample for_each_sample telemetry_ok SAMPLE_RING
proof
  fix x t assume ok: "telemetry_ok t"
  show "telemetry_ok (push_sample x t)" by (rule push_sample_ok [OF ok])
  show "for_each_sample (push_sample x t) = lastn 256 (for_each_sample t @ [x])"
    using ring_put(2) [of SAMPLE_RING "tm_samples t" "tm_sample_next t" x] ok
    by (simp add: for_each_sample_ring push_sample_ok) (simp add: telemetry_ok_def push_sample_def)
  show "length (for_each_sample t) \<le> 256"
    using ok ring_list_le [of SAMPLE_RING "tm_samples t" "tm_sample_next t"] by (simp add: for_each_sample_ring telemetry_ok_def)
qed

interpretation sessions: bounded_history store_session session_history telemetry_ok SESSION_HISTORY
proof
  fix s t assume ok: "telemetry_ok t"
  show "telemetry_ok (store_session s t)" by (rule store_session_ok [OF ok])
  show "session_history (store_session s t) = lastn 32 (session_history t @ [s])"
    using ring_put(2) [of SESSION_HISTORY "tm_sessions t" "tm_session_next t" s] ok
    by (simp add: session_history_def telemetry_ok_def store_session_def)
  show "length (session_history t) \<le> 32"
    using ok ring_list_le [of SESSION_HISTORY "tm_sessions t" "tm_session_next t"] by (simp add: session_history_def telemetry_ok_def)
qed

section \<open>Charge sessions of a trace\<close>

text \<open>
  The specification of the accounting. A session is a maximal run of samples with the input
  present; \<open>closed_runs\<close> lists the finished ones with the sample that ended each, \<open>open_run\<close> is the
  run at the end of the trace. \<open>summary\<close> is what is recorded of a run.
\<close>

fun closed_runs :: "telemetry_sample list \<Rightarrow> telemetry_sample list \<Rightarrow>
  (telemetry_sample list \<times> telemetry_sample) list" where
  "closed_runs run [] = []"
| "closed_runs run (x # xs) =
    (if input_present x then closed_runs (run @ [x]) xs
     else (if run = [] then [] else [(run, x)]) @ closed_runs [] xs)"

fun open_run :: "telemetry_sample list \<Rightarrow> telemetry_sample list \<Rightarrow> telemetry_sample list" where
  "open_run run [] = run"
| "open_run run (x # xs) = (if input_present x then open_run (run @ [x]) xs else open_run [] xs)"

definition summary :: "telemetry_sample list \<Rightarrow> charge_session" where
  "summary run = \<lparr>started_ms = ts_ms (hd run), ended_ms = None,
     cs_samples = min (length run) u32_max,
     peak_iin_ua = Max (insert 0 (iin_ua ` set run)),
     peak_die_temp_dc = Max (insert i32_min (die_temp_dc ` set run)),
     saw_switching = (\<exists>x\<in>set run. ts_op_mode x = Switching),
     saw_bypass = (\<exists>x\<in>set run. ts_op_mode x = Bypass)\<rparr>"

definition current_of :: "telemetry_sample list \<Rightarrow> charge_session option" where
  "current_of run = (if run = [] then None else Some (summary run))"

definition finished :: "telemetry_sample list \<times> telemetry_sample \<Rightarrow> charge_session" where
  "finished r = (summary (fst r))\<lparr>ended_ms := Some (ts_ms (snd r))\<rparr>"

lemma session_add_eq:
  "session_add x s = s\<lparr>cs_samples := min (cs_samples s + 1) u32_max,
     peak_iin_ua := max (peak_iin_ua s) (iin_ua x),
     peak_die_temp_dc := max (peak_die_temp_dc s) (die_temp_dc x),
     saw_switching := (saw_switching s \<or> ts_op_mode x = Switching),
     saw_bypass := (saw_bypass s \<or> ts_op_mode x = Bypass)\<rparr>"
  by (cases s; cases "ts_op_mode x") (auto simp: session_add_def sat_add_u32_def max_def Let_def)

lemma max_insert_image:
  fixes f :: "'a \<Rightarrow> 'b::linorder"
  shows "max (Max (insert c (f ` set xs))) (f x) = Max (insert c (f ` set (xs @ [x])))"
proof -
  have "insert c (f ` set (xs @ [x])) = insert (f x) (insert c (f ` set xs))" by auto
  then show ?thesis by (simp add: max.commute)
qed

lemma session_add_summary:
  "session_add x (if run = [] then session_new (ts_ms x) else summary run) = summary (run @ [x])"
proof -
  have "(if run = [] then session_new (ts_ms x) else summary run) =
      (summary run)\<lparr>started_ms := ts_ms (hd (run @ [x]))\<rparr>"
    by (cases "run = []") (auto simp: session_new_def summary_def rust_int)
  then show ?thesis
    unfolding session_add_eq summary_def by (auto simp: max_insert_image min_def)
qed

section \<open>The accounting refines the specification\<close>

definition telemetry_of :: "telemetry_sample list \<Rightarrow> telemetry" where
  "telemetry_of xs = fold push xs telemetry_new"

lemma account_sample_frame:
  "tm_samples (account_sample x t) = tm_samples t" "tm_sample_next (account_sample x t) = tm_sample_next t"
  "tm_sample_total (account_sample x t) = tm_sample_total t"
  by (auto simp: account_sample_def store_session_def Let_def split: option.splits)

lemma push_ok:
  assumes "telemetry_ok t"
  shows "telemetry_ok (push x t)" "for_each_sample (push x t) = lastn SAMPLE_RING (for_each_sample t @ [x])"
    "tm_sample_total (push x t) = min (tm_sample_total t + 1) u64_max"
proof -
  have f: "for_each_sample (account_sample x u) = for_each_sample u" for u
    by (simp add: for_each_sample_def account_sample_frame)
  have "telemetry_ok (account_sample x u)" if "telemetry_ok u" for u
    using that store_session_ok
    by (auto simp: account_sample_def telemetry_ok_def store_session_def Let_def split: option.splits)
  then show "telemetry_ok (push x t)" by (simp add: push_def push_sample_ok assms)
  show "for_each_sample (push x t) = lastn SAMPLE_RING (for_each_sample t @ [x])"
    by (simp add: push_def f samples.put_shown [OF assms])
  show "tm_sample_total (push x t) = min (tm_sample_total t + 1) u64_max"
    by (simp add: push_def account_sample_frame push_sample_frame sat_add_u64_def)
qed

lemma pushes_ok:
  assumes "telemetry_ok t" "tm_sample_total t \<le> u64_max"
  shows "telemetry_ok (fold push xs t) \<and>
    for_each_sample (fold push xs t) = lastn SAMPLE_RING (for_each_sample t @ xs) \<and>
    tm_sample_total (fold push xs t) = min (tm_sample_total t + length xs) u64_max"
  using assms
proof (induction xs arbitrary: t)
  case Nil
  then show ?case by (simp add: lastn_short samples.shown_le)
next
  case (Cons x xs)
  then show ?case
    by (simp add: push_ok lastn_lastn_append min_def)
qed

lemma push_session:
  assumes "telemetry_ok t" "tm_current t = current_of run" "tm_session_total t \<le> u64_max"
  shows "input_present x \<Longrightarrow> tm_current (push x t) = current_of (run @ [x]) \<and>
      session_history (push x t) = session_history t \<and>
      tm_session_total (push x t) = min (tm_session_total t + (if run = [] then 1 else 0)) u64_max"
    "\<not> input_present x \<Longrightarrow> tm_current (push x t) = None \<and>
      session_history (push x t) =
        lastn SESSION_HISTORY (session_history t @ map finished (if run = [] then [] else [(run, x)])) \<and>
      tm_session_total (push x t) = tm_session_total t"
proof -
  let ?u = "push_sample x t"
  note f = push_sample_frame [of x t]
  show "tm_current (push x t) = current_of (run @ [x]) \<and>
      session_history (push x t) = session_history t \<and>
      tm_session_total (push x t) = min (tm_session_total t + (if run = [] then 1 else 0)) u64_max"
    if "input_present x"
    using that assms(2,3) f session_add_summary [of x run]
    by (cases "run = []") (auto simp: push_def account_sample_def current_of_def session_history_def sat_add_u64_def)
  show "tm_current (push x t) = None \<and>
      session_history (push x t) =
        lastn SESSION_HISTORY (session_history t @ map finished (if run = [] then [] else [(run, x)])) \<and>
      tm_session_total (push x t) = tm_session_total t"
    if "\<not> input_present x"
  proof (cases "run = []")
    case True
    with that assms f sessions.shown_le [OF assms(1)] show ?thesis
      by (simp add: push_def account_sample_def current_of_def lastn_short)
  next
    case False
    have ok: "telemetry_ok (?u\<lparr>tm_current := None\<rparr>)"
      using push_sample_ok [OF assms(1), of x] by (simp add: telemetry_ok_def)
    have "session_history (?u\<lparr>tm_current := None\<rparr>) = session_history t"
      using f(1) by (simp add: session_history_def)
    moreover have "tm_current (store_session s v) = tm_current v"
      "tm_session_total (store_session s v) = tm_session_total v" for s v
      by (simp_all add: store_session_def)
    ultimately show ?thesis
      using that assms(2) False f sessions.put_shown [OF ok]
      by (simp add: push_def account_sample_def current_of_def finished_def)
  qed
qed

lemma pushes_session:
  assumes "telemetry_ok t" "tm_sample_total t \<le> u64_max" "tm_current t = current_of run"
    "tm_session_total t \<le> u64_max"
  shows "tm_current (fold push xs t) = current_of (open_run run xs) \<and>
    session_history (fold push xs t) =
      lastn SESSION_HISTORY (session_history t @ map finished (closed_runs run xs)) \<and>
    tm_session_total (fold push xs t) = min (tm_session_total t + length (closed_runs run xs) +
      (if open_run run xs = [] then 0 else 1) - (if run = [] then 0 else 1)) u64_max"
  using assms
proof (induction xs arbitrary: t run)
  case Nil
  then show ?case by (simp add: lastn_short sessions.shown_le)
next
  case (Cons x xs)
  have n: "open_run run ys = [] \<Longrightarrow> run \<noteq> [] \<Longrightarrow> Suc 0 \<le> length (closed_runs run ys)" for run ys
    by (induction run ys rule: open_run.induct) auto
  note p = push_ok [OF Cons.prems(1), of x]
  have s: "tm_sample_total (push x t) \<le> u64_max" by (simp add: p(3))
  show ?case
  proof (cases "input_present x")
    case True
    note q = push_session(1) [OF Cons.prems(1,3,4) True]
    have "tm_session_total (push x t) \<le> u64_max" using q by simp
    with Cons.IH [OF p(1) s, of "run @ [x]"] q True n [of "run @ [x]" xs] Cons.prems(4) show ?thesis
      by (cases "run = []") (auto simp: min_def)
  next
    case False
    note q = push_session(2) [OF Cons.prems(1,3,4) False]
    have "tm_session_total (push x t) \<le> u64_max" using q Cons.prems(4) by simp
    with Cons.IH [OF p(1) s, of "[]"] q False show ?thesis
      by (auto simp: lastn_lastn_append current_of_def)
  qed
qed

lemma telemetry_new_ok:
  "telemetry_ok telemetry_new" "for_each_sample telemetry_new = []" "session_history telemetry_new = []"
proof -
  show ok: "telemetry_ok telemetry_new" by (simp add: telemetry_ok_def telemetry_new_def ring_new)
  show "for_each_sample telemetry_new = []"
    unfolding for_each_sample_ring [OF ok] by (simp add: telemetry_new_def ring_new)
  show "session_history telemetry_new = []"
    by (simp add: session_history_def telemetry_new_def ring_new)
qed

text \<open>
  C4. After any trace of samples the telemetry is exactly what the specification says of the trace: the
  ring visits the last 256 samples, oldest first; the current session summarises the run of
  input-present samples at the end of the trace (start time, number, peaks, modes seen) and is absent
  if there is none; the history holds the last 32 finished runs with the time each ended; and the
  totals count all samples and all sessions, saturating at the u64 maximum.
\<close>

lemma telemetry_refines_trace:
  "for_each_sample (telemetry_of xs) = lastn 256 xs \<and>
   tm_current (telemetry_of xs) = current_of (open_run [] xs) \<and>
   session_history (telemetry_of xs) = lastn 32 (map finished (closed_runs [] xs)) \<and>
   tm_sample_total (telemetry_of xs) = min (length xs) u64_max \<and>
   tm_session_total (telemetry_of xs) =
     min (length (closed_runs [] xs) + (if open_run [] xs = [] then 0 else 1)) u64_max"
  using pushes_ok [OF telemetry_new_ok(1), of xs] pushes_session [OF telemetry_new_ok(1), of "[]" xs]
  by (simp add: telemetry_of_def telemetry_new_ok(2,3)) (simp add: telemetry_new_def current_of_def)

text \<open>
  The two accessors read the newest entry of their ring: the last sample is the last one pushed, and
  the last completed session is the newest finished one; both are absent only when nothing was
  recorded.
\<close>

lemma telemetry_newest:
  "last_sample (telemetry_of xs) = (if xs = [] then None else Some (last xs)) \<and>
   last_completed (telemetry_of xs) =
     (if closed_runs [] xs = [] then None else Some (finished (last (closed_runs [] xs))))"
proof -
  have ok: "telemetry_ok (telemetry_of xs)"
    using pushes_ok [OF telemetry_new_ok(1), of xs] by (simp add: telemetry_of_def telemetry_new_def)
  have l: "lastn n ys = [] \<longleftrightarrow> ys = []" "ys \<noteq> [] \<Longrightarrow> last (lastn n ys) = last ys" if "0 < n" for n and ys :: "'b list"
    using that by (cases ys rule: rev_cases; simp add: lastn_def Suc_diff_le)+
  have r: "ring_good SAMPLE_RING (tm_samples (telemetry_of xs)) (tm_sample_next (telemetry_of xs))"
    "ring_good SESSION_HISTORY (tm_sessions (telemetry_of xs)) (tm_session_next (telemetry_of xs))"
    using ok by (simp_all add: telemetry_ok_def)
  note R = telemetry_refines_trace [of xs, unfolded for_each_sample_ring [OF ok] session_history_def]
  show ?thesis
    unfolding last_sample_def last_completed_def ring_last [OF r(1)] ring_last [OF r(2)]
    using R by (simp add: l last_map)
qed

end
