(* ===== verification/Guard.thy ===== *)
theory Guard
  imports Session
begin

text \<open>
  \<open>crates/ln8000/src/guard.rs\<close>: the thermal and current guard of a running charge. It reads one
  telemetry sample, the limits, the current limit the chip applies and the deliberate setpoint of the
  taper, and decides: stop, fall back to 1:1, cut or restore the current, or nothing.
\<close>

section \<open>Limits\<close>

abbreviation (input) VBAT_REDUCE_HYST_UV :: u32 where "VBAT_REDUCE_HYST_UV \<equiv> 50000"
abbreviation (input) TEMP_REDUCE_HYST_DC :: i32 where "TEMP_REDUCE_HYST_DC \<equiv> 30"
abbreviation (input) DIE_TEMP_MAX_PLAUSIBLE_DC :: i32 where "DIE_TEMP_MAX_PLAUSIBLE_DC \<equiv> 1250"

record guard_limits =
  temp_reduce_dc :: i32
  temp_bypass_dc :: i32
  temp_stop_dc :: i32
  iin_max_ua :: u32
  iin_target_ua :: u32
  iin_floor_ua :: u32
  iin_profile_ua :: u32
  vbat_reduce_uv :: u32

definition limits_standard :: guard_limits where
  "limits_standard = \<lparr>temp_reduce_dc = 550, temp_bypass_dc = 600, temp_stop_dc = 650,
     iin_max_ua = 3500000, iin_target_ua = 2000000, iin_floor_ua = 500000,
     iin_profile_ua = 2000000, vbat_reduce_uv = 4470000\<rparr>"

definition limits_conservative :: guard_limits where
  "limits_conservative = \<lparr>temp_reduce_dc = 400, temp_bypass_dc = 430, temp_stop_dc = 500,
     iin_max_ua = 1500000, iin_target_ua = 1000000, iin_floor_ua = 500000,
     iin_profile_ua = 1000000, vbat_reduce_uv = 4350000\<rparr>"

definition is_consistent :: "guard_limits \<Rightarrow> bool" where
  "is_consistent l \<longleftrightarrow> temp_reduce_dc l < temp_bypass_dc l \<and> temp_bypass_dc l < temp_stop_dc l \<and>
     iin_floor_ua l \<le> iin_target_ua l \<and> iin_target_ua l \<le> iin_max_ua l"

definition band_iin_ua :: "guard_limits \<Rightarrow> u32" where
  "band_iin_ua l = (if iin_profile_ua l < iin_target_ua l then iin_profile_ua l else iin_target_ua l)"

definition restore_iin_ua :: "guard_limits \<Rightarrow> u32" where
  "restore_iin_ua l =
    (if iin_profile_ua l > iin_max_ua l then iin_max_ua l
     else if iin_profile_ua l < iin_floor_ua l then iin_floor_ua l
     else iin_profile_ua l)"

text \<open>\<open>i32::try_from(value)\<close> followed by a range test.\<close>

definition i32_in :: "u32 \<Rightarrow> i32 \<Rightarrow> i32 \<Rightarrow> i32 option" where
  "i32_in value lo hi =
    (if int value \<le> i32_max \<and> lo \<le> int value \<and> int value \<le> hi then Some (int value) else None)"

definition set_parameter :: "string \<Rightarrow> u32 \<Rightarrow> guard_limits \<Rightarrow> guard_limits option" where
  "set_parameter name value l =
    (if name = ''TempReduceDc''
     then map_option (\<lambda>temp. l\<lparr>temp_reduce_dc := temp\<rparr>) (i32_in value 200 600)
     else if name = ''TempBypassDc''
     then map_option (\<lambda>temp. l\<lparr>temp_bypass_dc := temp\<rparr>) (i32_in value 200 650)
     else if name = ''TempStopDc''
     then map_option (\<lambda>temp. l\<lparr>temp_stop_dc := temp\<rparr>) (i32_in value 250 700)
     else if name = ''IinMaxUa''
     then (if \<not> (100000 \<le> value \<and> value \<le> 6850000) then None else Some (l\<lparr>iin_max_ua := value\<rparr>))
     else if name = ''IinTargetUa''
     then (if \<not> (100000 \<le> value \<and> value \<le> 6850000) then None else Some (l\<lparr>iin_target_ua := value\<rparr>))
     else if name = ''IinFloorUa''
     then (if \<not> (100000 \<le> value \<and> value \<le> 6850000) then None else Some (l\<lparr>iin_floor_ua := value\<rparr>))
     else if name = ''VbatReduceUv''
     then (if \<not> (3000000 \<le> value \<and> value \<le> 4500000) then None else Some (l\<lparr>vbat_reduce_uv := value\<rparr>))
     else None)"

text \<open>
  The two entry points share the table above (the source writes it out twice): the strict one
  applies it to a copy and keeps the copy only if it is consistent.
\<close>

definition guard_apply_parameter :: "string \<Rightarrow> u32 \<Rightarrow> guard_limits \<Rightarrow> bool \<times> guard_limits" where
  "guard_apply_parameter name value l =
    (case set_parameter name value l of
       None \<Rightarrow> (False, l)
     | Some candidate \<Rightarrow> if \<not> is_consistent candidate then (False, l) else (True, candidate))"

definition apply_parameter_lenient :: "string \<Rightarrow> u32 \<Rightarrow> guard_limits \<Rightarrow> bool \<times> guard_limits" where
  "apply_parameter_lenient name value l =
    (case set_parameter name value l of None \<Rightarrow> (False, l) | Some l' \<Rightarrow> (True, l'))"

definition limits_validate :: "guard_limits \<Rightarrow> bool" where
  "limits_validate l = is_consistent l"

section \<open>Decisions\<close>

datatype guard_action =
    GuardNone
  | ReduceCurrent u32 string
  | RestoreCurrent u32 string
  | FallbackToBypass string
  | StopCharge string

definition is_change :: "guard_action \<Rightarrow> bool" where
  "is_change a \<longleftrightarrow> a \<noteq> GuardNone"

fun guard_label :: "guard_action \<Rightarrow> string" where
  "guard_label GuardNone = ''none''"
| "guard_label (ReduceCurrent _ _) = ''reduce_current''"
| "guard_label (RestoreCurrent _ _) = ''restore_current''"
| "guard_label (FallbackToBypass _) = ''fallback_bypass''"
| "guard_label (StopCharge _) = ''stop''"

definition die_temp_usable :: "telemetry_sample \<Rightarrow> bool" where
  "die_temp_usable s \<longleftrightarrow> die_temp_valid s \<and> die_temp_dc s \<le> DIE_TEMP_MAX_PLAUSIBLE_DC"

definition bypass_strikes_expired :: "telemetry_sample \<Rightarrow> guard_limits \<Rightarrow> bool" where
  "bypass_strikes_expired s l \<longleftrightarrow> die_temp_usable s \<and>
     die_temp_dc s \<le> sat_sub_i32 (temp_bypass_dc l) TEMP_REDUCE_HYST_DC"

definition cap :: "u32 \<Rightarrow> u32 \<Rightarrow> string \<Rightarrow> guard_action" where
  "cap applied_iin_ua to_ua reason =
    (if applied_iin_ua \<le> to_ua then GuardNone else ReduceCurrent to_ua reason)"

definition evaluate ::
  "telemetry_sample \<Rightarrow> guard_limits \<Rightarrow> u32 option \<Rightarrow> u32 option \<Rightarrow> guard_action" where
  "evaluate s l applied_iin_ua deliberate_iin_ua =
    (if \<not> input_present s then GuardNone
     else (let temp_ok = die_temp_usable s in
       if temp_ok \<and> die_temp_dc s \<ge> temp_stop_dc l then StopCharge ''die_temp_stop''
       else if temp_ok \<and> die_temp_dc s \<ge> temp_bypass_dc l then FallbackToBypass ''die_temp_bypass''
       else (case applied_iin_ua of
         None \<Rightarrow> GuardNone
       | Some applied \<Rightarrow>
          if \<not> temp_ok \<or> \<not> vbat_valid s then GuardNone
          else if die_temp_dc s \<ge> temp_reduce_dc l then cap applied (band_iin_ua l) ''die_temp_reduce''
          else if iin_ua s > iin_max_ua l then cap applied (iin_target_ua l) ''iin_over_limit''
          else (let vbat_credible = \<not> vbat_tracks_converter_rail (vbat_uv s) (vbus_uv s) in
            if vbat_credible \<and> vbat_uv s \<ge> vbat_reduce_uv l
            then cap applied (band_iin_ua l) ''vbat_reduce''
            else (let restore = (case deliberate_iin_ua of
                      Some deliberate \<Rightarrow> min (restore_iin_ua l) deliberate
                    | None \<Rightarrow> restore_iin_ua l)
              in if applied \<ge> restore then GuardNone
                 else (let temp_low = die_temp_dc s \<le> sat_sub_i32 (temp_reduce_dc l) TEMP_REDUCE_HYST_DC;
                           vbat_low = \<not> vbat_credible \<or> vbat_uv s \<le> vbat_reduce_uv l - VBAT_REDUCE_HYST_UV
                   in if temp_low \<and> vbat_low then RestoreCurrent restore ''reduce_band_exit''
                      else GuardNone))))))"

abbreviation (input) BYPASS_DENIED_STRIKES_BEFORE_STOP :: u32 where
  "BYPASS_DENIED_STRIKES_BEFORE_STOP \<equiv> 1"

datatype bypass_resolution = Allowed | BypassReduce u32 string | BypassStop string

definition resolve_bypass :: "i32 \<Rightarrow> u32 \<Rightarrow> u32 \<Rightarrow> guard_limits \<Rightarrow> bypass_resolution" where
  "resolve_bypass vin_uv vbat denied_strikes l =
    (if bypass_allowed_by_vin vin_uv vbat then Allowed
     else if denied_strikes \<ge> BYPASS_DENIED_STRIKES_BEFORE_STOP
     then BypassStop ''die_temp_bypass_no_vin_headroom''
     else BypassReduce (iin_floor_ua l) ''die_temp_bypass_no_vin_headroom'')"

section \<open>Lemmas\<close>

text \<open>
  C3. The guard stops the charge exactly when the input is present and a usable die temperature has
  reached the stop threshold, and asks for 1:1 exactly when it lies between the bypass and the stop
  threshold. Neither depends on the current limit, the battery voltage or its validity.
\<close>

lemma evaluate_thermal:
  "(evaluate s l applied deliberate = StopCharge r \<longleftrightarrow>
     r = ''die_temp_stop'' \<and> input_present s \<and> die_temp_usable s \<and> temp_stop_dc l \<le> die_temp_dc s) \<and>
   (evaluate s l applied deliberate = FallbackToBypass r \<longleftrightarrow>
     r = ''die_temp_bypass'' \<and> input_present s \<and> die_temp_usable s \<and>
     die_temp_dc s < temp_stop_dc l \<and> temp_bypass_dc l \<le> die_temp_dc s)"
  by (auto simp: evaluate_def cap_def Let_def split: option.splits)

lemma evaluate_cases:
  "evaluate s l (Some a) d = ReduceCurrent i r \<Longrightarrow> i < a \<and> i \<in> {band_iin_ua l, iin_target_ua l}"
  "evaluate s l (Some a) d = RestoreCurrent i r \<Longrightarrow>
     a < i \<and> i = (case d of Some x \<Rightarrow> min (restore_iin_ua l) x | None \<Rightarrow> restore_iin_ua l)"
  by (auto simp: evaluate_def cap_def Let_def split: option.splits if_splits)

lemma evaluate_needs_limit:
  "evaluate s l None d \<noteq> ReduceCurrent i r" "evaluate s l None d \<noteq> RestoreCurrent i r"
  by (auto simp: evaluate_def Let_def split: if_splits)

text \<open>
  A current decision always moves the limit the chip applies: a reduction strictly lowers it, to at
  most the target, a restore strictly raises it, to at most the maximum and the deliberate setpoint
  of the taper. Without a readable applied limit, and without usable temperature and voltage, there
  is no current decision at all.
\<close>

lemma evaluate_current_direction:
  assumes "is_consistent l"
  shows "(\<forall>i r. evaluate s l applied d = ReduceCurrent i r \<longrightarrow>
      (\<exists>a. applied = Some a \<and> i < a) \<and> i \<le> iin_target_ua l \<and> die_temp_usable s \<and> vbat_valid s) \<and>
    (\<forall>i r. evaluate s l applied d = RestoreCurrent i r \<longrightarrow>
      (\<exists>a. applied = Some a \<and> a < i) \<and> i \<le> iin_max_ua l \<and> (\<forall>x. d = Some x \<longrightarrow> i \<le> x) \<and>
      die_temp_usable s \<and> vbat_valid s)"
proof -
  have band: "band_iin_ua l \<le> iin_target_ua l" and res: "restore_iin_ua l \<le> iin_max_ua l"
    using assms by (auto simp: band_iin_ua_def restore_iin_ua_def is_consistent_def)
  have valid: "die_temp_usable s \<and> vbat_valid s"
    if "evaluate s l applied d = ReduceCurrent i r \<or> evaluate s l applied d = RestoreCurrent i r" for i r
    using that by (auto simp: evaluate_def Let_def split: option.splits if_splits)
  show ?thesis
  proof (cases applied)
    case None
    then show ?thesis using evaluate_needs_limit by simp
  next
    case (Some a)
    with band res valid show ?thesis
      by (auto dest!: evaluate_cases split: option.splits)
  qed
qed

lemma evaluate_current_direction_witness:
  "evaluate \<lparr>ts_ms = 0, vbat_uv = 4000000, vbus_uv = 9000000, iin_ua = 2000000, die_temp_dc = 560,
      ts_op_mode = Switching, input_present = True, vbat_valid = True, die_temp_valid = True\<rparr>
     limits_standard (Some 2500000) None = ReduceCurrent 2000000 ''die_temp_reduce'' \<and>
   (2000000::nat) \<le> iin_target_ua limits_standard"
proof -
  have c: "is_consistent limits_standard" by (simp add: is_consistent_def limits_standard_def)
  show ?thesis
    using evaluate_current_direction [OF c, of
      "\<lparr>ts_ms = 0, vbat_uv = 4000000, vbus_uv = 9000000, iin_ua = 2000000, die_temp_dc = 560,
      ts_op_mode = Switching, input_present = True, vbat_valid = True, die_temp_valid = True\<rparr>" "Some 2500000" None]
    by (simp add: evaluate_def limits_standard_def die_temp_usable_def cap_def band_iin_ua_def)
qed

text \<open>
  The guard never chases itself: once the chip applies the limit a decision asked for, the same
  sample asks for nothing more.
\<close>

lemma evaluate_settles:
  "(evaluate s l applied d = ReduceCurrent i r \<longrightarrow> evaluate s l (Some i) d = GuardNone) \<and>
   (evaluate s l applied d = RestoreCurrent i r \<longrightarrow> evaluate s l (Some i) d = GuardNone)"
  by (auto simp: evaluate_def cap_def Let_def split: option.splits if_splits)

abbreviation (input) sample_at :: "i32 \<Rightarrow> telemetry_sample" where
  "sample_at temp \<equiv> \<lparr>ts_ms = 0, vbat_uv = 4000000, vbus_uv = 9000000, iin_ua = 1000000,
     die_temp_dc = temp, ts_op_mode = Switching, input_present = True, vbat_valid = True,
     die_temp_valid = True\<rparr>"

lemma evaluate_settles_witness:
  "evaluate (sample_at 560) limits_standard (Some 2500000) None = ReduceCurrent 2000000 ''die_temp_reduce'' \<and>
   evaluate (sample_at 560) limits_standard (Some 2000000) None = GuardNone"
proof -
  have "evaluate (sample_at 560) limits_standard (Some 2500000) None = ReduceCurrent 2000000 ''die_temp_reduce''"
    by (simp add: evaluate_def limits_standard_def die_temp_usable_def cap_def band_iin_ua_def)
  with evaluate_settles [of "sample_at 560" limits_standard "Some 2500000" None 2000000 "''die_temp_reduce''"]
  show ?thesis by blast
qed

text \<open>
  The guard does not flap: a reduction that follows a restore needs a real movement between the two
  samples: the die at least 3.0 degrees hotter, the input current above its maximum, or a credible
  battery voltage that is at least 50 mV higher or was not credible before.
\<close>

lemma evaluate_hysteresis:
  assumes "evaluate s l applied d = RestoreCurrent i r" "evaluate s' l applied' d' = ReduceCurrent i' r'"
    and "i32_min + 30 \<le> temp_reduce_dc l" "temp_reduce_dc l \<le> i32_max" "50000 \<le> vbat_reduce_uv l"
  shows "die_temp_dc s + 30 \<le> die_temp_dc s' \<or> iin_max_ua l < iin_ua s' \<or>
    \<not> vbat_tracks_converter_rail (vbat_uv s') (vbus_uv s') \<and>
      (vbat_uv s + 50000 \<le> vbat_uv s' \<or> vbat_tracks_converter_rail (vbat_uv s) (vbus_uv s))"
proof -
  have s: "sat_sub_i32 (temp_reduce_dc l) 30 = temp_reduce_dc l - 30"
    using assms(3,4) by (simp add: sat_sub_i32_def)
  have "die_temp_dc s \<le> temp_reduce_dc l - 30 \<and>
    (vbat_tracks_converter_rail (vbat_uv s) (vbus_uv s) \<or> vbat_uv s \<le> vbat_reduce_uv l - 50000)"
    using assms(1) by (auto simp: evaluate_def cap_def Let_def s split: option.splits if_splits)
  moreover have "temp_reduce_dc l \<le> die_temp_dc s' \<or> iin_max_ua l < iin_ua s' \<or>
    \<not> vbat_tracks_converter_rail (vbat_uv s') (vbus_uv s') \<and> vbat_reduce_uv l \<le> vbat_uv s'"
    using assms(2) by (auto simp: evaluate_def cap_def Let_def split: option.splits if_splits)
  ultimately show ?thesis using assms(5) by auto
qed

lemma evaluate_hysteresis_witness:
  "evaluate (sample_at 500) limits_standard (Some 1000000) None = RestoreCurrent 2000000 ''reduce_band_exit'' \<and>
   evaluate (sample_at 560) limits_standard (Some 2500000) None = ReduceCurrent 2000000 ''die_temp_reduce'' \<and>
   (500::i32) + 30 \<le> 560"
proof -
  have e: "evaluate (sample_at 500) limits_standard (Some 1000000) None = RestoreCurrent 2000000 ''reduce_band_exit''"
    "evaluate (sample_at 560) limits_standard (Some 2500000) None = ReduceCurrent 2000000 ''die_temp_reduce''"
    by (simp_all add: evaluate_def limits_standard_def die_temp_usable_def cap_def band_iin_ua_def
        restore_iin_ua_def vbat_tracks_converter_rail_def rust_int Let_def)
  then show ?thesis
    using evaluate_hysteresis [OF e] by (simp add: limits_standard_def rust_int)
qed

section \<open>Limits under reconfiguration\<close>

definition apply_all :: "(string \<times> u32) list \<Rightarrow> guard_limits \<Rightarrow> guard_limits" where
  "apply_all = fold (\<lambda>(name, value) l. snd (guard_apply_parameter name value l))"

definition apply_all_lenient :: "(string \<times> u32) list \<Rightarrow> guard_limits \<Rightarrow> guard_limits" where
  "apply_all_lenient = fold (\<lambda>(name, value) l. snd (apply_parameter_lenient name value l))"

lemma set_parameter_ranges:
  "set_parameter name value l = Some l' \<Longrightarrow> temp_stop_dc l \<le> 700 \<Longrightarrow> iin_max_ua l \<le> 6850000 \<Longrightarrow>
   temp_stop_dc l' \<le> 700 \<and> iin_max_ua l' \<le> 6850000"
  by (auto simp: set_parameter_def i32_in_def split: if_splits)

lemma apply_all_ranges:
  "temp_stop_dc l \<le> 700 \<and> iin_max_ua l \<le> 6850000 \<Longrightarrow>
   temp_stop_dc (apply_all ps l) \<le> 700 \<and> iin_max_ua (apply_all ps l) \<le> 6850000"
  "temp_stop_dc l \<le> 700 \<and> iin_max_ua l \<le> 6850000 \<Longrightarrow>
   temp_stop_dc (apply_all_lenient ps l) \<le> 700 \<and> iin_max_ua (apply_all_lenient ps l) \<le> 6850000"
proof -
  have "temp_stop_dc (snd (guard_apply_parameter n v l)) \<le> 700 \<and> iin_max_ua (snd (guard_apply_parameter n v l)) \<le> 6850000"
    "temp_stop_dc (snd (apply_parameter_lenient n v l)) \<le> 700 \<and> iin_max_ua (snd (apply_parameter_lenient n v l)) \<le> 6850000"
    if "temp_stop_dc l \<le> 700" "iin_max_ua l \<le> 6850000" for n v l
    using set_parameter_ranges [of n v l] that
    by (auto simp: guard_apply_parameter_def apply_parameter_lenient_def split: option.split)
  then show "temp_stop_dc l \<le> 700 \<and> iin_max_ua l \<le> 6850000 \<Longrightarrow>
   temp_stop_dc (apply_all ps l) \<le> 700 \<and> iin_max_ua (apply_all ps l) \<le> 6850000"
  "temp_stop_dc l \<le> 700 \<and> iin_max_ua l \<le> 6850000 \<Longrightarrow>
   temp_stop_dc (apply_all_lenient ps l) \<le> 700 \<and> iin_max_ua (apply_all_lenient ps l) \<le> 6850000"
    by (induction ps arbitrary: l) (auto simp: apply_all_def apply_all_lenient_def)
qed

lemma guard_apply_parameter_consistent:
  "is_consistent l \<Longrightarrow> is_consistent (snd (guard_apply_parameter name value l))"
  by (auto simp: guard_apply_parameter_def split: option.split)

lemma apply_all_consistent: "is_consistent l \<Longrightarrow> is_consistent (apply_all ps l)"
proof (induction ps arbitrary: l)
  case (Cons p ps)
  then show ?case
    using guard_apply_parameter_consistent [of l "fst p" "snd p"] by (simp add: apply_all_def split_def)
qed (simp add: apply_all_def)

text \<open>
  C38. No configuration can disable the thermal stop: after any sequence of registry parameters, applied
  strictly or leniently, in any order and with any values, a running charge whose usable die
  temperature has reached 70.0 degrees is stopped; and the strict application keeps the thresholds
  ordered (reduce below bypass below stop, floor up to target up to maximum) at every point.
\<close>

lemma thermal_stop_not_configurable:
  "is_consistent (apply_all ps limits_standard) \<and>
   (\<forall>s applied d. input_present s \<and> die_temp_usable s \<and> 700 \<le> die_temp_dc s \<longrightarrow>
      evaluate s (apply_all ps limits_standard) applied d = StopCharge ''die_temp_stop'' \<and>
      evaluate s (apply_all_lenient ps limits_standard) applied d = StopCharge ''die_temp_stop'')"
proof -
  have c: "is_consistent limits_standard" by (simp add: is_consistent_def limits_standard_def)
  have r: "temp_stop_dc limits_standard \<le> 700 \<and> iin_max_ua limits_standard \<le> 6850000"
    by (simp add: limits_standard_def)
  show ?thesis
    using apply_all_consistent [OF c, of ps] apply_all_ranges [OF r, of ps]
    by (auto simp: evaluate_def Let_def)
qed

lemma thermal_stop_not_configurable_witness:
  "evaluate (sample_at 700) (apply_all [(''TempStopDc'', 700)] limits_standard) None None =
     StopCharge ''die_temp_stop''"
  using thermal_stop_not_configurable [of "[(''TempStopDc'', 700)]"]
  by (simp add: die_temp_usable_def)

text \<open>
  When the 1:1 fallback is not possible at the present input voltage the guard's second denial stops
  the charge and the first only cuts the current to the floor; where the voltage gate admits 1:1 it is
  always allowed.
\<close>

lemma resolve_bypass_progress:
  "(resolve_bypass vin vbat strikes l = Allowed \<longleftrightarrow> bypass_allowed_by_vin vin vbat) \<and>
   (\<not> bypass_allowed_by_vin vin vbat \<longrightarrow>
      (strikes = 0 \<and> (\<exists>r. resolve_bypass vin vbat strikes l = BypassReduce (iin_floor_ua l) r)) \<or>
      (0 < strikes \<and> (\<exists>r. resolve_bypass vin vbat strikes l = BypassStop r)))"
  by (auto simp: resolve_bypass_def)

lemma resolve_bypass_progress_witness:
  "\<exists>r. resolve_bypass 9000000 4000000 1 limits_standard = BypassStop r"
  using resolve_bypass_progress [of 9000000 4000000 1 limits_standard]
  by (simp add: bypass_allowed_by_vin_def charge_mode_def)

end
