(* ===== verification/Register_Bus.thy ===== *)
theory Register_Bus
  imports Pump_Error Pump_Regs
begin

text \<open>
  \<open>crates/ln8000/src/transport.rs\<close>: the bus the pump driver is written against. The trait is a
  record of its methods on a bus state \<open>'b\<close>; the locales state what a caller may rely on when the
  bus and the chip behind it work.
\<close>

section \<open>The trait\<close>

type_synonym ('b, 'a) bus_call = "'b \<Rightarrow> (bus_error + 'a) \<times> 'b"

record 'b reg_bus =
  rb_read :: "u8 \<Rightarrow> ('b, u8) bus_call"
  rb_write :: "u8 \<Rightarrow> u8 \<Rightarrow> ('b, unit) bus_call"
  rb_reset :: "('b, unit) bus_call"
  rb_read_pair :: "u8 \<Rightarrow> ('b, u16) bus_call"

text \<open>The two provided methods of the trait.\<close>

definition bus_update_bits :: "'b reg_bus \<Rightarrow> u8 \<Rightarrow> u8 \<Rightarrow> u8 \<Rightarrow> ('b, unit) bus_call" where
  "bus_update_bits B addr m v b =
    (case rb_read B addr b of
       (Inl e, b) \<Rightarrow> (Inl e, b)
     | (Inr current, b) \<Rightarrow> rb_write B addr ((current AND NOT m) OR (v AND m)) b)"

definition default_read_pair :: "(u8 \<Rightarrow> ('b, u8) bus_call) \<Rightarrow> u8 \<Rightarrow> ('b, u16) bus_call" where
  "default_read_pair read addr b =
    (case read addr b of
       (Inl e, b) \<Rightarrow> (Inl e, b)
     | (Inr low, b) \<Rightarrow>
        (case read (addr + 1) b of
           (Inl e, b) \<Rightarrow> (Inl e, b)
         | (Inr high, b) \<Rightarrow> (Inr (byte_pair low high), b)))"

section \<open>The contract of a working chip\<close>

text \<open>
  \<open>inv\<close> says the bus and the chip work, \<open>view\<close> is the register file the chip shows, \<open>addrs\<close> are the
  registers it has, and \<open>effect a v\<close> is what a write of \<open>v\<close> to \<open>a\<close> does to the register file. Reads
  have no side effect, and a written register reads back.
\<close>

locale register_chip =
  fixes B :: "'b reg_bus" and inv :: "'b \<Rightarrow> bool" and view :: "'b \<Rightarrow> u8 \<Rightarrow> u8"
    and effect :: "u8 \<Rightarrow> u8 \<Rightarrow> (u8 \<Rightarrow> u8) \<Rightarrow> u8 \<Rightarrow> u8" and addrs :: "u8 set"
  assumes read_ok: "inv b \<Longrightarrow> \<exists>b'. rb_read B a b = (Inr (view b a), b') \<and> inv b' \<and> view b' = view b"
    and pair_ok: "inv b \<Longrightarrow> \<exists>b'. rb_read_pair B a b = (Inr (byte_pair (view b a) (view b (a + 1))), b') \<and>
      inv b' \<and> view b' = view b"
    and write_ok: "inv b \<Longrightarrow> a \<in> addrs \<Longrightarrow>
      \<exists>b'. rb_write B a v b = (Inr (), b') \<and> inv b' \<and> view b' = effect a v (view b)"
    and reset_ok: "inv b \<Longrightarrow> \<exists>r b'. rb_reset B b = (r, b') \<and> inv b' \<and> view b' = view b"
    and read_back: "a \<in> addrs \<Longrightarrow> effect a v f a = v"
begin

lemma update_bits_ok:
  assumes "inv b" "a \<in> addrs"
  shows "\<exists>b'. bus_update_bits B a m v b = (Inr (), b') \<and> inv b' \<and>
    view b' = effect a (masked (view b a) m v) (view b)"
proof -
  obtain b1 where r: "rb_read B a b = (Inr (view b a), b1)" "inv b1" "view b1 = view b"
    using read_ok [OF assms(1)] by blast
  show ?thesis
    using write_ok [OF r(2) assms(2)] r by (simp add: bus_update_bits_def masked_def)
qed

lemma default_pair_ok:
  assumes "inv b"
  shows "\<exists>b'. default_read_pair (rb_read B) a b = (Inr (byte_pair (view b a) (view b (a + 1))), b') \<and>
    inv b' \<and> view b' = view b"
proof -
  obtain b1 where r: "rb_read B a b = (Inr (view b a), b1)" "inv b1" "view b1 = view b"
    using read_ok [OF assms(1)] by blast
  show ?thesis
    using read_ok [OF r(2), of "a + 1"] r by (auto simp: default_read_pair_def)
qed

end

text \<open>
  The LN8000 proper: a write to an ordinary control register changes that register only, and a
  write to \<open>SYS_CTRL\<close> makes \<open>SYS_STS\<close> report the mode it asks for (the chip obeys).
\<close>

definition requested_sts :: "u8 \<Rightarrow> u8" where
  "requested_sts v =
    (if v AND SYS_CTRL_STANDBY_EN \<noteq> 0 then SYS_STS_STANDBY
     else if v AND SYS_CTRL_EN_1TO1 \<noteq> 0 then SYS_STS_BYPASS_ENABLED
     else SYS_STS_SWITCHING_ENABLED)"

definition control_regs :: "u8 set" where
  "control_regs = {IIN_CTRL, REGULATION_CTRL, SYS_CTRL, GLITCH_CTRL, FAULT_CTRL, NTC_CTRL, ADC_CTRL,
     ADC_CFG, RECOVERY_CTRL, TIMER_CTRL, THRESHOLD_CTRL, V_FLOAT_CTRL, CHARGE_CTRL}"

locale obedient_chip = register_chip +
  assumes control: "control_regs \<subseteq> addrs"
    and plain: "a \<in> control_regs \<Longrightarrow> a \<noteq> SYS_CTRL \<Longrightarrow> effect a v f = f(a := v)"
    and mode: "effect SYS_CTRL v f = f(SYS_CTRL := v, SYS_STS := requested_sts v)"

end
