(* ===== verification/Pump_Config.thy ===== *)
theory Pump_Config
  imports Encoding
begin

text \<open>
  The settings of the pump driver (\<open>PumpConfig\<close> of \<open>crates/ln8000/src/driver.rs\<close>): the presets, the
  registry parameters, and what every accepted configuration satisfies.
\<close>

record pump_config =
  cfg_vbat_float_uv :: u32
  cfg_vac_ovp_uv :: u32
  cfg_iin_limit_ua :: u32
  cfg_ntc_alarm_cfg :: u16
  cfg_watchdog_enabled :: bool
  cfg_watchdog_period :: watchdog_period
  cfg_auto_recovery :: bool
  cfg_verify_writes :: bool
  cfg_max_bus_retries :: nat        \<comment> \<open>a \<open>u8\<close> counter\<close>
  cfg_vbat_reg_disabled :: bool
  cfg_iin_ocp_disabled :: bool
  cfg_iin_reg_disabled :: bool
  cfg_tdie_prot_disabled :: bool
  cfg_tdie_reg_disabled :: bool
  cfg_tbus_mon_disabled :: bool
  cfg_tbat_mon_disabled :: bool

definition config_default :: pump_config where
  "config_default = \<lparr>cfg_vbat_float_uv = NABU_VBAT_FLOAT_UV, cfg_vac_ovp_uv = 9500000,
     cfg_iin_limit_ua = 2000000, cfg_ntc_alarm_cfg = NTC_ALARM_DEFAULT, cfg_watchdog_enabled = False,
     cfg_watchdog_period = WdtSec10, cfg_auto_recovery = False, cfg_verify_writes = True,
     cfg_max_bus_retries = 2, cfg_vbat_reg_disabled = False, cfg_iin_ocp_disabled = False,
     cfg_iin_reg_disabled = False, cfg_tdie_prot_disabled = False, cfg_tdie_reg_disabled = False,
     cfg_tbus_mon_disabled = False, cfg_tbat_mon_disabled = False\<rparr>"

definition for_nabu_dts :: pump_config where
  "for_nabu_dts = config_default\<lparr>cfg_vbat_reg_disabled := True, cfg_iin_ocp_disabled := True,
     cfg_iin_reg_disabled := True, cfg_tdie_prot_disabled := True, cfg_tdie_reg_disabled := True,
     cfg_tbus_mon_disabled := True, cfg_tbat_mon_disabled := True\<rparr>"

definition protective :: pump_config where
  "protective = config_default\<lparr>cfg_vbat_reg_disabled := False, cfg_iin_ocp_disabled := False,
     cfg_iin_reg_disabled := False, cfg_tdie_prot_disabled := False, cfg_tdie_reg_disabled := False,
     cfg_tbus_mon_disabled := False, cfg_tbat_mon_disabled := False\<rparr>"

definition for_qc35_class_b :: pump_config where
  "for_qc35_class_b = config_default\<lparr>cfg_vac_ovp_uv := 13000000, cfg_iin_limit_ua := 3500000 - 700000,
     cfg_vbat_reg_disabled := False, cfg_iin_reg_disabled := False, cfg_iin_ocp_disabled := True,
     cfg_tdie_prot_disabled := True, cfg_tdie_reg_disabled := True, cfg_tbus_mon_disabled := True,
     cfg_tbat_mon_disabled := True\<rparr>"

definition config_conservative :: pump_config where
  "config_conservative = config_default\<lparr>cfg_vac_ovp_uv := 6500000, cfg_iin_limit_ua := 1000000\<rparr>"

definition config_apply_parameter :: "string \<Rightarrow> u32 \<Rightarrow> pump_config \<Rightarrow> bool \<times> pump_config" where
  "config_apply_parameter name value c =
    (if name = ''IinLimitUa'' then
       (case encode_iin_limit value of
          Inl _ \<Rightarrow> (False, c)
        | Inr _ \<Rightarrow> (True, c\<lparr>cfg_iin_limit_ua := value\<rparr>))
     else if name = ''VbatFloatUv'' then
       (if \<not> (3725000 \<le> value \<and> value \<le> 5000000) then (False, c)
        else (True, c\<lparr>cfg_vbat_float_uv := value\<rparr>))
     else if name = ''VacOvpUv'' then
       (if \<not> (6500000 \<le> value \<and> value \<le> 13000000) then (False, c)
        else (True, c\<lparr>cfg_vac_ovp_uv := value\<rparr>))
     else if name = ''NtcAlarmCfg'' then
       (if value > 0x03FF then (False, c)
        else (True, c\<lparr>cfg_ntc_alarm_cfg := (if value \<le> u16_max then word_of_nat value else cfg_ntc_alarm_cfg c)\<rparr>))
     else if name = ''WatchdogEnabled'' then (True, c\<lparr>cfg_watchdog_enabled := (value \<noteq> 0)\<rparr>)
     else if name = ''BusRetryCount'' then
       (if value > 8 then (False, c)
        else (True, c\<lparr>cfg_max_bus_retries := (if value \<le> u8_max then value else cfg_max_bus_retries c)\<rparr>))
     else if name = ''ProtectionProfile'' then
       (case (if value = 0 then Some for_nabu_dts else if value = 1 then Some protective else None) of
          None \<Rightarrow> (False, c)
        | Some tmpl \<Rightarrow> (True, c\<lparr>cfg_vbat_reg_disabled := cfg_vbat_reg_disabled tmpl,
            cfg_iin_ocp_disabled := cfg_iin_ocp_disabled tmpl,
            cfg_iin_reg_disabled := cfg_iin_reg_disabled tmpl,
            cfg_tdie_prot_disabled := cfg_tdie_prot_disabled tmpl,
            cfg_tdie_reg_disabled := cfg_tdie_reg_disabled tmpl,
            cfg_tbus_mon_disabled := cfg_tbus_mon_disabled tmpl,
            cfg_tbat_mon_disabled := cfg_tbat_mon_disabled tmpl\<rparr>))
     else (False, c))"

section \<open>Accepted configurations\<close>

definition config_sane :: "pump_config \<Rightarrow> bool" where
  "config_sane c \<longleftrightarrow> 3725000 \<le> cfg_vbat_float_uv c \<and> cfg_vbat_float_uv c \<le> 5000000 \<and>
     6500000 \<le> cfg_vac_ovp_uv c \<and> cfg_vac_ovp_uv c \<le> 13000000 \<and>
     IIN_MIN_UA \<le> cfg_iin_limit_ua c \<and> unat (cfg_ntc_alarm_cfg c) \<le> 0x03FF \<and>
     cfg_max_bus_retries c \<le> 8"

lemma config_apply_parameter_rejects:
  "config_apply_parameter name v c = (False, c') \<Longrightarrow> c' = c"
  unfolding config_apply_parameter_def
  by (simp split: if_split_asm sum.split_asm option.split_asm)

lemma config_apply_parameter_sane:
  assumes "config_sane c"
  shows "config_sane (snd (config_apply_parameter name value c))"
proof -
  have n: "unat (word_of_nat v :: u16) \<le> 0x03FF" if "v \<le> 0x03FF" for v
    using that by (simp add: unat_of_nat take_bit_nat_def)
  show ?thesis
    using assms n [of "value"]
    by (auto simp: config_apply_parameter_def config_sane_def encode_iin_limit_def Let_def
        split: sum.split option.split)
qed

definition config_apply_all :: "(string \<times> u32) list \<Rightarrow> pump_config \<Rightarrow> pump_config" where
  "config_apply_all = fold (\<lambda>(name, value) c. snd (config_apply_parameter name value c))"

text \<open>
  Starting from any preset, no sequence of registry parameters produces settings outside the
  documented ranges: the float voltage stays within 3.725..5.0 V, the input overvoltage threshold
  within 6.5..13 V, the current limit encodable (so configuring never fails on it), the NTC code
  within 10 bits, and the number of bus retries at most 8.
\<close>

lemma config_always_sane:
  assumes "c \<in> {config_default, for_nabu_dts, protective, for_qc35_class_b, config_conservative}"
  shows "config_sane (config_apply_all ps c) \<and>
    (\<exists>code. encode_iin_limit (cfg_iin_limit_ua (config_apply_all ps c)) = Inr code)"
proof -
  have "config_sane c"
    using assms by (auto simp: config_sane_def config_default_def for_nabu_dts_def protective_def
        for_qc35_class_b_def config_conservative_def)
  then have "config_sane (config_apply_all ps c)"
    by (induction ps arbitrary: c)
       (simp_all add: config_apply_all_def split_def config_apply_parameter_sane)
  then show ?thesis by (simp add: config_sane_def encode_iin_limit_def Let_def)
qed

lemma config_always_sane_witness:
  "config_sane (config_apply_all [(''BusRetryCount'', 8), (''IinLimitUa'', 1)] config_default)"
  using config_always_sane [of config_default "[(''BusRetryCount'', 8), (''IinLimitUa'', 1)]"] by simp

end
