(* ===== verification/Pump.thy ===== *)
theory Pump
  imports Register_Bus Pump_Config Status
begin

text \<open>
  The pump driver (\<open>Pump\<close> of \<open>crates/ln8000/src/driver.rs\<close>) over an arbitrary bus \<open>B\<close>. Every method
  is a method body in the sense of the prelude: it takes the driver state, returns the result and
  the state after, and may not return at all, because its retry loops can be endless.
\<close>

section \<open>State\<close>

datatype pump_state = Closed | Probed | Configured | PumpSwitching | Faulted

fun pump_state_label :: "pump_state \<Rightarrow> string" where
  "pump_state_label Closed = ''closed''"
| "pump_state_label Probed = ''probed''"
| "pump_state_label Configured = ''configured''"
| "pump_state_label PumpSwitching = ''switching''"
| "pump_state_label Faulted = ''faulted''"

record 'b pump =
  p_bus :: 'b
  p_config :: pump_config
  p_state :: pump_state
  p_op_mode :: op_mode
  p_bypass_stage :: u8
  p_por_vin_uv :: "u32 option"
  p_writes :: u32
  p_reads :: u32

type_synonym ('b, 'a) pump_op = "('b pump, pump_error, 'a) op"

definition pump_open :: "'b reg_bus \<Rightarrow> pump_config \<Rightarrow> 'b \<Rightarrow> pump_error + 'b pump" where
  "pump_open B config bus =
    (let bus = snd (rb_reset B bus)
     in case rb_read B DEVICE_ID bus of
          (Inl e, _) \<Rightarrow> Inl (BusErr e)
        | (Inr i, bus) \<Rightarrow>
            if i \<noteq> DEVICE_ID_VALUE then Inl (WrongDeviceId i)
            else Inr \<lparr>p_bus = bus, p_config = config, p_state = Probed, p_op_mode = Unknown,
              p_bypass_stage = 0, p_por_vin_uv = None, p_writes = 0, p_reads = 1\<rparr>)"

section \<open>Bus access with retries\<close>

text \<open>
  The loop that \<open>read\<close>, \<open>read_pair\<close> and \<open>write\<close> share (the source writes it out three times): \<open>call\<close>
  is the bus method, \<open>count\<close> the counter update of a success, \<open>attempt\<close> the \<open>u8\<close> counter.
\<close>

partial_function (option) retry ::
  "'b reg_bus \<Rightarrow> ('b, 'a) bus_call \<Rightarrow> ('b pump \<Rightarrow> 'b pump) \<Rightarrow> nat \<Rightarrow> ('b, 'a) pump_op" where
  "retry B call count attempt p =
    (case call (p_bus p) of
       (r, b) \<Rightarrow>
         (case r of
            Inr v \<Rightarrow> Some (Inr v, count (p\<lparr>p_bus := b\<rparr>))
          | Inl err \<Rightarrow>
             (if \<not> bus_recoverable err \<or> sat_add_u8 attempt 1 > cfg_max_bus_retries (p_config p)
              then Some (Inl (BusErr err), p\<lparr>p_bus := b, p_state := Faulted\<rparr>)
              else retry B call count (sat_add_u8 attempt 1) (p\<lparr>p_bus := snd (rb_reset B b)\<rparr>))))"

definition pump_read :: "'b reg_bus \<Rightarrow> u8 \<Rightarrow> ('b, u8) pump_op" where
  "pump_read B addr = retry B (rb_read B addr) (\<lambda>p. p\<lparr>p_reads := sat_add_u32 (p_reads p) 1\<rparr>) 0"

definition pump_read_pair :: "'b reg_bus \<Rightarrow> u8 \<Rightarrow> ('b, u16) pump_op" where
  "pump_read_pair B addr = retry B (rb_read_pair B addr) (\<lambda>p. p\<lparr>p_reads := sat_add_u32 (p_reads p) 2\<rparr>) 0"

definition pump_write :: "'b reg_bus \<Rightarrow> u8 \<Rightarrow> u8 \<Rightarrow> ('b, unit) pump_op" where
  "pump_write B addr v = retry B (rb_write B addr v) (\<lambda>p. p\<lparr>p_writes := sat_add_u32 (p_writes p) 1\<rparr>) 0"

definition fault_out_of_range :: "string \<Rightarrow> u32 \<Rightarrow> ('b, 'a) pump_op" where
  "fault_out_of_range field requested =
     and_then (modify (\<lambda>p. p\<lparr>p_state := Faulted\<rparr>)) (\<lambda>_. raise (OutOfRange field requested))"

definition write_verified :: "'b reg_bus \<Rightarrow> u8 \<Rightarrow> u8 \<Rightarrow> string \<Rightarrow> ('b, unit) pump_op" where
  "write_verified B addr v field =
     and_then (pump_write B addr v) (\<lambda>_. and_then get_state (\<lambda>p.
       if cfg_verify_writes (p_config p)
       then and_then (pump_read B addr) (\<lambda>read_back.
              if read_back \<noteq> v then fault_out_of_range field (unat v) else ret ())
       else ret ()))"

definition update :: "'b reg_bus \<Rightarrow> u8 \<Rightarrow> u8 \<Rightarrow> u8 \<Rightarrow> string \<Rightarrow> ('b, unit) pump_op" where
  "update B addr m v field =
     and_then (pump_read B addr) (\<lambda>current.
       let updated = masked current m v in
       and_then (pump_write B addr updated) (\<lambda>_. and_then get_state (\<lambda>p.
         if cfg_verify_writes (p_config p)
         then and_then (pump_read B addr) (\<lambda>read_back.
                if read_back \<noteq> updated then fault_out_of_range field (unat updated) else ret ())
         else ret ())))"

definition unless_closed :: "('b, 'a) pump_op \<Rightarrow> ('b, 'a) pump_op" where
  "unless_closed m = and_then get_state (\<lambda>p. if p_state p = Closed then raise NotOpen else m)"

definition set_op_mode :: "'b reg_bus \<Rightarrow> op_mode \<Rightarrow> ('b, unit) pump_op" where
  "set_op_mode B target =
     unless_closed (case sys_ctrl_bits target of
         Inl e \<Rightarrow> raise e
       | Inr bits \<Rightarrow>
           and_then (update B SYS_CTRL sys_ctrl_mask bits ''op_mode'') (\<lambda>_.
             modify (\<lambda>p. p\<lparr>p_op_mode := target\<rparr>)))"

section \<open>Status and ADC\<close>

definition pump_status :: "'b reg_bus \<Rightarrow> ('b, status) pump_op" where
  "pump_status B = unless_closed (
     and_then (pump_read B SYS_STS) (\<lambda>sys_sts.
     and_then (pump_read B SAFETY_STS) (\<lambda>safety_sts.
     and_then (pump_read B FAULT1_STS) (\<lambda>fault1_sts.
     and_then (pump_read B FAULT2_STS) (\<lambda>fault2_sts.
     and_then (pump_read B LDO_STS) (\<lambda>ldo_sts.
     and_then (modify (\<lambda>p. p\<lparr>p_op_mode := from_sys_sts sys_sts\<rparr>)) (\<lambda>_.
       ret \<lparr>st_sys_sts = sys_sts, st_op_mode = from_sys_sts sys_sts, st_safety_sts = safety_sts,
            st_fault1_sts = fault1_sts, st_fault2_sts = fault2_sts, st_ldo_sts = ldo_sts\<rparr>)))))))"

fun settle :: "'b reg_bus \<Rightarrow> nat \<Rightarrow> status \<Rightarrow> ('b, status) pump_op" where
  "settle B 0 latest = ret latest"
| "settle B (Suc n) latest = and_then (pump_status B) (\<lambda>st.
     if st_op_mode st \<noteq> Unknown \<and> st_op_mode st \<noteq> Standby then ret st else settle B n st)"

definition settle_and_read_status :: "'b reg_bus \<Rightarrow> ('b, status) pump_op" where
  "settle_and_read_status B = and_then (pump_status B) (settle B 3)"

definition set_adc_mode :: "'b reg_bus \<Rightarrow> adc_mode \<Rightarrow> ('b, unit) pump_op" where
  "set_adc_mode B m = update B ADC_CTRL 0xE0 (push_bit 5 (adc_mode_code m)) ''adc_mode''"

definition read_adc :: "'b reg_bus \<Rightarrow> adc_channel \<Rightarrow> ('b, i32) pump_op" where
  "read_adc B channel =
     and_then (update B TIMER_CTRL TIMER_CTRL_PAUSE_ADC TIMER_CTRL_PAUSE_ADC ''adc_pause'') (\<lambda>_.
     and_then (outcome (pump_read_pair B (adc_register channel))) (\<lambda>r.
     and_then (ignore (update B TIMER_CTRL TIMER_CTRL_PAUSE_ADC 0 ''adc_resume'')) (\<lambda>_.
       case r of Inl e \<Rightarrow> raise e | Inr raw \<Rightarrow> ret (adc_decode channel raw))))"

text \<open>\<open>u32::try_from(self.read_adc(ch).unwrap_or(0).max(0)).unwrap_or(0)\<close>.\<close>

definition adc_or_zero :: "'b reg_bus \<Rightarrow> adc_channel \<Rightarrow> ('b, u32) pump_op" where
  "adc_or_zero B ch = and_then (value_or (read_adc B ch) 0) (\<lambda>x. ret (u32_of_i32 x))"

section \<open>Configuration\<close>

text \<open>The statements of \<open>configure_protections\<close> and \<open>configure\<close>, each followed by \<open>?\<close>.\<close>

definition protection_writes :: "'b reg_bus \<Rightarrow> pump_config \<Rightarrow> ('b, unit) pump_op list" where
  "protection_writes B cfg = [
     update B FAULT_CTRL 0x20 0 ''enable_vbat_ovp'',
     update B FAULT_CTRL 0x40 0x40 ''iin_ocp_off_nabu_dts'',
     update B REGULATION_CTRL 0x20 (push_bit 5 (u8_of_bool (cfg_vbat_reg_disabled cfg))) ''vfloat_loop'',
     update B REGULATION_CTRL 0x80 (push_bit 7 (u8_of_bool (\<not> cfg_vbat_reg_disabled cfg))) ''vfloat_loop_int'',
     update B REGULATION_CTRL 0x10 (push_bit 4 (u8_of_bool (cfg_iin_reg_disabled cfg))) ''iin_loop'',
     update B REGULATION_CTRL 0x40 (push_bit 6 (u8_of_bool (\<not> cfg_iin_reg_disabled cfg))) ''iin_loop_int'',
     update B REGULATION_CTRL 0x04 (push_bit 2 (u8_of_bool (\<not> cfg_tdie_prot_disabled cfg))) ''tdie_prot'',
     update B REGULATION_CTRL 0x02 (push_bit 1 (u8_of_bool (\<not> cfg_tdie_reg_disabled cfg))) ''tdie_regulation'',
     update B SYS_CTRL 0x04 0 ''disable_reverse_current'']"

definition configure_protections :: "'b reg_bus \<Rightarrow> ('b, unit) pump_op" where
  "configure_protections B = and_then get_state (\<lambda>p. block (protection_writes B (p_config p)))"

definition configure_writes :: "'b reg_bus \<Rightarrow> pump_config \<Rightarrow> ('b, unit) pump_op list" where
  "configure_writes B cfg = [
     write_verified B V_FLOAT_CTRL (encode_vbat_float (cfg_vbat_float_uv cfg)) ''vbat_float'',
     update B GLITCH_CTRL 0x0C (push_bit 2 (encode_vac_ovp (cfg_vac_ovp_uv cfg))) ''vac_ovp'',
     (case encode_iin_limit (cfg_iin_limit_ua cfg) of
        Inl e \<Rightarrow> raise e | Inr code \<Rightarrow> update B IIN_CTRL 0x7F code ''iin_limit''),
     write_verified B NTC_CTRL (fst (encode_ntc_alarm (cfg_ntc_alarm_cfg cfg))) ''ntc_alarm_low'',
     update B ADC_CTRL 0x03 (snd (encode_ntc_alarm (cfg_ntc_alarm_cfg cfg))) ''ntc_alarm_high'',
     update B REGULATION_CTRL 0x0C (push_bit 2 NTC_SHUTDOWN_CFG) ''ntc_shutdown_cfg'',
     update B RECOVERY_CTRL (0xF0 OR 0x03)
       ((if cfg_auto_recovery cfg then 0xF0 else 0x00) OR
        (push_bit 1 (u8_of_bool (\<not> cfg_tbus_mon_disabled cfg)) OR u8_of_bool (\<not> cfg_tbat_mon_disabled cfg)))
       ''recovery_and_monitors'',
     configure_protections B,
     set_op_mode B Standby,
     update B FAULT_CTRL 0x10 0 ''enable_vac_ov'',
     update B TIMER_CTRL 0x80 (if cfg_watchdog_enabled cfg then 0x80 else 0) ''watchdog_enable'',
     update B TIMER_CTRL 0x60 (push_bit 5 (watchdog_code (cfg_watchdog_period cfg))) ''watchdog_period'',
     update B ADC_CTRL 0xE0 (push_bit 5 (adc_mode_code AdcShutdown)) ''adc_off_before_config'',
     update B ADC_CTRL 0x18 (push_bit 3 (hibernate_code DelaySec4)) ''adc_hibernate_delay'',
     write_verified B ADC_CFG 0x3E ''adc_channels'',
     update B ADC_CTRL 0xE0 (push_bit 5 (adc_mode_code AdcAutoHibernate)) ''adc_auto'',
     update B CHARGE_CTRL 0x80 0x80 ''sw_init_marker'',
     write_verified B THRESHOLD_CTRL THRESHOLD_CTRL_DEFAULT ''thresholds'',
     modify (\<lambda>p. p\<lparr>p_state := Configured\<rparr>)]"

definition configure :: "'b reg_bus \<Rightarrow> ('b, unit) pump_op" where
  "configure B = unless_closed (and_then get_state (\<lambda>p. block (configure_writes B (p_config p))))"

section \<open>Limits, latches and resets\<close>

definition write_iin_limit :: "'b reg_bus \<Rightarrow> u32 \<Rightarrow> string \<Rightarrow> ('b, u8) pump_op" where
  "write_iin_limit B iin field =
     (case encode_iin_limit iin of
        Inl e \<Rightarrow> raise e
      | Inr code \<Rightarrow> and_then (update B IIN_CTRL 0x7F code field) (\<lambda>_. ret code))"

definition set_iin_limit :: "'b reg_bus \<Rightarrow> u32 \<Rightarrow> ('b, u8) pump_op" where
  "set_iin_limit B iin =
     and_then (write_iin_limit B iin ''iin_limit'') (\<lambda>code.
     and_then (modify (\<lambda>p. p\<lparr>p_config := (p_config p)\<lparr>cfg_iin_limit_ua := iin\<rparr>\<rparr>)) (\<lambda>_. ret code))"

definition set_vbat_float :: "'b reg_bus \<Rightarrow> u32 \<Rightarrow> ('b, u8) pump_op" where
  "set_vbat_float B vbat =
     (let code = encode_vbat_float vbat in
      and_then (write_verified B V_FLOAT_CTRL code ''vbat_float'') (\<lambda>_.
      and_then (modify (\<lambda>p. p\<lparr>p_config := (p_config p)\<lparr>cfg_vbat_float_uv := vbat\<rparr>\<rparr>)) (\<lambda>_. ret code)))"

definition read_register :: "'b reg_bus \<Rightarrow> u8 \<Rightarrow> ('b, u8) pump_op" where
  "read_register B addr = unless_closed (pump_read B addr)"

definition write_register :: "'b reg_bus \<Rightarrow> u8 \<Rightarrow> u8 \<Rightarrow> ('b, unit) pump_op" where
  "write_register B addr v = unless_closed (
     if addr = BC_OP_2 \<and> v AND 0x01 \<noteq> 0 then pump_write B addr v
     else write_verified B addr v ''diagnostic'')"

definition applied_iin_ua :: "'b reg_bus \<Rightarrow> ('b, u32 option) pump_op" where
  "applied_iin_ua B = and_then (outcome (read_register B IIN_CTRL)) (\<lambda>r.
     ret (case r of Inl _ \<Rightarrow> None | Inr raw \<Rightarrow> Some (decode_iin_limit raw)))"

definition clear_latched_faults :: "'b reg_bus \<Rightarrow> ('b, unit) pump_op" where
  "clear_latched_faults B =
     and_then (update B TIMER_CTRL TIMER_CTRL_CLEAR_LATCH TIMER_CTRL_CLEAR_LATCH ''latch_clear_set'') (\<lambda>_.
     update B TIMER_CTRL TIMER_CTRL_CLEAR_LATCH 0 ''latch_clear_clr'')"

definition pump_standby :: "'b reg_bus \<Rightarrow> ('b, unit) pump_op" where
  "pump_standby B = set_op_mode B Standby"

definition service_watchdog :: "'b reg_bus \<Rightarrow> ('b, unit) pump_op" where
  "service_watchdog B = and_then get_state (\<lambda>p.
     if \<not> cfg_watchdog_enabled (p_config p) then ret ()
     else update B TIMER_CTRL 0x80 0x80 ''watchdog_service'')"

definition soft_reset :: "'b reg_bus \<Rightarrow> ('b, unit) pump_op" where
  "soft_reset B =
     and_then (pump_write B LION_CTRL LION_CTRL_UNLOCK) (\<lambda>_.
     and_then (value_or (pump_read B BC_OP_2) 0) (\<lambda>current.
     and_then (pump_write B BC_OP_2 (current OR 0x01)) (\<lambda>_.
     modify (\<lambda>p. p\<lparr>p_state := Probed, p_op_mode := Unknown\<rparr>))))"

definition pump_close :: "'b reg_bus \<Rightarrow> ('b, unit) pump_op" where
  "pump_close B = and_then get_state (\<lambda>p.
     if p_state p = Closed then ret ()
     else and_then (ignore (update B SYS_CTRL sys_ctrl_mask SYS_CTRL_STANDBY_EN ''close_standby'')) (\<lambda>_.
       modify (\<lambda>p. p\<lparr>p_state := Closed, p_op_mode := Standby\<rparr>)))"

section \<open>Charge modes\<close>

definition enable_switching :: "'b reg_bus \<Rightarrow> ('b, op_mode) pump_op" where
  "enable_switching B =
     and_then (set_op_mode B Switching) (\<lambda>_.
     and_then (settle_and_read_status B) (\<lambda>status.
       if st_op_mode status \<noteq> Switching
       then raise (ModeNotReached (op_mode_code Switching) (st_sys_sts status))
       else and_then (modify (\<lambda>p. p\<lparr>p_state := PumpSwitching\<rparr>)) (\<lambda>_. ret (st_op_mode status))))"

definition enable_bypass :: "'b reg_bus \<Rightarrow> ('b, op_mode) pump_op" where
  "enable_bypass B =
     and_then (read_adc B Vin) (\<lambda>vin.
     and_then (adc_or_zero B Vbat) (\<lambda>vbat.
       if \<not> bypass_allowed_by_vin vin vbat then raise (BypassNeedsFiveVoltVin vin)
       else
         and_then (set_op_mode B Bypass) (\<lambda>_.
         and_then (settle_and_read_status B) (\<lambda>status.
           if st_op_mode status \<noteq> Bypass
           then raise (ModeNotReached (op_mode_code Bypass) (st_sys_sts status))
           else and_then (modify (\<lambda>p. p\<lparr>p_state := Configured\<rparr>)) (\<lambda>_. ret (st_op_mode status))))))"

definition enable_switching_or_bypass :: "'b reg_bus \<Rightarrow> ('b, op_mode) pump_op" where
  "enable_switching_or_bypass B =
     and_then (outcome (enable_switching B)) (\<lambda>r. case r of
       Inr mode \<Rightarrow> ret mode
     | Inl switching_error \<Rightarrow>
         and_then (outcome (enable_bypass B)) (\<lambda>r. case r of
           Inr mode \<Rightarrow> ret mode
         | Inl _ \<Rightarrow> raise switching_error))"

definition taper_setpoint_ua :: "pump_config \<Rightarrow> u32 \<Rightarrow> u32 \<Rightarrow> bool \<Rightarrow> u32 option" where
  "taper_setpoint_ua cfg vbat vin ov_latched =
    (if \<not> vbat_near_float_with_vin vbat (cfg_vbat_float_uv cfg) ov_latched vin then None
     else Some (min (cfg_iin_limit_ua cfg) VBAT_TAPER_IIN_UA))"

definition prepare_near_float_for_charge :: "'b reg_bus \<Rightarrow> bool \<Rightarrow> ('b, unit) pump_op" where
  "prepare_near_float_for_charge B allow_float_raise =
     and_then (adc_or_zero B Vbat) (\<lambda>vbat.
     and_then (adc_or_zero B Vin) (\<lambda>vin.
     and_then (value_or (pump_read B FAULT1_STS) 0) (\<lambda>fault1.
     and_then get_state (\<lambda>p.
       let cfg = p_config p; ov_latched = bit_set fault1 FAULT1_VBAT_OV; float_uv = cfg_vbat_float_uv cfg in
       case taper_setpoint_ua cfg vbat vin ov_latched of
         None \<Rightarrow> ret ()
       | Some tapered \<Rightarrow>
          let at_ceiling = ov_latched \<or> sat_add_u32 vbat 50000 \<ge> float_uv;
              want_float = soft_float_for_vbat float_uv vbat in
          and_then (when_op (at_ceiling \<and> allow_float_raise) (block [
            when_op (want_float > float_uv)
              (ignore (write_verified B V_FLOAT_CTRL (encode_vbat_float want_float) ''vbat_float_soft'')),
            ignore (update B FAULT_CTRL FAULT_CTRL_DISABLE_VBAT_OV FAULT_CTRL_DISABLE_VBAT_OV
              ''disable_vbat_ov_near_float''),
            ignore (clear_latched_faults B)])) (\<lambda>_.
          when_op (tapered < cfg_iin_limit_ua cfg)
            (ignore (write_iin_limit B tapered ''iin_taper_near_float'')))))))"

definition arm_5v_bypass_fault_mask :: "'b reg_bus \<Rightarrow> ('b, unit) pump_op" where
  "arm_5v_bypass_fault_mask B =
     and_then (update B FAULT_CTRL FAULT_CTRL_MASK_5V_BYPASS FAULT_CTRL_MASK_5V_BYPASS
       ''mask_5v_bypass_faults'') (\<lambda>_. clear_latched_faults B)"

definition abs_diff :: "u32 \<Rightarrow> u32 \<Rightarrow> u32" where
  "abs_diff a b = (if a \<le> b then b - a else a - b)"

text \<open>
  The three-stage recovery of the 5 V bypass: the budget check that may refuse at once, the reset
  with reconfiguration, and the masked last resort. \<open>delay\<close> is what the caller's delay closure does
  to the bus and the chip.
\<close>

definition por_budget_spent :: "'b reg_bus \<Rightarrow> u32 \<Rightarrow> ('b, bool) pump_op" where
  "por_budget_spent B vin_now = and_then get_state (\<lambda>p.
     case p_por_vin_uv p of
       None \<Rightarrow> ret False
     | Some prev \<Rightarrow>
         and_then (value_or (pump_read B FAULT1_STS) 0) (\<lambda>fault1.
           ret (abs_diff vin_now prev \<le> POR_VIN_TOLERANCE_UV \<and> fault1 AND FAULT1_VFAULTS_MASK = 0)))"

definition bypass_stage_three :: "'b reg_bus \<Rightarrow> ('b, op_mode) pump_op" where
  "bypass_stage_three B =
     and_then (modify (\<lambda>p. p\<lparr>p_bypass_stage := 3\<rparr>)) (\<lambda>_.
     and_then (ignore (arm_5v_bypass_fault_mask B)) (\<lambda>_.
     and_then (set_op_mode B Bypass) (\<lambda>_.
     and_then (settle_and_read_status B) (\<lambda>status.
       if st_op_mode status = Bypass
       then and_then (modify (\<lambda>p. p\<lparr>p_state := Configured\<rparr>)) (\<lambda>_. ret (st_op_mode status))
       else and_then (ignore (update B FAULT_CTRL FAULT_CTRL_MASK_5V_BYPASS 0
              ''unmask_after_failed_bypass'')) (\<lambda>_.
            raise (ModeNotReached (op_mode_code Bypass) (st_sys_sts status)))))))"

definition recover_5v_bypass :: "'b reg_bus \<Rightarrow> ('b \<Rightarrow> 'b) \<Rightarrow> ('b, op_mode) pump_op" where
  "recover_5v_bypass B delay =
     and_then (adc_or_zero B Vin) (\<lambda>vin_now.
     and_then (por_budget_spent B vin_now) (\<lambda>spent.
       if spent
       then and_then (value_or (pump_read B SYS_STS) 0) (\<lambda>raw.
              raise (ModeNotReached (op_mode_code Bypass) raw))
       else
         and_then (modify (\<lambda>p. p\<lparr>p_por_vin_uv := Some vin_now\<rparr>)) (\<lambda>_.
         and_then (ignore (soft_reset B)) (\<lambda>_.
         and_then (modify (\<lambda>p. p\<lparr>p_bypass_stage := 2\<rparr>)) (\<lambda>_.
         and_then (modify (\<lambda>p. p\<lparr>p_bus := delay (p_bus p)\<rparr>)) (\<lambda>_.
         and_then (ignore (configure B)) (\<lambda>_.
         and_then (value_or (read_adc B Vin) 0) (\<lambda>vin.
         and_then (adc_or_zero B Vbat) (\<lambda>vbat.
           if charge_mode vin vbat \<noteq> Some Bypass
           then raise (ModeNotReached (op_mode_code Bypass) 0)
           else
             and_then (set_op_mode B Bypass) (\<lambda>_.
             and_then (settle_and_read_status B) (\<lambda>status.
               if st_op_mode status = Bypass
               then and_then (modify (\<lambda>p. p\<lparr>p_state := Configured\<rparr>)) (\<lambda>_.
                    and_then (prepare_near_float_for_charge B False) (\<lambda>_. ret (st_op_mode status)))
               else bypass_stage_three B)))))))))))"

text \<open>
  \<open>set_charging\<close> in its parts: the request of the mode \<open>want\<close>, switching off, and switching on (choice of
  the mode, preparation, request, conclusion).
\<close>

definition request_mode :: "'b reg_bus \<Rightarrow> ('b \<Rightarrow> 'b) \<Rightarrow> op_mode \<Rightarrow> ('b, op_mode) pump_op" where
  "request_mode B delay want =
     (case want of
        Switching \<Rightarrow> enable_switching B
      | Bypass \<Rightarrow>
          and_then (modify (\<lambda>p. p\<lparr>p_bypass_stage := 1\<rparr>)) (\<lambda>_.
            or_else (enable_bypass B) (\<lambda>_. recover_5v_bypass B delay))
      | _ \<Rightarrow> raise (ModeNotReached (op_mode_code want) 0))"

definition charge_off :: "'b reg_bus \<Rightarrow> ('b, op_mode) pump_op" where
  "charge_off B =
     and_then (modify (\<lambda>p. p\<lparr>p_por_vin_uv := None\<rparr>)) (\<lambda>_.
     and_then (set_op_mode B Standby) (\<lambda>_.
     and_then (settle_and_read_status B) (\<lambda>status.
     and_then (modify (\<lambda>p. p\<lparr>p_op_mode := st_op_mode status, p_state := Configured\<rparr>)) (\<lambda>_.
       ret (st_op_mode status)))))"

definition prepare_mode :: "'b reg_bus \<Rightarrow> op_mode \<Rightarrow> ('b, unit) pump_op" where
  "prepare_mode B want = when_op (want \<noteq> Bypass) (block [
     prepare_near_float_for_charge B True,
     ignore (clear_latched_faults B),
     when_op (want = Switching)
       (ignore (update B FAULT_CTRL FAULT_CTRL_DISABLE_VIN_OV FAULT_CTRL_DISABLE_VIN_OV
         ''disable_vin_ov_qc''))])"

definition conclude_charge :: "'b reg_bus \<Rightarrow> op_mode \<Rightarrow> pump_error + op_mode \<Rightarrow> ('b, op_mode) pump_op" where
  "conclude_charge B want result = (case result of
     Inr mode \<Rightarrow>
       and_then (modify (\<lambda>p. p\<lparr>p_op_mode := mode,
         p_state := (case mode of Switching \<Rightarrow> PumpSwitching | _ \<Rightarrow> Configured)\<rparr>)) (\<lambda>_.
       and_then (when_op (mode = Bypass) (prepare_near_float_for_charge B False)) (\<lambda>_. ret mode))
   | Inl err \<Rightarrow>
       and_then (when_op (want \<noteq> Bypass) (ignore (set_op_mode B Standby))) (\<lambda>_. raise err))"

definition charge_in_mode :: "'b reg_bus \<Rightarrow> ('b \<Rightarrow> 'b) \<Rightarrow> op_mode \<Rightarrow> ('b, op_mode) pump_op" where
  "charge_in_mode B delay want =
     and_then get_state (\<lambda>p.
     and_then (when_op (\<not> cfg_watchdog_enabled (p_config p))
       (ignore (update B TIMER_CTRL 0x80 0 ''watchdog_force_off''))) (\<lambda>_.
     and_then (modify (\<lambda>p. p\<lparr>p_bypass_stage := 0\<rparr>)) (\<lambda>_.
     and_then (prepare_mode B want) (\<lambda>_.
     and_then (outcome (request_mode B delay want)) (conclude_charge B want)))))"

definition charge_on :: "'b reg_bus \<Rightarrow> ('b \<Rightarrow> 'b) \<Rightarrow> ('b, op_mode) pump_op" where
  "charge_on B delay =
     and_then (value_or (read_adc B Vin) 0) (\<lambda>vin.
     and_then (adc_or_zero B Vbat) (\<lambda>vbat.
       case charge_mode vin vbat of
         None \<Rightarrow>
           and_then (ignore (set_op_mode B Standby)) (\<lambda>_.
             raise (ModeNotReached (op_mode_code Standby) 0))
       | Some want \<Rightarrow> charge_in_mode B delay want))"

definition set_charging :: "'b reg_bus \<Rightarrow> ('b \<Rightarrow> 'b) \<Rightarrow> bool \<Rightarrow> ('b, op_mode) pump_op" where
  "set_charging B delay on =
     and_then (update B SYS_CTRL 0x04 0 ''disable_reverse_current'') (\<lambda>_.
       if \<not> on then charge_off B else charge_on B delay)"

end
