(* ===== verification/Pump_Returns.thy ===== *)
theory Pump_Returns
  imports Pump
begin

text \<open>
  When the pump driver returns, whatever the bus does: the retry loops end if the retry limit is
  below the maximum of their counter, and then every method returns; at the maximum they do not.
\<close>

section \<open>The retry loops\<close>

definition patient :: "'b pump \<Rightarrow> bool" where
  "patient p \<longleftrightarrow> cfg_max_bus_retries (p_config p) < u8_max"

lemma patient_fields [simp]:
  "patient (p\<lparr>p_bus := b\<rparr>) = patient p" "patient (p\<lparr>p_state := s\<rparr>) = patient p"
  "patient (p\<lparr>p_op_mode := m\<rparr>) = patient p" "patient (p\<lparr>p_bypass_stage := g\<rparr>) = patient p"
  "patient (p\<lparr>p_por_vin_uv := v\<rparr>) = patient p" "patient (p\<lparr>p_reads := n\<rparr>) = patient p"
  "patient (p\<lparr>p_writes := n\<rparr>) = patient p"
  "patient (p\<lparr>p_config := (p_config p)\<lparr>cfg_iin_limit_ua := i\<rparr>\<rparr>) = patient p"
  "patient (p\<lparr>p_config := (p_config p)\<lparr>cfg_vbat_float_uv := i\<rparr>\<rparr>) = patient p"
  by (simp_all add: patient_def)

lemma retry_returns:
  assumes "patient p" "\<And>p. patient (count p) = patient p"
  shows "\<exists>r t. retry B call count attempt p = Some (r, t) \<and> patient t"
  using assms(1)
proof (induction "u8_max - attempt" arbitrary: attempt p rule: less_induct)
  case less
  obtain r b where c: "call (p_bus p) = (r, b)" by fastforce
  show ?case
  proof (cases r)
    case (Inr v)
    then show ?thesis
      using less.prems assms(2) by (subst retry.simps) (simp add: c)
  next
    case (Inl err)
    show ?thesis
    proof (cases "\<not> bus_recoverable err \<or> sat_add_u8 attempt 1 > cfg_max_bus_retries (p_config p)")
      case True
      with Inl less.prems show ?thesis by (subst retry.simps) (simp add: c)
    next
      case False
      with less.prems have "u8_max - sat_add_u8 attempt 1 < u8_max - attempt"
        by (auto simp: patient_def sat_add_u8_def min_def split: if_splits)
      from less.hyps [OF this, of "p\<lparr>p_bus := snd (rb_reset B b)\<rparr>"] less.prems False Inl show ?thesis
        by (subst retry.simps) (simp add: c)
    qed
  qed
qed

lemma retry_keeps [keeps_intros]:
  "(\<And>p. patient (count p) = patient p) \<Longrightarrow> keeps patient (retry B call count attempt)"
  by (rule keepsI) (rule retry_returns)

text \<open>Induction over the attempts of a loop that returned.\<close>

lemma retry_induct [consumes 1, case_names success failure again]:
  assumes "retry B call count attempt p = Some y"
    and success: "\<And>p b v. call (p_bus p) = (Inr v, b) \<Longrightarrow> P p (Inr v, count (p\<lparr>p_bus := b\<rparr>))"
    and failure: "\<And>p b e. call (p_bus p) = (Inl e, b) \<Longrightarrow>
      \<not> bus_recoverable e \<or> cfg_max_bus_retries (p_config p) < u8_max \<Longrightarrow>
      P p (Inl (BusErr e), p\<lparr>p_bus := b, p_state := Faulted\<rparr>)"
    and again: "\<And>p b e y. call (p_bus p) = (Inl e, b) \<Longrightarrow> bus_recoverable e \<Longrightarrow>
      P (p\<lparr>p_bus := snd (rb_reset B b)\<rparr>) y \<Longrightarrow> P p y"
  shows "P p y"
proof -
  define Q where "Q B' call' count' p y \<longleftrightarrow> (B' = B \<longrightarrow> call' = call \<longrightarrow> count' = count \<longrightarrow> P p y)"
    for B' call' count' p y
  have "Q B call count p y"
  proof (rule retry.raw_induct [where P = "\<lambda>B call count attempt p y. Q B call count p y", OF _ assms(1)])
    fix f B' call' count' n p y
    assume IH: "\<And>B call count attempt p y. f B call count attempt p = Some y \<Longrightarrow> Q B call count p y"
      and run: "(case call' (p_bus p) of (r, b) \<Rightarrow> case r of Inl err \<Rightarrow>
          if \<not> bus_recoverable err \<or> cfg_max_bus_retries (p_config p) < sat_add_u8 n 1
          then Some (Inl (BusErr err), p\<lparr>p_bus := b, p_state := Faulted\<rparr>)
          else f B' call' count' (sat_add_u8 n 1) (p\<lparr>p_bus := snd (rb_reset B' b)\<rparr>)
          | Inr v \<Rightarrow> Some (Inr v, count' (p\<lparr>p_bus := b\<rparr>))) = Some y"
    obtain r b where c: "call' (p_bus p) = (r, b)" by fastforce
    have le: "sat_add_u8 n 1 \<le> u8_max" by (simp add: sat_add_u8_def)
    show "Q B' call' count' p y"
    proof (cases r)
      case (Inr v)
      with run c success show ?thesis by (auto simp: Q_def)
    next
      case (Inl e)
      show ?thesis
      proof (cases "\<not> bus_recoverable e \<or> cfg_max_bus_retries (p_config p) < sat_add_u8 n 1")
        case True
        with le have "\<not> bus_recoverable e \<or> cfg_max_bus_retries (p_config p) < u8_max" by linarith
        with True run c Inl failure show ?thesis by (auto simp: Q_def)
      next
        case False
        with run c Inl have "f B' call' count' (sat_add_u8 n 1) (p\<lparr>p_bus := snd (rb_reset B' b)\<rparr>) = Some y"
          by auto
        from IH [OF this] False c Inl again [of p e b y] show ?thesis unfolding Q_def by blast
      qed
    qed
  qed
  then show ?thesis by (simp add: Q_def)
qed

text \<open>What an access leaves behind: an error means a faulted session, and the settings never change.\<close>

lemma retry_result:
  assumes "retry B call count attempt p = Some (r, t)"
    and count: "\<And>p. p_config (count p) = p_config p \<and> p_state (count p) = p_state p"
  shows "p_config t = p_config p \<and>
    (case r of Inl e \<Rightarrow> p_state t = Faulted \<and> (\<exists>b. e = BusErr b) | Inr _ \<Rightarrow> p_state t = p_state p)"
proof -
  have "p_config (snd (r, t)) = p_config p \<and> (case fst (r, t) of
      Inl e \<Rightarrow> p_state (snd (r, t)) = Faulted \<and> (\<exists>b. e = BusErr b) | Inr _ \<Rightarrow> p_state (snd (r, t)) = p_state p)"
    using assms(1)
  proof (induction rule: retry_induct)
    case (success p b v)
    show ?case using count [of "p\<lparr>p_bus := b\<rparr>"] by simp
  next
    case (again p b e y)
    then show ?case by (auto split: sum.splits)
  qed simp
  then show ?thesis by (simp split: sum.splits)
qed

lemma retry_endless:
  assumes call: "\<And>b. \<exists>e b'. call b = (Inl e, b') \<and> bus_recoverable e"
    and "cfg_max_bus_retries (p_config p) = u8_max"
  shows "retry B call count attempt p = None"
proof -
  have "cfg_max_bus_retries (p_config p) \<noteq> u8_max" if "retry B call count attempt p = Some y" for y
    using that
  proof (induction rule: retry_induct)
    case (success p b v)
    then show ?case using call [of "p_bus p"] by auto
  next
    case (failure p b e)
    then show ?case using call [of "p_bus p"] by auto
  next
    case (again p b e y)
    then show ?case by simp
  qed
  with assms(2) show ?thesis by (cases "retry B call count attempt p") auto
qed

text \<open>
  C37. The retry limit is a trap at its maximum: with the limit at 255 the attempt counter, which
  saturates at 255, never exceeds it, so a read, a paired read or a write on a bus that keeps failing
  with a recoverable error does not return at all.
\<close>

lemma access_endless_at_255:
  assumes "cfg_max_bus_retries (p_config p) = 255"
    and "\<And>b. \<exists>e b'. rb_read B a b = (Inl e, b') \<and> bus_recoverable e"
    and "\<And>b. \<exists>e b'. rb_read_pair B a b = (Inl e, b') \<and> bus_recoverable e"
    and "\<And>b. \<exists>e b'. rb_write B a v b = (Inl e, b') \<and> bus_recoverable e"
  shows "pump_read B a p = None \<and> pump_read_pair B a p = None \<and> pump_write B a v p = None"
  unfolding pump_read_def pump_read_pair_def pump_write_def
  by (intro conjI; rule retry_endless) (use assms in \<open>simp_all add: u8_max_def\<close>)

definition dead_bus :: "unit reg_bus" where
  "dead_bus = (let fail = (\<lambda>b. (Inl (bus_error_new BkTimeout 0 ''no answer''), b))
     in \<lparr>rb_read = \<lambda>_. fail, rb_write = \<lambda>_ _ b. (Inl (bus_error_new BkTimeout 0 ''no answer''), b),
         rb_reset = \<lambda>b. (Inr (), b), rb_read_pair = \<lambda>_ b. (Inl (bus_error_new BkTimeout 0 ''no answer''), b)\<rparr>)"

lemma access_endless_at_255_witness:
  "pump_read dead_bus DEVICE_ID \<lparr>p_bus = (), p_config = config_default\<lparr>cfg_max_bus_retries := 255\<rparr>,
     p_state = Probed, p_op_mode = Unknown, p_bypass_stage = 0, p_por_vin_uv = None, p_writes = 0,
     p_reads = 1\<rparr> = None"
  by (rule access_endless_at_255 [where v = 0, THEN conjunct1])
     (simp_all add: dead_bus_def bus_error_new_def bus_recoverable_def Let_def)

section \<open>Every method returns\<close>

lemma access_keeps [keeps_intros]:
  "keeps patient (pump_read B a)" "keeps patient (pump_read_pair B a)" "keeps patient (pump_write B a v)"
  by (auto simp: pump_read_def pump_read_pair_def pump_write_def intro!: retry_keeps)

lemma fault_keeps [keeps_intros]: "keeps patient (fault_out_of_range f v)"
  by (auto simp: fault_out_of_range_def intro!: keeps_intros)

lemma verified_keeps [keeps_intros]:
  "keeps patient (write_verified B a v f)" "keeps patient (update B a m v f)"
  by (auto simp: write_verified_def update_def Let_def intro!: keeps_intros)

lemma unless_closed_keeps [keeps_intros]: "keeps patient m \<Longrightarrow> keeps patient (unless_closed m)"
  by (auto simp: unless_closed_def intro!: keeps_intros)

lemma set_op_mode_keeps [keeps_intros]: "keeps patient (set_op_mode B m)"
  by (auto simp: set_op_mode_def intro!: keeps_intros split: sum.split)

lemma status_keeps [keeps_intros]: "keeps patient (pump_status B)"
  by (auto simp: pump_status_def intro!: keeps_intros)

lemma settle_keeps [keeps_intros]: "keeps patient (settle B n s)"
  by (induction n arbitrary: s) (auto intro!: keeps_intros)

lemma settled_keeps [keeps_intros]: "keeps patient (settle_and_read_status B)"
  by (auto simp: settle_and_read_status_def intro!: keeps_intros)

lemma read_adc_keeps [keeps_intros]: "keeps patient (read_adc B ch)"
  by (auto simp: read_adc_def intro!: keeps_intros split: sum.split)

lemma adc_or_zero_keeps [keeps_intros]: "keeps patient (adc_or_zero B ch)"
  by (auto simp: adc_or_zero_def intro!: keeps_intros)

lemma configure_protections_keeps [keeps_intros]: "keeps patient (configure_protections B)"
  by (auto simp: configure_protections_def protection_writes_def intro!: keeps_intros)

lemma configure_keeps [keeps_intros]: "keeps patient (configure B)"
  by (auto simp: configure_def configure_writes_def intro!: keeps_intros split: sum.split)

lemma limit_keeps [keeps_intros]:
  "keeps patient (write_iin_limit B i f)" "keeps patient (set_iin_limit B i)" "keeps patient (set_vbat_float B v)"
  by (auto simp: write_iin_limit_def set_iin_limit_def set_vbat_float_def Let_def
      intro!: keeps_intros split: sum.split)

lemma register_keeps [keeps_intros]:
  "keeps patient (read_register B a)" "keeps patient (write_register B a v)" "keeps patient (applied_iin_ua B)"
  by (auto simp: read_register_def write_register_def applied_iin_ua_def intro!: keeps_intros)

lemma latch_keeps [keeps_intros]:
  "keeps patient (clear_latched_faults B)" "keeps patient (service_watchdog B)" "keeps patient (soft_reset B)"
  "keeps patient (pump_close B)" "keeps patient (set_adc_mode B am)" "keeps patient (arm_5v_bypass_fault_mask B)"
  by (auto simp: clear_latched_faults_def service_watchdog_def soft_reset_def pump_close_def set_adc_mode_def
      arm_5v_bypass_fault_mask_def intro!: keeps_intros)

lemma enable_keeps [keeps_intros]:
  "keeps patient (enable_switching B)" "keeps patient (enable_bypass B)"
  by (auto simp: enable_switching_def enable_bypass_def intro!: keeps_intros)

lemma prepare_keeps [keeps_intros]: "keeps patient (prepare_near_float_for_charge B al)"
  by (auto simp: prepare_near_float_for_charge_def Let_def intro!: keeps_intros split: option.split)

lemma recover_keeps [keeps_intros]:
  "keeps patient (por_budget_spent B v)" "keeps patient (bypass_stage_three B)"
  "keeps patient (recover_5v_bypass B delay)"
proof -
  show *: "keeps patient (por_budget_spent B v)" "keeps patient (bypass_stage_three B)" for v
    by (auto simp: por_budget_spent_def bypass_stage_three_def intro!: keeps_intros split: option.split)
  show "keeps patient (recover_5v_bypass B delay)"
    unfolding recover_5v_bypass_def by (auto intro!: keeps_intros *)
qed

lemma request_keeps [keeps_intros]: "keeps patient (request_mode B delay m)"
  unfolding request_mode_def by (cases m) (auto intro!: keeps_intros)

lemma charge_keeps [keeps_intros]:
  "keeps patient (charge_off B)" "keeps patient (charge_on B delay)" "keeps patient (set_charging B delay on)"
proof -
  show *: "keeps patient (charge_off B)" "keeps patient (charge_on B delay)"
    unfolding charge_off_def charge_on_def charge_in_mode_def prepare_mode_def conclude_charge_def by (auto intro!: keeps_intros split: option.split sum.split)
  show "keeps patient (set_charging B delay on)"
    unfolding set_charging_def by (auto intro!: keeps_intros *)
qed

lemma fallback_keeps [keeps_intros]:
  "keeps patient (enable_switching_or_bypass B)" "keeps patient (pump_standby B)"
  by (auto simp: enable_switching_or_bypass_def pump_standby_def intro!: keeps_intros split: sum.split)

lemmas method_keeps = configure_keeps charge_keeps enable_keeps fallback_keeps status_keeps read_adc_keeps
  limit_keeps register_keeps latch_keeps

lemma keeps_returns: "keeps P m \<Longrightarrow> P s \<Longrightarrow> \<exists>r t. m s = Some (r, t)"
  by (auto dest: keepsD)

text \<open>
  Every method of the pump driver returns, with a value or an error, on every bus whatsoever, as
  long as the retry limit is below 255; the registry can only set limits up to 8.
\<close>

lemma pump_methods_return:
  assumes "cfg_max_bus_retries (p_config p) < 255"
  shows "(\<exists>r t. configure B p = Some (r, t)) \<and>
    (\<exists>r t. set_charging B delay on p = Some (r, t)) \<and>
    (\<exists>r t. enable_switching B p = Some (r, t)) \<and> (\<exists>r t. enable_bypass B p = Some (r, t)) \<and>
    (\<exists>r t. enable_switching_or_bypass B p = Some (r, t)) \<and>
    (\<exists>r t. pump_status B p = Some (r, t)) \<and> (\<exists>r t. read_adc B ch p = Some (r, t)) \<and>
    (\<exists>r t. set_adc_mode B am p = Some (r, t)) \<and> (\<exists>r t. set_iin_limit B i p = Some (r, t)) \<and>
    (\<exists>r t. set_vbat_float B v p = Some (r, t)) \<and> (\<exists>r t. applied_iin_ua B p = Some (r, t)) \<and>
    (\<exists>r t. read_register B a p = Some (r, t)) \<and> (\<exists>r t. write_register B a w p = Some (r, t)) \<and>
    (\<exists>r t. clear_latched_faults B p = Some (r, t)) \<and> (\<exists>r t. service_watchdog B p = Some (r, t)) \<and>
    (\<exists>r t. soft_reset B p = Some (r, t)) \<and> (\<exists>r t. pump_standby B p = Some (r, t)) \<and>
    (\<exists>r t. pump_close B p = Some (r, t))"
proof -
  have P: "patient p" using assms by (simp add: patient_def u8_max_def)
  show ?thesis
    by (intro conjI) (rule keeps_returns, rule method_keeps, rule P)+
qed

lemma pump_methods_return_witness:
  "\<exists>r t. configure dead_bus \<lparr>p_bus = (), p_config = config_default, p_state = Probed, p_op_mode = Unknown,
     p_bypass_stage = 0, p_por_vin_uv = None, p_writes = 0, p_reads = 1\<rparr> = Some (r, t)"
  by (rule pump_methods_return [THEN conjunct1]) (simp add: config_default_def)

text \<open>
  A bus failure is never silent: when a read, a paired read or a write gives up, the error handed to
  the caller is the bus error and the session is marked faulted; when it succeeds the session state is
  untouched. The settings never change in either case.
\<close>

lemma access_failure_faults:
  "(\<forall>r t. pump_read B a p = Some (r, t) \<longrightarrow> p_config t = p_config p \<and>
      (case r of Inl e \<Rightarrow> p_state t = Faulted \<and> (\<exists>b. e = BusErr b) | Inr _ \<Rightarrow> p_state t = p_state p)) \<and>
   (\<forall>r t. pump_read_pair B a p = Some (r, t) \<longrightarrow> p_config t = p_config p \<and>
      (case r of Inl e \<Rightarrow> p_state t = Faulted \<and> (\<exists>b. e = BusErr b) | Inr _ \<Rightarrow> p_state t = p_state p)) \<and>
   (\<forall>r t. pump_write B a v p = Some (r, t) \<longrightarrow> p_config t = p_config p \<and>
      (case r of Inl e \<Rightarrow> p_state t = Faulted \<and> (\<exists>b. e = BusErr b) | Inr _ \<Rightarrow> p_state t = p_state p))"
  unfolding pump_read_def pump_read_pair_def pump_write_def
  by (intro conjI allI impI; drule retry_result; simp)

text \<open>A closed session on the dead bus, without retries.\<close>

definition dead_pump :: "unit pump" where
  "dead_pump = \<lparr>p_bus = (), p_config = config_default\<lparr>cfg_max_bus_retries := 0\<rparr>, p_state = Closed,
     p_op_mode = Standby, p_bypass_stage = 0, p_por_vin_uv = None, p_writes = 0, p_reads = 1\<rparr>"

lemma dead_pump_read:
  "pump_read dead_bus a dead_pump =
     Some (Inl (BusErr (bus_error_new BkTimeout 0 ''no answer'')), dead_pump\<lparr>p_state := Faulted\<rparr>)"
  unfolding pump_read_def
  by (subst retry.simps) (simp add: dead_bus_def dead_pump_def sat_add_u8_def u8_max_def Let_def)

lemma access_failure_faults_witness:
  "\<exists>e t. pump_read dead_bus 3 dead_pump = Some (Inl e, t) \<and> p_state t = Faulted"
  using access_failure_faults [of dead_bus 3 dead_pump 0] dead_pump_read [of 3] by simp

section \<open>Which errors a method can report\<close>

definition raises :: "('e \<Rightarrow> bool) \<Rightarrow> ('s, 'e, 'a) op \<Rightarrow> bool" where
  "raises E m \<longleftrightarrow> (\<forall>s e t. m s = Some (Inl e, t) \<longrightarrow> E e)"

lemma raises_simps [simp]: "raises E (ret x)" "raises E get_state" "raises E (modify f)" "raises E (raise e) \<longleftrightarrow> E e"
  by (simp_all add: raises_def)

lemma raises_and_then: "raises E m \<Longrightarrow> (\<And>x. raises E (f x)) \<Longrightarrow> raises E (and_then m f)"
  unfolding raises_def by (fastforce dest!: and_then_SomeD)

lemma raises_outcome: "raises E (outcome m)" "raises E (ignore m)" "raises E (value_or m d)"
  by (auto simp: raises_def outcome_def ignore_def value_or_def and_then_def split: option.splits prod.splits)

definition chip_error :: "pump_error \<Rightarrow> bool" where
  "chip_error e \<longleftrightarrow> (\<exists>b. e = BusErr b) \<or> (\<exists>f v. e = OutOfRange f v)"

lemma access_raises:
  "raises chip_error (pump_read B a)" "raises (\<lambda>e. \<exists>b. e = BusErr b) (pump_read_pair B a)"
  "raises chip_error (pump_write B a v)"
  unfolding raises_def pump_read_def pump_read_pair_def pump_write_def chip_error_def
  by (auto dest!: retry_result)

lemma update_raises: "raises chip_error (update B a m v f)"
  unfolding update_def Let_def fault_out_of_range_def
  by (auto intro!: raises_and_then access_raises simp: chip_error_def)

text \<open>
  The methods that set the ADC mode, feed the watchdog, clear the latches or read the ADC never report
  that the session is not open, although their documentation promises it: the only errors they know
  are bus failures and failed verifications.
\<close>

lemma open_never_checked:
  "(\<forall>p e t. set_adc_mode B am p = Some (Inl e, t) \<longrightarrow> e \<noteq> NotOpen) \<and>
   (\<forall>p e t. service_watchdog B p = Some (Inl e, t) \<longrightarrow> e \<noteq> NotOpen) \<and>
   (\<forall>p e t. clear_latched_faults B p = Some (Inl e, t) \<longrightarrow> e \<noteq> NotOpen) \<and>
   (\<forall>p e t. read_adc B ch p = Some (Inl e, t) \<longrightarrow> e \<noteq> NotOpen)"
proof -
  have n: "chip_error e \<Longrightarrow> e \<noteq> NotOpen" for e by (auto simp: chip_error_def)
  have p: "raises chip_error (raise e)" if "e \<in> {BusErr b | b. True}" for e using that by (auto simp: chip_error_def)
  have "raises chip_error (set_adc_mode B am)" "raises chip_error (service_watchdog B)"
    "raises chip_error (clear_latched_faults B)"
    unfolding set_adc_mode_def service_watchdog_def clear_latched_faults_def
    by (auto intro!: raises_and_then update_raises)
  moreover have "e \<noteq> NotOpen" if "read_adc B ch p = Some (Inl e, t)" for p e t
    using that update_raises [of B] access_raises(2) [of B] n
    unfolding read_adc_def raises_def
    by (fastforce dest!: and_then_SomeD simp: outcome_def ignore_def and_then_def
        split: option.splits prod.splits sum.splits)
  ultimately show ?thesis using n by (auto simp: raises_def)
qed

lemma open_never_checked_witness:
  "\<exists>e t. p_state dead_pump = Closed \<and> set_adc_mode dead_bus AdcNormal dead_pump = Some (Inl e, t) \<and> e \<noteq> NotOpen"
proof -
  have s: "set_adc_mode dead_bus AdcNormal dead_pump =
      Some (Inl (BusErr (bus_error_new BkTimeout 0 ''no answer'')), dead_pump\<lparr>p_state := Faulted\<rparr>)"
    by (simp add: set_adc_mode_def update_def and_then_def dead_pump_read)
  then have "BusErr (bus_error_new BkTimeout 0 ''no answer'') \<noteq> NotOpen"
    using open_never_checked [of dead_bus AdcNormal] by blast
  with s show ?thesis by (auto simp: dead_pump_def)
qed

end
