(* ===== verification/Register_Slots.thy ===== *)
theory Register_Slots
  imports Prelude
begin

text \<open>
  The register store both test benches use (\<open>set_reg\<close> and \<open>reg\<close> of \<open>crates/ln8000/src/testkit.rs\<close> and
  \<open>crates/core/src/testkit.rs\<close>): a fixed array of (address, value) slots, filled from the front and
  searched linearly. The used slots are a list; a store into a full array is dropped.
\<close>

fun replace_reg :: "'a \<Rightarrow> u8 \<Rightarrow> ('a \<times> u8) list \<Rightarrow> ('a \<times> u8) list option" where
  "replace_reg addr v [] = None"
| "replace_reg addr v (slot # slots) =
    (if fst slot = addr then Some ((addr, v) # slots)
     else map_option (\<lambda>rest. slot # rest) (replace_reg addr v slots))"

definition store_reg :: "nat \<Rightarrow> 'a \<Rightarrow> u8 \<Rightarrow> ('a \<times> u8) list \<Rightarrow> ('a \<times> u8) list" where
  "store_reg capacity addr v slots =
    (case replace_reg addr v slots of
       Some slots' \<Rightarrow> slots'
     | None \<Rightarrow> if length slots < capacity then slots @ [(addr, v)] else slots)"

definition load_reg :: "('a \<times> u8) list \<Rightarrow> 'a \<Rightarrow> u8" where
  "load_reg slots addr = (case map_of slots addr of None \<Rightarrow> 0 | Some v \<Rightarrow> v)"

lemma load_reg_Nil [simp]: "load_reg [] = (\<lambda>_. 0)"
  by (simp add: load_reg_def fun_eq_iff)

lemma replace_reg_None: "replace_reg a v xs = None \<longleftrightarrow> a \<notin> fst ` set xs"
  by (induction xs) auto

lemma replace_reg_Some:
  "replace_reg a v xs = Some ys \<Longrightarrow> map fst ys = map fst xs \<and> map_of ys = (map_of xs)(a \<mapsto> v)"
  by (induction xs arbitrary: ys) (auto split: if_splits)

text \<open>Slots whose addresses are distinct and all from a set that fits the array never overflow it.\<close>

definition slots_within :: "'a set \<Rightarrow> ('a \<times> u8) list \<Rightarrow> bool" where
  "slots_within addrs slots \<longleftrightarrow> distinct (map fst slots) \<and> fst ` set slots \<subseteq> addrs"

lemma slots_within_Nil [simp]: "slots_within addrs []"
  by (simp add: slots_within_def)

lemma slots_room:
  assumes "slots_within addrs slots" "a \<in> addrs" "a \<notin> fst ` set slots" "finite addrs" "card addrs \<le> capacity"
  shows "length slots < capacity"
proof -
  have "card (fst ` set slots) = length slots"
    using assms(1) distinct_card [of "map fst slots"] by (simp add: slots_within_def)
  moreover have "fst ` set slots \<subset> addrs"
    using assms by (auto simp: slots_within_def)
  then have "card (fst ` set slots) < card addrs"
    by (rule psubset_card_mono [OF assms(4)])
  ultimately show ?thesis using assms(5) by linarith
qed

lemma store_reg_ok:
  assumes "slots_within addrs slots" "a \<in> addrs" "finite addrs" "card addrs \<le> capacity"
  shows "slots_within addrs (store_reg capacity a v slots)"
    and "load_reg (store_reg capacity a v slots) = (load_reg slots)(a := v)"
proof -
  have "slots_within addrs (store_reg capacity a v slots) \<and>
    load_reg (store_reg capacity a v slots) = (load_reg slots)(a := v)"
  proof (cases "replace_reg a v slots")
    case None
    then have n: "a \<notin> fst ` set slots" by (simp add: replace_reg_None)
    with slots_room [OF assms(1,2) n assms(3,4)] None have "store_reg capacity a v slots = slots @ [(a, v)]"
      by (simp add: store_reg_def)
    moreover have "map_of slots a = None" using n by (simp add: map_of_eq_None_iff)
    ultimately show ?thesis
      using n assms(1,2) by (auto simp: slots_within_def load_reg_def fun_eq_iff map_add_def split: option.split)
  next
    case (Some ys)
    note r = replace_reg_Some [OF Some]
    then have "fst ` set ys = fst ` set slots" by (metis list.set_map)
    with r Some assms(1) show ?thesis
      by (auto simp: store_reg_def slots_within_def load_reg_def)
  qed
  then show "slots_within addrs (store_reg capacity a v slots)"
    "load_reg (store_reg capacity a v slots) = (load_reg slots)(a := v)" by blast+
qed

end
