(* ===== verification/Mock_Pump_Bus.thy ===== *)
theory Mock_Pump_Bus
  imports Register_Bus Register_Slots
begin

text \<open>
  \<open>crates/ln8000/src/testkit.rs\<close>: the simulated LN8000 bus the driver's tests run on: a register file of
  at most 64 slots, a list of at most 8 injected faults, and the reactions of the chip to mode
  writes and to the soft reset. Without pending faults it is a working chip in the sense of
  \<open>Register_Bus\<close>, and the locales there are interpreted on it.
\<close>

section \<open>State and operations\<close>

abbreviation (input) MAX_REGS :: nat where "MAX_REGS \<equiv> 64"
abbreviation (input) MAX_FAULTS :: nat where "MAX_FAULTS \<equiv> 8"

datatype pump_fault =
    ReadError u8 nat            \<comment> \<open>address, times\<close>
  | WriteError u8 nat
  | WrongReadBack u8 u8 nat     \<comment> \<open>address, value, times\<close>
  | StuckSysSts u8
  | RefuseSysSts u8

fun fault_times :: "pump_fault \<Rightarrow> nat" where
  "fault_times (ReadError _ n) = n"
| "fault_times (WriteError _ n) = n"
| "fault_times (WrongReadBack _ _ n) = n"
| "fault_times (StuckSysSts _) = u8_max"
| "fault_times (RefuseSysSts _) = u8_max"

record fault_slot =
  fs_fault :: "pump_fault option"
  fs_remaining :: nat

text \<open>The fixed arrays with their counters are lists of the used slots.\<close>

record mock_bus =
  mb_regs :: "(u8 \<times> u8) list"
  mb_faults :: "fault_slot list"
  mb_reset_count :: u32

definition set_reg :: "u8 \<Rightarrow> u8 \<Rightarrow> mock_bus \<Rightarrow> mock_bus" where
  "set_reg addr v b = b\<lparr>mb_regs := store_reg MAX_REGS addr v (mb_regs b)\<rparr>"

definition reg :: "mock_bus \<Rightarrow> u8 \<Rightarrow> u8" where
  "reg b addr = load_reg (mb_regs b) addr"

definition mock_new :: mock_bus where
  "mock_new = set_reg SYS_STS SYS_STS_STANDBY (set_reg DEVICE_ID DEVICE_ID_VALUE
     \<lparr>mb_regs = [], mb_faults = [], mb_reset_count = 0\<rparr>)"

definition push_fault :: "pump_fault \<Rightarrow> mock_bus \<Rightarrow> mock_bus" where
  "push_fault f b =
    (if length (mb_faults b) < MAX_FAULTS
     then b\<lparr>mb_faults := mb_faults b @ [\<lparr>fs_fault = Some f, fs_remaining = fault_times f\<rparr>]\<rparr>
     else b)"

text \<open>\<open>consume\<close>: the first pending fault that satisfies the predicate, one use of it spent.\<close>

fun sticky :: "pump_fault \<Rightarrow> bool" where
  "sticky (StuckSysSts _) = True"
| "sticky (RefuseSysSts _) = True"
| "sticky _ = False"

fun consume :: "(pump_fault \<Rightarrow> bool) \<Rightarrow> fault_slot list \<Rightarrow> pump_fault option \<times> fault_slot list" where
  "consume P [] = (None, [])"
| "consume P (slot # slots) =
    (case fs_fault slot of
       Some f \<Rightarrow>
         if P f \<and> fs_remaining slot > 0 then
           (if sticky f then (Some f, slot # slots)
            else (Some f, slot\<lparr>fs_remaining := fs_remaining slot - 1\<rparr> # slots))
         else map_prod id (\<lambda>rest. slot # rest) (consume P slots)
     | None \<Rightarrow> map_prod id (\<lambda>rest. slot # rest) (consume P slots))"

definition consume_fault :: "(pump_fault \<Rightarrow> bool) \<Rightarrow> mock_bus \<Rightarrow> pump_fault option \<times> mock_bus" where
  "consume_fault P b = (let (f, slots) = consume P (mb_faults b) in (f, b\<lparr>mb_faults := slots\<rparr>))"

fun is_read_error :: "u8 \<Rightarrow> pump_fault \<Rightarrow> bool" where
  "is_read_error addr (ReadError a _) \<longleftrightarrow> a = addr" | "is_read_error addr _ \<longleftrightarrow> False"

fun is_write_error :: "u8 \<Rightarrow> pump_fault \<Rightarrow> bool" where
  "is_write_error addr (WriteError a _) \<longleftrightarrow> a = addr" | "is_write_error addr _ \<longleftrightarrow> False"

fun wrong_value :: "pump_fault \<Rightarrow> u8 option" where
  "wrong_value (WrongReadBack _ v _) = Some v" | "wrong_value _ = None"

fun is_wrong_read :: "u8 \<Rightarrow> pump_fault \<Rightarrow> bool" where
  "is_wrong_read addr (WrongReadBack a _ _) \<longleftrightarrow> a = addr" | "is_wrong_read addr _ \<longleftrightarrow> False"

fun stuck_value :: "pump_fault \<Rightarrow> u8 option" where
  "stuck_value (StuckSysSts v) = Some v" | "stuck_value _ = None"

fun refuse_value :: "pump_fault \<Rightarrow> u8 option" where
  "refuse_value (RefuseSysSts v) = Some v" | "refuse_value _ = None"

definition apply_sys_ctrl :: "u8 \<Rightarrow> mock_bus \<Rightarrow> mock_bus" where
  "apply_sys_ctrl v b =
    (let sys_sts = (if v AND SYS_CTRL_STANDBY_EN \<noteq> 0 then SYS_STS_STANDBY
                    else if v AND SYS_CTRL_EN_1TO1 \<noteq> 0 then SYS_STS_BYPASS_ENABLED
                    else SYS_STS_SWITCHING_ENABLED)
     in set_reg SYS_STS sys_sts b)"

definition clear_stuck_sys_sts_faults :: "mock_bus \<Rightarrow> mock_bus" where
  "clear_stuck_sys_sts_faults b = b\<lparr>mb_faults := map (\<lambda>slot.
     case fs_fault slot of
       Some (StuckSysSts _) \<Rightarrow> slot\<lparr>fs_fault := None, fs_remaining := 0\<rparr>
     | _ \<Rightarrow> slot) (mb_faults b)\<rparr>"

definition mock_read :: "u8 \<Rightarrow> (mock_bus, u8) bus_call" where
  "mock_read addr b =
    (case consume_fault (is_read_error addr) b of
       (Some _, b) \<Rightarrow> (Inl (bus_error_new BkTimeout 0 ''injected read fault''), b)
     | (None, b) \<Rightarrow>
        (case (if addr = SYS_STS then consume_fault (\<lambda>f. stuck_value f \<noteq> None) b else (None, b)) of
           (Some f, b) \<Rightarrow> (Inr (the (stuck_value f)), b)
         | (None, b) \<Rightarrow>
            (case (if addr = SYS_STS then consume_fault (\<lambda>f. refuse_value f \<noteq> None) b else (None, b)) of
               (Some f, b) \<Rightarrow> (Inr (the (refuse_value f)), b)
             | (None, b) \<Rightarrow>
                (case consume_fault (is_wrong_read addr) b of
                   (Some f, b) \<Rightarrow> (Inr (the (wrong_value f)), b)
                 | (None, b) \<Rightarrow> (Inr (reg b addr), b)))))"

definition mock_write :: "u8 \<Rightarrow> u8 \<Rightarrow> (mock_bus, unit) bus_call" where
  "mock_write addr v b =
    (case consume_fault (is_write_error addr) b of
       (Some _, b) \<Rightarrow> (Inl (bus_error_new BkIo 0 ''injected write fault''), b)
     | (None, b) \<Rightarrow>
        (let b = set_reg addr v b;
             b = (if addr = SYS_CTRL then apply_sys_ctrl v b else b);
             b = (if addr = BC_OP_2 \<and> v AND 0x01 \<noteq> 0
                  then set_reg SYS_STS SYS_STS_STANDBY (set_reg FAULT1_STS 0 (clear_stuck_sys_sts_faults b))
                  else b)
         in (Inr (), b)))"

definition mock_reset :: "(mock_bus, unit) bus_call" where
  "mock_reset b = (Inr (), b\<lparr>mb_reset_count := sat_add_u32 (mb_reset_count b) 1\<rparr>)"

definition mock_reg_bus :: "mock_bus reg_bus" where
  "mock_reg_bus = \<lparr>rb_read = mock_read, rb_write = mock_write, rb_reset = mock_reset,
     rb_read_pair = default_read_pair mock_read\<rparr>"

section \<open>The register file\<close>

text \<open>The registers of the chip, all that the driver or the simulation ever addresses.\<close>

definition chip_reg_list :: "u8 list" where
  "chip_reg_list =
    [0x00, 0x01, 0x02, 0x03, 0x04, 0x05, 0x06, 0x07, 0x08, 0x09,
     0x0A, 0x0B, 0x0C, 0x0D, 0x0E, 0x0F, 0x10, 0x11, 0x12,
     IIN_CTRL, REGULATION_CTRL, SYS_CTRL, GLITCH_CTRL, FAULT_CTRL, NTC_CTRL, ADC_CTRL,
     ADC_CFG, RECOVERY_CTRL, TIMER_CTRL, THRESHOLD_CTRL, V_FLOAT_CTRL, CHARGE_CTRL,
     PWR_CTRL, LDO_CTRL, LION_CTRL, BC_OP_1, BC_OP_2, BC_STS_A, BC_STS_E]"

definition chip_regs :: "u8 set" where
  "chip_regs = set chip_reg_list"

definition mock_inv :: "mock_bus \<Rightarrow> bool" where
  "mock_inv b \<longleftrightarrow> mb_faults b = [] \<and> slots_within chip_regs (mb_regs b)"

lemma chip_regs_small: "finite chip_regs" "card chip_regs \<le> 64"
proof -
  show "finite chip_regs" by (simp add: chip_regs_def)
  have "card chip_regs \<le> length chip_reg_list" unfolding chip_regs_def by (rule card_length)
  then show "card chip_regs \<le> 64" by (simp add: chip_reg_list_def)
qed

lemma set_reg_ok:
  assumes "mock_inv b" "a \<in> chip_regs"
  shows "mock_inv (set_reg a v b)" "reg (set_reg a v b) = (reg b)(a := v)"
  using assms store_reg_ok [OF _ assms(2) chip_regs_small, of "mb_regs b" v]
  by (simp_all add: mock_inv_def set_reg_def reg_def [abs_def])

definition mock_effect :: "u8 \<Rightarrow> u8 \<Rightarrow> (u8 \<Rightarrow> u8) \<Rightarrow> u8 \<Rightarrow> u8" where
  "mock_effect a v f =
    (if a = SYS_CTRL then f(SYS_CTRL := v, SYS_STS := requested_sts v)
     else if a = BC_OP_2 \<and> v AND 0x01 \<noteq> 0
     then f(BC_OP_2 := v, FAULT1_STS := 0, SYS_STS := SYS_STS_STANDBY)
     else f(a := v))"

lemma mock_no_fault: "mock_inv b \<Longrightarrow> consume_fault P b = (None, b)"
  by (simp add: consume_fault_def mock_inv_def)

lemma mock_read_ok: "mock_inv b \<Longrightarrow> mock_read a b = (Inr (reg b a), b)"
  by (simp add: mock_read_def mock_no_fault)

lemma chip_regs_mem:
  "SYS_STS \<in> chip_regs" "FAULT1_STS \<in> chip_regs" "DEVICE_ID \<in> chip_regs" "SYS_CTRL \<in> chip_regs"
  "BC_OP_2 \<in> chip_regs"
  by (simp_all add: chip_regs_def chip_reg_list_def)

lemma mock_write_ok:
  assumes "mock_inv b" "a \<in> chip_regs"
  shows "\<exists>b'. mock_write a v b = (Inr (), b') \<and> mock_inv b' \<and> reg b' = mock_effect a v (reg b)"
proof -
  have c: "clear_stuck_sys_sts_faults u = u" if "mock_inv u" for u
    using that by (simp add: clear_stuck_sys_sts_faults_def mock_inv_def)
  note s = set_reg_ok [OF assms, of v]
  show ?thesis
    using assms s set_reg_ok [OF s(1) chip_regs_mem(1)]
      set_reg_ok [OF s(1) chip_regs_mem(2)]
      set_reg_ok [OF set_reg_ok(1) [OF s(1) chip_regs_mem(2)] chip_regs_mem(1)]
    by (auto simp: mock_write_def mock_no_fault apply_sys_ctrl_def requested_sts_def mock_effect_def c Let_def)
qed

interpretation mock: obedient_chip mock_reg_bus mock_inv reg mock_effect chip_regs
proof
  fix b :: mock_bus and a v f
  show r: "\<exists>b'. rb_read mock_reg_bus a b = (Inr (reg b a), b') \<and> mock_inv b' \<and> reg b' = reg b"
    if "mock_inv b" using that by (simp add: mock_reg_bus_def mock_read_ok)
  show "\<exists>b'. rb_read_pair mock_reg_bus a b = (Inr (byte_pair (reg b a) (reg b (a + 1))), b') \<and>
      mock_inv b' \<and> reg b' = reg b" if "mock_inv b"
    using that by (simp add: mock_reg_bus_def default_read_pair_def mock_read_ok)
  show "\<exists>b'. rb_write mock_reg_bus a v b = (Inr (), b') \<and> mock_inv b' \<and> reg b' = mock_effect a v (reg b)"
    if "mock_inv b" "a \<in> chip_regs" using mock_write_ok [OF that] by (simp add: mock_reg_bus_def)
  show "\<exists>r b'. rb_reset mock_reg_bus b = (r, b') \<and> mock_inv b' \<and> reg b' = reg b" if "mock_inv b"
    using that by (simp add: mock_reg_bus_def mock_reset_def mock_inv_def reg_def fun_eq_iff)
  show "mock_effect a v f a = v" by (simp add: mock_effect_def)
  show "control_regs \<subseteq> chip_regs" by (simp add: chip_regs_def chip_reg_list_def control_regs_def)
  show "mock_effect a v f = f(a := v)" if "a \<in> control_regs" "a \<noteq> SYS_CTRL"
    using that by (auto simp: mock_effect_def control_regs_def)
  show "mock_effect SYS_CTRL v f = f(SYS_CTRL := v, SYS_STS := requested_sts v)"
    by (simp add: mock_effect_def)
qed

lemma mock_new_ok: "mock_inv mock_new" "reg mock_new = (\<lambda>_. 0)(DEVICE_ID := DEVICE_ID_VALUE, SYS_STS := SYS_STS_STANDBY)"
proof -
  have e: "mock_inv \<lparr>mb_regs = [], mb_faults = [], mb_reset_count = 0\<rparr>" by (simp add: mock_inv_def)
  note s = set_reg_ok [OF e chip_regs_mem(3), of DEVICE_ID_VALUE]
  show "mock_inv mock_new" unfolding mock_new_def by (rule set_reg_ok(1) [OF s(1) chip_regs_mem(1)])
  show "reg mock_new = (\<lambda>_. 0)(DEVICE_ID := DEVICE_ID_VALUE, SYS_STS := SYS_STS_STANDBY)"
    unfolding mock_new_def set_reg_ok(2) [OF s(1) chip_regs_mem(1)] s(2)
    by (simp add: reg_def fun_eq_iff)
qed

end
