(* ===== verification/Pump_Chip.thy ===== *)
theory Pump_Chip
  imports Pump_Returns Mock_Pump_Bus
begin

text \<open>
  What the pump driver does to a working chip. The abstract driver \<open>chip_pump\<close> has the chip's register
  file in place of the bus; on a chip that satisfies \<open>obedient_chip\<close> every method is proved to return
  and to compute a total function on it, whatever the retry limit, with and without verification
  of writes. The properties of configuration and of the charge modes follow on that level and are
  stated for the simulated bus, on which the contract is interpreted.
\<close>

section \<open>The abstract driver\<close>

record chip_pump =
  c_regs :: "u8 \<Rightarrow> u8"
  c_config :: pump_config
  c_state :: pump_state
  c_op_mode :: op_mode
  c_stage :: u8
  c_por :: "u32 option"

definition chip_of :: "('b \<Rightarrow> u8 \<Rightarrow> u8) \<Rightarrow> 'b pump \<Rightarrow> chip_pump" where
  "chip_of view p = \<lparr>c_regs = view (p_bus p), c_config = p_config p, c_state = p_state p,
     c_op_mode = p_op_mode p, c_stage = p_bypass_stage p, c_por = p_por_vin_uv p\<rparr>"

definition live :: "('b \<Rightarrow> bool) \<Rightarrow> 'b pump \<Rightarrow> bool" where
  "live ok p \<longleftrightarrow> ok (p_bus p) \<and> p_state p \<noteq> Closed"

text \<open>
  \<open>performs ok view p m r s\<close>: from \<open>p\<close> the method \<open>m\<close> returns \<open>r\<close>, the chip still works, the session is
  still open, and the abstract driver is \<open>s\<close>. \<open>does\<close> says so of every open session, \<open>s\<close> being a
  function of the abstract driver before.
\<close>

definition performs :: "('b \<Rightarrow> bool) \<Rightarrow> ('b \<Rightarrow> u8 \<Rightarrow> u8) \<Rightarrow> 'b pump \<Rightarrow> ('b, 'a) pump_op \<Rightarrow>
    pump_error + 'a \<Rightarrow> chip_pump \<Rightarrow> bool" where
  "performs ok view p m r s \<longleftrightarrow> (\<exists>p'. m p = Some (r, p') \<and> live ok p' \<and> chip_of view p' = s)"

definition does :: "('b \<Rightarrow> bool) \<Rightarrow> ('b \<Rightarrow> u8 \<Rightarrow> u8) \<Rightarrow> ('b, 'a) pump_op \<Rightarrow>
    (chip_pump \<Rightarrow> (pump_error + 'a) \<times> chip_pump) \<Rightarrow> bool" where
  "does ok view m g \<longleftrightarrow> (\<forall>p. live ok p \<longrightarrow>
     performs ok view p m (fst (g (chip_of view p))) (snd (g (chip_of view p))))"

text \<open>Total functions of the abstract driver compose as method bodies do.\<close>

definition c_bind :: "(chip_pump \<Rightarrow> (pump_error + 'a) \<times> chip_pump) \<Rightarrow>
    ('a \<Rightarrow> chip_pump \<Rightarrow> (pump_error + 'b) \<times> chip_pump) \<Rightarrow> chip_pump \<Rightarrow> (pump_error + 'b) \<times> chip_pump" where
  "c_bind g h s = (case g s of (Inl e, s') \<Rightarrow> (Inl e, s') | (Inr x, s') \<Rightarrow> h x s')"

definition c_set :: "(chip_pump \<Rightarrow> chip_pump) \<Rightarrow> chip_pump \<Rightarrow> (pump_error + unit) \<times> chip_pump" where
  "c_set f s = (Inr (), f s)"

definition c_open :: "chip_pump \<Rightarrow> bool" where
  "c_open s \<longleftrightarrow> c_state s \<noteq> Closed"

lemma does_performs: "does ok view m g \<Longrightarrow> live ok p \<Longrightarrow>
  performs ok view p m (fst (g (chip_of view p))) (snd (g (chip_of view p)))"
  by (simp add: does_def)

lemma does_and_then:
  assumes "does ok view m g" "\<And>x. does ok view (f x) (h x)"
  shows "does ok view (and_then m f) (c_bind g h)"
  unfolding does_def
proof (intro allI impI)
  fix p assume p: "live ok p"
  obtain p1 where m: "m p = Some (fst (g (chip_of view p)), p1)" "live ok p1"
      "chip_of view p1 = snd (g (chip_of view p))"
    using does_performs [OF assms(1) p] by (auto simp: performs_def)
  show "performs ok view p (and_then m f) (fst (c_bind g h (chip_of view p))) (snd (c_bind g h (chip_of view p)))"
  proof (cases "fst (g (chip_of view p))")
    case (Inl e)
    with m show ?thesis
      by (auto simp: performs_def and_then_def c_bind_def split_def)
  next
    case (Inr x)
    with m does_performs [OF assms(2) m(2), of x] show ?thesis
      by (auto simp: performs_def and_then_def c_bind_def split_def)
  qed
qed

lemma does_get:
  assumes "\<And>p. live ok p \<Longrightarrow> performs ok view p (f p) (fst (g (chip_of view p))) (snd (g (chip_of view p)))"
  shows "does ok view (and_then get_state f) g"
  using assms by (simp add: does_def performs_def and_then_def)

lemma does_config:
  assumes "\<And>cfg. does ok view (f cfg) (g cfg)"
  shows "does ok view (and_then get_state (\<lambda>p. f (p_config p))) (\<lambda>s. g (c_config s) s)"
proof (rule does_get)
  fix p assume "live ok p"
  from does_performs [OF assms this]
  show "performs ok view p (f (p_config p)) (fst (g (c_config (chip_of view p)) (chip_of view p)))
    (snd (g (c_config (chip_of view p)) (chip_of view p)))"
    by (simp add: chip_of_def)
qed

lemma does_ret: "does ok view (ret x) (\<lambda>s. (Inr x, s))"
  and does_raise: "does ok view (raise e) (\<lambda>s. (Inl e, s))"
  by (simp_all add: does_def performs_def)

lemma does_modify:
  assumes "\<And>p. p_bus (f p) = p_bus p" "\<And>p. p_state p \<noteq> Closed \<Longrightarrow> p_state (f p) \<noteq> Closed"
    "\<And>p. chip_of view (f p) = g (chip_of view p)"
  shows "does ok view (modify f) (c_set g)"
  using assms by (auto simp: does_def performs_def live_def c_set_def)

lemma does_unless_closed: "does ok view m g \<Longrightarrow> does ok view (unless_closed m) g"
  by (auto simp: does_def performs_def unless_closed_def and_then_def live_def)

lemma does_outcome: "does ok view m g \<Longrightarrow> does ok view (outcome m) (\<lambda>s. (Inr (fst (g s)), snd (g s)))"
  by (fastforce simp: does_def performs_def outcome_def)

lemma does_ignore: "does ok view m g \<Longrightarrow> does ok view (ignore m) (\<lambda>s. (Inr (), snd (g s)))"
  by (fastforce simp: does_def performs_def ignore_def and_then_def outcome_def)

lemma does_value_or: "does ok view m g \<Longrightarrow>
  does ok view (value_or m d) (\<lambda>s. (Inr (case fst (g s) of Inl _ \<Rightarrow> d | Inr x \<Rightarrow> x), snd (g s)))"
  by (fastforce simp: does_def performs_def value_or_def and_then_def outcome_def)

lemma does_cong: "does ok view m g \<Longrightarrow> (\<And>s. c_open s \<Longrightarrow> g s = h s) \<Longrightarrow> does ok view m h"
  by (auto simp: does_def performs_def live_def c_open_def chip_of_def)

text \<open>The same, one session at a time.\<close>

lemma performs_set: "does ok view m (c_set f) \<Longrightarrow> live ok p \<Longrightarrow> performs ok view p m (Inr ()) (f (chip_of view p))"
  using does_performs [of ok view m "c_set f" p] by (simp add: c_set_def)

lemma performs_and_then:
  "performs ok view p m (Inr x) s \<Longrightarrow>
   (\<And>q. live ok q \<Longrightarrow> chip_of view q = s \<Longrightarrow> performs ok view q (f x) r s') \<Longrightarrow>
   performs ok view p (and_then m f) r s'"
  by (auto simp: performs_def and_then_def)

lemma performs_get: "performs ok view p (f p) r s \<Longrightarrow> performs ok view p (and_then get_state f) r s"
  by (simp add: performs_def and_then_def)

lemma performs_outcome: "performs ok view p m r s \<Longrightarrow> performs ok view p (outcome m) (Inr r) s"
  by (auto simp: performs_def outcome_def)

lemma performs_or_else: "performs ok view p m (Inr x) s \<Longrightarrow> performs ok view p (or_else m h) (Inr x) s"
  by (auto simp: performs_def or_else_def outcome_def and_then_def)

lemma performs_end:
  "live ok p \<Longrightarrow> chip_of view p = s \<Longrightarrow> performs ok view p (ret x) (Inr x) s"
  "live ok p \<Longrightarrow> chip_of view p = s \<Longrightarrow> performs ok view p (raise e) (Inl e) s"
  by (simp_all add: performs_def)

text \<open>Blocks of statements that cannot fail run as the fold of their effects.\<close>

lemma does_block:
  assumes "list_all2 (\<lambda>m f. does ok view m (c_set f)) ms fs"
  shows "does ok view (block ms) (c_set (fold (\<lambda>f s. f s) fs))"
  using assms
proof (induction ms fs rule: list_all2_induct)
  case Nil
  have "does ok view (block []) (\<lambda>s. (Inr (), s))" unfolding block.simps by (rule does_ret)
  then show ?case by (rule does_cong) (simp add: c_set_def)
next
  case (Cons m ms f fs)
  have "does ok view (block (m # ms)) (c_bind (c_set f) (\<lambda>_. c_set (fold (\<lambda>f s. f s) fs)))"
    unfolding block.simps by (rule does_and_then [OF Cons(1) Cons(3)])
  then show ?case by (rule does_cong) (simp add: c_bind_def c_set_def)
qed

section \<open>Register effects\<close>

definition chip_write :: "u8 \<Rightarrow> u8 \<Rightarrow> (u8 \<Rightarrow> u8) \<Rightarrow> u8 \<Rightarrow> u8" where
  "chip_write a v regs =
    (if a = SYS_CTRL then regs(SYS_CTRL := v, SYS_STS := requested_sts v) else regs(a := v))"

text \<open>A masked write and a full write.\<close>

definition put :: "u8 \<Rightarrow> u8 \<Rightarrow> u8 \<Rightarrow> chip_pump \<Rightarrow> chip_pump" where
  "put a m v s = s\<lparr>c_regs := chip_write a (masked (c_regs s a) m v) (c_regs s)\<rparr>"

definition put_all :: "u8 \<Rightarrow> u8 \<Rightarrow> chip_pump \<Rightarrow> chip_pump" where
  "put_all a v s = s\<lparr>c_regs := chip_write a v (c_regs s)\<rparr>"

lemma retry_first:
  "call (p_bus p) = (Inr v, b) \<Longrightarrow> retry B call count n p = Some (Inr v, count (p\<lparr>p_bus := b\<rparr>))"
  by (subst retry.simps) simp

definition c_mode :: "op_mode \<Rightarrow> u8 \<Rightarrow> chip_pump \<Rightarrow> chip_pump" where
  "c_mode m bits s = (put SYS_CTRL sys_ctrl_mask bits s)\<lparr>c_op_mode := m\<rparr>"

definition c_status :: "chip_pump \<Rightarrow> status" where
  "c_status s = \<lparr>st_sys_sts = c_regs s SYS_STS, st_op_mode = from_sys_sts (c_regs s SYS_STS),
     st_safety_sts = c_regs s SAFETY_STS, st_fault1_sts = c_regs s FAULT1_STS,
     st_fault2_sts = c_regs s FAULT2_STS, st_ldo_sts = c_regs s LDO_STS\<rparr>"

definition c_settled :: "chip_pump \<Rightarrow> chip_pump" where
  "c_settled s = s\<lparr>c_op_mode := from_sys_sts (c_regs s SYS_STS)\<rparr>"

definition c_adc :: "adc_channel \<Rightarrow> chip_pump \<Rightarrow> i32" where
  "c_adc ch s = adc_decode ch (byte_pair (c_regs s (adc_register ch)) (c_regs s (adc_register ch + 1)))"

definition c_volts :: "adc_channel \<Rightarrow> chip_pump \<Rightarrow> u32" where
  "c_volts ch s = u32_of_i32 (c_adc ch s)"

text \<open>The pause of the ADC around a reading, and the pulse that clears latched faults.\<close>

definition c_resume :: "chip_pump \<Rightarrow> chip_pump" where
  "c_resume s = put TIMER_CTRL TIMER_CTRL_PAUSE_ADC 0
     (put TIMER_CTRL TIMER_CTRL_PAUSE_ADC TIMER_CTRL_PAUSE_ADC s)"

definition c_pulse :: "chip_pump \<Rightarrow> chip_pump" where
  "c_pulse s = put TIMER_CTRL TIMER_CTRL_CLEAR_LATCH 0
     (put TIMER_CTRL TIMER_CTRL_CLEAR_LATCH TIMER_CTRL_CLEAR_LATCH s)"

text \<open>What configuring writes, in order, when the current limit encodes to \<open>code\<close>.\<close>

definition protection_steps :: "pump_config \<Rightarrow> (chip_pump \<Rightarrow> chip_pump) list" where
  "protection_steps cfg = [
     put FAULT_CTRL 0x20 0, put FAULT_CTRL 0x40 0x40,
     put REGULATION_CTRL 0x20 (push_bit 5 (u8_of_bool (cfg_vbat_reg_disabled cfg))),
     put REGULATION_CTRL 0x80 (push_bit 7 (u8_of_bool (\<not> cfg_vbat_reg_disabled cfg))),
     put REGULATION_CTRL 0x10 (push_bit 4 (u8_of_bool (cfg_iin_reg_disabled cfg))),
     put REGULATION_CTRL 0x40 (push_bit 6 (u8_of_bool (\<not> cfg_iin_reg_disabled cfg))),
     put REGULATION_CTRL 0x04 (push_bit 2 (u8_of_bool (\<not> cfg_tdie_prot_disabled cfg))),
     put REGULATION_CTRL 0x02 (push_bit 1 (u8_of_bool (\<not> cfg_tdie_reg_disabled cfg))),
     put SYS_CTRL 0x04 0]"

definition configure_steps :: "pump_config \<Rightarrow> u8 \<Rightarrow> (chip_pump \<Rightarrow> chip_pump) list" where
  "configure_steps cfg code = [
     put_all V_FLOAT_CTRL (encode_vbat_float (cfg_vbat_float_uv cfg)),
     put GLITCH_CTRL 0x0C (push_bit 2 (encode_vac_ovp (cfg_vac_ovp_uv cfg))),
     put IIN_CTRL 0x7F code,
     put_all NTC_CTRL (fst (encode_ntc_alarm (cfg_ntc_alarm_cfg cfg))),
     put ADC_CTRL 0x03 (snd (encode_ntc_alarm (cfg_ntc_alarm_cfg cfg))),
     put REGULATION_CTRL 0x0C (push_bit 2 NTC_SHUTDOWN_CFG),
     put RECOVERY_CTRL (0xF0 OR 0x03)
       ((if cfg_auto_recovery cfg then 0xF0 else 0x00) OR
        (push_bit 1 (u8_of_bool (\<not> cfg_tbus_mon_disabled cfg)) OR u8_of_bool (\<not> cfg_tbat_mon_disabled cfg))),
     fold (\<lambda>f s. f s) (protection_steps cfg),
     c_mode Standby SYS_CTRL_STANDBY_EN,
     put FAULT_CTRL 0x10 0,
     put TIMER_CTRL 0x80 (if cfg_watchdog_enabled cfg then 0x80 else 0),
     put TIMER_CTRL 0x60 (push_bit 5 (watchdog_code (cfg_watchdog_period cfg))),
     put ADC_CTRL 0xE0 (push_bit 5 (adc_mode_code AdcShutdown)),
     put ADC_CTRL 0x18 (push_bit 3 (hibernate_code DelaySec4)),
     put_all ADC_CFG 0x3E,
     put ADC_CTRL 0xE0 (push_bit 5 (adc_mode_code AdcAutoHibernate)),
     put CHARGE_CTRL 0x80 0x80,
     put_all THRESHOLD_CTRL THRESHOLD_CTRL_DEFAULT,
     c_state_update (\<lambda>_. Configured)]"

definition c_configure :: "chip_pump \<Rightarrow> (pump_error + unit) \<times> chip_pump" where
  "c_configure s = (case encode_iin_limit (cfg_iin_limit_ua (c_config s)) of
     Inr code \<Rightarrow> (Inr (), fold (\<lambda>f s. f s) (configure_steps (c_config s) code) s)
   | Inl e \<Rightarrow> (Inl e, fold (\<lambda>f s. f s) (take 2 (configure_steps (c_config s) 0)) s))"

text \<open>The taper near the top of the charge, and the two charge modes.\<close>

definition c_prepare :: "bool \<Rightarrow> chip_pump \<Rightarrow> chip_pump" where
  "c_prepare allow s =
    (let vbat = c_volts Vbat s; vin = c_volts Vin s; cfg = c_config s;
         ov = bit_set (c_regs s FAULT1_STS) FAULT1_VBAT_OV; float_uv = cfg_vbat_float_uv cfg;
         want = soft_float_for_vbat float_uv vbat; s = c_resume (c_resume s)
     in case taper_setpoint_ua cfg vbat vin ov of
          None \<Rightarrow> s
        | Some tapered \<Rightarrow>
           (let s = (if (ov \<or> sat_add_u32 vbat 50000 \<ge> float_uv) \<and> allow
                     then c_pulse (put FAULT_CTRL FAULT_CTRL_DISABLE_VBAT_OV FAULT_CTRL_DISABLE_VBAT_OV
                        (if want > float_uv then put_all V_FLOAT_CTRL (encode_vbat_float want) s else s))
                     else s)
            in if tapered < cfg_iin_limit_ua cfg
               then (case encode_iin_limit tapered of Inl _ \<Rightarrow> s | Inr code \<Rightarrow> put IIN_CTRL 0x7F code s)
               else s))"

text \<open>The charge request in mode \<open>m\<close>, after the common preparation.\<close>

definition c_prepare_mode :: "op_mode \<Rightarrow> chip_pump \<Rightarrow> chip_pump" where
  "c_prepare_mode m s =
    (if m = Switching
     then put FAULT_CTRL FAULT_CTRL_DISABLE_VIN_OV FAULT_CTRL_DISABLE_VIN_OV (c_pulse (c_prepare True s))
     else s)"

definition c_requested :: "op_mode \<Rightarrow> chip_pump \<Rightarrow> chip_pump" where
  "c_requested m s =
    (if m = Switching then (c_settled (c_mode Switching 0 s))\<lparr>c_state := PumpSwitching\<rparr>
     else (c_settled (c_mode Bypass SYS_CTRL_EN_1TO1 (c_resume (c_resume (s\<lparr>c_stage := 1\<rparr>)))))\<lparr>c_state := Configured\<rparr>)"

definition c_conclude :: "op_mode \<Rightarrow> chip_pump \<Rightarrow> chip_pump" where
  "c_conclude m s =
    (let s = s\<lparr>c_op_mode := m, c_state := (if m = Switching then PumpSwitching else Configured)\<rparr>
     in if m = Bypass then c_prepare False s else s)"

definition c_request :: "op_mode \<Rightarrow> chip_pump \<Rightarrow> chip_pump" where
  "c_request m s =
    (let s = (if cfg_watchdog_enabled (c_config s) then s else put TIMER_CTRL 0x80 0 s)
     in c_conclude m (c_requested m (c_prepare_mode m (s\<lparr>c_stage := 0\<rparr>))))"

definition c_charge_on :: "chip_pump \<Rightarrow> (pump_error + op_mode) \<times> chip_pump" where
  "c_charge_on s =
    (let s1 = c_resume (c_resume s) in
     case charge_mode (c_adc Vin s) (c_volts Vbat s) of
       None \<Rightarrow> (Inl (ModeNotReached (op_mode_code Standby) 0), c_mode Standby SYS_CTRL_STANDBY_EN s1)
     | Some m \<Rightarrow> (Inr m, c_request m s1))"

definition c_charge_off :: "chip_pump \<Rightarrow> chip_pump" where
  "c_charge_off s = (c_settled (c_mode Standby SYS_CTRL_STANDBY_EN (s\<lparr>c_por := None\<rparr>)))
     \<lparr>c_op_mode := Standby, c_state := Configured\<rparr>"

definition c_set_charging :: "bool \<Rightarrow> chip_pump \<Rightarrow> (pump_error + op_mode) \<times> chip_pump" where
  "c_set_charging on s =
    (let s = put SYS_CTRL 0x04 0 s in if on then c_charge_on s else (Inr Standby, c_charge_off s))"

section \<open>What the abstract steps leave alone\<close>

lemma c_put_fields [simp]:
  "c_config (put a m v s) = c_config s" "c_config (put_all a v s) = c_config s"
  "c_state (put a m v s) = c_state s" "c_state (put_all a v s) = c_state s"
  "c_op_mode (put a m v s) = c_op_mode s" "c_op_mode (put_all a v s) = c_op_mode s"
  by (simp_all add: put_def put_all_def)

lemma c_mode_fields [simp]:
  "c_config (c_mode md bits s) = c_config s" "c_state (c_mode md bits s) = c_state s"
  "c_op_mode (c_mode md bits s) = md"
  by (simp_all add: c_mode_def)

lemma c_step_fields [simp]: "c_config (c_pulse s) = c_config s" "c_config (c_resume s) = c_config s"
  by (simp_all add: c_pulse_def c_resume_def)

lemma sts_modes:
  "from_sys_sts SYS_STS_STANDBY = Standby" "from_sys_sts SYS_STS_BYPASS_ENABLED = Bypass"
  "from_sys_sts SYS_STS_SWITCHING_ENABLED = Switching"
  by (simp_all add: from_sys_sts_def bit_set_def)

lemma c_mode_sts:
  "c_regs (c_mode Standby SYS_CTRL_STANDBY_EN s) SYS_STS = SYS_STS_STANDBY"
  "c_regs (c_mode Bypass SYS_CTRL_EN_1TO1 s) SYS_STS = SYS_STS_BYPASS_ENABLED"
  "c_regs (c_mode Switching 0 s) SYS_STS = SYS_STS_SWITCHING_ENABLED"
proof -
  have m: "sys_ctrl_mask = 9" by (simp add: sys_ctrl_mask_def)
  have i: "masked c 9 v AND n = v AND n" if "n AND 9 = n" for c v n :: u8
    using that by (rule masked_inside)
  show "c_regs (c_mode Standby SYS_CTRL_STANDBY_EN s) SYS_STS = SYS_STS_STANDBY"
    "c_regs (c_mode Bypass SYS_CTRL_EN_1TO1 s) SYS_STS = SYS_STS_BYPASS_ENABLED"
    "c_regs (c_mode Switching 0 s) SYS_STS = SYS_STS_SWITCHING_ENABLED"
    by (simp_all add: c_mode_def put_def chip_write_def m requested_sts_def i)
qed

text \<open>
  A step is \<open>calm\<close> if it leaves the settings, the session state, the mode registers and everything
  below the control registers (status, faults and ADC results) as they are.
\<close>

definition undisturbed :: "chip_pump \<Rightarrow> chip_pump \<Rightarrow> bool" where
  "undisturbed s s' \<longleftrightarrow> c_config s' = c_config s \<and> c_state s' = c_state s \<and> c_op_mode s' = c_op_mode s \<and>
     c_por s' = c_por s \<and> c_stage s' = c_stage s \<and>
     (\<forall>a. a \<notin> control_regs \<or> a = SYS_CTRL \<longrightarrow> c_regs s' a = c_regs s a)"

definition calm :: "(chip_pump \<Rightarrow> chip_pump) \<Rightarrow> bool" where
  "calm f \<longleftrightarrow> (\<forall>s. undisturbed s (f s))"

lemma undisturbed_refl: "undisturbed s s"
  by (simp add: undisturbed_def)

lemma undisturbed_calm: "calm f \<Longrightarrow> undisturbed s s' \<Longrightarrow> undisturbed s (f s')"
  by (simp add: calm_def undisturbed_def)

lemma calm_put: "a \<in> control_regs \<Longrightarrow> a \<noteq> SYS_CTRL \<Longrightarrow> calm (put a m v)"
  and calm_put_all: "a \<in> control_regs \<Longrightarrow> a \<noteq> SYS_CTRL \<Longrightarrow> calm (put_all a v)"
  by (auto simp: calm_def undisturbed_def put_def put_all_def chip_write_def)

lemma calm_puts:
  "calm (put TIMER_CTRL m v)" "calm (put FAULT_CTRL m v)" "calm (put IIN_CTRL m v)" "calm (put_all V_FLOAT_CTRL v)"
  by (rule calm_put calm_put_all; simp add: control_regs_def)+

lemmas undisturbed_puts = calm_puts [THEN undisturbed_calm]

lemma calm_steps: "calm c_resume" "calm c_pulse"
  unfolding calm_def c_resume_def c_pulse_def
  by (intro allI undisturbed_puts undisturbed_refl)+

lemmas undisturbed_steps = calm_steps [THEN undisturbed_calm]

lemma calm_prepare: "calm (c_prepare al)"
  unfolding calm_def c_prepare_def Let_def
  by (auto intro!: undisturbed_steps undisturbed_puts undisturbed_refl split: option.split sum.split)

lemma c_prepare_mode_calm: "undisturbed s (c_prepare_mode m s)"
  unfolding c_prepare_mode_def
  by (auto intro!: undisturbed_puts undisturbed_steps undisturbed_refl undisturbed_calm [OF calm_prepare])

lemma adc_not_control: "adc_register ch \<notin> control_regs" "adc_register ch + 1 \<notin> control_regs"
  by (cases ch; simp add: control_regs_def)+

lemma c_adc_cong:
  "(\<And>a. a \<notin> control_regs \<Longrightarrow> a \<noteq> SYS_STS \<Longrightarrow> c_regs s a = c_regs s' a) \<Longrightarrow> c_adc ch s = c_adc ch s'"
proof -
  assume h: "\<And>a. a \<notin> control_regs \<Longrightarrow> a \<noteq> SYS_STS \<Longrightarrow> c_regs s a = c_regs s' a"
  have "adc_register ch \<noteq> SYS_STS" "adc_register ch + 1 \<noteq> SYS_STS" by (cases ch; simp)+
  with h adc_not_control show ?thesis by (simp add: c_adc_def)
qed

lemma undisturbed_adc: "undisturbed s s' \<Longrightarrow> c_adc ch s' = c_adc ch s"
  by (rule c_adc_cong) (simp add: undisturbed_def)

lemma calm_adc: "calm f \<Longrightarrow> c_adc ch (f s) = c_adc ch s"
  by (simp add: calm_def undisturbed_adc)

context obedient_chip
begin

lemma chip_write_effect: "a \<in> control_regs \<Longrightarrow> effect a v f = chip_write a v f"
  using plain mode by (simp add: chip_write_def)

lemma read_does: "does inv view (pump_read B a) (\<lambda>s. (Inr (c_regs s a), s))"
  unfolding does_def
proof (intro allI impI)
  fix p assume "live inv p"
  then obtain b where b: "rb_read B a (p_bus p) = (Inr (view (p_bus p) a), b)" "inv b" "view b = view (p_bus p)"
      "p_state p \<noteq> Closed"
    using read_ok [of "p_bus p" a] by (auto simp: live_def)
  from retry_first [of "rb_read B a" p, OF b(1)] b(2-)
  show "performs inv view p (pump_read B a) (fst (Inr (c_regs (chip_of view p) a), chip_of view p))
      (snd (Inr (c_regs (chip_of view p) a), chip_of view p))"
    by (simp add: performs_def pump_read_def live_def chip_of_def)
qed

lemma read_pair_does:
  "does inv view (pump_read_pair B a) (\<lambda>s. (Inr (byte_pair (c_regs s a) (c_regs s (a + 1))), s))"
  unfolding does_def
proof (intro allI impI)
  fix p assume "live inv p"
  then obtain b where b: "rb_read_pair B a (p_bus p) = (Inr (byte_pair (view (p_bus p) a) (view (p_bus p) (a + 1))), b)"
      "inv b" "view b = view (p_bus p)" "p_state p \<noteq> Closed"
    using pair_ok [of "p_bus p" a] by (auto simp: live_def)
  from retry_first [of "rb_read_pair B a" p, OF b(1)] b(2-)
  show "performs inv view p (pump_read_pair B a)
      (fst (Inr (byte_pair (c_regs (chip_of view p) a) (c_regs (chip_of view p) (a + 1))), chip_of view p))
      (snd (Inr (byte_pair (c_regs (chip_of view p) a) (c_regs (chip_of view p) (a + 1))), chip_of view p))"
    by (simp add: performs_def pump_read_pair_def live_def chip_of_def)
qed

lemma write_does:
  assumes "a \<in> control_regs"
  shows "does inv view (pump_write B a v) (c_set (put_all a v))"
  unfolding does_def
proof (intro allI impI)
  fix p assume "live inv p"
  then obtain b where b: "rb_write B a v (p_bus p) = (Inr (), b)" "inv b"
      "view b = effect a v (view (p_bus p))" "p_state p \<noteq> Closed"
    using write_ok [of "p_bus p" a v] assms control by (auto simp: live_def)
  from retry_first [of "rb_write B a v" p, OF b(1)] b(2-) chip_write_effect [OF assms]
  show "performs inv view p (pump_write B a v) (fst (c_set (put_all a v) (chip_of view p)))
      (snd (c_set (put_all a v) (chip_of view p)))"
    by (simp add: performs_def pump_write_def live_def chip_of_def c_set_def put_all_def)
qed

lemma verified_tail:
  assumes "a \<in> control_regs" "live inv p" "c_regs (chip_of view p) a = v"
  shows "performs inv view p (if cfg_verify_writes (p_config p)
      then and_then (pump_read B a) (\<lambda>read_back. if read_back \<noteq> v then fault_out_of_range field w else ret ())
      else ret ()) (Inr ()) (chip_of view p)"
  using does_performs [OF read_does assms(2), of a] assms
  by (auto simp: performs_def and_then_def)

lemma put_all_same: "c_regs (put_all a v s) a = v"
  by (simp add: put_all_def chip_write_def)

lemma write_verified_does:
  assumes "a \<in> control_regs"
  shows "does inv view (write_verified B a v field) (c_set (put_all a v))"
  unfolding does_def
proof (intro allI impI)
  fix p assume p: "live inv p"
  obtain p1 where w: "pump_write B a v p = Some (Inr (), p1)" "live inv p1"
      "chip_of view p1 = put_all a v (chip_of view p)"
    using does_performs [OF write_does [OF assms] p, of v] by (auto simp: performs_def c_set_def)
  have "c_regs (chip_of view p1) a = v" by (simp add: w(3) put_all_same)
  from verified_tail [OF assms w(2) this, of field "unat v"] w
  show "performs inv view p (write_verified B a v field) (fst (c_set (put_all a v) (chip_of view p)))
      (snd (c_set (put_all a v) (chip_of view p)))"
    by (simp add: performs_def write_verified_def and_then_def c_set_def)
qed

lemma update_does:
  assumes "a \<in> control_regs"
  shows "does inv view (update B a m v field) (c_set (put a m v))"
  unfolding does_def
proof (intro allI impI)
  fix p assume p: "live inv p"
  let ?w = "masked (c_regs (chip_of view p) a) m v"
  obtain p0 where r: "pump_read B a p = Some (Inr (c_regs (chip_of view p) a), p0)" "live inv p0"
      "chip_of view p0 = chip_of view p"
    using does_performs [OF read_does p, of a] by (auto simp: performs_def)
  obtain p1 where w: "pump_write B a ?w p0 = Some (Inr (), p1)" "live inv p1"
      "chip_of view p1 = put_all a ?w (chip_of view p)"
    using does_performs [OF write_does [OF assms] r(2), of ?w] r(3) by (auto simp: performs_def c_set_def)
  have "c_regs (chip_of view p1) a = ?w" by (simp add: w(3) put_all_same)
  from verified_tail [OF assms w(2) this, of field "unat ?w"] r w
  show "performs inv view p (update B a m v field) (fst (c_set (put a m v) (chip_of view p)))
      (snd (c_set (put a m v) (chip_of view p)))"
    by (simp add: performs_def update_def and_then_def c_set_def Let_def put_def put_all_def)
qed

lemma regs_control:
  "IIN_CTRL \<in> control_regs" "REGULATION_CTRL \<in> control_regs" "SYS_CTRL \<in> control_regs"
  "GLITCH_CTRL \<in> control_regs" "FAULT_CTRL \<in> control_regs" "NTC_CTRL \<in> control_regs"
  "ADC_CTRL \<in> control_regs" "ADC_CFG \<in> control_regs" "RECOVERY_CTRL \<in> control_regs"
  "TIMER_CTRL \<in> control_regs" "THRESHOLD_CTRL \<in> control_regs" "V_FLOAT_CTRL \<in> control_regs"
  "CHARGE_CTRL \<in> control_regs"
  by (simp_all add: control_regs_def)

lemmas steps_do = update_does write_verified_does does_ret does_raise

lemma set_op_mode_does:
  assumes "sys_ctrl_bits target = Inr bits"
  shows "does inv view (set_op_mode B target) (c_set (c_mode target bits))"
proof -
  have "does inv view (modify (\<lambda>p. p\<lparr>p_op_mode := target\<rparr>)) (c_set (c_op_mode_update (\<lambda>_. target)))"
    by (rule does_modify) (simp_all add: chip_of_def)
  from does_unless_closed [OF does_and_then [OF update_does [OF regs_control(3)] this]]
  show ?thesis
    unfolding set_op_mode_def assms sum.case
    by (rule does_cong) (simp add: c_bind_def c_set_def c_mode_def)
qed

lemma read_adc_does: "does inv view (read_adc B ch) (\<lambda>s. (Inr (c_adc ch s), c_resume s))"
proof -
  have r: "does inv view (case r of Inl e \<Rightarrow> raise e | Inr raw \<Rightarrow> ret (adc_decode ch raw))
      (\<lambda>s. (map_sum id (adc_decode ch) r, s))" for r
    by (cases r) (simp_all add: does_ret does_raise)
  have n: "adc_register ch \<noteq> TIMER_CTRL \<and> adc_register ch + 1 \<noteq> TIMER_CTRL" by (cases ch) simp_all
  show ?thesis
    unfolding read_adc_def
    by (rule does_cong, rule does_and_then [OF update_does [OF regs_control(10)] does_and_then [OF does_outcome
        [OF read_pair_does] does_and_then [OF does_ignore [OF update_does [OF regs_control(10)]] r]]])
       (use n in \<open>simp add: c_bind_def c_set_def c_resume_def c_adc_def put_def chip_write_def\<close>)
qed

lemma adc_or_zero_does: "does inv view (adc_or_zero B ch) (\<lambda>s. (Inr (c_volts ch s), c_resume s))"
  unfolding adc_or_zero_def
  by (rule does_cong, rule does_and_then [OF does_value_or [OF read_adc_does] does_ret])
     (simp add: c_bind_def c_volts_def)

lemma status_does: "does inv view (pump_status B) (\<lambda>s. (Inr (c_status s), c_settled s))"
proof -
  have m: "does inv view (modify (\<lambda>p. p\<lparr>p_op_mode := md\<rparr>)) (c_set (c_op_mode_update (\<lambda>_. md)))" for md
    by (rule does_modify) (simp_all add: chip_of_def)
  show ?thesis
    unfolding pump_status_def
    by (rule does_cong, (rule does_unless_closed does_and_then read_does m does_ret)+)
       (simp add: c_bind_def c_set_def c_status_def c_settled_def)
qed

lemma settled_twice: "c_status (c_settled s) = c_status s" "c_settled (c_settled s) = c_settled s"
  by (simp_all add: c_status_def c_settled_def)

lemma settle_does:
  "does inv view (settle B n st) (\<lambda>s. if n = 0 then (Inr st, s) else (Inr (c_status s), c_settled s))"
proof (induction n arbitrary: st)
  case 0
  show ?case unfolding settle.simps by (rule does_cong [OF does_ret]) simp
next
  case (Suc n)
  have "does inv view (if st_op_mode st \<noteq> Unknown \<and> st_op_mode st \<noteq> Standby then ret st else settle B n st)
      (\<lambda>s. if st_op_mode st \<noteq> Unknown \<and> st_op_mode st \<noteq> Standby \<or> n = 0 then (Inr st, s)
           else (Inr (c_status s), c_settled s))" for st
    by (cases "st_op_mode st \<noteq> Unknown \<and> st_op_mode st \<noteq> Standby")
       (simp_all only: if_True if_False simp_thms, auto intro: does_cong [OF does_ret] does_cong [OF Suc.IH])
  from does_and_then [OF status_does this]
  show ?case
    unfolding settle.simps by (rule does_cong) (simp add: c_bind_def settled_twice)
qed

lemma settled_does: "does inv view (settle_and_read_status B) (\<lambda>s. (Inr (c_status s), c_settled s))"
  unfolding settle_and_read_status_def
  by (rule does_cong [OF does_and_then [OF status_does settle_does]]) (simp add: c_bind_def settled_twice)

lemma clear_latched_does: "does inv view (clear_latched_faults B) (c_set c_pulse)"
  unfolding clear_latched_faults_def
  by (rule does_cong [OF does_and_then [OF update_does [OF regs_control(10)] update_does [OF regs_control(10)]]])
     (simp add: c_bind_def c_set_def c_pulse_def)

lemma configure_protections_does:
  "does inv view (configure_protections B) (c_set (\<lambda>s. fold (\<lambda>f s. f s) (protection_steps (c_config s)) s))"
proof -
  have "does inv view (block (protection_writes B cfg)) (c_set (fold (\<lambda>f s. f s) (protection_steps cfg)))" for cfg
    by (rule does_block) (simp add: protection_writes_def protection_steps_def update_does regs_control)
  from does_config [where f = "\<lambda>cfg. block (protection_writes B cfg)", OF this]
  show ?thesis unfolding configure_protections_def by (rule does_cong) (simp add: c_set_def)
qed

lemma configured_does: "does inv view (modify (\<lambda>p. p\<lparr>p_state := st\<rparr>)) (c_set (c_state_update (\<lambda>_. st)))"
  if "st \<noteq> Closed"
  using that by (intro does_modify) (simp_all add: chip_of_def)

lemma configure_does: "does inv view (configure B) c_configure"
proof -
  have b: "does inv view (block (configure_writes B cfg))
      (\<lambda>s. case encode_iin_limit (cfg_iin_limit_ua cfg) of
         Inr code \<Rightarrow> c_set (fold (\<lambda>f s. f s) ((configure_steps cfg code)
           [7 := \<lambda>s. fold (\<lambda>f s. f s) (protection_steps (c_config s)) s])) s
       | Inl e \<Rightarrow> (Inl e, fold (\<lambda>f s. f s) (take 2 (configure_steps cfg 0)) s))" for cfg
  proof (cases "encode_iin_limit (cfg_iin_limit_ua cfg)")
    case (Inr code)
    have m: "does inv view (set_op_mode B Standby) (c_set (c_mode Standby SYS_CTRL_STANDBY_EN))"
      by (rule set_op_mode_does) simp
    show ?thesis
      unfolding Inr sum.case
      by (rule does_block) (simp add: configure_writes_def configure_steps_def Inr update_does write_verified_does
          regs_control configure_protections_does m configured_does)
  next
    case (Inl e)
    have "does inv view (block (configure_writes B cfg))
      (c_bind (c_set (put_all V_FLOAT_CTRL (encode_vbat_float (cfg_vbat_float_uv cfg)))) (\<lambda>_.
       c_bind (c_set (put GLITCH_CTRL 0x0C (push_bit 2 (encode_vac_ovp (cfg_vac_ovp_uv cfg))))) (\<lambda>_ s. (Inl e, s))))"
      unfolding configure_writes_def block.simps Inl sum.case
      apply (rule does_and_then [OF write_verified_does [OF regs_control(12)]])
      apply (rule does_and_then [OF update_does [OF regs_control(4)]])
      apply (simp add: does_def performs_def and_then_def)
      done
    then show ?thesis
      by (rule does_cong) (simp add: Inl c_bind_def c_set_def configure_steps_def numeral_2_eq_2)
  qed
  from does_unless_closed [OF does_config [where f = "\<lambda>cfg. block (configure_writes B cfg)", OF b]]
  show ?thesis
    unfolding configure_def
    by (rule does_cong) (simp add: c_configure_def c_set_def configure_steps_def split: sum.split)
qed

lemma write_iin_does:
  "does inv view (ignore (write_iin_limit B x f))
     (c_set (\<lambda>s. case encode_iin_limit x of Inl e \<Rightarrow> s | Inr code \<Rightarrow> put IIN_CTRL 0x7F code s))"
proof (cases "encode_iin_limit x")
  case (Inl e)
  have "does inv view (ignore (write_iin_limit B x f)) (\<lambda>s. (Inr (), s))"
    unfolding write_iin_limit_def Inl sum.case by (rule does_cong [OF does_ignore [OF does_raise]]) simp
  then show ?thesis by (rule does_cong) (simp add: Inl c_set_def)
next
  case (Inr code)
  have "does inv view (ignore (write_iin_limit B x f))
      (\<lambda>s. (Inr (), snd (c_bind (c_set (put IIN_CTRL 0x7F code)) (\<lambda>_ s. (Inr code, s)) s)))"
    unfolding write_iin_limit_def Inr sum.case
    by (rule does_ignore [OF does_and_then [OF update_does [OF regs_control(1)] does_ret]])
  then show ?thesis by (rule does_cong) (simp add: Inr c_set_def c_bind_def)
qed

lemma when_does: "does inv view m (c_set f) \<Longrightarrow> does inv view (when_op b m) (c_set (if b then f else (\<lambda>s. s)))"
  by (cases b) (auto simp: c_set_def [abs_def] does_ret)

lemma ignore_set_does: "does inv view m (c_set f) \<Longrightarrow> does inv view (ignore m) (c_set f)"
  by (rule does_cong [OF does_ignore]) (auto simp: c_set_def)

lemma prepare_does: "does inv view (prepare_near_float_for_charge B al) (c_set (c_prepare al))"
proof -
  define tail :: "u32 \<Rightarrow> u32 \<Rightarrow> u8 \<Rightarrow> pump_config \<Rightarrow> ('a, unit) pump_op" where "tail vbat vin fault1 cfg = (case taper_setpoint_ua cfg vbat vin (bit_set fault1 FAULT1_VBAT_OV) of
         None \<Rightarrow> ret ()
       | Some tapered \<Rightarrow>
          and_then (when_op ((bit_set fault1 FAULT1_VBAT_OV \<or> sat_add_u32 vbat 50000 \<ge> cfg_vbat_float_uv cfg) \<and> al) (block [
            when_op (soft_float_for_vbat (cfg_vbat_float_uv cfg) vbat > cfg_vbat_float_uv cfg)
              (ignore (write_verified B V_FLOAT_CTRL
                (encode_vbat_float (soft_float_for_vbat (cfg_vbat_float_uv cfg) vbat)) ''vbat_float_soft'')),
            ignore (update B FAULT_CTRL FAULT_CTRL_DISABLE_VBAT_OV FAULT_CTRL_DISABLE_VBAT_OV
              ''disable_vbat_ov_near_float''),
            ignore (clear_latched_faults B)])) (\<lambda>_.
          when_op (tapered < cfg_iin_limit_ua cfg)
            (ignore (write_iin_limit B tapered ''iin_taper_near_float''))))"
    for vbat vin :: u32 and fault1 :: u8 and cfg
  define after where "after vbat vin fault1 cfg s =
     (case taper_setpoint_ua cfg vbat vin (bit_set fault1 FAULT1_VBAT_OV) of
          None \<Rightarrow> s
        | Some tapered \<Rightarrow>
           (let s = (if (bit_set fault1 FAULT1_VBAT_OV \<or> sat_add_u32 vbat 50000 \<ge> cfg_vbat_float_uv cfg) \<and> al
                     then c_pulse (put FAULT_CTRL FAULT_CTRL_DISABLE_VBAT_OV FAULT_CTRL_DISABLE_VBAT_OV
                        (if soft_float_for_vbat (cfg_vbat_float_uv cfg) vbat > cfg_vbat_float_uv cfg
                         then put_all V_FLOAT_CTRL (encode_vbat_float (soft_float_for_vbat (cfg_vbat_float_uv cfg) vbat)) s
                         else s))
                     else s)
            in if tapered < cfg_iin_limit_ua cfg
               then (case encode_iin_limit tapered of Inl _ \<Rightarrow> s | Inr code \<Rightarrow> put IIN_CTRL 0x7F code s)
               else s))" for vbat vin :: u32 and fault1 :: u8 and cfg s
  have t: "does inv view (tail vbat vin fault1 cfg) (c_set (after vbat vin fault1 cfg))" for vbat vin fault1 cfg
  proof (cases "taper_setpoint_ua cfg vbat vin (bit_set fault1 FAULT1_VBAT_OV)")
    case None
    then show ?thesis by (simp add: tail_def after_def [abs_def] c_set_def [abs_def] does_ret)
  next
    case (Some tapered)
    let ?w = "\<lambda>s. if soft_float_for_vbat (cfg_vbat_float_uv cfg) vbat > cfg_vbat_float_uv cfg
       then put_all V_FLOAT_CTRL (encode_vbat_float (soft_float_for_vbat (cfg_vbat_float_uv cfg) vbat)) s else s"
    have w: "does inv view (when_op (soft_float_for_vbat (cfg_vbat_float_uv cfg) vbat > cfg_vbat_float_uv cfg)
        (ignore (write_verified B V_FLOAT_CTRL (encode_vbat_float (soft_float_for_vbat (cfg_vbat_float_uv cfg) vbat))
          ''vbat_float_soft''))) (c_set ?w)"
      by (rule does_cong [OF when_does [OF ignore_set_does [OF write_verified_does [OF regs_control(12)]]]])
         (simp add: c_set_def)
    have b: "does inv view (block [
            when_op (soft_float_for_vbat (cfg_vbat_float_uv cfg) vbat > cfg_vbat_float_uv cfg)
              (ignore (write_verified B V_FLOAT_CTRL
                (encode_vbat_float (soft_float_for_vbat (cfg_vbat_float_uv cfg) vbat)) ''vbat_float_soft'')),
            ignore (update B FAULT_CTRL FAULT_CTRL_DISABLE_VBAT_OV FAULT_CTRL_DISABLE_VBAT_OV
              ''disable_vbat_ov_near_float''),
            ignore (clear_latched_faults B)])
       (c_set (\<lambda>s. c_pulse (put FAULT_CTRL FAULT_CTRL_DISABLE_VBAT_OV FAULT_CTRL_DISABLE_VBAT_OV (?w s))))"
      by (rule does_cong [OF does_block [where fs = "[?w,
            put FAULT_CTRL FAULT_CTRL_DISABLE_VBAT_OV FAULT_CTRL_DISABLE_VBAT_OV, c_pulse]"]])
         (simp_all add: w ignore_set_does update_does regs_control clear_latched_does c_set_def)
    show ?thesis
      unfolding tail_def Some option.case
      by (rule does_cong [OF does_and_then [OF when_does [OF b] when_does [OF write_iin_does]]])
         (simp add: c_bind_def c_set_def after_def Some Let_def)
  qed
  have p: "c_prepare al s = after (c_volts Vbat s) (c_volts Vin s) (c_regs s FAULT1_STS) (c_config s)
      (c_resume (c_resume s))" for s
    by (simp only: c_prepare_def after_def Let_def)
  have f: "c_regs (c_resume s) FAULT1_STS = c_regs s FAULT1_STS" for s
    by (simp add: c_resume_def put_def chip_write_def)
  show ?thesis
    unfolding prepare_near_float_for_charge_def Let_def tail_def [symmetric]
    by (rule does_cong [OF does_and_then [OF adc_or_zero_does does_and_then [OF adc_or_zero_does does_and_then
          [OF does_value_or [OF read_does] does_config [OF t]]]]])
       (simp add: c_bind_def c_set_def p f c_volts_def calm_adc calm_steps)
qed

lemma enable_switching_does:
  "does inv view (enable_switching B)
     (\<lambda>s. (Inr Switching, (c_settled (c_mode Switching 0 s))\<lparr>c_state := PumpSwitching\<rparr>))"
proof -
  have m: "does inv view (modify (\<lambda>p. p\<lparr>p_state := PumpSwitching\<rparr>)) (c_set (c_state_update (\<lambda>_. PumpSwitching)))"
    by (rule configured_does) simp
  have t: "does inv view (if st_op_mode status \<noteq> Switching
       then raise (ModeNotReached (op_mode_code Switching) (st_sys_sts status))
       else and_then (modify (\<lambda>p. p\<lparr>p_state := PumpSwitching\<rparr>)) (\<lambda>_. ret (st_op_mode status)))
     (\<lambda>s. if st_op_mode status \<noteq> Switching
       then (Inl (ModeNotReached (op_mode_code Switching) (st_sys_sts status)), s)
       else (Inr (st_op_mode status), s\<lparr>c_state := PumpSwitching\<rparr>))" for status
    by (cases "st_op_mode status = Switching")
       (auto simp: does_raise c_bind_def c_set_def intro!: does_cong [OF does_and_then [OF m does_ret]])
  have b: "sys_ctrl_bits Switching = Inr 0" by simp
  show ?thesis
    unfolding enable_switching_def
    by (rule does_cong [OF does_and_then [OF set_op_mode_does [OF b] does_and_then [OF settled_does t]]])
       (simp add: c_bind_def c_set_def c_status_def c_mode_sts sts_modes)
qed

lemma enable_bypass_does:
  "does inv view (enable_bypass B) (\<lambda>s.
     let s' = c_resume (c_resume s) in
     if \<not> bypass_allowed_by_vin (c_adc Vin s) (c_volts Vbat s) then (Inl (BypassNeedsFiveVoltVin (c_adc Vin s)), s')
     else (Inr Bypass, (c_settled (c_mode Bypass SYS_CTRL_EN_1TO1 s'))\<lparr>c_state := Configured\<rparr>))"
proof -
  have m: "does inv view (modify (\<lambda>p. p\<lparr>p_state := Configured\<rparr>)) (c_set (c_state_update (\<lambda>_. Configured)))"
    by (rule configured_does) simp
  have t: "does inv view (if st_op_mode status \<noteq> Bypass
       then raise (ModeNotReached (op_mode_code Bypass) (st_sys_sts status))
       else and_then (modify (\<lambda>p. p\<lparr>p_state := Configured\<rparr>)) (\<lambda>_. ret (st_op_mode status)))
     (\<lambda>s. if st_op_mode status \<noteq> Bypass
       then (Inl (ModeNotReached (op_mode_code Bypass) (st_sys_sts status)), s)
       else (Inr (st_op_mode status), s\<lparr>c_state := Configured\<rparr>))" for status
    by (cases "st_op_mode status = Bypass")
       (auto simp: does_raise c_bind_def c_set_def intro!: does_cong [OF does_and_then [OF m does_ret]])
  have b: "sys_ctrl_bits Bypass = Inr SYS_CTRL_EN_1TO1" by simp
  have e: "does inv view (if \<not> bypass_allowed_by_vin vin vbat then raise (BypassNeedsFiveVoltVin vin)
       else
         and_then (set_op_mode B Bypass) (\<lambda>_.
         and_then (settle_and_read_status B) (\<lambda>status.
           if st_op_mode status \<noteq> Bypass
           then raise (ModeNotReached (op_mode_code Bypass) (st_sys_sts status))
           else and_then (modify (\<lambda>p. p\<lparr>p_state := Configured\<rparr>)) (\<lambda>_. ret (st_op_mode status)))))
     (\<lambda>s. if \<not> bypass_allowed_by_vin vin vbat then (Inl (BypassNeedsFiveVoltVin vin), s)
          else (Inr Bypass, (c_settled (c_mode Bypass SYS_CTRL_EN_1TO1 s))\<lparr>c_state := Configured\<rparr>))" for vin vbat
    by (cases "bypass_allowed_by_vin vin vbat")
       (auto simp: does_raise c_bind_def c_set_def c_status_def c_mode_sts sts_modes
         intro!: does_cong [OF does_and_then [OF set_op_mode_does [OF b] does_and_then [OF settled_does t]]])
  show ?thesis
    unfolding enable_bypass_def
    by (rule does_cong [OF does_and_then [OF read_adc_does does_and_then [OF adc_or_zero_does e]]])
       (simp add: c_bind_def c_volts_def calm_adc calm_steps Let_def)
qed

lemma request_performs:
  assumes "live inv p" "chip_of view p = s" "want = Switching \<or> want = Bypass \<and> bypass_allowed_by_vin (c_adc Vin s) (c_volts Vbat s)"
  shows "performs inv view p (request_mode B delay want) (Inr want) (c_requested want s)"
proof (cases "want = Switching")
  case True
  with does_performs [OF enable_switching_does assms(1)] assms(2) show ?thesis
    by (simp add: request_mode_def c_requested_def)
next
  case False
  with assms(3) have w: "want = Bypass" and ok: "bypass_allowed_by_vin (c_adc Vin s) (c_volts Vbat s)" by auto
  have m: "does inv view (modify (\<lambda>p. p\<lparr>p_bypass_stage := 1\<rparr>)) (c_set (c_stage_update (\<lambda>_. 1)))"
    by (rule does_modify) (simp_all add: chip_of_def)
  have a: "c_adc ch (s\<lparr>c_stage := 1\<rparr>) = c_adc ch s" for ch by (simp add: c_adc_def)
  have "performs inv view q (or_else (enable_bypass B) (\<lambda>_. recover_5v_bypass B delay)) (Inr Bypass)
     ((c_settled (c_mode Bypass SYS_CTRL_EN_1TO1 (c_resume (c_resume (s\<lparr>c_stage := 1\<rparr>)))))\<lparr>c_state := Configured\<rparr>)"
    if "live inv q" "chip_of view q = s\<lparr>c_stage := 1\<rparr>" for q
    using does_performs [OF enable_bypass_does that(1)] that(2) ok
    by (intro performs_or_else) (simp add: a c_volts_def Let_def)
  then show ?thesis
    unfolding request_mode_def w using assms(2)
    by (simp add: c_requested_def performs_and_then [OF performs_set [OF m assms(1)]])
qed

lemma prepare_mode_does:
  assumes "want = Switching \<or> want = Bypass"
  shows "does inv view (prepare_mode B want) (c_set (c_prepare_mode want))"
proof (cases "want = Switching")
  case True
  have "does inv view (block [prepare_near_float_for_charge B True, ignore (clear_latched_faults B),
         ignore (update B FAULT_CTRL FAULT_CTRL_DISABLE_VIN_OV FAULT_CTRL_DISABLE_VIN_OV ''disable_vin_ov_qc'')])
     (c_set (fold (\<lambda>f s. f s) [c_prepare True, c_pulse, put FAULT_CTRL FAULT_CTRL_DISABLE_VIN_OV FAULT_CTRL_DISABLE_VIN_OV]))"
    by (rule does_block) (simp add: prepare_does ignore_set_does clear_latched_does update_does regs_control)
  moreover have "prepare_mode B want = block [prepare_near_float_for_charge B True, ignore (clear_latched_faults B),
         ignore (update B FAULT_CTRL FAULT_CTRL_DISABLE_VIN_OV FAULT_CTRL_DISABLE_VIN_OV ''disable_vin_ov_qc'')]"
    by (simp add: prepare_mode_def True)
  ultimately show ?thesis
    by simp (erule does_cong, simp add: True c_prepare_mode_def c_set_def)
next
  case False
  with assms show ?thesis
    by (auto simp: prepare_mode_def c_prepare_mode_def [abs_def] c_set_def [abs_def] does_ret)
qed

lemma conclude_does:
  assumes "want = Switching \<or> want = Bypass"
  shows "does inv view (conclude_charge B want (Inr want)) (\<lambda>s. (Inr want, c_conclude want s))"
proof -
  have f: "does inv view (modify (\<lambda>p. p\<lparr>p_op_mode := want,
          p_state := (case want of Switching \<Rightarrow> PumpSwitching | _ \<Rightarrow> Configured)\<rparr>))
        (c_set (\<lambda>s. s\<lparr>c_op_mode := want, c_state := (if want = Switching then PumpSwitching else Configured)\<rparr>))"
    by (rule does_modify) (use assms in \<open>auto simp: chip_of_def\<close>)
  show ?thesis
    unfolding conclude_charge_def sum.case
    by (rule does_cong [OF does_and_then [OF f does_and_then [OF when_does [OF prepare_does] does_ret]]])
       (simp add: c_bind_def c_set_def c_conclude_def)
qed

lemma charge_in_mode_performs:
  assumes p: "live inv p" "chip_of view p = s"
    and want: "charge_mode (c_adc Vin s) (c_volts Vbat s) = Some want"
  shows "performs inv view p (charge_in_mode B delay want) (Inr want) (c_request want s)"
proof -
  from want have w: "want = Switching \<or> want = Bypass" by (auto simp: charge_mode_def Let_def split: if_splits)
  define s2 where "s2 = (if cfg_watchdog_enabled (c_config s) then s else put TIMER_CTRL 0x80 0 s)"
  define s4 where "s4 = c_prepare_mode want (s2\<lparr>c_stage := 0\<rparr>)"
  have st: "does inv view (modify (\<lambda>p. p\<lparr>p_bypass_stage := 0\<rparr>)) (c_set (c_stage_update (\<lambda>_. 0)))"
    by (rule does_modify) (simp_all add: chip_of_def)
  have "p_config p = c_config s" using p(2) by (auto simp: chip_of_def)
  with performs_set [OF when_does [where b = "\<not> cfg_watchdog_enabled (p_config p)", OF ignore_set_does
      [OF update_does [OF regs_control(10), where m = "0x80" and v = "0" and field = "''watchdog_force_off''"]]] p(1)] p(2)
  have wd: "performs inv view p (when_op (\<not> cfg_watchdog_enabled (p_config p))
        (ignore (update B TIMER_CTRL 0x80 0 ''watchdog_force_off''))) (Inr ()) s2"
    by (auto simp: s2_def)
  have adc: "c_adc ch s4 = c_adc ch s" for ch
    unfolding s4_def undisturbed_adc [OF c_prepare_mode_calm] s2_def
    by (rule c_adc_cong) (simp add: put_def chip_write_def control_regs_def)
  have allowed: "want = Switching \<or> want = Bypass \<and> bypass_allowed_by_vin (c_adc Vin s4) (c_volts Vbat s4)"
    using w want by (auto simp: bypass_allowed_by_vin_def adc c_volts_def)
  have rq: "performs inv view q (and_then (outcome (request_mode B delay want)) (conclude_charge B want))
      (Inr want) (c_request want s)" if "live inv q" "chip_of view q = s4" for q
  proof (rule performs_and_then [OF performs_outcome [OF request_performs [OF that allowed]]])
    fix q' assume "live inv q'" "chip_of view q' = c_requested want s4"
    with does_performs [OF conclude_does [OF w] this(1)]
    show "performs inv view q' (conclude_charge B want (Inr want)) (Inr want) (c_request want s)"
      by (simp add: c_request_def s4_def s2_def)
  qed
  show ?thesis
    unfolding charge_in_mode_def
    by (rule performs_get, rule performs_and_then [OF wd performs_and_then [OF performs_set [OF st]
          performs_and_then [OF performs_set [OF prepare_mode_does [OF w]] rq]]])
       (simp_all add: s4_def)
qed

lemma charge_on_does: "does inv view (charge_on B delay) c_charge_on"
  unfolding does_def
proof (intro allI impI)
  fix p assume p: "live inv p"
  define s where "s = chip_of view p"
  define s1 where "s1 = c_resume (c_resume s)"
  have adc: "c_adc ch s1 = c_adc ch s" "c_adc ch (c_resume s) = c_adc ch s" for ch
    by (simp_all add: s1_def calm_adc calm_steps)
  have v: "does inv view (value_or (read_adc B Vin) 0) (\<lambda>s. (Inr (c_adc Vin s), c_resume s))"
    by (rule does_cong [OF does_value_or [OF read_adc_does]]) simp
  have vin: "performs inv view p (value_or (read_adc B Vin) 0) (Inr (c_adc Vin s)) (c_resume s)"
    using does_performs [OF v p] by (simp add: s_def)
  have vbat: "performs inv view q (adc_or_zero B Vbat) (Inr (c_volts Vbat s)) s1"
    if "live inv q" "chip_of view q = c_resume s" for q
    using does_performs [OF adc_or_zero_does that(1), of Vbat] that(2) by (simp add: s1_def c_volts_def adc)
  have b: "sys_ctrl_bits Standby = Inr SYS_CTRL_STANDBY_EN" by simp
  have none: "performs inv view q (and_then (ignore (set_op_mode B Standby)) (\<lambda>_. raise (ModeNotReached (op_mode_code Standby) 0)))
        (Inl (ModeNotReached (op_mode_code Standby) 0)) (c_mode Standby SYS_CTRL_STANDBY_EN s1)"
    if "live inv q" "chip_of view q = s1" for q
    using performs_set [OF ignore_set_does [OF set_op_mode_does [OF b]] that(1)] that(2)
    by (auto intro!: performs_and_then performs_end)
  have some: "performs inv view q (charge_in_mode B delay want) (Inr want) (c_request want s1)"
    if "live inv q" "chip_of view q = s1" "charge_mode (c_adc Vin s) (c_volts Vbat s) = Some want" for q want
    by (rule charge_in_mode_performs [OF that(1,2)]) (use that(3) in \<open>simp add: c_volts_def adc\<close>)
  show "performs inv view p (charge_on B delay) (fst (c_charge_on (chip_of view p))) (snd (c_charge_on (chip_of view p)))"
    unfolding charge_on_def c_charge_on_def Let_def s_def [symmetric] s1_def [symmetric]
    by (rule performs_and_then [OF vin performs_and_then [OF vbat]], assumption+,
        cases "charge_mode (c_adc Vin s) (c_volts Vbat s)") (simp_all only: option.case fst_conv snd_conv none some)
qed

lemma charge_off_does: "does inv view (charge_off B) (\<lambda>s. (Inr Standby, c_charge_off s))"
proof -
  have m: "does inv view (modify (\<lambda>p. p\<lparr>p_por_vin_uv := None\<rparr>)) (c_set (c_por_update (\<lambda>_. None)))"
    "does inv view (modify (\<lambda>p. p\<lparr>p_op_mode := md, p_state := Configured\<rparr>))
       (c_set (\<lambda>s. s\<lparr>c_op_mode := md, c_state := Configured\<rparr>))" for md
    by (rule does_modify; simp add: chip_of_def)+
  have b: "sys_ctrl_bits Standby = Inr SYS_CTRL_STANDBY_EN" by simp
  show ?thesis
    unfolding charge_off_def
    by (rule does_cong [OF does_and_then [OF m(1) does_and_then [OF set_op_mode_does [OF b] does_and_then
          [OF settled_does does_and_then [OF m(2) does_ret]]]]])
       (simp add: c_bind_def c_set_def c_status_def c_charge_off_def c_mode_sts sts_modes)
qed

lemma set_charging_does: "does inv view (set_charging B delay on) (c_set_charging on)"
proof -
  have "does inv view (if \<not> on then charge_off B else charge_on B delay)
      (\<lambda>s. if on then c_charge_on s else (Inr Standby, c_charge_off s))"
    by (cases on) (simp_all add: charge_on_does charge_off_does)
  then show ?thesis
    unfolding set_charging_def
    by (rule does_cong [OF does_and_then [OF update_does [OF regs_control(3)]]])
       (simp add: c_bind_def c_set_def c_set_charging_def Let_def)
qed

lemma taken: "does inv view m g \<Longrightarrow> live inv p \<Longrightarrow>
  \<exists>p'. m p = Some (fst (g (chip_of view p)), p') \<and> live inv p' \<and> chip_of view p' = snd (g (chip_of view p))"
  using does_performs by (fastforce simp: performs_def)

end

section \<open>Configuration\<close>

lemma chip_write_simps:
  "a \<noteq> SYS_CTRL \<Longrightarrow> chip_write a v r = r(a := v)"
  "chip_write SYS_CTRL v r = r(SYS_CTRL := v, SYS_STS := requested_sts v)"
  by (simp_all add: chip_write_def)

lemma masked_masked: "masked (masked c m v) m' v' = masked c (m OR m') (masked v m' v')"
  by (rule bit_word_eqI) (auto simp: bit_masked bit_simps)

lemma masked_self: "masked c m m = c OR m"
  by (rule bit_word_eqI) (auto simp: bit_masked bit_simps)

lemma bits_below_8: "n < 8 \<Longrightarrow> n = 0 \<or> n = 1 \<or> n = 2 \<or> n = 3 \<or> n = 4 \<or> n = 5 \<or> n = 6 \<or> n = (7::nat)"
  by linarith

lemma bits_of_4_7: "n \<in> {4..7} \<Longrightarrow> n = 4 \<or> n = 5 \<or> n = 6 \<or> n = (7::nat)"
  by auto

lemma bit_of_bool: "bit (push_bit k (u8_of_bool b)) n \<longleftrightarrow> b \<and> n = k \<and> n < 8"
  by (auto simp: u8_of_bool_def bit_simps)

lemma bit_of_bool_low:
  "bit (u8_of_bool b * 2) n \<longleftrightarrow> b \<and> n = 1" "bit (u8_of_bool b) n \<longleftrightarrow> b \<and> n = 0"
  using bit_of_bool [of 1 b n] bit_of_bool [of 0 b n] by auto

text \<open>The register file configuring leaves, field by field; \<open>r\<close> is the one before.\<close>

definition configured_for :: "pump_config \<Rightarrow> u8 \<Rightarrow> (u8 \<Rightarrow> u8) \<Rightarrow> (u8 \<Rightarrow> u8) \<Rightarrow> bool" where
  "configured_for cfg code r R \<longleftrightarrow>
     R V_FLOAT_CTRL = encode_vbat_float (cfg_vbat_float_uv cfg) \<and>
     R GLITCH_CTRL = masked (r GLITCH_CTRL) 0x0C (push_bit 2 (encode_vac_ovp (cfg_vac_ovp_uv cfg))) \<and>
     R IIN_CTRL = masked (r IIN_CTRL) 0x7F code \<and>
     R NTC_CTRL = fst (encode_ntc_alarm (cfg_ntc_alarm_cfg cfg)) \<and>
     R FAULT_CTRL = masked (r FAULT_CTRL) 0x70 0x40 \<and>
     R SYS_CTRL = masked (r SYS_CTRL) 0x0D 0x08 \<and> R SYS_STS = SYS_STS_STANDBY \<and>
     R ADC_CFG = 0x3E \<and> R CHARGE_CTRL = r CHARGE_CTRL OR 0x80 \<and> R THRESHOLD_CTRL = THRESHOLD_CTRL_DEFAULT \<and>
     bit (R REGULATION_CTRL) 7 = (\<not> cfg_vbat_reg_disabled cfg) \<and>
     bit (R REGULATION_CTRL) 6 = (\<not> cfg_iin_reg_disabled cfg) \<and>
     bit (R REGULATION_CTRL) 5 = cfg_vbat_reg_disabled cfg \<and>
     bit (R REGULATION_CTRL) 4 = cfg_iin_reg_disabled cfg \<and>
     bit (R REGULATION_CTRL) 3 \<and>
     bit (R REGULATION_CTRL) 2 = (\<not> cfg_tdie_prot_disabled cfg) \<and>
     bit (R REGULATION_CTRL) 1 = (\<not> cfg_tdie_reg_disabled cfg) \<and>
     bit (R REGULATION_CTRL) 0 = bit (r REGULATION_CTRL) 0 \<and>
     bit (R RECOVERY_CTRL) 1 = (\<not> cfg_tbus_mon_disabled cfg) \<and>
     bit (R RECOVERY_CTRL) 0 = (\<not> cfg_tbat_mon_disabled cfg) \<and>
     R RECOVERY_CTRL AND 0x0C = r RECOVERY_CTRL AND 0x0C \<and>
     (\<forall>n\<in>{4..7}. bit (R RECOVERY_CTRL) n = cfg_auto_recovery cfg) \<and>
     bit (R TIMER_CTRL) 7 = cfg_watchdog_enabled cfg \<and>
     R TIMER_CTRL AND 0x60 = push_bit 5 (watchdog_code (cfg_watchdog_period cfg)) \<and>
     R TIMER_CTRL AND 0x1F = r TIMER_CTRL AND 0x1F \<and>
     R ADC_CTRL AND 0xFC = masked (r ADC_CTRL) 0xF8 0x18 AND 0xFC \<and>
     R ADC_CTRL AND 0x03 = snd (encode_ntc_alarm (cfg_ntc_alarm_cfg cfg)) \<and>
     (\<forall>a. a \<notin> control_regs \<and> a \<noteq> SYS_STS \<longrightarrow> R a = r a)"

lemma c_configure_regs:
  assumes "encode_iin_limit (cfg_iin_limit_ua (c_config s)) = Inr code"
  shows "configured_for (c_config s) code (c_regs s) (c_regs (snd (c_configure s)))"
proof -
  let ?R = "c_regs (snd (c_configure s))" and ?cfg = "c_config s"
  note d = c_configure_def assms configure_steps_def protection_steps_def put_def put_all_def c_mode_def
    chip_write_simps sys_ctrl_mask_def
  have f: "?R V_FLOAT_CTRL = encode_vbat_float (cfg_vbat_float_uv ?cfg)"
     "?R GLITCH_CTRL = masked (c_regs s GLITCH_CTRL) 0x0C (push_bit 2 (encode_vac_ovp (cfg_vac_ovp_uv ?cfg)))"
     "?R IIN_CTRL = masked (c_regs s IIN_CTRL) 0x7F code"
     "?R NTC_CTRL = fst (encode_ntc_alarm (cfg_ntc_alarm_cfg ?cfg))"
    by (simp_all add: d)
  have w: "?R FAULT_CTRL = masked (masked (masked (c_regs s FAULT_CTRL) 0x20 0) 0x40 0x40) 0x10 0"
     "?R SYS_CTRL = masked (masked (c_regs s SYS_CTRL) 0x04 0) 0x09 0x08" "?R SYS_STS = requested_sts (?R SYS_CTRL)"
     "?R ADC_CFG = 0x3E" "?R CHARGE_CTRL = masked (c_regs s CHARGE_CTRL) 0x80 0x80" "?R THRESHOLD_CTRL = THRESHOLD_CTRL_DEFAULT"
    by (simp_all add: d)
  have g: "?R REGULATION_CTRL = masked (masked (masked (masked (masked (masked (masked (c_regs s REGULATION_CTRL)
       0x0C (push_bit 2 NTC_SHUTDOWN_CFG))
       0x20 (push_bit 5 (u8_of_bool (cfg_vbat_reg_disabled ?cfg))))
       0x80 (push_bit 7 (u8_of_bool (\<not> cfg_vbat_reg_disabled ?cfg))))
       0x10 (push_bit 4 (u8_of_bool (cfg_iin_reg_disabled ?cfg))))
       0x40 (push_bit 6 (u8_of_bool (\<not> cfg_iin_reg_disabled ?cfg))))
       0x04 (push_bit 2 (u8_of_bool (\<not> cfg_tdie_prot_disabled ?cfg))))
       0x02 (push_bit 1 (u8_of_bool (\<not> cfg_tdie_reg_disabled ?cfg)))"
    by (simp add: d)
  have h: "?R RECOVERY_CTRL = masked (c_regs s RECOVERY_CTRL) 0xF3
       ((if cfg_auto_recovery ?cfg then 0xF0 else 0x00) OR
        (push_bit 1 (u8_of_bool (\<not> cfg_tbus_mon_disabled ?cfg)) OR u8_of_bool (\<not> cfg_tbat_mon_disabled ?cfg)))"
     "?R TIMER_CTRL = masked (masked (c_regs s TIMER_CTRL) 0x80 (if cfg_watchdog_enabled ?cfg then 0x80 else 0))
       0x60 (push_bit 5 (watchdog_code (cfg_watchdog_period ?cfg)))"
     "?R ADC_CTRL = masked (masked (masked (masked (c_regs s ADC_CTRL) 0x03 (snd (encode_ntc_alarm (cfg_ntc_alarm_cfg ?cfg))))
       0xE0 (push_bit 5 (adc_mode_code AdcShutdown))) 0x18 (push_bit 3 (hibernate_code DelaySec4)))
       0xE0 (push_bit 5 (adc_mode_code AdcAutoHibernate))"
    by (simp_all add: d)
  have i: "\<forall>a. a \<notin> control_regs \<and> a \<noteq> SYS_STS \<longrightarrow> ?R a = c_regs s a"
    by (simp add: d control_regs_def)
  have w2: "?R FAULT_CTRL = masked (c_regs s FAULT_CTRL) 0x70 0x40" "?R SYS_CTRL = masked (c_regs s SYS_CTRL) 0x0D 0x08"
    "?R CHARGE_CTRL = c_regs s CHARGE_CTRL OR 0x80"
    unfolding w masked_masked by (simp_all add: masked_self) (simp_all add: masked_def)
  have sts: "?R SYS_STS = SYS_STS_STANDBY"
    unfolding w(3) w(2) by (simp add: requested_sts_def masked_inside)
  have bits: "bit (?R REGULATION_CTRL) 7 = (\<not> cfg_vbat_reg_disabled ?cfg)"
     "bit (?R REGULATION_CTRL) 6 = (\<not> cfg_iin_reg_disabled ?cfg)"
     "bit (?R REGULATION_CTRL) 5 = cfg_vbat_reg_disabled ?cfg"
     "bit (?R REGULATION_CTRL) 4 = cfg_iin_reg_disabled ?cfg"
     "bit (?R REGULATION_CTRL) 3"
     "bit (?R REGULATION_CTRL) 2 = (\<not> cfg_tdie_prot_disabled ?cfg)"
     "bit (?R REGULATION_CTRL) 1 = (\<not> cfg_tdie_reg_disabled ?cfg)"
     "bit (?R REGULATION_CTRL) 0 = bit (c_regs s REGULATION_CTRL) 0"
    unfolding g by (simp_all add: bit_masked bit_of_bool bit_of_bool_low)
  have rbits: "bit (?R RECOVERY_CTRL) 1 = (\<not> cfg_tbus_mon_disabled ?cfg)"
     "bit (?R RECOVERY_CTRL) 0 = (\<not> cfg_tbat_mon_disabled ?cfg)"
     "\<forall>n\<in>{4..7}. bit (?R RECOVERY_CTRL) n = cfg_auto_recovery ?cfg"
    unfolding h
    by (auto simp: bit_masked bit_of_bool_low bit_or_iff dest!: bits_of_4_7)
  have rkept: "?R RECOVERY_CTRL AND 0x0C = c_regs s RECOVERY_CTRL AND 0x0C"
    unfolding h by (rule masked_outside) simp
  have timer: "?R TIMER_CTRL AND 0x60 = push_bit 5 (watchdog_code (cfg_watchdog_period ?cfg))"
    "?R TIMER_CTRL AND 0x1F = c_regs s TIMER_CTRL AND 0x1F"
    unfolding h by (cases "cfg_watchdog_period ?cfg"; simp add: masked_inside masked_outside)+
  have ntc: "snd (encode_ntc_alarm (cfg_ntc_alarm_cfg ?cfg)) AND 0x03 = snd (encode_ntc_alarm (cfg_ntc_alarm_cfg ?cfg))"
    by (rule bit_word_eqI) (auto simp: encode_ntc_alarm_def bit_simps dest!: bits_below_8)
  have adc: "?R ADC_CTRL AND 0x03 = snd (encode_ntc_alarm (cfg_ntc_alarm_cfg ?cfg))"
    unfolding h by (simp add: masked_inside masked_outside ntc)
  have adc2: "?R ADC_CTRL AND 0xFC = masked (c_regs s ADC_CTRL) 0xF8 0x18 AND 0xFC"
    unfolding h by (rule bit_word_eqI) (auto simp: bit_masked bit_and_iff dest!: bits_below_8)
  show ?thesis
    unfolding configured_for_def using f w2 w(4,6) sts bits rbits rkept timer adc adc2 i h(2)
    by (simp add: bit_masked)
qed

lemma c_configure_session:
  assumes "encode_iin_limit (cfg_iin_limit_ua (c_config s)) = Inr code"
  shows "fst (c_configure s) = Inr ()" "c_state (snd (c_configure s)) = Configured"
    "c_config (snd (c_configure s)) = c_config s" "c_op_mode (snd (c_configure s)) = Standby"
  using assms by (simp_all add: c_configure_def configure_steps_def protection_steps_def)

lemma chip_of_fields:
  "c_regs (chip_of view p) = view (p_bus p)" "c_config (chip_of view p) = p_config p"
  "c_state (chip_of view p) = p_state p" "c_op_mode (chip_of view p) = p_op_mode p"
  "c_por (chip_of view p) = p_por_vin_uv p" "c_stage (chip_of view p) = p_bypass_stage p"
  by (simp_all add: chip_of_def)

lemma configure_on_mock:
  assumes "mock_inv (p_bus p)" "p_state p \<noteq> Closed" "config_sane (p_config p)"
  shows "\<exists>p' code. configure mock_reg_bus p = Some (Inr (), p') \<and> mock_inv (p_bus p') \<and>
    p_state p' = Configured \<and> p_config p' = p_config p \<and> p_op_mode p' = Standby \<and>
    encode_iin_limit (cfg_iin_limit_ua (p_config p)) = Inr code \<and>
    configured_for (p_config p) code (reg (p_bus p)) (reg (p_bus p'))"
proof -
  obtain code where c: "encode_iin_limit (cfg_iin_limit_ua (p_config p)) = Inr code"
    using assms(3) by (auto simp: config_sane_def encode_iin_limit_def Let_def)
  then have c': "encode_iin_limit (cfg_iin_limit_ua (c_config (chip_of reg p))) = Inr code"
    by (simp add: chip_of_fields)
  have "live mock_inv p" using assms(1,2) by (simp add: live_def)
  then obtain p' where p': "configure mock_reg_bus p = Some (fst (c_configure (chip_of reg p)), p')" "live mock_inv p'"
      "chip_of reg p' = snd (c_configure (chip_of reg p))"
    using mock.taken [OF mock.configure_does] by blast
  note f = chip_of_fields [of reg p', unfolded p'(3)]
  show ?thesis
    using p'(1,2) c c_configure_session [OF c'] c_configure_regs [OF c'] f
    by (intro exI [of _ p'] exI [of _ code]) (simp add: live_def chip_of_fields)
qed

text \<open>
  C35. On a working chip, configuring an open session always succeeds, for every accepted profile, and
  leaves exactly the register file of its steps: the voltage, current, overvoltage and NTC codes of the
  profile, the protections and loops its flags ask for, standby, the watchdog and ADC settings, and
  every bit the procedure does not own as it was before, the middle bits of \<open>RECOVERY_CTRL\<close>, the low five of
  \<open>TIMER_CTRL\<close> and the lowest of \<open>REGULATION_CTRL\<close> among them. One step does not survive: the low bit of the NTC
  shutdown field, which step 5 sets to 2, is the protection enable of step 7
  (lemma \<open>ntc_shutdown_cfg_overwritten\<close>).
\<close>

lemma configure_register_file:
  assumes "mock_inv (p_bus p)" "p_state p \<noteq> Closed" "config_sane (p_config p)"
  shows "\<exists>p' code. configure mock_reg_bus p = Some (Inr (), p') \<and> mock_inv (p_bus p') \<and>
    p_state p' = Configured \<and> p_config p' = p_config p \<and> p_op_mode p' = Standby \<and>
    encode_iin_limit (cfg_iin_limit_ua (p_config p)) = Inr code \<and>
    configured_for (p_config p) code (reg (p_bus p)) (reg (p_bus p'))"
  by (rule configure_on_mock [OF assms])

definition pump_on_mock :: "pump_config \<Rightarrow> mock_bus pump" where
  "pump_on_mock cfg = \<lparr>p_bus = mock_new, p_config = cfg, p_state = Probed, p_op_mode = Unknown,
     p_bypass_stage = 0, p_por_vin_uv = None, p_writes = 0, p_reads = 1\<rparr>"

lemma configure_register_file_witness:
  "\<exists>p' code. configure mock_reg_bus (pump_on_mock config_default) = Some (Inr (), p') \<and>
     configured_for config_default code (reg mock_new) (reg (p_bus p'))"
proof -
  have "config_sane config_default" by (simp add: config_sane_def config_default_def)
  with configure_register_file [of "pump_on_mock config_default"] mock_new_ok(1) show ?thesis
    by (auto simp: pump_on_mock_def)
qed

lemma ntc_field: "w AND 0x0C = (if bit w 3 then 0x08 else 0) OR (if bit w 2 then 0x04 else (0 :: u8))"
  by (rule bit_word_eqI) (auto simp: bit_and_iff bit_or_iff dest!: bits_below_8)

text \<open>
  The NTC shutdown setting of step 5 survives configuration only if the profile disables the die
  temperature protection: step 7 writes the protection enable into bit 2 of the same register, which is
  the low bit of the field that step 5 has just set to 2, so every profile that keeps the protection
  ends with 3 in it.
\<close>

lemma ntc_shutdown_cfg_overwritten:
  assumes "mock_inv (p_bus p)" "p_state p \<noteq> Closed" "config_sane (p_config p)"
  shows "\<exists>p'. configure mock_reg_bus p = Some (Inr (), p') \<and>
    reg (p_bus p') REGULATION_CTRL AND 0x0C =
      (if cfg_tdie_prot_disabled (p_config p) then push_bit 2 NTC_SHUTDOWN_CFG else push_bit 2 0x03)"
proof -
  obtain p' code where h: "configure mock_reg_bus p = Some (Inr (), p')"
      "configured_for (p_config p) code (reg (p_bus p)) (reg (p_bus p'))"
    using configure_on_mock [OF assms] by blast
  have "reg (p_bus p') REGULATION_CTRL AND 0x0C =
      (if cfg_tdie_prot_disabled (p_config p) then push_bit 2 NTC_SHUTDOWN_CFG else push_bit 2 0x03)"
    unfolding ntc_field using h(2) by (simp add: configured_for_def)
  with h(1) show ?thesis by blast
qed

section \<open>Charge modes\<close>

lemma c_request_facts:
  assumes "m = Switching \<or> m = Bypass"
  shows "c_regs (c_request m s) SYS_STS = (if m = Switching then SYS_STS_SWITCHING_ENABLED else SYS_STS_BYPASS_ENABLED)"
    "c_regs (c_request m s) SYS_CTRL = masked (c_regs s SYS_CTRL) 0x09 (if m = Switching then 0 else 0x01)"
    "c_state (c_request m s) = (if m = Switching then PumpSwitching else Configured)"
    "c_op_mode (c_request m s) = m" "c_config (c_request m s) = c_config s"
proof -
  note u = calm_prepare [of False, unfolded calm_def undisturbed_def] calm_steps(1) [unfolded calm_def undisturbed_def]
    c_prepare_mode_calm [unfolded undisturbed_def]
  have r: "SYS_STS \<notin> control_regs" by (simp add: control_regs_def)
  show "c_regs (c_request m s) SYS_STS = (if m = Switching then SYS_STS_SWITCHING_ENABLED else SYS_STS_BYPASS_ENABLED)"
    using assms r by (auto simp: c_request_def c_conclude_def c_requested_def c_settled_def Let_def u c_mode_sts)
  show "c_regs (c_request m s) SYS_CTRL = masked (c_regs s SYS_CTRL) 0x09 (if m = Switching then 0 else 0x01)"
    using assms by (auto simp: c_request_def c_conclude_def c_requested_def c_settled_def Let_def u c_mode_def put_def
        chip_write_def sys_ctrl_mask_def)
  show "c_state (c_request m s) = (if m = Switching then PumpSwitching else Configured)"
    "c_op_mode (c_request m s) = m" "c_config (c_request m s) = c_config s"
    using assms by (auto simp: c_request_def c_conclude_def c_requested_def c_settled_def Let_def u c_mode_def put_def)
qed

lemma ntc_shutdown_cfg_overwritten_witness:
  "\<exists>p'. configure mock_reg_bus (pump_on_mock config_default) = Some (Inr (), p') \<and>
     reg (p_bus p') REGULATION_CTRL AND 0x0C = push_bit 2 0x03"
proof -
  have "config_sane config_default" by (simp add: config_sane_def config_default_def)
  with ntc_shutdown_cfg_overwritten [of "pump_on_mock config_default"] mock_new_ok(1) show ?thesis
    by (auto simp: pump_on_mock_def config_default_def)
qed

definition mock_adc :: "adc_channel \<Rightarrow> mock_bus \<Rightarrow> i32" where
  "mock_adc ch b = adc_decode ch (byte_pair (reg b (adc_register ch)) (reg b (adc_register ch + 1)))"

definition mock_mode :: "mock_bus \<Rightarrow> op_mode option" where
  "mock_mode b = charge_mode (mock_adc Vin b) (u32_of_i32 (mock_adc Vbat b))"

lemma mode_bits_rev: "masked (masked c 0x04 0) 0x09 v AND 0x04 = (0 :: u8)"
  by (simp add: masked_outside masked_inside)

lemma charge_on_mock:
  assumes "mock_inv (p_bus p)" "p_state p \<noteq> Closed"
  shows "\<exists>r p'. set_charging mock_reg_bus delay True p = Some (r, p') \<and> mock_inv (p_bus p') \<and>
    p_config p' = p_config p \<and> reg (p_bus p') SYS_CTRL AND SYS_CTRL_REV_IIN_DET = 0 \<and>
    p_op_mode p' = from_sys_sts (reg (p_bus p') SYS_STS) \<and>
    (case mock_mode (p_bus p) of
       None \<Rightarrow> r = Inl (ModeNotReached (op_mode_code Standby) 0) \<and> p_op_mode p' = Standby \<and> p_state p' = p_state p
     | Some m \<Rightarrow> r = Inr m \<and> p_op_mode p' = m \<and>
         p_state p' = (if m = Switching then PumpSwitching else Configured))"
proof -
  define s where "s = chip_of reg p"
  define s0 where "s0 = put SYS_CTRL 0x04 0 s"
  define s1 where "s1 = c_resume (c_resume s0)"
  have "live mock_inv p" using assms by (simp add: live_def)
  then obtain p' where p': "set_charging mock_reg_bus delay True p = Some (fst (c_set_charging True s), p')"
      "live mock_inv p'" "chip_of reg p' = snd (c_set_charging True s)"
    using mock.taken [OF mock.set_charging_does] unfolding s_def by blast
  have a: "c_adc ch s0 = mock_adc ch (p_bus p)" for ch
  proof -
    have "c_adc ch s0 = c_adc ch s"
      unfolding s0_def by (rule c_adc_cong) (simp add: put_def chip_write_def control_regs_def)
    then show ?thesis by (simp add: s_def c_adc_def mock_adc_def chip_of_fields)
  qed
  have m: "charge_mode (c_adc Vin s0) (c_volts Vbat s0) = mock_mode (p_bus p)"
    by (simp add: a c_volts_def mock_mode_def)
  have c: "c_set_charging True s = (case mock_mode (p_bus p) of
       None \<Rightarrow> (Inl (ModeNotReached (op_mode_code Standby) 0), c_mode Standby SYS_CTRL_STANDBY_EN s1)
     | Some m \<Rightarrow> (Inr m, c_request m s1))"
    unfolding c_set_charging_def c_charge_on_def Let_def s0_def [symmetric] m s1_def by simp
  have u: "c_regs s1 SYS_CTRL = masked (c_regs s SYS_CTRL) 0x04 0" "c_state s1 = p_state p" "c_config s1 = p_config p"
    using undisturbed_steps(1) [OF undisturbed_steps(1) [OF undisturbed_refl], of s0]
    by (simp_all add: s1_def undisturbed_def s0_def put_def chip_write_def s_def chip_of_fields)
  note f = chip_of_fields [of reg p', unfolded p'(3)]
  show ?thesis
  proof (cases "mock_mode (p_bus p)")
    case None
    have "c_regs (c_mode Standby SYS_CTRL_STANDBY_EN s1) SYS_CTRL = masked (c_regs s1 SYS_CTRL) 0x09 0x08"
      by (simp add: c_mode_def put_def chip_write_def sys_ctrl_mask_def)
    with p'(1,2) f u c_mode_sts(1) [of s1] sts_modes(1) mode_bits_rev show ?thesis
      by (intro exI [of _ "fst (c_set_charging True s)"] exI [of _ p']) (simp add: c None live_def)
  next
    case (Some m)
    then have w: "m = Switching \<or> m = Bypass"
      by (auto simp: mock_mode_def charge_mode_def Let_def split: if_splits)
    note q = c_request_facts [OF w, of s1]
    from p'(1,2) f u q sts_modes(2,3) mode_bits_rev w show ?thesis
      by (intro exI [of _ "fst (c_set_charging True s)"] exI [of _ p']) (auto simp: c Some live_def)
  qed
qed

text \<open>
  C1. On a working chip, switching the charge on in an open session always returns, and its answer is the
  truth: if the measured input and cell voltage allow a mode, that mode is returned, is what the chip
  reports in \<open>SYS_STS\<close>, and is recorded in the session; if they allow none, the error says so and the
  chip reports standby. Reverse current is off and the profile unchanged in both cases.
\<close>

lemma set_charging_on_outcome:
  assumes "mock_inv (p_bus p)" "p_state p \<noteq> Closed"
  shows "\<exists>r p'. set_charging mock_reg_bus delay True p = Some (r, p') \<and>
    p_config p' = p_config p \<and> reg (p_bus p') SYS_CTRL AND SYS_CTRL_REV_IIN_DET = 0 \<and>
    p_op_mode p' = from_sys_sts (reg (p_bus p') SYS_STS) \<and>
    (case mock_mode (p_bus p) of
       None \<Rightarrow> r = Inl (ModeNotReached (op_mode_code Standby) 0) \<and> p_op_mode p' = Standby
     | Some m \<Rightarrow> r = Inr m \<and> p_op_mode p' = m \<and>
         p_state p' = (if m = Switching then PumpSwitching else Configured))"
  using charge_on_mock [OF assms, of delay] by (auto split: option.splits)

text \<open>A chip with 4.992 V at the input and a cell at 3.8 V.\<close>

definition five_volt_pump :: "mock_bus pump" where
  "five_volt_pump = (pump_on_mock for_nabu_dts)\<lparr>p_bus :=
     \<lparr>mb_regs = [(0x0B, 0x80), (0x0C, 0x13), (0x0E, 0xF8), (0x0F, 0x02)], mb_faults = [], mb_reset_count = 0\<rparr>\<rparr>"

lemma five_volt_pump_facts:
  "mock_inv (p_bus five_volt_pump)" "p_state five_volt_pump \<noteq> Closed" "p_config five_volt_pump = for_nabu_dts"
  "mock_adc Vin (p_bus five_volt_pump) = 4992000" "mock_mode (p_bus five_volt_pump) = Some Bypass"
proof -
  show "mock_inv (p_bus five_volt_pump)" "p_state five_volt_pump \<noteq> Closed" "p_config five_volt_pump = for_nabu_dts"
    by (simp_all add: five_volt_pump_def pump_on_mock_def mock_inv_def slots_within_def chip_regs_def chip_reg_list_def)
  have v: "mock_adc Vin (p_bus five_volt_pump) = 4992000" "mock_adc Vbat (p_bus five_volt_pump) = 3800000"
    by (simp_all add: five_volt_pump_def mock_adc_def reg_def load_reg_def adc_decode_def adc_slice_def byte_pair_def Let_def)
  show "mock_adc Vin (p_bus five_volt_pump) = 4992000" by (rule v)
  show "mock_mode (p_bus five_volt_pump) = Some Bypass"
    by (simp add: mock_mode_def v charge_mode_def non_negative_uv_def min_vin_for_switching_uv_def rust_int Let_def)
qed

lemma set_charging_on_outcome_witness:
  "\<exists>r p'. set_charging mock_reg_bus id True five_volt_pump = Some (Inr Bypass, p') \<and>
    from_sys_sts (reg (p_bus p') SYS_STS) = Bypass"
  using set_charging_on_outcome [OF five_volt_pump_facts(1,2), of id] by (auto simp: five_volt_pump_facts(5))

text \<open>
  C2. Switching the charge on never puts the input straight onto the cell at a raised voltage: after it
  the chip is in 1:1 only if the measured input was at least 4.2 V and below 6 V, and in 2:1 only if it
  was at least 6 V and 250 mV above twice the cell voltage.
\<close>

lemma set_charging_voltage_safe:
  assumes "mock_inv (p_bus p)" "p_state p \<noteq> Closed"
    and "set_charging mock_reg_bus delay True p = Some (r, p')"
  shows "(from_sys_sts (reg (p_bus p') SYS_STS) = Bypass \<longrightarrow>
      4200000 \<le> mock_adc Vin (p_bus p) \<and> mock_adc Vin (p_bus p) < 6000000) \<and>
    (from_sys_sts (reg (p_bus p') SYS_STS) = Switching \<longrightarrow>
      6000000 \<le> mock_adc Vin (p_bus p) \<and>
      2 * mock_adc Vbat (p_bus p) + 250000 \<le> mock_adc Vin (p_bus p))"
proof -
  have r: "mock_adc ch (p_bus p) \<le> 16448000 \<and> (0 \<le> mock_adc ch (p_bus p))" if "ch \<in> {Vin, Vbat}" for ch
    using adc_slice_range [of ch "byte_pair (reg (p_bus p) (adc_register ch)) (reg (p_bus p) (adc_register ch + 1))"] that
    by (auto simp: mock_adc_def adc_decode_def Let_def)
  have m: "p_op_mode p' = from_sys_sts (reg (p_bus p') SYS_STS)"
    "case mock_mode (p_bus p) of None \<Rightarrow> p_op_mode p' = Standby | Some m \<Rightarrow> p_op_mode p' = m"
    using charge_on_mock [OF assms(1,2), of delay] assms(3) by (auto split: option.splits)
  show ?thesis
    using m r [of Vin] r [of Vbat]
    by (auto simp: mock_mode_def charge_mode_def Let_def non_negative_uv_def min_vin_for_switching_uv_def
        u32_of_i32_def rust_int split: if_splits option.splits)
qed

lemma set_charging_voltage_safe_witness:
  "\<exists>r p'. set_charging mock_reg_bus id True five_volt_pump = Some (r, p') \<and>
    from_sys_sts (reg (p_bus p') SYS_STS) = Bypass \<and> mock_adc Vin (p_bus five_volt_pump) < 6000000"
proof -
  obtain r p' where c: "set_charging mock_reg_bus id True five_volt_pump = Some (r, p')"
      "from_sys_sts (reg (p_bus p') SYS_STS) = Bypass"
    using charge_on_mock [OF five_volt_pump_facts(1,2), of id] by (auto simp: five_volt_pump_facts(5))
  from set_charging_voltage_safe [OF five_volt_pump_facts(1,2) c(1)] c show ?thesis by blast
qed

text \<open>
  Switching the charge off on a working chip always succeeds: the chip reports standby, reverse current
  is off, the session is configured, and the reset budget of the input is restored.
\<close>

lemma set_charging_off_standby:
  assumes "mock_inv (p_bus p)" "p_state p \<noteq> Closed"
  shows "\<exists>p'. set_charging mock_reg_bus delay False p = Some (Inr Standby, p') \<and>
    from_sys_sts (reg (p_bus p') SYS_STS) = Standby \<and> reg (p_bus p') SYS_CTRL AND SYS_CTRL_REV_IIN_DET = 0 \<and>
    p_state p' = Configured \<and> p_por_vin_uv p' = None \<and> p_config p' = p_config p"
proof -
  define s where "s = chip_of reg p"
  have "live mock_inv p" using assms by (simp add: live_def)
  then obtain p' where p': "set_charging mock_reg_bus delay False p = Some (fst (c_set_charging False s), p')"
      "live mock_inv p'" "chip_of reg p' = snd (c_set_charging False s)"
    using mock.taken [OF mock.set_charging_does] unfolding s_def by blast
  have c: "c_set_charging False s = (Inr Standby, c_charge_off (put SYS_CTRL 0x04 0 s))"
    by (simp add: c_set_charging_def Let_def)
  note f = chip_of_fields [of reg p', unfolded p'(3)]
  have r: "c_regs (c_charge_off (put SYS_CTRL 0x04 0 s)) SYS_STS = SYS_STS_STANDBY"
    "c_regs (c_charge_off (put SYS_CTRL 0x04 0 s)) SYS_CTRL = masked (masked (c_regs s SYS_CTRL) 0x04 0) 0x09 0x08"
    "c_config (c_charge_off (put SYS_CTRL 0x04 0 s)) = p_config p"
    by (simp_all add: c_charge_off_def c_settled_def c_mode_sts)
       (simp_all add: c_mode_def put_def chip_write_def sys_ctrl_mask_def s_def chip_of_fields)
  have s: "c_state (c_charge_off u) = Configured" "c_por (c_charge_off u) = None" for u
    by (simp_all add: c_charge_off_def c_settled_def c_mode_def put_def)
  show ?thesis
    using p'(1) f r s sts_modes(1) mode_bits_rev by (intro exI [of _ p']) (simp add: c)
qed

lemma set_charging_off_standby_witness:
  "\<exists>p'. set_charging mock_reg_bus id False five_volt_pump = Some (Inr Standby, p') \<and>
    from_sys_sts (reg (p_bus p') SYS_STS) = Standby"
  using set_charging_off_standby [OF five_volt_pump_facts(1,2), of id] by blast

end
