(* ===== verification/Smb_Regs.thy ===== *)
theory Smb_Regs
  imports Prelude
begin

text \<open>
  The register map of the PM8150B SMB charger block (\<open>crates/core/src/regs.rs\<close>), as input abbreviations
  under the names of the source.
\<close>

abbreviation (input) USBIN_BASE :: u16 where "USBIN_BASE \<equiv> 0x1300"
abbreviation (input) APSD_STATUS :: u16 where "APSD_STATUS \<equiv> 0x1307"
abbreviation (input) APSD_DTC_STATUS_DONE :: u8 where "APSD_DTC_STATUS_DONE \<equiv> 0x01"
abbreviation (input) QC_CHARGER :: u8 where "QC_CHARGER \<equiv> 0x02"
abbreviation (input) SLOW_PLUGIN_TIMEOUT :: u8 where "SLOW_PLUGIN_TIMEOUT \<equiv> 0x20"
abbreviation (input) HVDCP_CHECK_TIMEOUT :: u8 where "HVDCP_CHECK_TIMEOUT \<equiv> 0x40"
abbreviation (input) APSD_STATUS_7 :: u8 where "APSD_STATUS_7 \<equiv> 0x80"
abbreviation (input) APSD_RESULT_STATUS :: u16 where "APSD_RESULT_STATUS \<equiv> 0x1308"
abbreviation (input) APSD_RESULT_STATUS_MASK :: u8 where "APSD_RESULT_STATUS_MASK \<equiv> 0x7F"
abbreviation (input) APSD_RESULT_STATUS_7 :: u8 where "APSD_RESULT_STATUS_7 \<equiv> 0x80"
abbreviation (input) QC_CHANGE_STATUS :: u16 where "QC_CHANGE_STATUS \<equiv> 0x1309"
abbreviation (input) USBIN_CMD_IL :: u16 where "USBIN_CMD_IL \<equiv> 0x1340"
abbreviation (input) USBIN_SUSPEND :: u8 where "USBIN_SUSPEND \<equiv> 0x01"
abbreviation (input) CMD_APSD :: u16 where "CMD_APSD \<equiv> 0x1341"
abbreviation (input) APSD_RERUN :: u8 where "APSD_RERUN \<equiv> 0x01"
abbreviation (input) CMD_ICL_OVERRIDE :: u16 where "CMD_ICL_OVERRIDE \<equiv> 0x1342"
abbreviation (input) ICL_OVERRIDE :: u8 where "ICL_OVERRIDE \<equiv> 0x01"
abbreviation (input) ICL_OVERRIDE_AFTER_APSD :: u8 where "ICL_OVERRIDE_AFTER_APSD \<equiv> 0x10"
abbreviation (input) CMD_HVDCP_2 :: u16 where "CMD_HVDCP_2 \<equiv> 0x1343"
abbreviation (input) USBIN_ADAPTER_ALLOW_OVERRIDE :: u16 where "USBIN_ADAPTER_ALLOW_OVERRIDE \<equiv> 0x1344"
abbreviation (input) USB_CMD_PULLDOWN :: u16 where "USB_CMD_PULLDOWN \<equiv> 0x1345"
abbreviation (input) HVDCP_PULSE_COUNT_MAX :: u16 where "HVDCP_PULSE_COUNT_MAX \<equiv> 0x135B"
abbreviation (input) QC2_VOLTAGE_MASK :: u8 where "QC2_VOLTAGE_MASK \<equiv> 0xC0"
abbreviation (input) USBIN_ICL_OPTIONS :: u16 where "USBIN_ICL_OPTIONS \<equiv> 0x1366"
abbreviation (input) USBIN_CURRENT_LIMIT_CFG :: u16 where "USBIN_CURRENT_LIMIT_CFG \<equiv> 0x1370"
abbreviation (input) PATTERN_SDP :: u8 where "PATTERN_SDP \<equiv> 0x01"
abbreviation (input) PATTERN_OCP :: u8 where "PATTERN_OCP \<equiv> 0x02"
abbreviation (input) PATTERN_CDP :: u8 where "PATTERN_CDP \<equiv> 0x04"
abbreviation (input) PATTERN_DCP :: u8 where "PATTERN_DCP \<equiv> 0x08"
abbreviation (input) PATTERN_FLOAT :: u8 where "PATTERN_FLOAT \<equiv> 0x10"
abbreviation (input) PATTERN_QC_2P0 :: u8 where "PATTERN_QC_2P0 \<equiv> 0x20"
abbreviation (input) PATTERN_QC_3P0 :: u8 where "PATTERN_QC_3P0 \<equiv> 0x40"
abbreviation (input) PATTERN_HVDCP2 :: u8 where "PATTERN_HVDCP2 \<equiv> 0x28"
abbreviation (input) PATTERN_HVDCP3 :: u8 where "PATTERN_HVDCP3 \<equiv> 0x48"

end
