(* ===== verification/Charger_Error.thy ===== *)
theory Charger_Error
  imports Smb_Regs
begin

text \<open>
  \<open>crates/core/src/error.rs\<close>: what can go wrong on the link to the charger and in the charger driver,
  the stable code of each error, and which of them a caller may retry.
\<close>

datatype transport_error_kind = TkIo | TkTimeout | TkDisconnected | TkProtocol | TkUnsupported

fun transport_error_kind_str :: "transport_error_kind \<Rightarrow> string" where
  "transport_error_kind_str TkIo = ''io''"
| "transport_error_kind_str TkTimeout = ''timeout''"
| "transport_error_kind_str TkDisconnected = ''disconnected''"
| "transport_error_kind_str TkProtocol = ''protocol''"
| "transport_error_kind_str TkUnsupported = ''unsupported''"

record transport_error =
  te_kind :: transport_error_kind
  te_code :: i32
  te_detail :: string

definition transport_error_new :: "transport_error_kind \<Rightarrow> i32 \<Rightarrow> string \<Rightarrow> transport_error" where
  "transport_error_new k c d = \<lparr>te_kind = k, te_code = c, te_detail = d\<rparr>"

datatype charger_error =
    TransportErr transport_error
  | ChargerNotOpen
  | AlreadyOpen
  | DetectionNotComplete
  | DetectionTimeout u64                  \<comment> \<open>waited, ms\<close>
  | UnknownAdapterPattern u8
  | AdapterCheckTimeout u8                \<comment> \<open>raw \<open>APSD_STATUS\<close>\<close>
  | CurrentOutOfRange u32 u32             \<comment> \<open>requested, maximum\<close>
  | VerifyFailed u16 u8 u8                \<comment> \<open>address, written, read\<close>
  | DeviceFault u8

fun charger_error_code :: "charger_error \<Rightarrow> string" where
  "charger_error_code (TransportErr _) = ''transport''"
| "charger_error_code ChargerNotOpen = ''not_open''"
| "charger_error_code AlreadyOpen = ''already_open''"
| "charger_error_code DetectionNotComplete = ''detection_not_complete''"
| "charger_error_code (DetectionTimeout _) = ''detection_timeout''"
| "charger_error_code (UnknownAdapterPattern _) = ''unknown_adapter_pattern''"
| "charger_error_code (AdapterCheckTimeout _) = ''adapter_check_timeout''"
| "charger_error_code (CurrentOutOfRange _ _) = ''current_out_of_range''"
| "charger_error_code (VerifyFailed _ _ _) = ''verify_failed''"
| "charger_error_code (DeviceFault _) = ''device_fault''"

fun charger_error_recoverable :: "charger_error \<Rightarrow> bool" where
  "charger_error_recoverable (TransportErr e) \<longleftrightarrow> te_kind e \<in> {TkTimeout, TkDisconnected}"
| "charger_error_recoverable DetectionNotComplete \<longleftrightarrow> True"
| "charger_error_recoverable (DetectionTimeout _) \<longleftrightarrow> True"
| "charger_error_recoverable (AdapterCheckTimeout _) \<longleftrightarrow> True"
| "charger_error_recoverable _ \<longleftrightarrow> False"

text \<open>\<open>recoverable\<close> of \<open>driver.rs\<close>: the link failures its retry loops retry.\<close>

definition link_recoverable :: "transport_error \<Rightarrow> bool" where
  "link_recoverable e \<longleftrightarrow> te_kind e \<in> {TkTimeout, TkDisconnected, TkIo}"

end
