(* ===== verification/Smb_Transport.thy ===== *)
theory Smb_Transport
  imports Charger_Error
begin

text \<open>
  \<open>crates/core/src/transport.rs\<close>: the link to the charger registers. The trait is a record of its
  methods on a link state \<open>'t\<close>; the locale states what the driver may rely on when the link works.
\<close>

type_synonym ('t, 'a) link_call = "'t \<Rightarrow> (transport_error + 'a) \<times> 't"

record 't smb_transport =
  tr_name :: string
  tr_read :: "u16 \<Rightarrow> ('t, u8) link_call"
  tr_write :: "u16 \<Rightarrow> u8 \<Rightarrow> ('t, unit) link_call"
  tr_reset :: "('t, unit) link_call"

definition read_masked :: "'t smb_transport \<Rightarrow> u16 \<Rightarrow> u8 \<Rightarrow> ('t, u8) link_call" where
  "read_masked T addr m t =
    (case tr_read T addr t of (Inl e, t) \<Rightarrow> (Inl e, t) | (Inr v, t) \<Rightarrow> (Inr (v AND m), t))"

definition link_update_bits :: "'t smb_transport \<Rightarrow> u16 \<Rightarrow> u8 \<Rightarrow> u8 \<Rightarrow> ('t, unit) link_call" where
  "link_update_bits T addr m v t =
    (case tr_read T addr t of
       (Inl e, t) \<Rightarrow> (Inl e, t)
     | (Inr current, t) \<Rightarrow> tr_write T addr ((current AND NOT m) OR (v AND m)) t)"

text \<open>
  \<open>inv\<close> says the link works, \<open>view\<close> is the register file behind it, \<open>addrs\<close> are the registers that can
  be written. Reads have no effect on the registers, a write sets the register and no other.
\<close>

locale working_link =
  fixes T :: "'t smb_transport" and inv :: "'t \<Rightarrow> bool" and view :: "'t \<Rightarrow> u16 \<Rightarrow> u8" and addrs :: "u16 set"
  assumes read_ok: "inv t \<Longrightarrow> \<exists>t'. tr_read T a t = (Inr (view t a), t') \<and> inv t' \<and> view t' = view t"
    and write_ok: "inv t \<Longrightarrow> a \<in> addrs \<Longrightarrow>
      \<exists>t'. tr_write T a v t = (Inr (), t') \<and> inv t' \<and> view t' = (view t)(a := v)"
    and reset_ok: "inv t \<Longrightarrow> \<exists>t'. tr_reset T t = (Inr (), t') \<and> inv t' \<and> view t' = view t"
begin

lemma read_masked_ok:
  assumes "inv t"
  shows "\<exists>t'. read_masked T a m t = (Inr (view t a AND m), t') \<and> inv t' \<and> view t' = view t"
  using read_ok [OF assms, of a] by (auto simp: read_masked_def)

lemma update_bits_ok:
  assumes "inv t" "a \<in> addrs"
  shows "\<exists>t'. link_update_bits T a m v t = (Inr (), t') \<and> inv t' \<and>
    view t' = (view t)(a := masked (view t a) m v)"
  using read_ok [OF assms(1), of a] write_ok [OF _ assms(2)]
  by (fastforce simp: link_update_bits_def masked_def)

end

end
