(* ===== verification/Adapter.thy ===== *)
theory Adapter
  imports Charger_Error
begin

text \<open>
  \<open>crates/core/src/apsd.rs\<close>, \<open>policy.rs\<close> and the adapter table of \<open>manifest.rs\<close>: the adapter types, their
  recognition from the two APSD registers, and the input current policy of each.
\<close>

section \<open>Adapter types\<close>

datatype adapter_type = UnknownAdapter | Sdp | Ocp | Cdp | Dcp | Float | Hvdcp2 | Hvdcp3 | Hvdcp3P5

fun adapter_label :: "adapter_type \<Rightarrow> string" where
  "adapter_label UnknownAdapter = ''UNKNOWN''"
| "adapter_label Sdp = ''SDP''"
| "adapter_label Ocp = ''OCP''"
| "adapter_label Cdp = ''CDP''"
| "adapter_label Dcp = ''DCP''"
| "adapter_label Float = ''FLOAT''"
| "adapter_label Hvdcp2 = ''HVDCP2''"
| "adapter_label Hvdcp3 = ''HVDCP3''"
| "adapter_label Hvdcp3P5 = ''HVDCP3P5''"

definition is_hvdcp :: "adapter_type \<Rightarrow> bool" where
  "is_hvdcp a \<longleftrightarrow> a \<in> {Hvdcp2, Hvdcp3, Hvdcp3P5}"

fun apsd_pattern :: "adapter_type \<Rightarrow> u8" where
  "apsd_pattern UnknownAdapter = 0"
| "apsd_pattern Sdp = PATTERN_SDP"
| "apsd_pattern Ocp = PATTERN_OCP"
| "apsd_pattern Cdp = PATTERN_CDP"
| "apsd_pattern Dcp = PATTERN_DCP"
| "apsd_pattern Float = PATTERN_FLOAT"
| "apsd_pattern Hvdcp2 = PATTERN_HVDCP2"
| "apsd_pattern Hvdcp3 = PATTERN_HVDCP3"
| "apsd_pattern Hvdcp3P5 = PATTERN_HVDCP3"

definition from_pattern :: "u8 \<Rightarrow> charger_error + adapter_type" where
  "from_pattern raw =
    (if raw = 0 then Inr UnknownAdapter
     else if raw = PATTERN_SDP then Inr Sdp
     else if raw = PATTERN_OCP then Inr Ocp
     else if raw = PATTERN_CDP then Inr Cdp
     else if raw = PATTERN_DCP then Inr Dcp
     else if raw = PATTERN_FLOAT then Inr Float
     else if raw = PATTERN_HVDCP2 then Inr Hvdcp2
     else if raw = PATTERN_HVDCP3 then Inr Hvdcp3
     else Inl (UnknownAdapterPattern raw))"

datatype qc35_support = Unsupported | Supported bool    \<comment> \<open>authenticated\<close>

definition qc35_default :: qc35_support where
  "qc35_default = Supported False"

text \<open>\<open>AdapterType::decode\<close> of \<open>APSD_STATUS\<close> and \<open>APSD_RESULT_STATUS\<close>.\<close>

definition adapter_decode :: "u8 \<Rightarrow> u8 \<Rightarrow> qc35_support \<Rightarrow> charger_error + adapter_type" where
  "adapter_decode apsd_status apsd_result qc35 =
    (if apsd_status AND APSD_DTC_STATUS_DONE = 0 then Inl DetectionNotComplete
     else if apsd_status AND HVDCP_CHECK_TIMEOUT \<noteq> 0 then Inl (AdapterCheckTimeout apsd_status)
     else (case from_pattern (apsd_result AND APSD_RESULT_STATUS_MASK) of
       Inl e \<Rightarrow> Inl e
     | Inr base \<Rightarrow>
         if apsd_status AND QC_CHARGER = 0 then Inr base
         else Inr (case base of
             Hvdcp3P5 \<Rightarrow> Hvdcp3P5
           | Hvdcp3 \<Rightarrow> (if qc35 = Supported True then Hvdcp3P5 else Hvdcp3)
           | _ \<Rightarrow> Hvdcp2)))"

definition is_power_present :: "adapter_type \<Rightarrow> bool" where
  "is_power_present a \<longleftrightarrow> a \<noteq> UnknownAdapter"

section \<open>Input current policy\<close>

abbreviation (input) MIN_ICL_UA :: u32 where "MIN_ICL_UA \<equiv> 100000"
abbreviation (input) MAX_ICL_UA :: u32 where "MAX_ICL_UA \<equiv> 4500000"
abbreviation (input) ICL_SDP_UA :: u32 where "ICL_SDP_UA \<equiv> 500000"
abbreviation (input) ICL_DCP_UA :: u32 where "ICL_DCP_UA \<equiv> 1500000"
abbreviation (input) ICL_CDP_UA :: u32 where "ICL_CDP_UA \<equiv> 1500000"
abbreviation (input) ICL_HVDCP2_UA :: u32 where "ICL_HVDCP2_UA \<equiv> 1500000"
abbreviation (input) ICL_HVDCP3_UA :: u32 where "ICL_HVDCP3_UA \<equiv> 3000000"
abbreviation (input) ICL_HVDCP3P5_SMB_UA :: u32 where "ICL_HVDCP3P5_SMB_UA \<equiv> 3000000"
abbreviation (input) HVDCP3P5_PUMP_BUS_UA :: u32 where "HVDCP3P5_PUMP_BUS_UA \<equiv> 4500000"

datatype qc2_voltage = V5 | V9 | V12

fun qc2_raw :: "qc2_voltage \<Rightarrow> u8" where
  "qc2_raw V5 = 0x00"
| "qc2_raw V9 = 0x40"
| "qc2_raw V12 = 0x80"

fun qc2_label :: "qc2_voltage \<Rightarrow> string" where
  "qc2_label V5 = ''5V''"
| "qc2_label V9 = ''9V''"
| "qc2_label V12 = ''12V''"

record charge_policy =
  pol_icl_ua :: u32
  pol_qc2_voltage :: "qc2_voltage option"
  pol_pump_eligible :: bool
  pol_rationale :: string

definition policy_for :: "adapter_type \<Rightarrow> qc35_support \<Rightarrow> charge_policy" where
  "policy_for adapter qc35 = (case adapter of
     Sdp \<Rightarrow> \<lparr>pol_icl_ua = ICL_SDP_UA, pol_qc2_voltage = None, pol_pump_eligible = False,
       pol_rationale = ''standard USB port, 500 mA limit''\<rparr>
   | Cdp \<Rightarrow> \<lparr>pol_icl_ua = ICL_CDP_UA, pol_qc2_voltage = None, pol_pump_eligible = False,
       pol_rationale = ''charging port with data, BC1.2 1.5 A''\<rparr>
   | Dcp \<Rightarrow> \<lparr>pol_icl_ua = ICL_DCP_UA, pol_qc2_voltage = None, pol_pump_eligible = False,
       pol_rationale = ''charging-only port, BC1.2 1.5 A''\<rparr>
   | Hvdcp2 \<Rightarrow> \<lparr>pol_icl_ua = ICL_HVDCP2_UA, pol_qc2_voltage = Some V9, pol_pump_eligible = False,
       pol_rationale = ''Quick Charge 2.0, 9 V and 1.5 A''\<rparr>
   | Hvdcp3 \<Rightarrow> \<lparr>pol_icl_ua = ICL_HVDCP3_UA, pol_qc2_voltage = Some V9, pol_pump_eligible = True,
       pol_rationale = ''Quick Charge 3.0, 9 V and 3 A, charge pump possible''\<rparr>
   | Hvdcp3P5 \<Rightarrow> \<lparr>pol_icl_ua = ICL_HVDCP3P5_SMB_UA, pol_qc2_voltage = Some V9,
       pol_pump_eligible = (qc35 = Supported True),
       pol_rationale = ''Quick Charge 3.5, the tablet's own power brick''\<rparr>
   | _ \<Rightarrow> \<lparr>pol_icl_ua = MIN_ICL_UA, pol_qc2_voltage = None, pol_pump_eligible = False,
       pol_rationale = ''source not identified, minimum safe current''\<rparr>)"

definition clamp_icl :: "u32 \<Rightarrow> u32 \<Rightarrow> charger_error + u32" where
  "clamp_icl icl_ua max_ua =
    (if icl_ua < MIN_ICL_UA then Inl (CurrentOutOfRange icl_ua max_ua)
     else if icl_ua > max_ua then Inl (CurrentOutOfRange icl_ua max_ua)
     else Inr icl_ua)"

section \<open>The adapter table\<close>

record adapter_spec =
  as_adapter :: adapter_type
  as_pattern :: u8
  as_icl_ua :: u32
  as_pump_eligible :: bool

definition adapter_table :: "adapter_spec list" where
  "adapter_table = map (\<lambda>adapter. (let policy = policy_for adapter qc35_default in
      \<lparr>as_adapter = adapter, as_pattern = apsd_pattern adapter, as_icl_ua = pol_icl_ua policy,
       as_pump_eligible = pol_pump_eligible policy\<rparr>))
    [Sdp, Cdp, Dcp, Float, Hvdcp2, Hvdcp3, Hvdcp3P5]"

section \<open>Lemmas\<close>

lemma from_pattern_apsd [simp]:
  "from_pattern (apsd_pattern a) = Inr (if a = Hvdcp3P5 then Hvdcp3 else a)"
  by (cases a) (simp_all add: from_pattern_def)

lemma apsd_pattern_masked [simp]: "apsd_pattern a AND APSD_RESULT_STATUS_MASK = apsd_pattern a"
  by (cases a) simp_all

lemma from_pattern_Inr_iff:
  "from_pattern raw = Inr a \<longleftrightarrow> a \<noteq> Hvdcp3P5 \<and> apsd_pattern a = raw"
  by (cases a) (auto simp: from_pattern_def)

lemma from_pattern_not_hvdcp3p5 [simp]: "from_pattern raw \<noteq> Inr Hvdcp3P5"
  by (simp add: from_pattern_Inr_iff)

lemma policy_icl_bounds:
  "MIN_ICL_UA \<le> pol_icl_ua (policy_for a q)" "pol_icl_ua (policy_for a q) \<le> MAX_ICL_UA"
  by (cases a; simp add: policy_for_def)+

text \<open>
  The adapter recognised is exactly what the two registers say: nothing before detection is complete
  or while the HVDCP check has timed out; without the Quick Charge flag the type whose pattern the result
  register holds; with it, QC 3.0 for its own pattern, which counts as QC 3.5 only when the tablet has
  authenticated the adapter, and QC 2.0 for every other known pattern. QC 3.5 is never reported without
  authentication.
\<close>

theorem adapter_decode_iff:
  "adapter_decode status res q = Inr a \<longleftrightarrow>
     bit status 0 \<and> \<not> bit status 6 \<and>
     (\<exists>base. base \<noteq> Hvdcp3P5 \<and> apsd_pattern base = res AND APSD_RESULT_STATUS_MASK \<and>
        a = (if \<not> bit status 1 then base
             else if base = Hvdcp3 then (if q = Supported True then Hvdcp3P5 else Hvdcp3)
             else Hvdcp2))"
proof -
  have flag: "status AND 1 = 0 \<longleftrightarrow> \<not> bit status 0" "status AND 2 = 0 \<longleftrightarrow> \<not> bit status 1"
    "status AND 0x40 = 0 \<longleftrightarrow> \<not> bit status 6" for status :: u8
    using bit_iff_and_push_bit_not_eq_0 [of status 0] bit_iff_and_push_bit_not_eq_0 [of status 1]
      bit_iff_and_push_bit_not_eq_0 [of status 6] by (simp_all add: push_bit_eq_mult)
  define r where "r = res AND APSD_RESULT_STATUS_MASK"
  have known: "base \<noteq> Hvdcp3P5 \<and> apsd_pattern base = r \<longleftrightarrow> from_pattern r = Inr base" for base
    by (simp add: from_pattern_Inr_iff)
  have decode: "adapter_decode status res q =
      (if \<not> bit status 0 then Inl DetectionNotComplete
       else if bit status 6 then Inl (AdapterCheckTimeout status)
       else (case from_pattern r of Inl e \<Rightarrow> Inl e
         | Inr base \<Rightarrow> Inr (if \<not> bit status 1 then base
             else case base of Hvdcp3P5 \<Rightarrow> Hvdcp3P5
                | Hvdcp3 \<Rightarrow> (if q = Supported True then Hvdcp3P5 else Hvdcp3) | _ \<Rightarrow> Hvdcp2)))"
    unfolding adapter_decode_def flag r_def by (simp split: sum.splits)
  show ?thesis
  proof (cases "from_pattern r")
    case (Inl e)
    then show ?thesis unfolding decode r_def [symmetric] conj_assoc [symmetric] known by simp
  next
    case (Inr b)
    then have "b \<noteq> Hvdcp3P5" using from_pattern_not_hvdcp3p5 by metis
    with Inr show ?thesis unfolding decode r_def [symmetric] conj_assoc [symmetric] known
      by (cases b) auto
  qed
qed

end
