(* ===== verification/Icl.thy ===== *)
theory Icl
  imports Charger_Error
begin

text \<open>
  \<open>crates/core/src/icl.rs\<close>: the code of the input current limit register, a grid of equal steps above a
  minimum.
\<close>

abbreviation (input) ICL_MIN_UA :: u32 where "ICL_MIN_UA \<equiv> 100000"
abbreviation (input) ICL_STEP_UA :: u32 where "ICL_STEP_UA \<equiv> 100000"
abbreviation (input) ICL_RAW_MAX :: u8 where "ICL_RAW_MAX \<equiv> 0x1F"

record icl_encoding =
  icl_min_ua :: u32
  icl_step_ua :: u32
  icl_raw_max :: u8

definition icl_default :: icl_encoding where
  "icl_default = \<lparr>icl_min_ua = ICL_MIN_UA, icl_step_ua = ICL_STEP_UA, icl_raw_max = ICL_RAW_MAX\<rparr>"

definition icl_max_ua :: "icl_encoding \<Rightarrow> u32" where
  "icl_max_ua e = sat_add_u32 (icl_min_ua e) (sat_mul_u32 (icl_step_ua e) (unat (icl_raw_max e)))"

definition checked_div :: "u32 \<Rightarrow> u32 \<Rightarrow> u32 option" where
  "checked_div a b = (if b = 0 then None else Some (a div b))"

definition icl_encode :: "icl_encoding \<Rightarrow> u32 \<Rightarrow> charger_error + u8" where
  "icl_encode e icl_ua =
    (let out_of_range = CurrentOutOfRange icl_ua (icl_max_ua e) in
     if icl_step_ua e = 0 \<or> icl_ua < icl_min_ua e then Inl out_of_range
     else (case checked_div (icl_ua - icl_min_ua e) (icl_step_ua e) of
       None \<Rightarrow> Inl out_of_range
     | Some steps \<Rightarrow>
         if steps > unat (icl_raw_max e) then Inl out_of_range
         else (case u8_try_from steps of None \<Rightarrow> Inl out_of_range | Some raw \<Rightarrow> Inr raw)))"

definition icl_decode :: "icl_encoding \<Rightarrow> u8 \<Rightarrow> u32" where
  "icl_decode e raw = sat_add_u32 (icl_min_ua e) (sat_mul_u32 (icl_step_ua e) (unat raw))"

definition quantize_down :: "icl_encoding \<Rightarrow> u32 \<Rightarrow> u32" where
  "quantize_down e icl_ua =
    (if icl_step_ua e = 0 \<or> icl_ua \<le> icl_min_ua e then icl_min_ua e
     else (case checked_div (icl_ua - icl_min_ua e) (icl_step_ua e) of
       None \<Rightarrow> icl_min_ua e
     | Some steps \<Rightarrow>
         icl_decode e (if steps > unat (icl_raw_max e) then icl_raw_max e
                       else unwrap_or (icl_raw_max e) (u8_try_from steps))))"

section \<open>The grid\<close>

text \<open>A grid the encoding can represent: a positive step and a top that fits a \<open>u32\<close>.\<close>

definition icl_good :: "icl_encoding \<Rightarrow> bool" where
  "icl_good e \<longleftrightarrow> 0 < icl_step_ua e \<and> icl_min_ua e + icl_step_ua e * unat (icl_raw_max e) \<le> u32_max"

lemma icl_good_default [simp]: "icl_good icl_default"
  by (simp add: icl_good_def icl_default_def u32_max_def)

lemma icl_decode_good:
  assumes "icl_good e" "unat raw \<le> unat (icl_raw_max e)"
  shows "icl_decode e raw = icl_min_ua e + icl_step_ua e * unat raw"
proof -
  have "icl_step_ua e * unat raw \<le> icl_step_ua e * unat (icl_raw_max e)"
    using assms(2) by (rule mult_le_mono2)
  with assms(1) have "icl_min_ua e + icl_step_ua e * unat raw \<le> u32_max"
    unfolding icl_good_def by linarith
  then show ?thesis by (simp add: icl_decode_def sat_add_u32_def sat_mul_u32_def)
qed

lemma icl_max_good: "icl_good e \<Longrightarrow> icl_max_ua e = icl_min_ua e + icl_step_ua e * unat (icl_raw_max e)"
  by (simp add: icl_max_ua_def icl_good_def sat_add_u32_def sat_mul_u32_def)

definition grid_steps :: "icl_encoding \<Rightarrow> u32 \<Rightarrow> nat" where
  "grid_steps e x = min ((x - icl_min_ua e) div icl_step_ua e) (unat (icl_raw_max e))"

lemma grid_steps_fits: "grid_steps e x \<le> unat (icl_raw_max e)" "grid_steps e x < 256"
  using unat_u8_less [of "icl_raw_max e"] unfolding grid_steps_def by linarith+

lemma quantize_down_good:
  assumes "icl_good e"
  shows "quantize_down e x = icl_min_ua e + icl_step_ua e * grid_steps e x"
proof (cases "x \<le> icl_min_ua e")
  case True
  then show ?thesis by (simp add: quantize_down_def grid_steps_def)
next
  case False
  let ?n = "(x - icl_min_ua e) div icl_step_ua e"
  have step: "icl_step_ua e \<noteq> 0" using assms by (simp add: icl_good_def)
  show ?thesis
  proof (cases "?n > unat (icl_raw_max e)")
    case True
    with False step assms show ?thesis
      by (simp add: quantize_down_def checked_div_def icl_decode_good grid_steps_def)
  next
    case le: False
    then have "?n < 256" using unat_u8_less [of "icl_raw_max e"] by linarith
    with le False step assms show ?thesis
      by (simp add: quantize_down_def checked_div_def u8_try_from_fits icl_decode_good unat_u8_of_nat
          grid_steps_def)
  qed
qed

lemma icl_encode_grid:
  assumes "icl_good e" "n \<le> unat (icl_raw_max e)"
  shows "icl_encode e (icl_min_ua e + icl_step_ua e * n) = Inr (word_of_nat n)"
proof -
  have "n < 256" using assms(2) unat_u8_less [of "icl_raw_max e"] by linarith
  with assms show ?thesis
    by (simp add: icl_encode_def checked_div_def icl_good_def u8_try_from_fits Let_def)
qed

lemma quantize_down_encodes:
  assumes "icl_good e"
  shows "icl_encode e (quantize_down e x) = Inr (word_of_nat (grid_steps e x))"
    and "icl_decode e (word_of_nat (grid_steps e x)) = quantize_down e x"
  using grid_steps_fits [of e x] assms
  by (simp_all add: quantize_down_good icl_encode_grid icl_decode_good unat_u8_of_nat)

text \<open>
  Quantising a current never raises it and never loses more than one step: on every grid that fits its
  register the quantised current is encodable, its code decodes back to it, it stays on the grid between
  the minimum and the maximum, and between these bounds it is at most the request and less than one step
  below it.
\<close>

theorem icl_quantize_grid:
  assumes "icl_good e"
  shows "\<exists>raw. icl_encode e (quantize_down e x) = Inr raw \<and> unat raw \<le> unat (icl_raw_max e) \<and>
    icl_decode e raw = quantize_down e x \<and>
    icl_min_ua e \<le> quantize_down e x \<and> quantize_down e x \<le> icl_max_ua e \<and>
    (icl_min_ua e \<le> x \<longrightarrow> quantize_down e x \<le> x) \<and>
    (x \<le> icl_max_ua e \<longrightarrow> x < quantize_down e x + icl_step_ua e)"
proof -
  let ?n = "(x - icl_min_ua e) div icl_step_ua e"
  have step: "0 < icl_step_ua e" using assms by (simp add: icl_good_def)
  have code: "unat (word_of_nat (grid_steps e x) :: u8) = grid_steps e x"
    by (simp add: unat_u8_of_nat grid_steps_fits)
  have le_n: "icl_step_ua e * grid_steps e x \<le> icl_step_ua e * ?n"
    by (rule mult_le_mono2) (simp add: grid_steps_def)
  have low: "icl_step_ua e * ?n \<le> x - icl_min_ua e" by simp
  have high: "x - icl_min_ua e < icl_step_ua e * ?n + icl_step_ua e"
    using step dividend_less_times_div by (simp add: add.commute)
  have top: "grid_steps e x = ?n" if "x \<le> icl_max_ua e"
  proof -
    have "x - icl_min_ua e \<le> icl_step_ua e * unat (icl_raw_max e)"
      using that assms by (simp add: icl_max_good)
    then have "?n \<le> icl_step_ua e * unat (icl_raw_max e) div icl_step_ua e" by (rule div_le_mono)
    with step have "?n \<le> unat (icl_raw_max e)" by simp
    then show ?thesis by (simp add: grid_steps_def)
  qed
  have up: "icl_step_ua e * grid_steps e x \<le> icl_step_ua e * unat (icl_raw_max e)"
    by (simp add: grid_steps_fits)
  have q: "quantize_down e x = icl_min_ua e + icl_step_ua e * grid_steps e x"
    using assms by (rule quantize_down_good)
  show ?thesis
  proof (intro exI conjI impI)
    show "icl_encode e (quantize_down e x) = Inr (word_of_nat (grid_steps e x))"
      "icl_decode e (word_of_nat (grid_steps e x)) = quantize_down e x"
      using quantize_down_encodes assms by blast+
    show "unat (word_of_nat (grid_steps e x) :: u8) \<le> unat (icl_raw_max e)"
      using code grid_steps_fits by simp
    show "icl_min_ua e \<le> quantize_down e x" "quantize_down e x \<le> icl_max_ua e"
      using up assms by (simp_all add: q icl_max_good)
    show "quantize_down e x \<le> x" if "icl_min_ua e \<le> x"
      using that le_n low unfolding q by linarith
    show "x < quantize_down e x + icl_step_ua e" if "x \<le> icl_max_ua e"
      using top [OF that] high by (simp add: q)
  qed
qed

lemma icl_quantize_grid_witness: "quantize_down icl_default 1234567 \<le> 1234567"
proof -
  have "icl_min_ua icl_default \<le> 1234567" by (simp add: icl_default_def)
  with icl_quantize_grid [OF icl_good_default, of 1234567] show ?thesis by blast
qed

end
