(* ===== verification/Charger_Journal.thy ===== *)
theory Charger_Journal
  imports Charger_Error
begin

text \<open>
  \<open>crates/core/src/journal.rs\<close> and \<open>clock.rs\<close>: the records the charger driver emits, the bounded
  in-memory journal of \<open>testkit.rs\<close> that collects them, and the manual clock.
\<close>

section \<open>Levels\<close>

datatype level = Trace | Debug | Info | Warn | Error

fun level_str :: "level \<Rightarrow> string" where
  "level_str Trace = ''trace''"
| "level_str Debug = ''debug''"
| "level_str Info = ''info''"
| "level_str Warn = ''warn''"
| "level_str Error = ''error''"

text \<open>The derived order: by position in the enumeration.\<close>

fun level_rank :: "level \<Rightarrow> nat" where
  "level_rank Trace = 0"
| "level_rank Debug = 1"
| "level_rank Info = 2"
| "level_rank Warn = 3"
| "level_rank Error = 4"

lemma level_rank_inject [simp]: "level_rank a = level_rank b \<longleftrightarrow> a = b"
  by (cases a; cases b) simp_all

instantiation level :: linorder
begin

definition less_eq_level :: "level \<Rightarrow> level \<Rightarrow> bool" where
  "less_eq_level a b \<longleftrightarrow> level_rank a \<le> level_rank b"

definition less_level :: "level \<Rightarrow> level \<Rightarrow> bool" where
  "less_level a b \<longleftrightarrow> level_rank a < level_rank b"

instance
  by standard (auto simp: less_eq_level_def less_level_def)

end

section \<open>Records\<close>

datatype event_kind =
    EvOpen string bool                              \<comment> \<open>transport, ok\<close>
  | EvClose bool
  | EvRead u16 u8 u64                               \<comment> \<open>address, value, elapsed us\<close>
  | EvWrite u16 u8 u64
  | EvDetect string u8 u8 u64                       \<comment> \<open>adapter, raw status, raw result, waited ms\<close>
  | EvPolicy string u32 u8 "string option" bool     \<comment> \<open>adapter, current, code, QC voltage, pump\<close>
  | EvRetry string nat string                       \<comment> \<open>operation, attempt, reason\<close>
  | EvReset bool
  | EvStateChange string string                     \<comment> \<open>from, to\<close>
  | EvError string string                           \<comment> \<open>operation, error code\<close>

fun event_name :: "event_kind \<Rightarrow> string" where
  "event_name (EvOpen _ _) = ''open''"
| "event_name (EvClose _) = ''close''"
| "event_name (EvRead _ _ _) = ''read''"
| "event_name (EvWrite _ _ _) = ''write''"
| "event_name (EvDetect _ _ _ _) = ''detect''"
| "event_name (EvPolicy _ _ _ _ _) = ''policy''"
| "event_name (EvRetry _ _ _) = ''retry''"
| "event_name (EvReset _) = ''reset''"
| "event_name (EvStateChange _ _) = ''state''"
| "event_name (EvError _ _) = ''error''"

record event =
  ev_seq :: u64
  ev_ts_ms :: u64
  ev_request_id :: u64
  ev_level :: level
  ev_kind :: event_kind

section \<open>The in-memory journal\<close>

text \<open>\<open>VecJournal\<close>: the used slots of its array of 128; later events are dropped.\<close>

abbreviation (input) MAX_LOG :: nat where "MAX_LOG \<equiv> 128"

type_synonym vec_journal = "event list"

definition vec_new :: vec_journal where
  "vec_new = []"

definition vec_event :: "event \<Rightarrow> vec_journal \<Rightarrow> vec_journal" where
  "vec_event e j = (if length j < MAX_LOG then j @ [e] else j)"

definition vec_at :: "nat \<Rightarrow> vec_journal \<Rightarrow> event option" where
  "vec_at i j = (if i < length j then Some (j ! i) else None)"

definition vec_first_of :: "string \<Rightarrow> vec_journal \<Rightarrow> event option" where
  "vec_first_of kind j = find (\<lambda>e. event_name (ev_kind e) = kind) j"

definition vec_count_of :: "string \<Rightarrow> vec_journal \<Rightarrow> nat" where
  "vec_count_of kind j = length (filter (\<lambda>e. event_name (ev_kind e) = kind) j)"

lemma vec_journal_prefix: "fold vec_event es j = j @ take (MAX_LOG - length j) es"
proof (induction es arbitrary: j)
  case (Cons e es)
  show ?case
  proof (cases "length j < MAX_LOG")
    case True
    then have "vec_event e j = j @ [e]" "MAX_LOG - length j = Suc (MAX_LOG - Suc (length j))"
      by (simp_all add: vec_event_def)
    with Cons show ?thesis by simp
  next
    case False
    then have "vec_event e j = j" by (simp add: vec_event_def)
    with False Cons show ?thesis by simp
  qed
qed simp

section \<open>The manual clock\<close>

definition clock_new :: u64 where
  "clock_new = 0"

definition clock_starting_at :: "u64 \<Rightarrow> u64" where
  "clock_starting_at now = now"

definition advance_ms :: "u64 \<Rightarrow> u64 \<Rightarrow> u64" where
  "advance_ms delta now = sat_add_u64 now delta"

end
