(* ===== verification/Charger.thy ===== *)
theory Charger
  imports Smb_Transport Adapter Icl Charger_Journal
begin

text \<open>
  \<open>crates/core/src/driver.rs\<close>: the charger session over an abstract link, clock and journal. The link is
  the record \<open>T\<close>; the clock is the sequence \<open>clk\<close> of the values its successive readings return, whatever
  moves it; the journal is the list of the events the session has emitted.
\<close>

section \<open>State and configuration\<close>

datatype charger_state = StClosed | StIdle | StDetecting | StReady | StFaulted

fun state_label :: "charger_state \<Rightarrow> string" where
  "state_label StClosed = ''closed''"
| "state_label StIdle = ''idle''"
| "state_label StDetecting = ''detecting''"
| "state_label StReady = ''ready''"
| "state_label StFaulted = ''faulted''"

record charger_config =
  cc_detect_timeout_ms :: u64
  cc_max_detect_reruns :: nat         \<comment> \<open>\<open>u8\<close>\<close>
  cc_max_transport_retries :: nat     \<comment> \<open>\<open>u8\<close>\<close>
  cc_safe_icl_ua :: u32
  cc_max_icl_ua :: u32
  cc_verify_writes :: bool
  cc_qc35 :: qc35_support
  cc_icl :: icl_encoding

definition charger_config_default :: charger_config where
  "charger_config_default = \<lparr>cc_detect_timeout_ms = 3000, cc_max_detect_reruns = 2,
     cc_max_transport_retries = 3, cc_safe_icl_ua = MIN_ICL_UA, cc_max_icl_ua = MAX_ICL_UA,
     cc_verify_writes = True, cc_qc35 = qc35_default, cc_icl = icl_default\<rparr>"

definition charger_config_for_nabu :: charger_config where
  "charger_config_for_nabu = charger_config_default\<lparr>cc_qc35 := Supported False\<rparr>"

definition charger_config_for_testing :: charger_config where
  "charger_config_for_testing = charger_config_default
     \<lparr>cc_detect_timeout_ms := 500, cc_max_detect_reruns := 1, cc_max_transport_retries := 2\<rparr>"

datatype detection = Pending u64 nat    \<comment> \<open>elapsed ms, attempts\<close>
  | Ready adapter_type

datatype monitor_result = Unchanged adapter_type | Changed adapter_type | Detached

record charge_plan =
  plan_adapter :: adapter_type
  plan_policy :: charge_policy
  plan_icl_raw :: u8
  plan_applied_icl_ua :: u32

record charger_stats =
  ss_reads :: u64
  ss_writes :: u64
  ss_retries :: u64
  ss_resets :: u64
  ss_errors :: u64
  ss_detections :: u64

definition stats_zero :: charger_stats where
  "stats_zero = \<lparr>ss_reads = 0, ss_writes = 0, ss_retries = 0, ss_resets = 0, ss_errors = 0, ss_detections = 0\<rparr>"

record 't charger =
  ch_transport :: 't
  ch_clock_reads :: nat
  ch_events :: "event list"
  ch_config :: charger_config
  ch_state :: charger_state
  ch_adapter :: "adapter_type option"
  ch_detect_started_ms :: "u64 option"
  ch_reruns :: nat
  ch_attempts :: nat
  ch_seq :: u64
  ch_request_id :: u64
  ch_stats :: charger_stats

type_synonym ('t, 'a) ch_op = "('t charger, charger_error, 'a) op"

text \<open>The fresh session \<open>open\<close> starts from, on the link \<open>t\<close>.\<close>

definition charger_new :: "charger_config \<Rightarrow> 't \<Rightarrow> 't charger" where
  "charger_new cfg t = \<lparr>ch_transport = t, ch_clock_reads = 0, ch_events = [], ch_config = cfg,
     ch_state = StClosed, ch_adapter = None, ch_detect_started_ms = None, ch_reruns = 0, ch_attempts = 0,
     ch_seq = 0, ch_request_id = 0, ch_stats = stats_zero\<rparr>"

section \<open>Journal, clock and link access\<close>

definition now_ms :: "(nat \<Rightarrow> u64) \<Rightarrow> ('t, u64) ch_op" where
  "now_ms clk = and_then get_state (\<lambda>c.
     and_then (modify (\<lambda>c. c\<lparr>ch_clock_reads := Suc (ch_clock_reads c)\<rparr>)) (\<lambda>_.
       ret (clk (ch_clock_reads c))))"

definition stat :: "(charger_stats \<Rightarrow> charger_stats) \<Rightarrow> ('t, unit) ch_op" where
  "stat f = modify (\<lambda>c. c\<lparr>ch_stats := f (ch_stats c)\<rparr>)"

definition count_error :: "('t, unit) ch_op" where
  "count_error = stat (\<lambda>s. s\<lparr>ss_errors := sat_add_u64 (ss_errors s) 1\<rparr>)"

definition next_request :: "('t, u64) ch_op" where
  "next_request = and_then (modify (\<lambda>c. c\<lparr>ch_request_id := sat_add_u64 (ch_request_id c) 1\<rparr>)) (\<lambda>_.
     and_then get_state (\<lambda>c. ret (ch_request_id c)))"

definition log_event :: "(nat \<Rightarrow> u64) \<Rightarrow> u64 \<Rightarrow> level \<Rightarrow> event_kind \<Rightarrow> ('t, unit) ch_op" where
  "log_event clk request lvl kind =
     and_then (modify (\<lambda>c. c\<lparr>ch_seq := sat_add_u64 (ch_seq c) 1\<rparr>)) (\<lambda>_.
     and_then (now_ms clk) (\<lambda>ts.
     modify (\<lambda>c. c\<lparr>ch_events := ch_events c @ [\<lparr>ev_seq = ch_seq c, ev_ts_ms = ts,
       ev_request_id = request, ev_level = lvl, ev_kind = kind\<rparr>]\<rparr>)))"

definition transition :: "(nat \<Rightarrow> u64) \<Rightarrow> charger_state \<Rightarrow> ('t, unit) ch_op" where
  "transition clk to = and_then get_state (\<lambda>c.
     if ch_state c = to then ret ()
     else and_then (modify (\<lambda>c. c\<lparr>ch_state := to\<rparr>)) (\<lambda>_.
       log_event clk (ch_request_id c) Debug (EvStateChange (state_label (ch_state c)) (state_label to))))"

definition fail :: "(nat \<Rightarrow> u64) \<Rightarrow> u64 \<Rightarrow> string \<Rightarrow> charger_error \<Rightarrow> ('t, 'a) ch_op" where
  "fail clk request op err =
     and_then count_error (\<lambda>_.
     and_then (transition clk StFaulted) (\<lambda>_.
     and_then (log_event clk request Error (EvError op (charger_error_code err))) (\<lambda>_. raise err)))"

text \<open>\<open>match m { Ok(v) => v, Err(err) => return Err(self.fail(request, op, err)) }\<close>.\<close>

definition or_fail :: "(nat \<Rightarrow> u64) \<Rightarrow> u64 \<Rightarrow> string \<Rightarrow> ('t, 'a) ch_op \<Rightarrow> ('t, 'a) ch_op" where
  "or_fail clk request op m = or_else m (fail clk request op)"

definition elapsed_us :: "(nat \<Rightarrow> u64) \<Rightarrow> u64 \<Rightarrow> ('t, u64) ch_op" where
  "elapsed_us clk started_ms = and_then (now_ms clk) (\<lambda>now. ret (sat_mul_u64 (now - started_ms) 1000))"

definition reset_link :: "'t smb_transport \<Rightarrow> ('t, bool) ch_op" where
  "reset_link T = and_then get_state (\<lambda>c.
     case tr_reset T (ch_transport c) of (r, t) \<Rightarrow>
       and_then (modify (\<lambda>c. c\<lparr>ch_transport := t\<rparr>)) (\<lambda>_. ret (case r of Inl _ \<Rightarrow> False | Inr _ \<Rightarrow> True)))"

definition recover ::
  "'t smb_transport \<Rightarrow> (nat \<Rightarrow> u64) \<Rightarrow> u64 \<Rightarrow> string \<Rightarrow> nat \<Rightarrow> transport_error \<Rightarrow> ('t, unit) ch_op" where
  "recover T clk request op attempt err =
     and_then (stat (\<lambda>s. s\<lparr>ss_retries := sat_add_u64 (ss_retries s) 1\<rparr>)) (\<lambda>_.
     and_then (log_event clk request Warn (EvRetry op attempt (transport_error_kind_str (te_kind err)))) (\<lambda>_.
     and_then (reset_link T) (\<lambda>ok.
     and_then (stat (\<lambda>s. s\<lparr>ss_resets := sat_add_u64 (ss_resets s) 1\<rparr>)) (\<lambda>_.
     and_then (log_event clk request Debug (EvReset ok)) (\<lambda>_.
       if ok then ret () else and_then count_error (\<lambda>_. raise (TransportErr err)))))))"

text \<open>
  The loop of \<open>read_reg\<close> and \<open>write_reg\<close>: repeat \<open>call\<close> until it succeeds, its error is not recoverable,
  the retries are used up, or the link cannot be reset. It may not end, so it is a partial function.
\<close>

partial_function (option) link_retry ::
  "'t smb_transport \<Rightarrow> (nat \<Rightarrow> u64) \<Rightarrow> ('t, 'a) link_call \<Rightarrow> string \<Rightarrow> u64 \<Rightarrow> nat \<Rightarrow> ('t, 'a) ch_op" where
  "link_retry T clk call op request attempt c =
    (case call (ch_transport c) of
       (r, t) \<Rightarrow>
         (case r of
            Inr v \<Rightarrow> Some (Inr v, c\<lparr>ch_transport := t\<rparr>)
          | Inl err \<Rightarrow>
             (if \<not> link_recoverable err \<or> sat_add_u8 attempt 1 > cc_max_transport_retries (ch_config c)
              then and_then count_error (\<lambda>_. raise (TransportErr err)) (c\<lparr>ch_transport := t\<rparr>)
              else (case recover T clk request op (sat_add_u8 attempt 1) err (c\<lparr>ch_transport := t\<rparr>) of
                      None \<Rightarrow> None
                    | Some (r', c') \<Rightarrow>
                       (case r' of
                          Inl e \<Rightarrow> Some (Inl e, c')
                        | Inr _ \<Rightarrow> link_retry T clk call op request (sat_add_u8 attempt 1) c')))))"

definition read_reg :: "'t smb_transport \<Rightarrow> (nat \<Rightarrow> u64) \<Rightarrow> u16 \<Rightarrow> u64 \<Rightarrow> ('t, u8) ch_op" where
  "read_reg T clk addr request =
     and_then (now_ms clk) (\<lambda>started.
     and_then (link_retry T clk (tr_read T addr) ''read'' request 0) (\<lambda>v.
     and_then (stat (\<lambda>s. s\<lparr>ss_reads := sat_add_u64 (ss_reads s) 1\<rparr>)) (\<lambda>_.
     and_then (elapsed_us clk started) (\<lambda>elapsed.
     and_then (log_event clk request Trace (EvRead addr v elapsed)) (\<lambda>_. ret v)))))"

definition verify :: "'t smb_transport \<Rightarrow> (nat \<Rightarrow> u64) \<Rightarrow> u16 \<Rightarrow> u8 \<Rightarrow> u64 \<Rightarrow> ('t, unit) ch_op" where
  "verify T clk addr wrote request = and_then get_state (\<lambda>c.
     if \<not> cc_verify_writes (ch_config c) then ret ()
     else and_then (read_reg T clk addr request) (\<lambda>read.
       if read \<noteq> wrote
       then and_then count_error (\<lambda>_.
            and_then (log_event clk request Error
              (EvError ''verify'' (charger_error_code (VerifyFailed addr wrote read)))) (\<lambda>_.
            raise (VerifyFailed addr wrote read)))
       else ret ()))"

definition write_reg :: "'t smb_transport \<Rightarrow> (nat \<Rightarrow> u64) \<Rightarrow> u16 \<Rightarrow> u8 \<Rightarrow> u64 \<Rightarrow> ('t, unit) ch_op" where
  "write_reg T clk addr v request =
     and_then (now_ms clk) (\<lambda>started.
     and_then (link_retry T clk (tr_write T addr v) ''write'' request 0) (\<lambda>_.
     and_then (stat (\<lambda>s. s\<lparr>ss_writes := sat_add_u64 (ss_writes s) 1\<rparr>)) (\<lambda>_.
     and_then (elapsed_us clk started) (\<lambda>elapsed.
     and_then (log_event clk request Trace (EvWrite addr v elapsed)) (\<lambda>_.
       verify T clk addr v request)))))"

definition update_reg :: "'t smb_transport \<Rightarrow> (nat \<Rightarrow> u64) \<Rightarrow> u16 \<Rightarrow> u8 \<Rightarrow> u8 \<Rightarrow> u64 \<Rightarrow> ('t, unit) ch_op" where
  "update_reg T clk addr m v request =
     and_then (read_reg T clk addr request) (\<lambda>current.
       write_reg T clk addr (masked current m v) request)"

definition probe :: "'t smb_transport \<Rightarrow> (nat \<Rightarrow> u64) \<Rightarrow> ('t, unit) ch_op" where
  "probe T clk =
     and_then next_request (\<lambda>request.
     and_then (read_reg T clk APSD_STATUS request) (\<lambda>status.
       if status = 0xFF then raise (DeviceFault 0xFF) else ret ()))"

section \<open>Session operations\<close>

definition open_session :: "'t smb_transport \<Rightarrow> (nat \<Rightarrow> u64) \<Rightarrow> ('t, unit) ch_op" where
  "open_session T clk =
     and_then next_request (\<lambda>request.
     and_then (reset_link T) (\<lambda>reset_ok.
     and_then (log_event clk request (if reset_ok then Debug else Warn) (EvReset reset_ok)) (\<lambda>_.
     and_then (outcome (probe T clk)) (\<lambda>r. case r of
       Inr _ \<Rightarrow>
         and_then (transition clk StIdle) (\<lambda>_.
         log_event clk request Info (EvOpen (tr_name T) True))
     | Inl err \<Rightarrow>
         and_then count_error (\<lambda>_.
         and_then (log_event clk request Error (EvError ''open'' (charger_error_code err))) (\<lambda>_.
         and_then (log_event clk request Info (EvOpen (tr_name T) False)) (\<lambda>_. raise err)))))))"

definition charger_open ::
  "'t smb_transport \<Rightarrow> (nat \<Rightarrow> u64) \<Rightarrow> charger_config \<Rightarrow> 't \<Rightarrow> ((charger_error + unit) \<times> 't charger) option" where
  "charger_open T clk cfg t = open_session T clk (charger_new cfg t)"

definition retry_detection :: "'t smb_transport \<Rightarrow> (nat \<Rightarrow> u64) \<Rightarrow> u64 \<Rightarrow> string \<Rightarrow> ('t, unit) ch_op" where
  "retry_detection T clk request reason = and_then get_state (\<lambda>c.
     if ch_reruns c \<ge> cc_max_detect_reruns (ch_config c) then ret ()
     else
       and_then (modify (\<lambda>c. c\<lparr>ch_reruns := sat_add_u8 (ch_reruns c) 1\<rparr>)) (\<lambda>_.
       and_then get_state (\<lambda>c.
       and_then (log_event clk request Warn (EvRetry ''detect.rerun'' (ch_reruns c) reason)) (\<lambda>_.
       or_fail clk request ''detect.rerun'' (update_reg T clk CMD_APSD APSD_RERUN APSD_RERUN request)))))"

text \<open>
  \<open>detect_step\<close> in its parts: the start time of the detection, the two registers, and the decision on
  what they decode to.
\<close>

definition detect_start :: "(nat \<Rightarrow> u64) \<Rightarrow> u64 \<Rightarrow> ('t, u64) ch_op" where
  "detect_start clk now = and_then get_state (\<lambda>c.
     case ch_detect_started_ms c of
       Some started \<Rightarrow> ret started
     | None \<Rightarrow>
         and_then (modify (\<lambda>c. c\<lparr>ch_detect_started_ms := Some now\<rparr>)) (\<lambda>_.
         and_then (transition clk StDetecting) (\<lambda>_. ret now)))"

definition detect_pending :: "u64 \<Rightarrow> ('t, detection) ch_op" where
  "detect_pending elapsed_ms = and_then get_state (\<lambda>c. ret (Pending elapsed_ms (ch_attempts c)))"

definition detect_decide ::
  "'t smb_transport \<Rightarrow> (nat \<Rightarrow> u64) \<Rightarrow> u64 \<Rightarrow> u8 \<Rightarrow> u8 \<Rightarrow> u64 \<Rightarrow> charger_error + adapter_type \<Rightarrow>
   ('t, detection) ch_op" where
  "detect_decide T clk request status res elapsed_ms decoded = (case decoded of
     Inr adapter \<Rightarrow>
       and_then (stat (\<lambda>s. s\<lparr>ss_detections := sat_add_u64 (ss_detections s) 1\<rparr>)) (\<lambda>_.
       and_then (modify (\<lambda>c. c\<lparr>ch_adapter := Some adapter\<rparr>)) (\<lambda>_.
       and_then (transition clk StReady) (\<lambda>_.
       and_then (log_event clk request Info (EvDetect (adapter_label adapter) status res elapsed_ms)) (\<lambda>_.
         ret (Ready adapter)))))
   | Inl DetectionNotComplete \<Rightarrow> and_then get_state (\<lambda>c.
       if elapsed_ms \<ge> cc_detect_timeout_ms (ch_config c) then
         if ch_reruns c \<ge> cc_max_detect_reruns (ch_config c)
         then fail clk request ''detect.timeout'' (DetectionTimeout elapsed_ms)
         else and_then (retry_detection T clk request ''timeout'') (\<lambda>_. detect_pending elapsed_ms)
       else detect_pending elapsed_ms)
   | Inl (AdapterCheckTimeout raw) \<Rightarrow> and_then get_state (\<lambda>c.
       if ch_reruns c \<ge> cc_max_detect_reruns (ch_config c)
       then fail clk request ''detect.unstable'' (AdapterCheckTimeout raw)
       else and_then (retry_detection T clk request ''adapter_check_timeout'') (\<lambda>_. detect_pending elapsed_ms))
   | Inl err \<Rightarrow> fail clk request ''detect.decode'' err)"

definition detect_step :: "'t smb_transport \<Rightarrow> (nat \<Rightarrow> u64) \<Rightarrow> ('t, detection) ch_op" where
  "detect_step T clk = and_then get_state (\<lambda>c.
     if ch_state c = StClosed then raise ChargerNotOpen
     else
       and_then next_request (\<lambda>request.
       and_then (now_ms clk) (\<lambda>now.
       and_then (detect_start clk now) (\<lambda>started.
       and_then (or_fail clk request ''detect.read_status'' (read_reg T clk APSD_STATUS request)) (\<lambda>status.
       and_then (if status AND APSD_DTC_STATUS_DONE \<noteq> 0
                 then or_fail clk request ''detect.read_result'' (read_reg T clk APSD_RESULT_STATUS request)
                 else ret 0) (\<lambda>res.
       and_then (modify (\<lambda>c. c\<lparr>ch_attempts := sat_add_u8 (ch_attempts c) 1\<rparr>)) (\<lambda>_.
         detect_decide T clk request status res (now - started)
           (adapter_decode status res (cc_qc35 (ch_config c))))))))))"

definition apply_plan :: "charger_config \<Rightarrow> adapter_type \<Rightarrow> charge_policy \<times> u32" where
  "apply_plan cfg adapter =
    (let policy = policy_for adapter (cc_qc35 cfg);
         bounded = (if pol_icl_ua policy > cc_max_icl_ua cfg then cc_max_icl_ua cfg else pol_icl_ua policy)
     in (policy, quantize_down (cc_icl cfg) bounded))"

text \<open>The part of \<open>apply\<close> after the limit code is written, and the whole.\<close>

definition apply_commit ::
  "'t smb_transport \<Rightarrow> (nat \<Rightarrow> u64) \<Rightarrow> adapter_type \<Rightarrow> charge_policy \<Rightarrow> u32 \<Rightarrow> u8 \<Rightarrow> u64 \<Rightarrow>
   ('t, charge_plan) ch_op" where
  "apply_commit T clk adapter policy target_ua icl_raw request =
     (let override_bits = ICL_OVERRIDE OR ICL_OVERRIDE_AFTER_APSD in
     and_then (or_fail clk request ''apply.write_override''
       (update_reg T clk CMD_ICL_OVERRIDE override_bits override_bits request)) (\<lambda>_.
     and_then (case pol_qc2_voltage policy of
         None \<Rightarrow> ret ()
       | Some voltage \<Rightarrow> or_fail clk request ''apply.write_qc2''
           (update_reg T clk HVDCP_PULSE_COUNT_MAX QC2_VOLTAGE_MASK (qc2_raw voltage) request)) (\<lambda>_.
     and_then (modify (\<lambda>c. c\<lparr>ch_adapter := Some adapter\<rparr>)) (\<lambda>_.
     and_then (transition clk StReady) (\<lambda>_.
     and_then (log_event clk request Info (EvPolicy (adapter_label adapter) target_ua icl_raw
       (map_option qc2_label (pol_qc2_voltage policy)) (pol_pump_eligible policy))) (\<lambda>_.
     ret \<lparr>plan_adapter = adapter, plan_policy = policy, plan_icl_raw = icl_raw,
       plan_applied_icl_ua = target_ua\<rparr>))))))"

definition charger_apply :: "'t smb_transport \<Rightarrow> (nat \<Rightarrow> u64) \<Rightarrow> adapter_type \<Rightarrow> ('t, charge_plan) ch_op" where
  "charger_apply T clk adapter = and_then get_state (\<lambda>c.
     if ch_state c = StClosed then raise ChargerNotOpen
     else
       let cfg = ch_config c; policy = fst (apply_plan cfg adapter); target_ua = snd (apply_plan cfg adapter) in
       and_then next_request (\<lambda>request.
       and_then (or_fail clk request ''apply.encode_icl''
         (case icl_encode (cc_icl cfg) target_ua of Inl e \<Rightarrow> raise e | Inr raw \<Rightarrow> ret raw)) (\<lambda>icl_raw.
       and_then (or_fail clk request ''apply.write_icl''
         (write_reg T clk USBIN_CURRENT_LIMIT_CFG icl_raw request)) (\<lambda>_.
       apply_commit T clk adapter policy target_ua icl_raw request))))"

definition monitor_decide ::
  "(nat \<Rightarrow> u64) \<Rightarrow> u64 \<Rightarrow> u8 \<Rightarrow> u8 \<Rightarrow> charger_error + adapter_type \<Rightarrow> ('t, monitor_result) ch_op" where
  "monitor_decide clk request status res decoded = (case decoded of
     Inr adapter \<Rightarrow> and_then get_state (\<lambda>c.
       and_then (modify (\<lambda>c. c\<lparr>ch_adapter := Some adapter\<rparr>)) (\<lambda>_.
         if ch_adapter c = Some adapter then ret (Unchanged adapter)
         else and_then (log_event clk request Warn (EvDetect (adapter_label adapter) status res 0)) (\<lambda>_.
           ret (Changed adapter))))
   | Inl DetectionNotComplete \<Rightarrow> and_then (modify (\<lambda>c. c\<lparr>ch_adapter := None\<rparr>)) (\<lambda>_. ret Detached)
   | Inl err \<Rightarrow> fail clk request ''monitor.decode'' err)"

definition charger_monitor :: "'t smb_transport \<Rightarrow> (nat \<Rightarrow> u64) \<Rightarrow> ('t, monitor_result) ch_op" where
  "charger_monitor T clk = and_then get_state (\<lambda>c.
     if ch_state c = StClosed then raise ChargerNotOpen
     else
       and_then next_request (\<lambda>request.
       and_then (or_fail clk request ''monitor.read_status'' (read_reg T clk APSD_STATUS request)) (\<lambda>status.
         if status AND APSD_DTC_STATUS_DONE = 0
         then and_then (modify (\<lambda>c. c\<lparr>ch_adapter := None\<rparr>)) (\<lambda>_. ret Detached)
         else
           and_then (or_fail clk request ''monitor.read_result''
             (read_reg T clk APSD_RESULT_STATUS request)) (\<lambda>res.
           monitor_decide clk request status res (adapter_decode status res (cc_qc35 (ch_config c)))))))"

definition reinit :: "'t smb_transport \<Rightarrow> (nat \<Rightarrow> u64) \<Rightarrow> ('t, unit) ch_op" where
  "reinit T clk = and_then get_state (\<lambda>c.
     if ch_state c = StClosed then raise ChargerNotOpen
     else
       and_then next_request (\<lambda>request.
       and_then (reset_link T) (\<lambda>ok.
       and_then (stat (\<lambda>s. s\<lparr>ss_resets := sat_add_u64 (ss_resets s) 1\<rparr>)) (\<lambda>_.
       and_then (log_event clk request Info (EvReset ok)) (\<lambda>_.
         if \<not> ok
         then fail clk request ''reinit.reset''
                (TransportErr (transport_error_new TkDisconnected 0 ''link not recovered''))
         else
           and_then (modify (\<lambda>c. c\<lparr>ch_detect_started_ms := None, ch_reruns := 0, ch_attempts := 0,
             ch_adapter := None\<rparr>)) (\<lambda>_.
           and_then (transition clk StIdle) (\<lambda>_. probe T clk)))))))"

definition charger_close :: "'t smb_transport \<Rightarrow> (nat \<Rightarrow> u64) \<Rightarrow> ('t, unit) ch_op" where
  "charger_close T clk = and_then get_state (\<lambda>c.
     if ch_state c = StClosed then ret ()
     else
       and_then next_request (\<lambda>request.
       and_then (case icl_encode (cc_icl (ch_config c)) (quantize_down (cc_icl (ch_config c)) (cc_safe_icl_ua (ch_config c))) of
           Inr raw \<Rightarrow>
             and_then (outcome (write_reg T clk USBIN_CURRENT_LIMIT_CFG raw request)) (\<lambda>r.
               ret (case r of Inl _ \<Rightarrow> False | Inr _ \<Rightarrow> True))
         | Inl _ \<Rightarrow> ret False) (\<lambda>ok.
       and_then (transition clk StClosed) (\<lambda>_.
         log_event clk request Info (EvClose ok)))))"

text \<open>\<open>Drop\<close>: a session that goes out of scope is closed.\<close>

definition charger_drop :: "'t smb_transport \<Rightarrow> (nat \<Rightarrow> u64) \<Rightarrow> ('t, unit) ch_op" where
  "charger_drop T clk = charger_close T clk"

end
