(* ===== verification/Charger_Invariant.thy ===== *)
theory Charger_Invariant
  imports Charger
begin

text \<open>
  What an invariant of a charger session has to survive, as an interface: the elementary effects of the
  driver (a link access, a clock reading, a log record, a counted read or write, a state change, a new
  request number). Every operation of the driver then keeps the invariant and returns, on every link.
\<close>

section \<open>Elementary effects\<close>

text \<open>\<open>log_event\<close> as a function of the session.\<close>

definition emit :: "(nat \<Rightarrow> u64) \<Rightarrow> u64 \<Rightarrow> level \<Rightarrow> event_kind \<Rightarrow> 't charger \<Rightarrow> 't charger" where
  "emit clk request lvl kind c = c\<lparr>ch_seq := sat_add_u64 (ch_seq c) 1,
     ch_clock_reads := Suc (ch_clock_reads c),
     ch_events := ch_events c @ [\<lparr>ev_seq = sat_add_u64 (ch_seq c) 1, ev_ts_ms = clk (ch_clock_reads c),
       ev_request_id = request, ev_level = lvl, ev_kind = kind\<rparr>]\<rparr>"

definition tick :: "'t charger \<Rightarrow> 't charger" where
  "tick c = c\<lparr>ch_clock_reads := Suc (ch_clock_reads c)\<rparr>"

lemma now_ms_eq: "now_ms clk c = Some (Inr (clk (ch_clock_reads c)), tick c)"
  by (simp add: now_ms_def and_then_def tick_def)

lemma log_event_eq: "log_event clk request lvl kind c = Some (Inr (), emit clk request lvl kind c)"
  by (simp add: log_event_def and_then_def now_ms_eq emit_def tick_def)

lemma stat_eq: "stat f c = Some (Inr (), c\<lparr>ch_stats := f (ch_stats c)\<rparr>)"
  by (simp add: stat_def)

lemma wp_now_ms [simp]: "wp (now_ms clk) Q c \<longleftrightarrow> Q (Inr (clk (ch_clock_reads c))) (tick c)"
  by (simp add: wp_def now_ms_eq)

lemma wp_log_event [simp]: "wp (log_event clk request lvl kind) Q c \<longleftrightarrow> Q (Inr ()) (emit clk request lvl kind c)"
  by (simp add: wp_def log_event_eq)

lemma wp_stat [simp]: "wp (stat f) Q c \<longleftrightarrow> Q (Inr ()) (c\<lparr>ch_stats := f (ch_stats c)\<rparr>)"
  by (simp add: wp_def stat_eq)

lemma wp_next_request [simp]:
  "wp next_request Q c \<longleftrightarrow> Q (Inr (sat_add_u64 (ch_request_id c) 1)) (c\<lparr>ch_request_id := sat_add_u64 (ch_request_id c) 1\<rparr>)"
  by (simp add: next_request_def)

lemma wp_elapsed_us [simp]:
  "wp (elapsed_us clk started) Q c \<longleftrightarrow>
     Q (Inr (sat_mul_u64 (clk (ch_clock_reads c) - started) 1000)) (tick c)"
  by (simp add: elapsed_us_def)

lemma wp_transition [simp]:
  "wp (transition clk to) Q c \<longleftrightarrow>
     (if ch_state c = to then Q (Inr ()) c
      else Q (Inr ()) (emit clk (ch_request_id c) Debug
        (EvStateChange (state_label (ch_state c)) (state_label to)) (c\<lparr>ch_state := to\<rparr>)))"
  by (simp add: transition_def)

lemma wp_reset_link [simp]:
  "wp (reset_link T) Q c \<longleftrightarrow>
     Q (Inr (\<exists>x. fst (tr_reset T (ch_transport c)) = Inr x)) (c\<lparr>ch_transport := snd (tr_reset T (ch_transport c))\<rparr>)"
  by (auto simp: reset_link_def split: prod.split sum.split)

lemma wp_failI: "(\<And>c'. Q (Inl err) c') \<Longrightarrow> wp (fail clk request op err) Q c"
  by (simp add: fail_def count_error_def)

lemma wp_link_ok:
  "call (ch_transport c) = (Inr v, t) \<Longrightarrow>
   wp (link_retry T clk call op request attempt) Q c \<longleftrightarrow> Q (Inr v) (c\<lparr>ch_transport := t\<rparr>)"
  by (simp add: wp_def link_retry.simps)

section \<open>The interface\<close>

text \<open>The records of a link access that is retried, and those that carry no counter and no state.\<close>

fun link_noise :: "event_kind \<Rightarrow> bool" where
  "link_noise (EvRetry _ _ _) \<longleftrightarrow> True"
| "link_noise (EvReset _) \<longleftrightarrow> True"
| "link_noise _ \<longleftrightarrow> False"

fun neutral :: "event_kind \<Rightarrow> bool" where
  "neutral (EvRead _ _ _) \<longleftrightarrow> False"
| "neutral (EvWrite _ _ _) \<longleftrightarrow> False"
| "neutral (EvStateChange _ _) \<longleftrightarrow> False"
| "neutral _ \<longleftrightarrow> True"

lemma link_noise_neutral: "link_noise k \<Longrightarrow> neutral k"
  by (cases k) simp_all

text \<open>What one link access with its retries can do.\<close>

locale link_invariant =
  fixes clk :: "nat \<Rightarrow> u64" and P :: "u64 \<Rightarrow> 't charger \<Rightarrow> bool"
  assumes bounded_retries: "P q c \<Longrightarrow> cc_max_transport_retries (ch_config c) < u8_max"
    and link_access: "P q c \<Longrightarrow> P q (c\<lparr>ch_transport := t\<rparr>)"
    and counters: "P q c \<Longrightarrow> ss_reads s = ss_reads (ch_stats c) \<Longrightarrow> ss_writes s = ss_writes (ch_stats c) \<Longrightarrow>
      P q (c\<lparr>ch_stats := s\<rparr>)"
    and retry_record: "P q c \<Longrightarrow> link_noise k \<Longrightarrow> P q (emit clk q l k c)"
begin

lemma keeps_count_error: "keeps (P q) count_error"
  by (simp add: keeps_wp count_error_def counters)

lemma keeps_reset_link: "keeps (P q) (reset_link T)"
  by (simp add: keeps_wp link_access)

lemma keeps_stat:
  "(\<And>s. ss_reads (f s) = ss_reads s \<and> ss_writes (f s) = ss_writes s) \<Longrightarrow> keeps (P q) (stat f)"
  by (simp add: keeps_wp counters)

lemma keeps_retry_log: "link_noise k \<Longrightarrow> keeps (P q) (log_event clk q l k)"
  by (simp add: keeps_wp retry_record)

lemma keeps_recover: "keeps (P q) (recover T clk q op attempt err)"
  unfolding recover_def
  by (auto intro!: keeps_intros keeps_count_error keeps_reset_link keeps_stat keeps_retry_log)

lemma link_retry_keeps:
  assumes "P q c"
  shows "\<exists>r c'. link_retry T clk call op q attempt c = Some (r, c') \<and> P q c'"
  using assms
proof (induction "u8_max - attempt" arbitrary: attempt c rule: less_induct)
  case less
  obtain r t where call: "call (ch_transport c) = (r, t)" by fastforce
  have P: "P q (c\<lparr>ch_transport := t\<rparr>)" using less.prems by (rule link_access)
  note unfold = link_retry.simps [of T clk call op q attempt c] call
  show ?case
  proof (cases r)
    case (Inr v)
    with P show ?thesis by (simp add: unfold)
  next
    case (Inl err)
    show ?thesis
    proof (cases "\<not> link_recoverable err \<or> sat_add_u8 attempt 1 > cc_max_transport_retries (ch_config c)")
      case True
      with Inl P show ?thesis
        using keepsD [OF keeps_and_then [OF keeps_count_error keeps_raise] P] by (auto simp: unfold)
    next
      case again: False
      obtain r' c' where rec: "recover T clk q op (sat_add_u8 attempt 1) err (c\<lparr>ch_transport := t\<rparr>) = Some (r', c')"
        and P': "P q c'"
        using keepsD [OF keeps_recover P] by blast
      show ?thesis
      proof (cases r')
        case (Inl e)
        with \<open>r = Inl err\<close> again rec P' show ?thesis by (simp add: unfold)
      next
        case (Inr x)
        from again bounded_retries [OF less.prems] have "sat_add_u8 attempt 1 < u8_max" by linarith
        then have "u8_max - sat_add_u8 attempt 1 < u8_max - attempt"
          by (simp add: sat_add_u8_def)
        from less.hyps [OF this P'] \<open>r = Inl err\<close> again rec Inr show ?thesis by (simp add: unfold)
      qed
    qed
  qed
qed

lemma keeps_link_retry: "keeps (P q) (link_retry T clk call op q attempt)"
  by (rule keepsI) (rule link_retry_keeps)

lemma wp_link_retry:
  assumes "P q c" "\<And>r c'. P q c' \<Longrightarrow> Q r c'"
  shows "wp (link_retry T clk call op q attempt) Q c"
  using link_retry_keeps [OF assms(1), of T call op attempt] assms(2) by (auto simp: wp_iff)

end

text \<open>What the operations can do to a session.\<close>

locale session_invariant = link_invariant clk P for clk :: "nat \<Rightarrow> u64" and P :: "u64 \<Rightarrow> 't charger \<Rightarrow> bool" +
  assumes clock_reading: "P q c \<Longrightarrow> P q (tick c)"
    and session_fields: "P q c \<Longrightarrow>
      P q (c\<lparr>ch_adapter := a, ch_detect_started_ms := d, ch_reruns := r, ch_attempts := n\<rparr>)"
    and neutral_record: "P q c \<Longrightarrow> neutral k \<Longrightarrow> P q (emit clk q l k c)"
    and counted_read: "P q c \<Longrightarrow> P q (emit clk q Trace (EvRead addr b us)
      (tick (c\<lparr>ch_stats := (ch_stats c)\<lparr>ss_reads := sat_add_u64 (ss_reads (ch_stats c)) 1\<rparr>\<rparr>)))"
    and counted_write: "P q c \<Longrightarrow> P q (emit clk q Trace (EvWrite addr b us)
      (tick (c\<lparr>ch_stats := (ch_stats c)\<lparr>ss_writes := sat_add_u64 (ss_writes (ch_stats c)) 1\<rparr>\<rparr>)))"
    and state_change: "P q c \<Longrightarrow> ch_state c \<noteq> st \<Longrightarrow> P q (emit clk (ch_request_id c) Debug
      (EvStateChange (state_label (ch_state c)) (state_label st)) (c\<lparr>ch_state := st\<rparr>))"
    and new_request: "P q c \<Longrightarrow> P (sat_add_u64 (ch_request_id c) 1)
      (c\<lparr>ch_request_id := sat_add_u64 (ch_request_id c) 1\<rparr>)"
    and older_request: "P q' c \<Longrightarrow> q \<le> q' \<Longrightarrow> P q c"
    and known_request: "P q c \<Longrightarrow> q \<le> sat_add_u64 (ch_request_id c) 1"
begin

lemma single_fields:
  assumes "P q c"
  shows "P q (c\<lparr>ch_adapter := a\<rparr>)" "P q (c\<lparr>ch_detect_started_ms := d\<rparr>)"
    "P q (c\<lparr>ch_reruns := r\<rparr>)" "P q (c\<lparr>ch_attempts := n\<rparr>)"
  using session_fields [OF assms, where a = a and d = "ch_detect_started_ms c" and r = "ch_reruns c" and n = "ch_attempts c"]
    session_fields [OF assms, where a = "ch_adapter c" and d = d and r = "ch_reruns c" and n = "ch_attempts c"]
    session_fields [OF assms, where a = "ch_adapter c" and d = "ch_detect_started_ms c" and r = r and n = "ch_attempts c"]
    session_fields [OF assms, where a = "ch_adapter c" and d = "ch_detect_started_ms c" and r = "ch_reruns c" and n = n]
  by simp_all

lemma keeps_log: "neutral k \<Longrightarrow> keeps (P q) (log_event clk q l k)"
  by (simp add: keeps_wp neutral_record)

lemma keeps_now: "keeps (P q) (now_ms clk)"
  by (simp add: keeps_wp clock_reading)

lemma keeps_transition: "keeps (P q) (transition clk to)"
  by (simp add: keeps_wp state_change)

lemmas keeps_basic = keeps_intros keeps_log keeps_now keeps_count_error keeps_transition keeps_reset_link
  keeps_stat

lemma keeps_fail: "keeps (P q) (fail clk q op err)"
  unfolding fail_def by (auto intro!: keeps_basic)

lemma keeps_or_fail: "keeps (P q) m \<Longrightarrow> keeps (P q) (or_fail clk q op m)"
  unfolding or_fail_def by (auto intro!: keeps_basic keeps_fail)

lemma keeps_read_reg: "keeps (P q) (read_reg T clk addr q)"
  by (auto simp: keeps_wp read_reg_def simp del: One_nat_def intro!: wp_link_retry counted_read clock_reading
      split: sum.splits)

lemma keeps_verify: "keeps (P q) (verify T clk addr v q)"
  unfolding verify_def by (auto intro!: keeps_basic keeps_read_reg)

lemma keeps_write_reg: "keeps (P q) (write_reg T clk addr v q)"
  unfolding keeps_wp write_reg_def
proof (intro allI impI)
  fix c assume P: "P q c"
  have v: "wp (verify T clk addr v q) (\<lambda>_. P q) c" if "P q c" for c
    using keeps_verify that by (simp add: keeps_wp)
  show "wp (and_then (now_ms clk) (\<lambda>started.
     and_then (link_retry T clk (tr_write T addr v) ''write'' q 0) (\<lambda>_.
     and_then (stat (\<lambda>s. s\<lparr>ss_writes := sat_add_u64 (ss_writes s) 1\<rparr>)) (\<lambda>_.
     and_then (elapsed_us clk started) (\<lambda>elapsed.
     and_then (log_event clk q Trace (EvWrite addr v elapsed)) (\<lambda>_.
       verify T clk addr v q)))))) (\<lambda>_. P q) c"
    by (auto simp del: One_nat_def intro!: wp_link_retry [OF clock_reading [OF P]] v counted_write split: sum.splits)
qed

lemma keeps_update_reg: "keeps (P q) (update_reg T clk addr m v q)"
  unfolding update_reg_def by (auto intro!: keeps_basic keeps_read_reg keeps_write_reg)

lemmas keeps_access = keeps_basic keeps_fail keeps_or_fail keeps_read_reg keeps_write_reg keeps_update_reg
  single_fields

text \<open>A new request: the rest of the body keeps the invariant for it, and so for the request before it.\<close>

lemma keeps_next_request:
  assumes "\<And>q. keeps (P q) (f q)"
  shows "keeps (P q) (and_then next_request f)"
  unfolding keeps_wp
proof (intro allI impI)
  fix c assume P: "P q c"
  let ?q = "sat_add_u64 (ch_request_id c) 1"
  have "wp (f ?q) (\<lambda>_. P ?q) (c\<lparr>ch_request_id := ?q\<rparr>)"
    using assms [of ?q] new_request [OF P] by (simp add: keeps_wp)
  then show "wp (and_then next_request f) (\<lambda>_. P q) c"
    using known_request [OF P] older_request by (auto elim!: wp_mono)
qed

lemma keeps_probe: "keeps (P q) (probe T clk)"
  unfolding probe_def by (auto intro!: keeps_next_request keeps_access)

lemma keeps_retry_detection: "keeps (P q) (retry_detection T clk q reason)"
  unfolding retry_detection_def by (auto intro!: keeps_access)

lemma keeps_detect_decide: "keeps (P q) (detect_decide T clk q status res elapsed decoded)"
  unfolding detect_decide_def detect_pending_def
  by (auto intro!: keeps_access keeps_retry_detection split: sum.split charger_error.split)

lemma keeps_detect_step: "keeps (P q) (detect_step T clk)"
  unfolding detect_step_def detect_start_def
  by (intro keeps_next_request keeps_access keeps_detect_decide)

lemma keeps_apply: "keeps (P q) (charger_apply T clk adapter)"
  unfolding charger_apply_def apply_commit_def Let_def
  by (intro keeps_next_request keeps_access) simp_all

lemma keeps_monitor: "keeps (P q) (charger_monitor T clk)"
  unfolding charger_monitor_def monitor_decide_def
  by (auto intro!: keeps_next_request keeps_access split: sum.split charger_error.split)

lemma keeps_reinit: "keeps (P q) (reinit T clk)"
  unfolding reinit_def
  by (intro keeps_next_request keeps_access keeps_probe) (simp_all add: session_fields)

lemma keeps_close: "keeps (P q) (charger_close T clk)"
  unfolding charger_close_def
  by (intro keeps_next_request keeps_access) simp_all

lemma keeps_open: "keeps (P q) (open_session T clk)"
  unfolding open_session_def
  by (intro keeps_next_request keeps_access keeps_probe) simp_all

lemmas keeps_operations = keeps_open keeps_detect_step keeps_apply keeps_monitor keeps_reinit keeps_close

end

end
