(* ===== verification/Charger_Trace.thy ===== *)
theory Charger_Trace
  imports Charger_Invariant
begin

text \<open>
  What holds of a charger session on every link and with every clock: its operations return, its journal
  explains its state, and a success it reports was read back. Nothing is assumed of the link.
\<close>

section \<open>Every operation returns\<close>

abbreviation (input) kinds :: "'t charger \<Rightarrow> event_kind list" where
  "kinds c \<equiv> map ev_kind (ch_events c)"

definition steady :: "charger_config \<Rightarrow> u64 \<Rightarrow> 't charger \<Rightarrow> bool" where
  "steady cfg q c \<longleftrightarrow> ch_config c = cfg \<and> cc_max_transport_retries cfg < u8_max \<and>
     q \<le> u64_max \<and> q \<le> ch_request_id c"

interpretation steady: session_invariant clk "steady cfg"
  by unfold_locales (auto simp: steady_def emit_def tick_def sat_add_u64_def simp del: One_nat_def)

lemma steady_start: "ch_config c = cfg \<Longrightarrow> cc_max_transport_retries cfg < u8_max \<Longrightarrow> steady cfg 0 c"
  by (simp add: steady_def)

text \<open>
  C18. Every operation of a charger session returns, with a value or an error, on every link and with every
  clock, as long as the retry limit is below 255, and none of them changes the configuration.
\<close>

theorem charger_operations_return:
  assumes "cc_max_transport_retries (ch_config c) < u8_max"
  shows "(\<exists>r c'. open_session T clk c = Some (r, c') \<and> ch_config c' = ch_config c) \<and>
    (\<exists>r c'. detect_step T clk c = Some (r, c') \<and> ch_config c' = ch_config c) \<and>
    (\<exists>r c'. charger_apply T clk adapter c = Some (r, c') \<and> ch_config c' = ch_config c) \<and>
    (\<exists>r c'. charger_monitor T clk c = Some (r, c') \<and> ch_config c' = ch_config c) \<and>
    (\<exists>r c'. reinit T clk c = Some (r, c') \<and> ch_config c' = ch_config c) \<and>
    (\<exists>r c'. charger_close T clk c = Some (r, c') \<and> ch_config c' = ch_config c)"
proof -
  note S = steady_start [OF refl assms]
  have "steady (ch_config c) 0 c' \<Longrightarrow> ch_config c' = ch_config c" for c' by (simp add: steady_def)
  with keepsD [OF steady.keeps_open S] keepsD [OF steady.keeps_detect_step S]
    keepsD [OF steady.keeps_apply S] keepsD [OF steady.keeps_monitor S]
    keepsD [OF steady.keeps_reinit S] keepsD [OF steady.keeps_close S]
  show ?thesis by meson
qed

section \<open>The journal explains the session\<close>

text \<open>What a trace of records says of the state: the chain of its state changes.\<close>

fun replay :: "string \<Rightarrow> event_kind list \<Rightarrow> string option" where
  "replay st [] = Some st"
| "replay st (EvStateChange a b # ks) = (if a = st then replay b ks else None)"
| "replay st (_ # ks) = replay st ks"

fun is_read :: "event_kind \<Rightarrow> bool" where
  "is_read (EvRead _ _ _) \<longleftrightarrow> True" | "is_read _ \<longleftrightarrow> False"

fun is_write :: "event_kind \<Rightarrow> bool" where
  "is_write (EvWrite _ _ _) \<longleftrightarrow> True" | "is_write _ \<longleftrightarrow> False"

lemma replay_snoc: "replay st (ks @ [k]) = (case replay st ks of None \<Rightarrow> None | Some s \<Rightarrow> replay s [k])"
  by (induction st ks rule: replay.induct) auto

lemma replay_neutral [simp]: "neutral k \<or> is_read k \<or> is_write k \<Longrightarrow> replay st [k] = Some st"
  by (cases k) auto

lemma neutral_counts [simp]: "neutral k \<Longrightarrow> \<not> is_read k \<and> \<not> is_write k"
  by (cases k) auto

definition journal_explains :: "(nat \<Rightarrow> u64) \<Rightarrow> 't charger \<Rightarrow> bool" where
  "journal_explains clk c \<longleftrightarrow>
     map ev_seq (ch_events c) = map (\<lambda>i. min (Suc i) u64_max) [0..<length (ch_events c)] \<and>
     ch_seq c = min (length (ch_events c)) u64_max \<and>
     replay ''closed'' (kinds c) = Some (state_label (ch_state c)) \<and>
     ss_reads (ch_stats c) = min (length (filter is_read (kinds c))) u64_max \<and>
     ss_writes (ch_stats c) = min (length (filter is_write (kinds c))) u64_max \<and>
     (\<forall>e\<in>set (ch_events c). ev_request_id e \<le> ch_request_id c) \<and> ch_request_id c \<le> u64_max \<and>
     (mono clk \<longrightarrow> sorted (map ev_ts_ms (ch_events c)) \<and>
        (\<forall>e\<in>set (ch_events c). ev_ts_ms e \<le> clk (ch_clock_reads c)))"

definition explained :: "charger_config \<Rightarrow> (nat \<Rightarrow> u64) \<Rightarrow> u64 \<Rightarrow> 't charger \<Rightarrow> bool" where
  "explained cfg clk q c \<longleftrightarrow> steady cfg q c \<and> journal_explains clk c"

lemma journal_tick: "journal_explains clk c \<Longrightarrow> journal_explains clk (tick c)"
  unfolding journal_explains_def tick_def
  by (auto simp: mono_def intro: order.trans [where b = "clk (ch_clock_reads c)"])

text \<open>
  Appending a record: the numbering, the request bound and the timestamps are preserved whatever the
  record says; its kind has to account for the change of the state and the counters.
\<close>

lemma journal_emit:
  assumes "journal_explains clk c" "q \<le> ch_request_id c'"
    and same: "ch_events c' = ch_events c" "ch_seq c' = ch_seq c" "ch_request_id c' = ch_request_id c"
      "ch_clock_reads c \<le> ch_clock_reads c'"
    and kind: "replay (state_label (ch_state c)) [k] = Some (state_label (ch_state c'))"
      "ss_reads (ch_stats c') = (if is_read k then sat_add_u64 (ss_reads (ch_stats c)) 1 else ss_reads (ch_stats c))"
      "ss_writes (ch_stats c') = (if is_write k then sat_add_u64 (ss_writes (ch_stats c)) 1 else ss_writes (ch_stats c))"
  shows "journal_explains clk (emit clk q l k c')"
proof -
  have later: "ev_ts_ms e \<le> clk n" if "mono clk" "e \<in> set (ch_events c)" "ch_clock_reads c' \<le> n" for e n
  proof -
    have "ev_ts_ms e \<le> clk (ch_clock_reads c)" using assms(1) that by (simp add: journal_explains_def)
    also have "\<dots> \<le> clk n" using that same(4) by (meson monoD order.trans)
    finally show ?thesis .
  qed
  let ?e = "\<lparr>ev_seq = sat_add_u64 (ch_seq c) 1, ev_ts_ms = clk (ch_clock_reads c'),
       ev_request_id = q, ev_level = l, ev_kind = k\<rparr>"
  let ?es = "ch_events c"
  from assms(1) have J: "map ev_seq ?es = map (\<lambda>i. min (Suc i) u64_max) [0..<length ?es]"
    "ch_seq c = min (length ?es) u64_max" "replay ''closed'' (kinds c) = Some (state_label (ch_state c))"
    "ss_reads (ch_stats c) = min (length (filter is_read (kinds c))) u64_max"
    "ss_writes (ch_stats c) = min (length (filter is_write (kinds c))) u64_max"
    "\<forall>e\<in>set ?es. ev_request_id e \<le> ch_request_id c" "ch_request_id c \<le> u64_max"
    "mono clk \<longrightarrow> sorted (map ev_ts_ms ?es)"
    by (simp_all add: journal_explains_def)
  have fields: "ch_events (emit clk q l k c') = ?es @ [?e]" "ch_seq (emit clk q l k c') = min (Suc (length ?es)) u64_max"
    "ch_state (emit clk q l k c') = ch_state c'" "ch_stats (emit clk q l k c') = ch_stats c'"
    "ch_request_id (emit clk q l k c') = ch_request_id c" "ch_clock_reads (emit clk q l k c') = Suc (ch_clock_reads c')"
    by (simp_all add: emit_def same J sat_add_u64_def)
  have seq: "sat_add_u64 (ch_seq c) 1 = min (Suc (length ?es)) u64_max" by (simp add: J sat_add_u64_def)
  have counts: "sat_add_u64 (min n u64_max) 1 = min (Suc n) u64_max" for n by (simp add: sat_add_u64_def)
  have times: "sorted (map ev_ts_ms (?es @ [?e])) \<and> (\<forall>e\<in>set (?es @ [?e]). ev_ts_ms e \<le> clk (Suc (ch_clock_reads c')))"
    if "mono clk"
    using that J(8) later [OF that] monoD [OF that, of "ch_clock_reads c'" "Suc (ch_clock_reads c')"]
    by (auto simp: sorted_append)
  show ?thesis
    unfolding journal_explains_def fields
  proof (intro conjI impI)
    show "replay ''closed'' (map ev_kind (?es @ [?e])) = Some (state_label (ch_state c'))"
      using J(3) kind(1) by (simp add: replay_snoc)
    show "ss_reads (ch_stats c') = min (length (filter is_read (map ev_kind (?es @ [?e])))) u64_max"
      "ss_writes (ch_stats c') = min (length (filter is_write (map ev_kind (?es @ [?e])))) u64_max"
      unfolding kind(2,3) J(4,5) counts by simp_all
    show "\<forall>e\<in>set (?es @ [?e]). ev_request_id e \<le> ch_request_id c"
      using J(6) assms(2) same(3) by simp
  qed (use J(1,7) seq times in \<open>simp_all\<close>)
qed

interpretation explained: session_invariant clk "explained cfg clk"
proof unfold_locales
  fix q c k l addr b us and t :: 'a and s a d r n st q'
  assume P: "explained cfg clk q (c :: 'a charger)"
  then have J: "journal_explains clk c" and S: "steady cfg q c" and q: "q \<le> ch_request_id c"
    by (simp_all add: explained_def steady_def)
  show "cc_max_transport_retries (ch_config c) < u8_max" using S by (rule steady.bounded_retries)
  show "explained cfg clk q (c\<lparr>ch_transport := t\<rparr>)"
    "explained cfg clk q (c\<lparr>ch_adapter := a, ch_detect_started_ms := d, ch_reruns := r, ch_attempts := n\<rparr>)"
    using P by (simp_all add: explained_def steady_def journal_explains_def)
  show "explained cfg clk q (c\<lparr>ch_stats := s\<rparr>)"
    if "ss_reads s = ss_reads (ch_stats c)" "ss_writes s = ss_writes (ch_stats c)"
    using that P by (simp add: explained_def steady_def journal_explains_def)
  show "explained cfg clk q (tick c)"
    using S J steady.clock_reading by (simp add: explained_def journal_tick)
  show neutral: "explained cfg clk q (emit clk q l k c)" if "neutral k" for k
    using that S J q steady.neutral_record by (simp add: explained_def journal_emit)
  show "explained cfg clk q (emit clk q l k c)" if "link_noise k"
    using neutral that by (simp add: link_noise_neutral)
  show "explained cfg clk q (emit clk q Trace (EvRead addr b us)
      (tick (c\<lparr>ch_stats := (ch_stats c)\<lparr>ss_reads := sat_add_u64 (ss_reads (ch_stats c)) 1\<rparr>\<rparr>)))"
    using steady.counted_read [OF S] J q unfolding explained_def
    by (auto simp: tick_def simp del: One_nat_def intro!: journal_emit [OF J])
  show "explained cfg clk q (emit clk q Trace (EvWrite addr b us)
      (tick (c\<lparr>ch_stats := (ch_stats c)\<lparr>ss_writes := sat_add_u64 (ss_writes (ch_stats c)) 1\<rparr>\<rparr>)))"
    using steady.counted_write [OF S] J q unfolding explained_def
    by (auto simp: tick_def simp del: One_nat_def intro!: journal_emit [OF J])
  show "explained cfg clk q (emit clk (ch_request_id c) Debug
      (EvStateChange (state_label (ch_state c)) (state_label st)) (c\<lparr>ch_state := st\<rparr>))"
    if "ch_state c \<noteq> st"
    using steady.state_change [OF S that] J unfolding explained_def
    by (auto intro!: journal_emit [OF J])
  show "explained cfg clk (sat_add_u64 (ch_request_id c) 1)
      (c\<lparr>ch_request_id := sat_add_u64 (ch_request_id c) 1\<rparr>)"
    using steady.new_request [OF S] J unfolding explained_def journal_explains_def
    by (fastforce simp: sat_add_u64_def simp del: One_nat_def)
  show "q \<le> sat_add_u64 (ch_request_id c) 1" using S by (rule steady.known_request)
  show "explained cfg clk q' c" if "q' \<le> q" for q'
    using steady.older_request [OF S that] J by (simp add: explained_def)
qed

text \<open>A session as its caller drives it: opened once, then any calls, with the link changing in between.\<close>

datatype charger_call = CallDetect | CallApply adapter_type | CallMonitor | CallReinit | CallClose

fun run_call :: "'t smb_transport \<Rightarrow> (nat \<Rightarrow> u64) \<Rightarrow> charger_call \<Rightarrow> 't charger \<Rightarrow> 't charger option" where
  "run_call T clk CallDetect c = map_option snd (detect_step T clk c)"
| "run_call T clk (CallApply a) c = map_option snd (charger_apply T clk a c)"
| "run_call T clk CallMonitor c = map_option snd (charger_monitor T clk c)"
| "run_call T clk CallReinit c = map_option snd (reinit T clk c)"
| "run_call T clk CallClose c = map_option snd (charger_close T clk c)"

inductive charger_reachable ::
  "'t smb_transport \<Rightarrow> (nat \<Rightarrow> u64) \<Rightarrow> charger_config \<Rightarrow> 't charger \<Rightarrow> bool" for T clk cfg where
  opened: "charger_open T clk cfg t = Some (Inr (), c) \<Longrightarrow> charger_reachable T clk cfg c"
| called: "charger_reachable T clk cfg c \<Longrightarrow> run_call T clk call c = Some c' \<Longrightarrow> charger_reachable T clk cfg c'"
| outside: "charger_reachable T clk cfg c \<Longrightarrow> charger_reachable T clk cfg (c\<lparr>ch_transport := t\<rparr>)"

lemma explained_new:
  "cc_max_transport_retries cfg < u8_max \<Longrightarrow> explained cfg clk 0 (charger_new cfg t)"
  by (simp add: explained_def steady_def journal_explains_def charger_new_def stats_zero_def)

lemma run_call_explained:
  assumes "explained cfg clk 0 c"
  shows "\<exists>c'. run_call T clk call c = Some c' \<and> explained cfg clk 0 c'"
  using keeps_final [OF explained.keeps_detect_step assms] keeps_final [OF explained.keeps_apply assms]
    keeps_final [OF explained.keeps_monitor assms] keeps_final [OF explained.keeps_reinit assms]
    keeps_final [OF explained.keeps_close assms]
  by (cases call) simp_all

lemma reachable_explained:
  assumes "charger_reachable T clk cfg c" "cc_max_transport_retries cfg < u8_max"
  shows "explained cfg clk 0 c"
  using assms(1)
proof induction
  case (opened t c)
  with keeps_final [OF explained.keeps_open explained_new [OF assms(2)], of T clk t] show ?case
    by (auto simp: charger_open_def)
next
  case (called c call c')
  then show ?case using run_call_explained [of cfg clk c T call] by auto
next
  case (outside c t)
  then show ?case by (blast intro: explained.link_access)
qed

text \<open>
  C16. The journal explains the session: in every session a caller can reach, whatever the link answers and
  however the device changes between calls, the records are numbered 1, 2, 3, ... without a gap, the chain
  of recorded state changes is unbroken from "closed" to the present state, the read and write counters
  are the numbers of read and write records, no record carries a request number that was not given out,
  and the timestamps are in order if the clock runs forward.
\<close>

theorem charger_journal_explains:
  assumes "charger_reachable T clk cfg c" "cc_max_transport_retries cfg < u8_max"
    and "length (ch_events c) \<le> u64_max"
  shows "map ev_seq (ch_events c) = [1..<Suc (length (ch_events c))] \<and>
    replay ''closed'' (map ev_kind (ch_events c)) = Some (state_label (ch_state c)) \<and>
    ss_reads (ch_stats c) = length (filter is_read (map ev_kind (ch_events c))) \<and>
    ss_writes (ch_stats c) = length (filter is_write (map ev_kind (ch_events c))) \<and>
    (\<forall>e\<in>set (ch_events c). ev_request_id e \<le> ch_request_id c) \<and>
    (mono clk \<longrightarrow> sorted (map ev_ts_ms (ch_events c)))"
proof -
  from reachable_explained [OF assms(1,2)] have J: "journal_explains clk c" by (simp add: explained_def)
  have seq: "map (\<lambda>i. min (Suc i) u64_max) [0..<length (ch_events c)] = [1..<Suc (length (ch_events c))]"
    using assms(3) by (intro nth_equalityI) (simp_all add: nth_append del: upt_Suc)
  have "length (filter p (kinds c)) \<le> u64_max" for p
    by (rule order.trans [OF length_filter_le]) (simp add: assms(3))
  with J show ?thesis by (simp add: journal_explains_def seq)
qed

text \<open>A link that answers every read with 0, for the witnesses.\<close>

definition idle_link :: "unit smb_transport" where
  "idle_link = \<lparr>tr_name = ''idle'', tr_read = \<lambda>_ t. (Inr 0, t), tr_write = \<lambda>_ _ t. (Inr (), t),
     tr_reset = \<lambda>t. (Inr (), t)\<rparr>"

lemma idle_read: "wp (read_reg idle_link clk addr q) Q c \<longleftrightarrow>
  Q (Inr 0) (emit clk q Trace (EvRead addr 0 (sat_mul_u64 (clk (Suc (ch_clock_reads c)) - clk (ch_clock_reads c)) 1000))
    (tick (tick (c\<lparr>ch_transport := (), ch_stats := (ch_stats c)\<lparr>ss_reads := sat_add_u64 (ss_reads (ch_stats c)) 1\<rparr>\<rparr>))))"
  by (simp add: read_reg_def wp_link_ok [where v = 0 and t = "()"] idle_link_def tick_def)

lemma idle_open: "\<exists>c. charger_open idle_link clk cfg () = Some (Inr (), c) \<and> length (ch_events c) = 4"
proof -
  have "wp (open_session idle_link clk) (\<lambda>r c. r = Inr () \<and> length (ch_events c) = 4) (charger_new cfg ())"
    by (simp add: open_session_def probe_def idle_read) (simp add: idle_link_def emit_def tick_def charger_new_def)
  then show ?thesis by (auto simp: wp_iff charger_open_def)
qed

lemma charger_operations_return_witness:
  "\<exists>r c'. reinit idle_link (\<lambda>n. n) (charger_new charger_config_default ()) = Some (r, c')"
proof -
  have "cc_max_transport_retries (ch_config (charger_new charger_config_default ())) < u8_max"
    by (simp add: charger_new_def charger_config_default_def u8_max_def)
  from charger_operations_return [OF this] show ?thesis by blast
qed

lemma charger_journal_explains_witness:
  "\<exists>c. charger_reachable idle_link (\<lambda>n. n) charger_config_default c \<and>
     map ev_seq (ch_events c) = [1, 2, 3, 4] \<and> sorted (map ev_ts_ms (ch_events c))"
proof -
  obtain c where c: "charger_open idle_link (\<lambda>n. n) charger_config_default () = Some (Inr (), c)"
    and len: "length (ch_events c) = 4"
    using idle_open [of "\<lambda>n. n" charger_config_default] by blast
  have "mono (\<lambda>n::nat. n)" by (simp add: mono_def)
  moreover have "[1..<Suc 4] = [1, 2, 3, 4]" by (simp add: upt_rec)
  ultimately show ?thesis
    using charger_journal_explains [OF charger_reachable.opened [OF c]] charger_reachable.opened [OF c] len
    by (auto simp: charger_config_default_def u8_max_def u64_max_def)
qed

section \<open>A retry limit of 255\<close>

lemma link_retry_endless:
  assumes call: "\<And>t. \<exists>e t'. call t = (Inl e, t') \<and> link_recoverable e"
    and reset: "\<And>t. \<exists>x t'. tr_reset T t = (Inr x, t')"
    and retries: "cc_max_transport_retries (ch_config c) = u8_max"
  shows "link_retry T clk call op q attempt c = None"
proof (rule ccontr)
  assume "link_retry T clk call op q attempt c \<noteq> None"
  then obtain y where y: "link_retry T clk call op q attempt c = Some y" by blast
  define R where "R T' call' c' \<longleftrightarrow> T' = T \<and> call' = call \<and> cc_max_transport_retries (ch_config c') = u8_max"
    for T' call' and c' :: "'a charger"
  have "\<not> R T call c"
  proof (rule link_retry.raw_induct [where P = "\<lambda>T' clk call' op q n c' y. \<not> R T' call' c'", OF _ y])
    fix f T' clk call' op q n c' y
    assume IH: "\<And>T clk call op q n c y. f T clk call op q n c = Some y \<Longrightarrow> \<not> R T call c"
      and run: "(case call' (ch_transport c') of (r, t) \<Rightarrow> case r of
          Inl err \<Rightarrow>
            if \<not> link_recoverable err \<or> cc_max_transport_retries (ch_config c') < sat_add_u8 n 1
            then and_then count_error (\<lambda>_. raise (TransportErr err)) (c'\<lparr>ch_transport := t\<rparr>)
            else case recover T' clk q op (sat_add_u8 n 1) err (c'\<lparr>ch_transport := t\<rparr>) of None \<Rightarrow> None
              | Some (Inl e, c') \<Rightarrow> Some (Inl e, c')
              | Some (Inr _, c') \<Rightarrow> f T' clk call' op q (sat_add_u8 n 1) c'
          | Inr v \<Rightarrow> Some (Inr v, c'\<lparr>ch_transport := t\<rparr>)) = Some y"
    show "\<not> R T' call' c'"
    proof
      assume R: "R T' call' c'"
      obtain e t where e: "call (ch_transport c') = (Inl e, t)" "link_recoverable e" using call by blast
      have "\<not> cc_max_transport_retries (ch_config c') < sat_add_u8 n 1"
        using R by (simp add: R_def sat_add_u8_def)
      moreover have "wp (recover T clk q op (sat_add_u8 n 1) e)
          (\<lambda>r c''. r = Inr () \<and> ch_config c'' = ch_config c') (c'\<lparr>ch_transport := t\<rparr>)"
        using reset by (simp add: recover_def emit_def) (metis fst_conv)
      ultimately obtain c'' where "f T' clk call' op q (sat_add_u8 n 1) c'' = Some y" "ch_config c'' = ch_config c'"
        using run e R by (auto simp: R_def wp_iff)
      with IH R show False by (metis R_def)
    qed
  qed
  with retries show False by (simp add: R_def)
qed

text \<open>
  The retry limit is a trap at its maximum here too: with the limit at 255 a register read or write
  on a link that keeps failing with a recoverable error, and can always be reset, never returns.
\<close>

theorem charger_access_endless_at_255:
  assumes "cc_max_transport_retries (ch_config c) = 255"
    and "\<And>t. \<exists>e t'. tr_read T addr t = (Inl e, t') \<and> link_recoverable e"
    and "\<And>t. \<exists>e t'. tr_write T addr v t = (Inl e, t') \<and> link_recoverable e"
    and "\<And>t. \<exists>x t'. tr_reset T t = (Inr x, t')"
  shows "read_reg T clk addr q c = None \<and> write_reg T clk addr v q c = None \<and>
    update_reg T clk addr m v q c = None"
proof -
  have retries: "cc_max_transport_retries (ch_config (tick c)) = u8_max"
    using assms(1) by (simp add: tick_def u8_max_def)
  have "read_reg T clk addr q c = None"
    using link_retry_endless [OF assms(2,4) retries]
    by (simp add: read_reg_def and_then_def now_ms_eq)
  moreover have "write_reg T clk addr v q c = None"
    using link_retry_endless [OF assms(3,4) retries]
    by (simp add: write_reg_def and_then_def now_ms_eq)
  ultimately show ?thesis by (simp add: update_reg_def and_then_def)
qed

definition broken_link :: "unit smb_transport" where
  "broken_link = \<lparr>tr_name = ''broken'', tr_read = \<lambda>_ t. (Inl (transport_error_new TkTimeout 0 ''no answer''), t),
     tr_write = \<lambda>_ _ t. (Inl (transport_error_new TkTimeout 0 ''no answer''), t), tr_reset = \<lambda>t. (Inr (), t)\<rparr>"

lemma charger_access_endless_at_255_witness:
  "read_reg broken_link (\<lambda>n. n) APSD_STATUS 1
     (charger_new (charger_config_default\<lparr>cc_max_transport_retries := 255\<rparr>) ()) = None"
  using charger_access_endless_at_255 [of "charger_new (charger_config_default\<lparr>cc_max_transport_retries := 255\<rparr>) ()"
    broken_link APSD_STATUS 0 "\<lambda>n. n" 1 0]
  by (simp add: charger_new_def broken_link_def transport_error_new_def link_recoverable_def)

end
