(* ===== verification/Charger_Confirm.thy ===== *)
theory Charger_Confirm
  imports Charger_Trace
begin

text \<open>
  Write verification of the charger driver: a policy that was applied successfully left, for every
  register write it made, the record of a read that returned the written value.
\<close>

section \<open>Confirmed writes\<close>

text \<open>Every write record is followed, over nothing but retries, by the record that read the value back.\<close>

definition all_confirmed :: "event_kind list \<Rightarrow> bool" where
  "all_confirmed ks \<longleftrightarrow> (\<forall>pre addr v us post. ks = pre @ EvWrite addr v us # post \<longrightarrow>
     (\<exists>mid us' rest. post = mid @ EvRead addr v us' # rest \<and> (\<forall>k\<in>set mid. link_noise k)))"

lemma all_confirmed_no_write: "\<forall>k\<in>set ks. \<not> is_write k \<Longrightarrow> all_confirmed ks"
  by (fastforce simp: all_confirmed_def)

lemma all_confirmed_append:
  assumes "all_confirmed xs" "all_confirmed ys"
  shows "all_confirmed (xs @ ys)"
  unfolding all_confirmed_def
proof (intro allI impI)
  fix pre addr v us post
  assume eq: "xs @ ys = pre @ EvWrite addr v us # post"
  from this consider zs where "pre = xs @ zs" "ys = zs @ EvWrite addr v us # post"
    | zs where "xs = pre @ EvWrite addr v us # zs" "post = zs @ ys"
    unfolding append_eq_append_conv2 by (elim exE disjE conjE) (auto simp: append_eq_Cons_conv)
  then show "\<exists>mid us' rest. post = mid @ EvRead addr v us' # rest \<and> (\<forall>k\<in>set mid. link_noise k)"
  proof cases
    case 1
    with assms(2) show ?thesis unfolding all_confirmed_def by blast
  next
    case 2
    with assms(1) obtain mid us' rest
      where "zs = mid @ EvRead addr v us' # rest" "\<forall>k\<in>set mid. link_noise k"
      unfolding all_confirmed_def by blast
    with 2 show ?thesis by auto
  qed
qed

definition grew :: "charger_config \<Rightarrow> (event_kind list \<Rightarrow> bool) \<Rightarrow> event_kind list \<Rightarrow> u64 \<Rightarrow> 't charger \<Rightarrow> bool" where
  "grew cfg A base q c \<longleftrightarrow> ch_config c = cfg \<and> cc_max_transport_retries cfg < u8_max \<and>
     (\<exists>ks. kinds c = base @ ks \<and> A ks)"

lemma link_noise_no_write: "link_noise k \<Longrightarrow> \<not> is_write k"
  using link_noise_neutral neutral_counts by blast

text \<open>What a link access adds to the journal: retries only.\<close>

abbreviation (input) only_noise :: "event_kind list \<Rightarrow> bool" where
  "only_noise ks \<equiv> \<forall>k\<in>set ks. link_noise k"

interpretation quiet: link_invariant clk "grew cfg only_noise base"
  by unfold_locales (fastforce simp: grew_def emit_def)+

lemma wp_read_reg_noise:
  assumes "ch_config c = cfg" "cc_max_transport_retries cfg < u8_max"
    and "\<And>v c' ks us. ch_config c' = cfg \<Longrightarrow> kinds c' = kinds c @ ks @ [EvRead addr v us] \<Longrightarrow> only_noise ks \<Longrightarrow>
      Q (Inr v) c'"
    and "\<And>e c'. Q (Inl e) c'"
  shows "wp (read_reg T clk addr q) Q c"
proof -
  have P: "grew cfg only_noise (kinds c) q (tick c)" using assms(1,2) by (simp add: grew_def tick_def)
  show ?thesis
    unfolding read_reg_def wp_and_then wp_now_ms sum.case
  proof (rule quiet.wp_link_retry [OF P], goal_cases)
    case (1 r c')
    then show ?case
      using assms(3) [of "emit clk q Trace
        (EvRead addr (projr r) (sat_mul_u64 (clk (ch_clock_reads c') - clk (ch_clock_reads c)) 1000))
        (tick (c'\<lparr>ch_stats := (ch_stats c')\<lparr>ss_reads := sat_add_u64 (ss_reads (ch_stats c')) 1\<rparr>\<rparr>))"]
      by (cases r) (auto simp: grew_def assms(4) emit_def tick_def)
  qed
qed

lemma all_confirmed_write:
  assumes "only_noise ks"
  shows "all_confirmed (EvWrite addr v us # ks @ [EvRead addr v us'])"
  unfolding all_confirmed_def
proof (intro allI impI)
  fix pre addr' v' us0 post
  assume eq: "EvWrite addr v us # ks @ [EvRead addr v us'] = pre @ EvWrite addr' v' us0 # post"
  have "EvWrite addr' v' us0 \<notin> set (ks @ [EvRead addr v us'])" using assms by auto
  with eq have "pre = []" by (cases pre) (auto dest: arg_cong [where f = set])
  with eq assms show "\<exists>mid us' rest. post = mid @ EvRead addr' v' us' # rest \<and> only_noise mid" by auto
qed

lemma wp_write_reg_confirmed:
  assumes "ch_config c = cfg" "cc_max_transport_retries cfg < u8_max" "cc_verify_writes cfg"
    and ok: "\<And>c' ks us. ch_config c' = cfg \<Longrightarrow> kinds c' = kinds c @ ks \<Longrightarrow> all_confirmed ks \<Longrightarrow>
      EvWrite addr v us \<in> set ks \<Longrightarrow> Q (Inr ()) c'"
    and err: "\<And>e c'. Q (Inl e) c'"
  shows "wp (write_reg T clk addr v q) Q c"
proof -
  have P: "grew cfg only_noise (kinds c) q (tick c)" using assms(1,2) by (simp add: grew_def tick_def)
  have verify: "wp (verify T clk addr v q) Q d"
    if d: "ch_config d = cfg" "kinds d = kinds c @ ks @ [EvWrite addr v us]" "only_noise ks" for d ks us
  proof -
    have noise: "all_confirmed ks" using d(3) by (intro all_confirmed_no_write) (simp add: link_noise_no_write)
    have "Q (Inr ()) c'"
      if c': "ch_config c' = cfg" "kinds c' = kinds d @ ks' @ [EvRead addr v us']" "only_noise ks'" for c' ks' us'
    proof (rule ok [OF c'(1), where us = us])
      show "kinds c' = kinds c @ ks @ EvWrite addr v us # ks' @ [EvRead addr v us']" using c' d by simp
      from noise all_confirmed_write [OF c'(3)] show "all_confirmed (ks @ EvWrite addr v us # ks' @ [EvRead addr v us'])"
        by (rule all_confirmed_append)
    qed simp
    with d(1) assms(2,3) err show ?thesis
      by (auto simp: verify_def wp_if count_error_def intro!: wp_read_reg_noise [OF d(1)])
  qed
  show ?thesis
    unfolding write_reg_def wp_and_then wp_now_ms sum.case
  proof (rule quiet.wp_link_retry [OF P], goal_cases)
    case (1 r c')
    then show ?case
      by (cases r) (auto simp: grew_def err emit_def tick_def intro!: verify)
  qed
qed

text \<open>
  \<open>confirms cfg V m\<close>: a success of \<open>m\<close> satisfies \<open>V\<close>, and all it added to the journal is confirmed.
\<close>

definition confirms :: "charger_config \<Rightarrow> ('a \<Rightarrow> bool) \<Rightarrow> ('t, 'a) ch_op \<Rightarrow> bool" where
  "confirms cfg V m \<longleftrightarrow> (\<forall>c. ch_config c = cfg \<longrightarrow> wp m (\<lambda>r c'. case r of Inl _ \<Rightarrow> True
     | Inr x \<Rightarrow> V x \<and> ch_config c' = cfg \<and> (\<exists>ks. kinds c' = kinds c @ ks \<and> all_confirmed ks)) c)"

named_theorems confirms_intros "rules for operations whose writes are confirmed"

lemma confirms_and_then [confirms_intros]:
  assumes "confirms cfg U m" "\<And>x. U x \<Longrightarrow> confirms cfg V (f x)"
  shows "confirms cfg V (and_then m f)"
  unfolding confirms_def
proof (intro allI impI, goal_cases)
  case (1 c)
  show ?case
    unfolding wp_and_then
  proof (rule wp_mono [OF assms(1) [unfolded confirms_def, rule_format, OF 1]], goal_cases)
    case (1 r t)
    show ?case
    proof (cases r)
      case (Inr x)
      with 1 obtain ks where t: "U x" "ch_config t = cfg" "kinds t = kinds c @ ks" "all_confirmed ks" by auto
      show ?thesis unfolding Inr sum.case
        by (rule wp_mono [OF assms(2) [OF t(1), unfolded confirms_def, rule_format, OF t(2)]])
           (use t in \<open>auto simp: all_confirmed_append split: sum.splits\<close>)
    qed simp
  qed
qed

lemma confirms_get_state [confirms_intros]: "confirms cfg (\<lambda>c. ch_config c = cfg) get_state"
  by (simp add: confirms_def all_confirmed_no_write)

lemma confirms_ret [confirms_intros]: "V x \<Longrightarrow> confirms cfg V (ret x)"
  by (simp add: confirms_def all_confirmed_no_write)

lemma confirms_modify [confirms_intros]:
  "(\<And>c. ch_events (f c) = ch_events c \<and> ch_config (f c) = ch_config c) \<Longrightarrow> confirms cfg (\<lambda>_. True) (modify f)"
  by (simp add: confirms_def all_confirmed_no_write)

lemma confirms_next_request [confirms_intros]: "confirms cfg (\<lambda>_. True) next_request"
  by (simp add: confirms_def all_confirmed_no_write)

lemma confirms_log [confirms_intros]: "\<not> is_write k \<Longrightarrow> confirms cfg (\<lambda>_. True) (log_event clk q l k)"
  by (auto simp: confirms_def emit_def intro!: all_confirmed_no_write)

lemma confirms_transition [confirms_intros]: "confirms cfg (\<lambda>_. True) (transition clk st)"
  by (auto simp: confirms_def emit_def intro!: all_confirmed_no_write)

lemma wp_fail_any: "wp (fail clk q op err) (\<lambda>r c'. case r of Inl _ \<Rightarrow> True | Inr x \<Rightarrow> Q x c') c"
  by (simp add: fail_def count_error_def)

lemma confirms_or_fail [confirms_intros]: "confirms cfg V m \<Longrightarrow> confirms cfg V (or_fail clk q op m)"
  unfolding confirms_def or_fail_def wp_or_else
  by (auto elim!: wp_mono simp: wp_fail_any split: sum.split)

lemma confirms_read [confirms_intros]:
  "cc_max_transport_retries cfg < u8_max \<Longrightarrow> confirms cfg (\<lambda>_. True) (read_reg T clk addr q)"
  unfolding confirms_def
  by (fastforce intro!: wp_read_reg_noise all_confirmed_no_write dest: link_noise_no_write)

lemma confirms_write [confirms_intros]:
  "cc_max_transport_retries cfg < u8_max \<Longrightarrow> cc_verify_writes cfg \<Longrightarrow>
   confirms cfg (\<lambda>_. True) (write_reg T clk addr v q)"
  unfolding confirms_def by (fastforce intro!: wp_write_reg_confirmed)

lemma confirms_update [confirms_intros]:
  "cc_max_transport_retries cfg < u8_max \<Longrightarrow> cc_verify_writes cfg \<Longrightarrow>
   confirms cfg (\<lambda>_. True) (update_reg T clk addr m v q)"
  unfolding update_reg_def by (auto intro!: confirms_intros)

lemma confirms_wp:
  assumes "confirms cfg V m" "ch_config c = cfg" "kinds c = base @ ks" "all_confirmed ks" "S \<subseteq> set ks"
    and "\<And>x c' ks'. V x \<Longrightarrow> kinds c' = base @ ks' \<Longrightarrow> all_confirmed ks' \<Longrightarrow> S \<subseteq> set ks' \<Longrightarrow> Q (Inr x) c'"
    and "\<And>e c'. Q (Inl e) c'"
  shows "wp m Q c"
  using assms(1) [unfolded confirms_def, rule_format, OF assms(2)]
proof (rule wp_mono, goal_cases)
  case (1 r c')
  show ?case
  proof (cases r)
    case (Inr x)
    with 1 obtain ks' where "V x" "kinds c' = base @ ks @ ks'" "all_confirmed ks'" using assms(3) by auto
    with assms(4,5) show ?thesis
      unfolding Inr by (intro assms(6) [where ks' = "ks @ ks'"] all_confirmed_append) auto
  qed (simp add: assms(7))
qed

lemma confirms_seq:
  "confirms cfg (\<lambda>_. True) m \<Longrightarrow> (\<And>x. confirms cfg V (f x)) \<Longrightarrow> confirms cfg V (and_then m f)"
  by (rule confirms_and_then)

lemma confirms_commit:
  assumes "cc_max_transport_retries cfg < u8_max" "cc_verify_writes cfg"
  shows "confirms cfg (\<lambda>plan. plan_icl_raw plan = raw) (apply_commit T clk adapter policy target_ua raw q)"
  unfolding apply_commit_def Let_def
  using assms by (auto intro!: confirms_seq confirms_intros split: option.split)

text \<open>
  C17. A success of \<open>apply\<close> is a verified success, on every link: with write verification on, the journal
  gains the write of the current limit code that the returned plan names, and every write it gains is
  followed, over nothing but retries, by a read of the same register that returned the written value.
\<close>

theorem apply_success_confirmed:
  assumes "cc_max_transport_retries (ch_config c) < u8_max" "cc_verify_writes (ch_config c)"
    and "charger_apply T clk adapter c = Some (Inr plan, c')"
  shows "\<exists>ks us. map ev_kind (ch_events c') = map ev_kind (ch_events c) @ ks \<and> all_confirmed ks \<and>
    EvWrite USBIN_CURRENT_LIMIT_CFG (plan_icl_raw plan) us \<in> set ks"
proof -
  define Q where "Q r c' \<longleftrightarrow> (\<forall>plan. r = Inr plan \<longrightarrow> (\<exists>ks us. kinds c' = kinds c @ ks \<and> all_confirmed ks \<and>
      EvWrite USBIN_CURRENT_LIMIT_CFG (plan_icl_raw plan) us \<in> set ks))"
    for r :: "charger_error + charge_plan" and c' :: "'a charger"
  have QI: "Q (Inl e) c'" for e c' by (simp add: Q_def)
  have commit: "wp (apply_commit T clk adapter policy target_ua raw q) Q d"
    if "ch_config d = ch_config c" "kinds d = kinds c @ ks" "all_confirmed ks"
      "EvWrite USBIN_CURRENT_LIMIT_CFG raw us \<in> set ks" for policy target_ua raw q d ks us
    by (rule confirms_wp [OF confirms_commit [OF assms(1,2)] that(1-3), where S = "{EvWrite USBIN_CURRENT_LIMIT_CFG raw us}"])
       (use that(4) in \<open>auto simp: Q_def\<close>)
  have "wp (charger_apply T clk adapter) Q c"
    by (simp add: charger_apply_def Let_def wp_if or_fail_def QI del: One_nat_def split: sum.split)
       (auto simp: QI simp del: One_nat_def intro!: wp_failI wp_write_reg_confirmed [OF _ assms(1,2)] intro: commit)
  with assms(3) show ?thesis by (auto simp: wp_iff Q_def)
qed

end
