(* ===== verification/Smb_Mock.thy ===== *)
theory Smb_Mock
  imports Smb_Transport Adapter Register_Slots
begin

text \<open>
  \<open>crates/core/src/testkit.rs\<close>: the scripted charger the driver's tests run on: at most 64 register
  slots, a log of at most 128 writes, at most 16 injected faults, and a detection that completes after a
  given number of status reads. Without faults and once detection is ready it is a working link in the
  sense of \<open>Smb_Transport\<close>.
\<close>

section \<open>State and operations\<close>

abbreviation (input) SMB_MAX_REGS :: nat where "SMB_MAX_REGS \<equiv> 64"
abbreviation (input) SMB_MAX_FAULTS :: nat where "SMB_MAX_FAULTS \<equiv> 16"
abbreviation (input) SMB_MAX_LOG :: nat where "SMB_MAX_LOG \<equiv> 128"

datatype smb_fault =
    SmbReadError u16 transport_error_kind nat      \<comment> \<open>address, kind, times\<close>
  | SmbWriteError u16 transport_error_kind nat
  | SmbDisconnect nat
  | SmbWrongReadBack u16 u8 nat                    \<comment> \<open>address, value, times\<close>

fun smb_fault_times :: "smb_fault \<Rightarrow> nat" where
  "smb_fault_times (SmbReadError _ _ n) = n"
| "smb_fault_times (SmbWriteError _ _ n) = n"
| "smb_fault_times (SmbDisconnect n) = n"
| "smb_fault_times (SmbWrongReadBack _ _ n) = n"

record smb_fault_slot =
  sf_fault :: smb_fault
  sf_remaining :: nat

record scripted_mock =
  sm_regs :: "(u16 \<times> u8) list"
  sm_write_log :: "(u16 \<times> u8) list"
  sm_faults :: "smb_fault_slot list"
  sm_reset_count :: u32
  sm_ready_after :: nat       \<comment> \<open>\<open>u8\<close>\<close>
  sm_status_reads :: nat      \<comment> \<open>\<open>u8\<close>\<close>

definition smb_detached :: scripted_mock where
  "smb_detached = \<lparr>sm_regs = [], sm_write_log = [], sm_faults = [], sm_reset_count = 0, sm_ready_after = 0,
     sm_status_reads = 0\<rparr>"

definition smb_set_reg :: "u16 \<Rightarrow> u8 \<Rightarrow> scripted_mock \<Rightarrow> scripted_mock" where
  "smb_set_reg addr v m = m\<lparr>sm_regs := store_reg SMB_MAX_REGS addr v (sm_regs m)\<rparr>"

definition smb_reg :: "scripted_mock \<Rightarrow> u16 \<Rightarrow> u8" where
  "smb_reg m addr = load_reg (sm_regs m) addr"

definition set_adapter :: "adapter_type \<Rightarrow> scripted_mock \<Rightarrow> scripted_mock" where
  "set_adapter adapter m =
    (let status = (if is_hvdcp adapter then APSD_DTC_STATUS_DONE OR QC_CHARGER else APSD_DTC_STATUS_DONE);
         m = smb_set_reg APSD_STATUS status m;
         m = smb_set_reg APSD_RESULT_STATUS (apsd_pattern adapter) m
     in m\<lparr>sm_status_reads := 0\<rparr>)"

definition for_adapter :: "adapter_type \<Rightarrow> scripted_mock" where
  "for_adapter adapter = set_adapter adapter smb_detached"

definition unknown_pattern :: scripted_mock where
  "unknown_pattern = smb_set_reg APSD_RESULT_STATUS 0x3F (smb_set_reg APSD_STATUS APSD_DTC_STATUS_DONE smb_detached)"

definition set_detection_ready_after :: "nat \<Rightarrow> scripted_mock \<Rightarrow> scripted_mock" where
  "set_detection_ready_after reads m = m\<lparr>sm_ready_after := reads\<rparr>"

definition smb_push_fault :: "smb_fault \<Rightarrow> scripted_mock \<Rightarrow> scripted_mock" where
  "smb_push_fault f m =
    (if length (sm_faults m) < SMB_MAX_FAULTS
     then m\<lparr>sm_faults := sm_faults m @ [\<lparr>sf_fault = f, sf_remaining = smb_fault_times f\<rparr>]\<rparr> else m)"

fun smb_consume :: "(smb_fault \<Rightarrow> bool) \<Rightarrow> smb_fault_slot list \<Rightarrow> smb_fault option \<times> smb_fault_slot list" where
  "smb_consume P [] = (None, [])"
| "smb_consume P (slot # slots) =
    (if P (sf_fault slot) \<and> sf_remaining slot > 0
     then (Some (sf_fault slot), slot\<lparr>sf_remaining := sf_remaining slot - 1\<rparr> # slots)
     else map_prod id (\<lambda>rest. slot # rest) (smb_consume P slots))"

fun read_fault_at :: "u16 \<Rightarrow> smb_fault \<Rightarrow> bool" where
  "read_fault_at addr (SmbReadError a _ _) \<longleftrightarrow> a = addr" | "read_fault_at addr _ \<longleftrightarrow> False"

fun write_fault_at :: "u16 \<Rightarrow> smb_fault \<Rightarrow> bool" where
  "write_fault_at addr (SmbWriteError a _ _) \<longleftrightarrow> a = addr" | "write_fault_at addr _ \<longleftrightarrow> False"

fun wrong_read_at :: "u16 \<Rightarrow> smb_fault \<Rightarrow> bool" where
  "wrong_read_at addr (SmbWrongReadBack a _ _) \<longleftrightarrow> a = addr" | "wrong_read_at addr _ \<longleftrightarrow> False"

definition take_read_fault :: "u16 \<Rightarrow> scripted_mock \<Rightarrow> transport_error option \<times> scripted_mock" where
  "take_read_fault addr m =
    (let (f, slots) = smb_consume (read_fault_at addr) (sm_faults m) in
     ((case f of
         Some (SmbReadError _ kind _) \<Rightarrow> Some (transport_error_new kind 0 ''injected read fault'')
       | Some (SmbDisconnect _) \<Rightarrow> Some (transport_error_new TkDisconnected 0 ''link lost'')
       | _ \<Rightarrow> None), m\<lparr>sm_faults := slots\<rparr>))"

definition take_write_fault :: "u16 \<Rightarrow> scripted_mock \<Rightarrow> transport_error option \<times> scripted_mock" where
  "take_write_fault addr m =
    (let (f, slots) = smb_consume (write_fault_at addr) (sm_faults m) in
     ((case f of
         Some (SmbWriteError _ kind _) \<Rightarrow> Some (transport_error_new kind 0 ''injected write fault'')
       | _ \<Rightarrow> None), m\<lparr>sm_faults := slots\<rparr>))"

definition take_wrong_read_back :: "u16 \<Rightarrow> scripted_mock \<Rightarrow> u8 option \<times> scripted_mock" where
  "take_wrong_read_back addr m =
    (let (f, slots) = smb_consume (wrong_read_at addr) (sm_faults m) in
     ((case f of Some (SmbWrongReadBack _ v _) \<Rightarrow> Some v | _ \<Rightarrow> None), m\<lparr>sm_faults := slots\<rparr>))"

definition scripted_read :: "u16 \<Rightarrow> (scripted_mock, u8) link_call" where
  "scripted_read addr m =
    (case take_read_fault addr m of
       (Some err, m) \<Rightarrow> (Inl err, m)
     | (None, m) \<Rightarrow>
        (let m = (if addr = APSD_STATUS then m\<lparr>sm_status_reads := sat_add_u8 (sm_status_reads m) 1\<rparr> else m) in
         if addr = APSD_STATUS \<and> sm_status_reads m \<le> sm_ready_after m
         then (Inr (smb_reg m addr AND NOT APSD_DTC_STATUS_DONE), m)
         else (case take_wrong_read_back addr m of
                 (Some fake, m) \<Rightarrow> (Inr fake, m)
               | (None, m) \<Rightarrow> (Inr (smb_reg m addr), m))))"

definition scripted_write :: "u16 \<Rightarrow> u8 \<Rightarrow> (scripted_mock, unit) link_call" where
  "scripted_write addr v m =
    (case take_write_fault addr m of
       (Some err, m) \<Rightarrow> (Inl err, m)
     | (None, m) \<Rightarrow>
        (let m = smb_set_reg addr v m in
         (Inr (), if length (sm_write_log m) < SMB_MAX_LOG
                  then m\<lparr>sm_write_log := sm_write_log m @ [(addr, v)]\<rparr> else m)))"

definition scripted_reset :: "(scripted_mock, unit) link_call" where
  "scripted_reset m = (Inr (), m\<lparr>sm_reset_count := sat_add_u32 (sm_reset_count m) 1\<rparr>)"

definition scripted :: "scripted_mock smb_transport" where
  "scripted = \<lparr>tr_name = ''mock'', tr_read = scripted_read, tr_write = scripted_write, tr_reset = scripted_reset\<rparr>"

section \<open>A scripted charger without faults is a working link\<close>

definition smb_reg_list :: "u16 list" where
  "smb_reg_list = [APSD_STATUS, APSD_RESULT_STATUS, QC_CHANGE_STATUS, USBIN_CMD_IL, CMD_APSD, CMD_ICL_OVERRIDE,
     CMD_HVDCP_2, USBIN_ADAPTER_ALLOW_OVERRIDE, USB_CMD_PULLDOWN, HVDCP_PULSE_COUNT_MAX, USBIN_ICL_OPTIONS,
     USBIN_CURRENT_LIMIT_CFG]"

definition smb_regs :: "u16 set" where
  "smb_regs = set smb_reg_list"

lemma smb_regs_small: "finite smb_regs" "card smb_regs \<le> SMB_MAX_REGS"
proof -
  show "finite smb_regs" by (simp add: smb_regs_def)
  have "card smb_regs \<le> length smb_reg_list" unfolding smb_regs_def by (rule card_length)
  then show "card smb_regs \<le> SMB_MAX_REGS" by (simp add: smb_reg_list_def)
qed

definition scripted_ok :: "scripted_mock \<Rightarrow> bool" where
  "scripted_ok m \<longleftrightarrow> sm_faults m = [] \<and> slots_within smb_regs (sm_regs m) \<and>
     sm_ready_after m = 0"

lemma smb_set_reg_ok:
  assumes "scripted_ok m" "a \<in> smb_regs"
  shows "scripted_ok (smb_set_reg a v m)" "smb_reg (smb_set_reg a v m) = (smb_reg m)(a := v)"
  using assms store_reg_ok [OF _ assms(2) smb_regs_small, of "sm_regs m" v]
  by (simp_all add: scripted_ok_def smb_set_reg_def smb_reg_def [abs_def])

lemma scripted_no_fault:
  assumes "scripted_ok m"
  shows "take_read_fault a m = (None, m)" "take_write_fault a m = (None, m)" "take_wrong_read_back a m = (None, m)"
  using assms
  by (simp_all add: take_read_fault_def take_write_fault_def take_wrong_read_back_def scripted_ok_def)

lemma scripted_read_ok:
  assumes "scripted_ok m"
  shows "\<exists>m'. scripted_read a m = (Inr (smb_reg m a), m') \<and> scripted_ok m' \<and> smb_reg m' = smb_reg m"
proof -
  let ?m = "m\<lparr>sm_status_reads := sat_add_u8 (sm_status_reads m) 1\<rparr>"
  have ready: "\<not> sat_add_u8 (sm_status_reads m) 1 \<le> sm_ready_after m"
    using assms by (simp add: scripted_ok_def sat_add_u8_def u8_max_def)
  then have ok: "scripted_ok ?m" using assms by (simp add: scripted_ok_def)
  have same: "smb_reg ?m = smb_reg m" by (simp add: smb_reg_def fun_eq_iff)
  show ?thesis
    using ready ok same assms scripted_no_fault [OF assms, of a] scripted_no_fault [OF ok, of a]
    by (cases "a = APSD_STATUS") (simp_all add: scripted_read_def Let_def)
qed

lemma scripted_write_ok:
  assumes "scripted_ok m" "a \<in> smb_regs"
  shows "\<exists>m'. scripted_write a v m = (Inr (), m') \<and> scripted_ok m' \<and> smb_reg m' = (smb_reg m)(a := v)"
proof -
  let ?m = "smb_set_reg a v m"
  have "scripted_ok (?m\<lparr>sm_write_log := l\<rparr>)" "smb_reg (?m\<lparr>sm_write_log := l\<rparr>) = smb_reg ?m" for l
    using smb_set_reg_ok [OF assms, of v] by (simp_all add: scripted_ok_def smb_reg_def fun_eq_iff)
  with smb_set_reg_ok [OF assms, of v] scripted_no_fault [OF assms(1), of a] show ?thesis
    by (simp add: scripted_write_def Let_def)
qed

interpretation scripted_link: working_link scripted scripted_ok smb_reg smb_regs
proof
  fix t a v
  assume ok: "scripted_ok t"
  show "\<exists>t'. tr_read scripted a t = (Inr (smb_reg t a), t') \<and> scripted_ok t' \<and> smb_reg t' = smb_reg t"
    using scripted_read_ok [OF ok] by (simp add: scripted_def)
  show "\<exists>t'. tr_write scripted a v t = (Inr (), t') \<and> scripted_ok t' \<and> smb_reg t' = (smb_reg t)(a := v)"
    if "a \<in> smb_regs"
    using scripted_write_ok [OF ok that] by (simp add: scripted_def)
  show "\<exists>t'. tr_reset scripted t = (Inr (), t') \<and> scripted_ok t' \<and> smb_reg t' = smb_reg t"
    using ok by (simp add: scripted_def scripted_reset_def scripted_ok_def smb_reg_def fun_eq_iff)
qed

lemma smb_regs_mem:
  "APSD_STATUS \<in> smb_regs" "APSD_RESULT_STATUS \<in> smb_regs" "CMD_APSD \<in> smb_regs" "CMD_ICL_OVERRIDE \<in> smb_regs"
  "HVDCP_PULSE_COUNT_MAX \<in> smb_regs" "USBIN_CURRENT_LIMIT_CFG \<in> smb_regs"
  by (simp_all add: smb_regs_def smb_reg_list_def)

lemma set_adapter_ok:
  assumes "scripted_ok m"
  shows "scripted_ok (set_adapter a m)"
    and "smb_reg (set_adapter a m) = (smb_reg m)
      (APSD_STATUS := (if is_hvdcp a then APSD_DTC_STATUS_DONE OR QC_CHARGER else APSD_DTC_STATUS_DONE),
       APSD_RESULT_STATUS := apsd_pattern a)"
proof -
  let ?s = "if is_hvdcp a then APSD_DTC_STATUS_DONE OR QC_CHARGER else APSD_DTC_STATUS_DONE"
  note s = smb_set_reg_ok [OF assms smb_regs_mem(1), of ?s]
  note r = smb_set_reg_ok [OF s(1) smb_regs_mem(2), of "apsd_pattern a"]
  let ?m = "smb_set_reg APSD_RESULT_STATUS (apsd_pattern a) (smb_set_reg APSD_STATUS ?s m)"
  have m: "set_adapter a m = ?m\<lparr>sm_status_reads := 0\<rparr>"
    by (simp only: set_adapter_def Let_def)
  from r(1) show "scripted_ok (set_adapter a m)" unfolding m by (simp add: scripted_ok_def)
  have "smb_reg (set_adapter a m) = smb_reg ?m" unfolding m by (simp add: smb_reg_def fun_eq_iff)
  then show "smb_reg (set_adapter a m) = (smb_reg m) (APSD_STATUS := ?s, APSD_RESULT_STATUS := apsd_pattern a)"
    unfolding r(2) s(2) .
qed

lemma smb_detached_ok: "scripted_ok smb_detached" "smb_reg smb_detached = (\<lambda>_. 0)"
  by (simp_all add: scripted_ok_def smb_detached_def smb_reg_def fun_eq_iff)

lemma for_adapter_ok: "scripted_ok (for_adapter a)"
  by (simp add: for_adapter_def set_adapter_ok smb_detached_ok)

end
