(* ===== verification/Charger_Link.thy ===== *)
theory Charger_Link
  imports Charger_Confirm Smb_Mock
begin

text \<open>
  What the charger operations do on a working link: the registers they leave, the state they reach and
  the answer they give, proved once for every working link and read off for the scripted charger of the
  test kit.
\<close>

section \<open>Sessions on a working link\<close>

text \<open>The part of a session that decides what it does next; the rest is journal, counters and clock.\<close>

record charger_core =
  co_config :: charger_config
  co_state :: charger_state
  co_adapter :: "adapter_type option"
  co_started :: "u64 option"
  co_reruns :: nat
  co_attempts :: nat

definition core_of :: "'t charger \<Rightarrow> charger_core" where
  "core_of c = \<lparr>co_config = ch_config c, co_state = ch_state c, co_adapter = ch_adapter c,
     co_started = ch_detect_started_ms c, co_reruns = ch_reruns c, co_attempts = ch_attempts c\<rparr>"

lemma core_of_simps [simp]:
  "core_of (c\<lparr>ch_transport := t\<rparr>) = core_of c" "core_of (c\<lparr>ch_stats := s\<rparr>) = core_of c"
  "core_of (c\<lparr>ch_request_id := q\<rparr>) = core_of c" "core_of (tick c) = core_of c"
  "core_of (emit clk q l k c) = core_of c"
  "core_of (c\<lparr>ch_state := st\<rparr>) = (core_of c)\<lparr>co_state := st\<rparr>"
  "core_of (c\<lparr>ch_adapter := a\<rparr>) = (core_of c)\<lparr>co_adapter := a\<rparr>"
  "core_of (c\<lparr>ch_detect_started_ms := d\<rparr>) = (core_of c)\<lparr>co_started := d\<rparr>"
  "core_of (c\<lparr>ch_reruns := n\<rparr>) = (core_of c)\<lparr>co_reruns := n\<rparr>"
  "core_of (c\<lparr>ch_attempts := n\<rparr>) = (core_of c)\<lparr>co_attempts := n\<rparr>"
  by (simp_all add: core_of_def tick_def emit_def)

lemma core_sel:
  "ch_config c = co_config (core_of c)" "ch_state c = co_state (core_of c)" "ch_adapter c = co_adapter (core_of c)"
  "ch_detect_started_ms c = co_started (core_of c)" "ch_reruns c = co_reruns (core_of c)"
  "ch_attempts c = co_attempts (core_of c)"
  by (simp_all add: core_of_def)

text \<open>The link of the session works and shows the registers \<open>f\<close>.\<close>

definition linked :: "('t \<Rightarrow> bool) \<Rightarrow> ('t \<Rightarrow> u16 \<Rightarrow> u8) \<Rightarrow> (u16 \<Rightarrow> u8) \<Rightarrow> 't charger \<Rightarrow> bool" where
  "linked ok view f c \<longleftrightarrow> ok (ch_transport c) \<and> view (ch_transport c) = f"

lemma linked_simps [simp]:
  "linked ok view f (c\<lparr>ch_transport := t\<rparr>) \<longleftrightarrow> ok t \<and> view t = f"
  "linked ok view f (c\<lparr>ch_stats := s\<rparr>) = linked ok view f c" "linked ok view f (c\<lparr>ch_request_id := q\<rparr>) = linked ok view f c"
  "linked ok view f (tick c) = linked ok view f c" "linked ok view f (emit clk q l k c) = linked ok view f c"
  "linked ok view f (c\<lparr>ch_state := st\<rparr>) = linked ok view f c" "linked ok view f (c\<lparr>ch_adapter := a\<rparr>) = linked ok view f c"
  "linked ok view f (c\<lparr>ch_detect_started_ms := d\<rparr>) = linked ok view f c"
  "linked ok view f (c\<lparr>ch_reruns := n\<rparr>) = linked ok view f c" "linked ok view f (c\<lparr>ch_attempts := n\<rparr>) = linked ok view f c"
  by (simp_all add: linked_def tick_def emit_def)

definition control_smb_regs :: "u16 set" where
  "control_smb_regs = {USBIN_CURRENT_LIMIT_CFG, CMD_ICL_OVERRIDE, HVDCP_PULSE_COUNT_MAX, CMD_APSD}"

lemma reads_request: "ch_clock_reads (c\<lparr>ch_request_id := q\<rparr>) = ch_clock_reads c"
  by simp

text \<open>The core of a session after \<open>detect_start\<close> at time \<open>now\<close>.\<close>

definition started_at :: "charger_core \<Rightarrow> u64 \<Rightarrow> charger_core" where
  "started_at s now = (case co_started s of Some _ \<Rightarrow> s
     | None \<Rightarrow> s\<lparr>co_started := Some now, co_state := StDetecting\<rparr>)"

lemma started_at_sel [simp]:
  "co_config (started_at s now) = co_config s" "co_attempts (started_at s now) = co_attempts s"
  "co_reruns (started_at s now) = co_reruns s" "co_adapter (started_at s now) = co_adapter s"
  by (simp_all add: started_at_def split: option.split)

text \<open>The registers after \<open>apply\<close> has written the limit code \<open>raw\<close> and the QC 2.0 voltage of its policy.\<close>

definition applied_regs :: "u8 \<Rightarrow> qc2_voltage option \<Rightarrow> (u16 \<Rightarrow> u8) \<Rightarrow> u16 \<Rightarrow> u8" where
  "applied_regs raw qc2 f =
    (let override_bits = ICL_OVERRIDE OR ICL_OVERRIDE_AFTER_APSD;
         g = f(USBIN_CURRENT_LIMIT_CFG := raw,
               CMD_ICL_OVERRIDE := masked (f CMD_ICL_OVERRIDE) override_bits override_bits)
     in (case qc2 of None \<Rightarrow> g
         | Some v \<Rightarrow> g(HVDCP_PULSE_COUNT_MAX := masked (f HVDCP_PULSE_COUNT_MAX) QC2_VOLTAGE_MASK (qc2_raw v))))"

locale charger_link = working_link T inv view addrs
  for T :: "'t smb_transport" and inv and view :: "'t \<Rightarrow> u16 \<Rightarrow> u8" and addrs +
  fixes clk :: "nat \<Rightarrow> u64"
  assumes writable: "control_smb_regs \<subseteq> addrs"
begin

lemma wp_reset:
  assumes "linked inv view f c" "\<And>c'. linked inv view f c' \<Longrightarrow> core_of c' = core_of c \<Longrightarrow> Q (Inr True) c'"
  shows "wp (reset_link T) Q c"
  using reset_ok [of "ch_transport c"] assms by (auto simp: linked_def)

lemma wp_read:
  assumes "linked inv view f c" "\<And>c'. linked inv view f c' \<Longrightarrow> core_of c' = core_of c \<Longrightarrow> Q (Inr (f a)) c'"
  shows "wp (read_reg T clk a q) Q c"
proof -
  obtain t where t: "tr_read T a (ch_transport c) = (Inr (f a), t)" "inv t" "view t = f"
    using read_ok [of "ch_transport c" a] assms(1) by (auto simp: linked_def)
  have call: "tr_read T a (ch_transport (tick c)) = (Inr (f a), t)" using t(1) by (simp add: tick_def)
  show ?thesis
    unfolding read_reg_def wp_and_then wp_now_ms sum.case wp_link_ok [where call = "tr_read T a" and c = "tick c", OF call]
    using t by (simp add: assms(2))
qed

lemma wp_write:
  assumes "linked inv view f c" "a \<in> addrs"
    and Q: "\<And>c'. linked inv view (f(a := v)) c' \<Longrightarrow> core_of c' = core_of c \<Longrightarrow> Q (Inr ()) c'"
  shows "wp (write_reg T clk a v q) Q c"
proof -
  obtain t where t: "tr_write T a v (ch_transport c) = (Inr (), t)" "inv t" "view t = f(a := v)"
    using write_ok [of "ch_transport c" a v] assms(1,2) by (auto simp: linked_def)
  have call: "tr_write T a v (ch_transport (tick c)) = (Inr (), t)" using t(1) by (simp add: tick_def)
  have verify: "wp (verify T clk a v q) Q d" if "linked inv view (f(a := v)) d" "core_of d = core_of c" for d
    unfolding verify_def using that
    by (auto simp: wp_if intro!: Q wp_read [OF that(1)])
  show ?thesis
    unfolding write_reg_def wp_and_then wp_now_ms sum.case wp_link_ok [where call = "tr_write T a v" and c = "tick c", OF call]
    using t by (auto intro!: verify)
qed

lemma wp_update:
  assumes "linked inv view f c" "a \<in> addrs"
    and "\<And>c'. linked inv view (f(a := masked (f a) m v)) c' \<Longrightarrow> core_of c' = core_of c \<Longrightarrow> Q (Inr ()) c'"
  shows "wp (update_reg T clk a m v q) Q c"
  unfolding update_reg_def wp_and_then
  using assms by (auto intro!: wp_read [OF assms(1)] wp_write)

lemma wp_or_fail_ok:
  assumes "wp m (\<lambda>r t. \<exists>x. r = Inr x \<and> Q (Inr x) t) c"
  shows "wp (or_fail clk q op m) Q c"
  unfolding or_fail_def wp_or_else by (rule wp_mono [OF assms]) auto

lemma wp_read_or_fail:
  assumes "linked inv view f c" "\<And>c'. linked inv view f c' \<Longrightarrow> core_of c' = core_of c \<Longrightarrow> Q (Inr (f a)) c'"
  shows "wp (or_fail clk q' op (read_reg T clk a q)) Q c"
  by (rule wp_or_fail_ok) (auto intro!: wp_read [OF assms(1)] assms(2))

lemma wp_write_or_fail:
  assumes "linked inv view f c" "a \<in> addrs"
    and "\<And>c'. linked inv view (f(a := v)) c' \<Longrightarrow> core_of c' = core_of c \<Longrightarrow> Q (Inr ()) c'"
  shows "wp (or_fail clk q' op (write_reg T clk a v q)) Q c"
  by (rule wp_or_fail_ok) (auto intro!: wp_write [OF assms(1,2)] assms(3))

lemma wp_update_or_fail:
  assumes "linked inv view f c" "a \<in> addrs"
    and "\<And>c'. linked inv view (f(a := masked (f a) m v)) c' \<Longrightarrow> core_of c' = core_of c \<Longrightarrow> Q (Inr ()) c'"
  shows "wp (or_fail clk q' op (update_reg T clk a m v q)) Q c"
  by (rule wp_or_fail_ok) (auto intro!: wp_update [OF assms(1,2)] assms(3))

lemma wp_to_state:
  assumes "linked inv view f c"
    and "\<And>c'. linked inv view f c' \<Longrightarrow> core_of c' = (core_of c)\<lparr>co_state := st\<rparr> \<Longrightarrow> Q (Inr ()) c'"
  shows "wp (transition clk st) Q c"
  using assms by (auto simp: core_sel)

lemma wp_probe:
  assumes "linked inv view f c" "f APSD_STATUS \<noteq> 0xFF"
    and "\<And>c'. linked inv view f c' \<Longrightarrow> core_of c' = core_of c \<Longrightarrow> Q (Inr ()) c'"
  shows "wp (probe T clk) Q c"
  using assms by (auto simp: probe_def wp_if intro!: wp_read)

lemma wp_open:
  assumes "linked inv view f c" "ch_state c = StClosed" "f APSD_STATUS \<noteq> 0xFF"
    and "\<And>c'. linked inv view f c' \<Longrightarrow> core_of c' = (core_of c)\<lparr>co_state := StIdle\<rparr> \<Longrightarrow> Q (Inr ()) c'"
  shows "wp (open_session T clk) Q c"
  unfolding open_session_def wp_and_then wp_next_request sum.case
  using assms
  by (auto intro!: wp_reset [where f = f] wp_probe [where f = f] simp: core_sel simp del: wp_reset_link One_nat_def)

lemma wp_detect_start:
  assumes "linked inv view f c"
    and "\<And>c'. linked inv view f c' \<Longrightarrow> core_of c' = started_at (core_of c) now \<Longrightarrow>
      Q (Inr (unwrap_or now (ch_detect_started_ms c))) c'"
  shows "wp (detect_start clk now) Q c"
proof (cases "ch_detect_started_ms c")
  case None
  with assms show ?thesis
    by (auto simp: detect_start_def started_at_def core_sel simp del: wp_transition intro!: wp_to_state)
next
  case (Some t)
  with assms show ?thesis by (simp add: detect_start_def started_at_def core_sel)
qed

lemma wp_read_when:
  assumes "linked inv view f c"
    and "\<And>c'. linked inv view f c' \<Longrightarrow> core_of c' = core_of c \<Longrightarrow> Q (Inr (if b then f a else 0)) c'"
  shows "wp (if b then or_fail clk q' op (read_reg T clk a q) else ret 0) Q c"
  using assms by (cases b) (auto intro!: wp_read_or_fail [where f = f])

lemma wp_detect:
  assumes "linked inv view f c" "ch_state c \<noteq> StClosed"
    and res: "res = (if f APSD_STATUS AND APSD_DTC_STATUS_DONE \<noteq> 0 then f APSD_RESULT_STATUS else 0)"
    and decide: "\<And>c' q. linked inv view f c' \<Longrightarrow>
      core_of c' = (started_at (core_of c) (clk (ch_clock_reads c)))
        \<lparr>co_attempts := sat_add_u8 (ch_attempts c) 1\<rparr> \<Longrightarrow>
      wp (detect_decide T clk q (f APSD_STATUS) res
          (clk (ch_clock_reads c) - unwrap_or (clk (ch_clock_reads c)) (ch_detect_started_ms c))
          (adapter_decode (f APSD_STATUS) res (cc_qc35 (ch_config c)))) Q c'"
  shows "wp (detect_step T clk) Q c"
  unfolding detect_step_def wp_and_then wp_get_state sum.case wp_next_request wp_now_ms
  using assms(1)
  apply (simp only: assms(2) if_False wp_and_then wp_next_request wp_now_ms sum.case)
  apply (rule wp_detect_start [where f = f], simp)
  apply (simp only: sum.case wp_and_then)
  apply (rule wp_read_or_fail [where f = f], assumption)
  apply (simp only: sum.case wp_and_then)
  apply (rule wp_read_when [where f = f], assumption)
  apply (simp only: sum.case wp_and_then wp_modify flip: res)
  apply (simp only: core_of_simps started_at_sel core_sel reads_request)
  apply (rule decide [unfolded core_sel])
   apply (simp only: linked_simps)
  apply (simp only: core_of_simps)
  done

lemma wp_fail:
  assumes "linked inv view f c"
    and "\<And>c'. linked inv view f c' \<Longrightarrow> core_of c' = (core_of c)\<lparr>co_state := StFaulted\<rparr> \<Longrightarrow> Q (Inl err) c'"
  shows "wp (fail clk q op err) Q c"
  unfolding fail_def wp_and_then count_error_def wp_stat sum.case
  by (rule wp_to_state [where f = f]) (use assms in simp_all)

lemma wp_pending:
  "Q (Inr (Pending ms (co_attempts (core_of c)))) c \<Longrightarrow> wp (detect_pending ms) Q c"
  by (simp add: detect_pending_def core_sel)

lemma wp_retry_detection:
  assumes "linked inv view f c" "ch_reruns c < cc_max_detect_reruns (ch_config c)"
    and "\<And>c'. linked inv view (f(CMD_APSD := masked (f CMD_APSD) APSD_RERUN APSD_RERUN)) c' \<Longrightarrow>
      core_of c' = (core_of c)\<lparr>co_reruns := sat_add_u8 (ch_reruns c) 1\<rparr> \<Longrightarrow> Q (Inr ()) c'"
  shows "wp (retry_detection T clk q reason) Q c"
proof -
  have "CMD_APSD \<in> addrs" using writable by (auto simp: control_smb_regs_def)
  with assms show ?thesis
    by (auto simp: retry_detection_def simp del: One_nat_def intro!: wp_update_or_fail [where f = f])
qed

lemma wp_decide_ready:
  assumes "linked inv view f c"
    and "\<And>c'. linked inv view f c' \<Longrightarrow> core_of c' = (core_of c)\<lparr>co_adapter := Some a, co_state := StReady\<rparr> \<Longrightarrow>
      Q (Inr (Ready a)) c'"
  shows "wp (detect_decide T clk q status res ms (Inr a)) Q c"
  unfolding detect_decide_def sum.case wp_and_then wp_stat wp_modify
  by (rule wp_to_state [where f = f]) (use assms in simp_all)

lemma wp_decide_incomplete:
  assumes "linked inv view f c"
    and early: "\<And>c'. ms < cc_detect_timeout_ms (ch_config c) \<Longrightarrow> linked inv view f c' \<Longrightarrow> core_of c' = core_of c \<Longrightarrow>
      Q (Inr (Pending ms (ch_attempts c))) c'"
    and again: "\<And>c'. cc_detect_timeout_ms (ch_config c) \<le> ms \<Longrightarrow> ch_reruns c < cc_max_detect_reruns (ch_config c) \<Longrightarrow>
      linked inv view (f(CMD_APSD := masked (f CMD_APSD) APSD_RERUN APSD_RERUN)) c' \<Longrightarrow>
      core_of c' = (core_of c)\<lparr>co_reruns := sat_add_u8 (ch_reruns c) 1\<rparr> \<Longrightarrow> Q (Inr (Pending ms (ch_attempts c))) c'"
    and over: "\<And>c'. cc_detect_timeout_ms (ch_config c) \<le> ms \<Longrightarrow> cc_max_detect_reruns (ch_config c) \<le> ch_reruns c \<Longrightarrow>
      linked inv view f c' \<Longrightarrow> core_of c' = (core_of c)\<lparr>co_state := StFaulted\<rparr> \<Longrightarrow> Q (Inl (DetectionTimeout ms)) c'"
  shows "wp (detect_decide T clk q status res ms (Inl DetectionNotComplete)) Q c"
proof -
  consider "ms < cc_detect_timeout_ms (ch_config c)"
    | "cc_detect_timeout_ms (ch_config c) \<le> ms" "ch_reruns c < cc_max_detect_reruns (ch_config c)"
    | "cc_detect_timeout_ms (ch_config c) \<le> ms" "cc_max_detect_reruns (ch_config c) \<le> ch_reruns c"
    by linarith
  then show ?thesis
  proof cases
    case 1
    with early [OF _ assms(1)] show ?thesis
      by (simp add: detect_decide_def detect_pending_def)
  next
    case 2
    have "wp (and_then (retry_detection T clk q ''timeout'') (\<lambda>_. detect_pending ms)) Q c"
      unfolding wp_and_then
      by (rule wp_retry_detection [OF assms(1) 2(2)])
         (use again 2 in \<open>auto simp: core_sel intro!: wp_pending\<close>)
    with 2 show ?thesis by (simp add: detect_decide_def)
  next
    case 3
    with over assms(1) show ?thesis
      by (auto simp: detect_decide_def intro!: wp_fail [where f = f])
  qed
qed

lemma wp_commit:
  assumes "linked inv view (f(USBIN_CURRENT_LIMIT_CFG := raw)) c"
    and "\<And>c'. linked inv view (applied_regs raw (pol_qc2_voltage policy) f) c' \<Longrightarrow>
      core_of c' = (core_of c)\<lparr>co_adapter := Some a, co_state := StReady\<rparr> \<Longrightarrow>
      Q (Inr \<lparr>plan_adapter = a, plan_policy = policy, plan_icl_raw = raw, plan_applied_icl_ua = ua\<rparr>) c'"
  shows "wp (apply_commit T clk a policy ua raw q) Q c"
proof -
  let ?f = "f(USBIN_CURRENT_LIMIT_CFG := raw)"
  let ?bits = "ICL_OVERRIDE OR ICL_OVERRIDE_AFTER_APSD"
  let ?g = "?f(CMD_ICL_OVERRIDE := masked (?f CMD_ICL_OVERRIDE) ?bits ?bits)"
  have addrs: "CMD_ICL_OVERRIDE \<in> addrs" "HVDCP_PULSE_COUNT_MAX \<in> addrs"
    using writable by (auto simp: control_smb_regs_def)
  show ?thesis
    unfolding apply_commit_def Let_def wp_and_then
  proof (rule wp_update_or_fail [OF assms(1) addrs(1)], unfold sum.case, goal_cases)
    case (1 d)
    show ?case
    proof (cases "pol_qc2_voltage policy")
      case None
      with 1 show ?thesis unfolding None option.case wp_ret sum.case wp_modify
        by (intro wp_to_state [where f = ?g])
           (auto simp: applied_regs_def Let_def None fun_upd_twist intro!: assms(2))
    next
      case (Some v)
      show ?thesis unfolding Some option.case
      proof (rule wp_update_or_fail [OF 1(1) addrs(2)], unfold sum.case wp_modify, goal_cases)
        case (1 e)
        with Some \<open>core_of d = core_of c\<close> show ?case
          by (intro wp_to_state [where f = "?g(HVDCP_PULSE_COUNT_MAX := masked (?g HVDCP_PULSE_COUNT_MAX) QC2_VOLTAGE_MASK (qc2_raw v))"])
             (auto simp: applied_regs_def Let_def fun_upd_twist intro!: assms(2))
      qed
    qed
  qed
qed

lemma wp_apply:
  assumes "linked inv view f c" "ch_state c \<noteq> StClosed"
    and "apply_plan (ch_config c) a = (policy, ua)" "icl_encode (cc_icl (ch_config c)) ua = Inr raw"
    and "\<And>c'. linked inv view (applied_regs raw (pol_qc2_voltage policy) f) c' \<Longrightarrow>
      core_of c' = (core_of c)\<lparr>co_adapter := Some a, co_state := StReady\<rparr> \<Longrightarrow>
      Q (Inr \<lparr>plan_adapter = a, plan_policy = policy, plan_icl_raw = raw, plan_applied_icl_ua = ua\<rparr>) c'"
  shows "wp (charger_apply T clk a) Q c"
proof -
  have addrs: "USBIN_CURRENT_LIMIT_CFG \<in> addrs" using writable by (auto simp: control_smb_regs_def)
  have linked: "linked inv view f (c\<lparr>ch_request_id := q\<rparr>)" for q using assms(1) by simp
  show ?thesis
    unfolding charger_apply_def wp_and_then wp_get_state sum.case Let_def
    apply (simp only: assms(2,3,4) if_False wp_and_then wp_next_request sum.case fst_conv snd_conv)
    apply (rule wp_or_fail_ok, simp only: wp_ret)
    apply (intro exI conjI, rule refl)
    apply (simp only: sum.case)
    apply (rule wp_write_or_fail [OF linked addrs])
    apply (simp only: sum.case)
    apply (erule wp_commit)
    apply (rule assms(5), assumption, simp)
    done
qed

lemma wp_close:
  assumes "linked inv view f c" "ch_state c \<noteq> StClosed"
    and "icl_encode (cc_icl (ch_config c)) (quantize_down (cc_icl (ch_config c)) (cc_safe_icl_ua (ch_config c))) = Inr raw"
    and "\<And>c'. linked inv view (f(USBIN_CURRENT_LIMIT_CFG := raw)) c' \<Longrightarrow>
      core_of c' = (core_of c)\<lparr>co_state := StClosed\<rparr> \<Longrightarrow> Q (Inr ()) c'"
  shows "wp (charger_close T clk) Q c"
proof -
  have addrs: "USBIN_CURRENT_LIMIT_CFG \<in> addrs" using writable by (auto simp: control_smb_regs_def)
  have linked: "linked inv view f (c\<lparr>ch_request_id := q\<rparr>)" for q using assms(1) by simp
  show ?thesis
    unfolding charger_close_def wp_and_then wp_get_state sum.case
    apply (simp only: assms(2,3) if_False wp_and_then wp_next_request sum.case wp_outcome)
    apply (rule wp_write [OF linked addrs])
    apply (simp only: wp_ret sum.case)
    apply (erule wp_to_state)
    apply (auto intro!: assms(4))
    done
qed

lemma wp_monitor:
  assumes "linked inv view f c" "ch_state c \<noteq> StClosed" "f APSD_STATUS AND APSD_DTC_STATUS_DONE \<noteq> 0"
    and "adapter_decode (f APSD_STATUS) (f APSD_RESULT_STATUS) (cc_qc35 (ch_config c)) = Inr a"
    and "\<And>c'. linked inv view f c' \<Longrightarrow> core_of c' = (core_of c)\<lparr>co_adapter := Some a\<rparr> \<Longrightarrow>
      Q (Inr (if ch_adapter c = Some a then Unchanged a else Changed a)) c'"
  shows "wp (charger_monitor T clk) Q c"
proof -
  have linked: "linked inv view f (c\<lparr>ch_request_id := q\<rparr>)" for q using assms(1) by simp
  show ?thesis
    unfolding charger_monitor_def wp_and_then wp_get_state sum.case
    apply (simp only: assms(2) if_False wp_and_then wp_next_request sum.case)
    apply (rule wp_read_or_fail [OF linked])
    apply (simp only: sum.case assms(3) if_False wp_and_then)
    apply (erule wp_read_or_fail)
    apply (simp only: sum.case assms(4) monitor_decide_def wp_and_then wp_get_state wp_modify wp_if wp_ret wp_log_event)
    apply (use assms(5) in \<open>auto simp: core_sel\<close>)
    done
qed

lemma wp_monitor_detached:
  assumes "linked inv view f c" "ch_state c \<noteq> StClosed" "f APSD_STATUS AND APSD_DTC_STATUS_DONE = 0"
    and "\<And>c'. linked inv view f c' \<Longrightarrow> core_of c' = (core_of c)\<lparr>co_adapter := None\<rparr> \<Longrightarrow> Q (Inr Detached) c'"
  shows "wp (charger_monitor T clk) Q c"
proof -
  have linked: "linked inv view f (c\<lparr>ch_request_id := q\<rparr>)" for q using assms(1) by simp
  show ?thesis
    unfolding charger_monitor_def wp_and_then wp_get_state sum.case
    apply (simp only: assms(2) if_False wp_and_then wp_next_request sum.case)
    apply (rule wp_read_or_fail [OF linked])
    apply (simp only: sum.case assms(3) if_True wp_and_then wp_modify wp_ret simp_thms)
    apply (rule assms(4))
    apply auto
    done
qed

end

end
