(* ===== verification/Charger_Runner.thy ===== *)
theory Charger_Runner
  imports Charger_Link
begin

text \<open>
  \<open>crates/host/src/runner.rs\<close>: the loop that turns the steps of the charger core into a session, and the
  monitor cycle that follows it; then the whole session on the scripted charger of the test kit.
\<close>

section \<open>The runner\<close>

text \<open>
  \<open>on_adapter\<close> is called at most once in a run, so its answer is a function of the adapter. The sleep
  between two steps shows only in the readings of the clock.
\<close>

record session_outcome =
  so_adapter :: adapter_type
  so_plan :: charge_plan
  so_state :: charger_state
  so_stats :: charger_stats

definition run_ready ::
  "'t smb_transport \<Rightarrow> (nat \<Rightarrow> u64) \<Rightarrow> (adapter_type \<Rightarrow> charger_error + unit) \<Rightarrow> adapter_type \<Rightarrow>
   ('t, session_outcome) ch_op" where
  "run_ready T clk on_adapter adapter =
     and_then (case on_adapter adapter of Inl e \<Rightarrow> raise e | Inr _ \<Rightarrow> ret ()) (\<lambda>_.
     and_then (charger_apply T clk adapter) (\<lambda>plan.
     and_then get_state (\<lambda>c.
       ret \<lparr>so_adapter = adapter, so_plan = plan, so_state = ch_state c, so_stats = ch_stats c\<rparr>)))"

partial_function (option) run_steps ::
  "'t smb_transport \<Rightarrow> (nat \<Rightarrow> u64) \<Rightarrow> u32 \<Rightarrow> (adapter_type \<Rightarrow> charger_error + unit) \<Rightarrow> u32 \<Rightarrow>
   ('t, session_outcome) ch_op" where
  "run_steps T clk max_steps on_adapter steps c =
    (if sat_add_u32 steps 1 > max_steps
     then and_then (now_ms clk) (\<lambda>waited. raise (DetectionTimeout waited)) c
     else (case detect_step T clk c of
             None \<Rightarrow> None
           | Some (r, c') \<Rightarrow>
               (case r of
                  Inl e \<Rightarrow> Some (Inl e, c')
                | Inr (Pending _ _) \<Rightarrow> run_steps T clk max_steps on_adapter (sat_add_u32 steps 1) c'
                | Inr (Ready adapter) \<Rightarrow> run_ready T clk on_adapter adapter c')))"

definition run_until_ready ::
  "'t smb_transport \<Rightarrow> (nat \<Rightarrow> u64) \<Rightarrow> u32 \<Rightarrow> (adapter_type \<Rightarrow> charger_error + unit) \<Rightarrow> ('t, session_outcome) ch_op" where
  "run_until_ready T clk max_steps on_adapter = run_steps T clk max_steps on_adapter 0"

definition monitor_cycle :: "'t smb_transport \<Rightarrow> (nat \<Rightarrow> u64) \<Rightarrow> ('t, charge_plan option) ch_op" where
  "monitor_cycle T clk = and_then (charger_monitor T clk) (\<lambda>m. case m of
     Unchanged _ \<Rightarrow> ret None
   | Detached \<Rightarrow> ret None
   | Changed adapter \<Rightarrow> and_then (charger_apply T clk adapter) (\<lambda>plan. ret (Some plan)))"

section \<open>The runner returns\<close>

text \<open>
  The invariant of the journal holds along a run; what matters here is that every operation returns and
  leaves the retry limit below 255.
\<close>

lemma run_ready_returns:
  assumes "steady cfg 0 c"
  shows "\<exists>r c'. run_ready T clk on_adapter adapter c = Some (r, c')"
proof -
  have "keeps (steady cfg 0) (run_ready T clk on_adapter adapter)"
    unfolding run_ready_def
    by (auto intro!: keeps_intros steady.keeps_apply split: sum.split)
  from keepsD [OF this assms] show ?thesis by blast
qed

lemma run_steps_returns:
  assumes "steady cfg 0 c" "max_steps < u32_max"
  shows "\<exists>r c'. run_steps T clk max_steps on_adapter steps c = Some (r, c')"
  using assms(1)
proof (induction "u32_max - steps" arbitrary: steps c rule: less_induct)
  case less
  note unfold = run_steps.simps [of T clk max_steps on_adapter steps c]
  show ?case
  proof (cases "sat_add_u32 steps 1 > max_steps")
    case True
    have "wp (and_then (now_ms clk) (\<lambda>waited. raise (DetectionTimeout waited))) (\<lambda>_ _. True) c" by simp
    with True show ?thesis unfolding unfold wp_iff by simp
  next
    case False
    with assms(2) have dec: "u32_max - sat_add_u32 steps 1 < u32_max - steps"
      by (simp add: sat_add_u32_def)
    obtain r c' where step: "detect_step T clk c = Some (r, c')" and S: "steady cfg 0 c'"
      using keepsD [OF steady.keeps_detect_step less.prems] by blast
    from False step show ?thesis
      using less.hyps [OF dec S] run_ready_returns [OF S]
      by (auto simp: unfold split: sum.split detection.split)
  qed
qed

lemma monitor_cycle_returns:
  assumes "steady cfg 0 c"
  shows "\<exists>r c'. monitor_cycle T clk c = Some (r, c')"
proof -
  have "keeps (steady cfg 0) (monitor_cycle T clk)"
    unfolding monitor_cycle_def
    by (auto intro!: keeps_intros steady.keeps_apply steady.keeps_monitor split: monitor_result.split)
  from keepsD [OF this assms] show ?thesis by blast
qed

text \<open>
  The host runner ends on every link, with every clock and every callback: with a retry limit below 255
  and a step fuse below the largest \<open>u32\<close>, waiting for an adapter and applying its policy returns an
  outcome or an error, and so does every monitor cycle.
\<close>

theorem runner_returns:
  assumes "cc_max_transport_retries (ch_config c) < u8_max" "max_steps < u32_max"
  shows "(\<exists>r c'. run_until_ready T clk max_steps on_adapter c = Some (r, c')) \<and>
    (\<exists>r c'. monitor_cycle T clk c = Some (r, c'))"
  using run_steps_returns [OF steady_start [OF refl assms(1)] assms(2)]
    monitor_cycle_returns [OF steady_start [OF refl assms(1)]]
  by (simp add: run_until_ready_def)

lemma runner_returns_witness:
  "\<exists>r c'. run_until_ready broken_link (\<lambda>n. n) 1000 (\<lambda>_. Inr ()) (charger_new charger_config_default ()) = Some (r, c')"
  using runner_returns [of "charger_new charger_config_default ()" 1000 broken_link "\<lambda>n. n" "\<lambda>_. Inr ()"]
  by (simp add: charger_new_def charger_config_default_def u8_max_def u32_max_def)

section \<open>Sessions with the scripted charger\<close>

interpretation scripted_session: charger_link scripted scripted_ok smb_reg smb_regs clk
  for clk :: "nat \<Rightarrow> u64"
  by unfold_locales (simp add: control_smb_regs_def smb_regs_mem)

text \<open>The adapter the registers of \<open>set_adapter\<close> decode to.\<close>

definition recognised :: "qc35_support \<Rightarrow> adapter_type \<Rightarrow> adapter_type" where
  "recognised q a = (if a \<in> {Hvdcp3, Hvdcp3P5} then (if q = Supported True then Hvdcp3P5 else Hvdcp3) else a)"

lemma decode_set_adapter:
  "adapter_decode (if is_hvdcp a then APSD_DTC_STATUS_DONE OR QC_CHARGER else APSD_DTC_STATUS_DONE)
     (apsd_pattern a) q = Inr (recognised q a)"
  by (cases a) (simp_all add: adapter_decode_def recognised_def is_hvdcp_def from_pattern_def)

text \<open>What one \<open>apply\<close> leaves: the plan it returns and the registers it shows.\<close>

definition applied :: "charger_config \<Rightarrow> adapter_type \<Rightarrow> (u16 \<Rightarrow> u8) \<Rightarrow> charge_plan \<Rightarrow> (u16 \<Rightarrow> u8) \<Rightarrow> bool" where
  "applied cfg a f plan g \<longleftrightarrow>
     plan_adapter plan = a \<and> plan_policy plan = policy_for a (cc_qc35 cfg) \<and>
     plan_applied_icl_ua plan =
       quantize_down (cc_icl cfg) (min (pol_icl_ua (plan_policy plan)) (cc_max_icl_ua cfg)) \<and>
     icl_encode (cc_icl cfg) (plan_applied_icl_ua plan) = Inr (plan_icl_raw plan) \<and>
     g = applied_regs (plan_icl_raw plan) (pol_qc2_voltage (plan_policy plan)) f"

lemma wp_apply_scripted:
  assumes "linked scripted_ok smb_reg f c" "ch_state c \<noteq> StClosed" "icl_good (cc_icl (ch_config c))"
    and Q: "\<And>plan g c'. linked scripted_ok smb_reg g c' \<Longrightarrow> applied (ch_config c) a f plan g \<Longrightarrow>
      core_of c' = (core_of c)\<lparr>co_adapter := Some a, co_state := StReady\<rparr> \<Longrightarrow> Q (Inr plan) c'"
  shows "wp (charger_apply scripted clk a) Q c"
proof -
  let ?e = "cc_icl (ch_config c)"
  obtain policy ua where plan: "apply_plan (ch_config c) a = (policy, ua)" by fastforce
  then have p: "policy = policy_for a (cc_qc35 (ch_config c))"
    "ua = quantize_down ?e (min (pol_icl_ua policy) (cc_max_icl_ua (ch_config c)))"
    by (auto simp: apply_plan_def Let_def min_def)
  have raw: "icl_encode ?e ua = Inr (word_of_nat (grid_steps ?e (min (pol_icl_ua policy) (cc_max_icl_ua (ch_config c)))))"
    unfolding p by (rule quantize_down_encodes [OF assms(3)])
  show ?thesis
    by (rule scripted_session.wp_apply [OF assms(1,2) plan raw]) (rule Q, assumption, auto simp: applied_def p quantize_down_encodes [OF assms(3)])
qed

lemma wp_run_ready:
  assumes "linked scripted_ok smb_reg f c" "ch_state c \<noteq> StClosed" "icl_good (cc_icl (ch_config c))"
    and Q: "\<And>plan g c' s. linked scripted_ok smb_reg g c' \<Longrightarrow> applied (ch_config c) a f plan g \<Longrightarrow>
      core_of c' = (core_of c)\<lparr>co_adapter := Some a, co_state := StReady\<rparr> \<Longrightarrow>
      Q (Inr \<lparr>so_adapter = a, so_plan = plan, so_state = StReady, so_stats = s\<rparr>) c'"
  shows "wp (run_ready scripted clk (\<lambda>_. Inr ()) a) Q c"
  unfolding run_ready_def sum.case wp_and_then wp_ret
  by (rule wp_apply_scripted [OF assms(1-3)]) (auto simp: core_sel intro!: Q)

lemma run_until_ready_now:
  assumes "linked scripted_ok smb_reg f c" "ch_state c \<noteq> StClosed" "icl_good (cc_icl (ch_config c))"
    and "1 \<le> max_steps" "f APSD_STATUS AND APSD_DTC_STATUS_DONE \<noteq> 0"
    and decode: "adapter_decode (f APSD_STATUS) (f APSD_RESULT_STATUS) (cc_qc35 (ch_config c)) = Inr a"
    and Q: "\<And>plan g c' s. linked scripted_ok smb_reg g c' \<Longrightarrow> applied (ch_config c) a f plan g \<Longrightarrow>
      co_adapter (core_of c') = Some a \<Longrightarrow> co_state (core_of c') = StReady \<Longrightarrow>
      co_config (core_of c') = ch_config c \<Longrightarrow>
      Q (Inr \<lparr>so_adapter = a, so_plan = plan, so_state = StReady, so_stats = s\<rparr>) c'"
  shows "wp (run_until_ready scripted clk max_steps (\<lambda>_. Inr ())) Q c"
proof -
  have ready: "wp (detect_step scripted clk) (\<lambda>r c'. r = Inr (Ready a) \<and> linked scripted_ok smb_reg f c' \<and>
      co_state (core_of c') = StReady \<and> co_config (core_of c') = ch_config c) c"
    by (rule scripted_session.wp_detect [OF assms(1,2) refl])
       (simp add: assms(5) decode, rule scripted_session.wp_decide_ready [where f = f], auto simp: core_sel)
  then obtain c1 where c1: "detect_step scripted clk c = Some (Inr (Ready a), c1)" "linked scripted_ok smb_reg f c1"
    "ch_state c1 = StReady" "ch_config c1 = ch_config c" by (auto simp: wp_iff core_sel)
  have "wp (run_ready scripted clk (\<lambda>_. Inr ()) a) Q c1"
    by (rule wp_run_ready [OF c1(2)]) (use c1 assms(3) in \<open>auto simp: core_sel intro!: Q\<close>)
  moreover have "sat_add_u32 0 1 \<le> max_steps" using assms(4) by (simp add: sat_add_u32_def u32_max_def)
  ultimately show ?thesis
    using c1(1) by (simp add: wp_iff run_until_ready_def run_steps.simps [where steps = 0] del: One_nat_def)
qed

lemma open_scripted:
  assumes "scripted_ok m" "smb_reg m APSD_STATUS \<noteq> 0xFF"
  shows "\<exists>c. charger_open scripted clk cfg m = Some (Inr (), c) \<and> linked scripted_ok smb_reg (smb_reg m) c \<and>
    ch_state c = StIdle \<and> ch_config c = cfg"
proof -
  have "wp (open_session scripted clk) (\<lambda>r c. r = Inr () \<and> linked scripted_ok smb_reg (smb_reg m) c \<and>
      co_state (core_of c) = StIdle \<and> co_config (core_of c) = cfg) (charger_new cfg m)"
    by (rule scripted_session.wp_open [where f = "smb_reg m"])
       (use assms in \<open>auto simp: linked_def charger_new_def core_of_def\<close>)
  then show ?thesis by (auto simp: wp_iff charger_open_def core_sel)
qed

text \<open>
  C15. A whole session on the test kit: for every adapter, every clock and every configuration with a
  representable current grid, opening a session on the charger scripted for that adapter and running it
  recognises the adapter (QC 3.5 only when the tablet has authenticated it), returns its policy with the
  current rounded down onto the grid, leaves the session ready, and leaves exactly the registers of that
  plan: the limit code, both override bits, the QC 2.0 voltage where the policy has one, nothing else.
\<close>

theorem bring_up_scripted:
  assumes "icl_good (cc_icl cfg)" "1 \<le> max_steps"
  shows "\<exists>c c' outcome. charger_open scripted clk cfg (for_adapter a) = Some (Inr (), c) \<and>
    run_until_ready scripted clk max_steps (\<lambda>_. Inr ()) c = Some (Inr outcome, c') \<and>
    so_adapter outcome = recognised (cc_qc35 cfg) a \<and> so_state outcome = StReady \<and> ch_state c' = StReady \<and>
    applied cfg (recognised (cc_qc35 cfg) a) (smb_reg (for_adapter a)) (so_plan outcome) (smb_reg (ch_transport c'))"
proof -
  let ?f = "smb_reg (for_adapter a)" and ?a = "recognised (cc_qc35 cfg) a"
  let ?s = "if is_hvdcp a then APSD_DTC_STATUS_DONE OR QC_CHARGER else APSD_DTC_STATUS_DONE"
  have f: "?f APSD_STATUS = ?s" "?f APSD_RESULT_STATUS = apsd_pattern a"
    by (simp_all add: for_adapter_def set_adapter_ok smb_detached_ok)
  have s: "?s \<noteq> 0xFF" "?s AND APSD_DTC_STATUS_DONE \<noteq> 0" by simp_all
  obtain c where c: "charger_open scripted clk cfg (for_adapter a) = Some (Inr (), c)"
    "linked scripted_ok smb_reg ?f c" "ch_state c = StIdle" "ch_config c = cfg"
    using open_scripted [OF for_adapter_ok, of a clk cfg] s(1) unfolding f by blast
  have "wp (run_until_ready scripted clk max_steps (\<lambda>_. Inr ())) (\<lambda>r c'. \<exists>outcome. r = Inr outcome \<and>
      so_adapter outcome = ?a \<and> so_state outcome = StReady \<and> co_state (core_of c') = StReady \<and>
      applied cfg ?a ?f (so_plan outcome) (smb_reg (ch_transport c'))) c"
    by (rule run_until_ready_now [OF c(2)])
       (use c assms s(2) decode_set_adapter [of a] in \<open>auto simp: f linked_def\<close>)
  with c(1) show ?thesis by (auto simp: wp_iff core_sel)
qed

lemma bring_up_scripted_witness:
  "\<exists>c c' outcome. charger_open scripted (\<lambda>n. n) charger_config_for_nabu (for_adapter Hvdcp3P5) = Some (Inr (), c) \<and>
     run_until_ready scripted (\<lambda>n. n) 1000 (\<lambda>_. Inr ()) c = Some (Inr outcome, c') \<and>
     so_adapter outcome = Hvdcp3 \<and> smb_reg (ch_transport c') USBIN_CURRENT_LIMIT_CFG = 29 \<and>
     smb_reg (ch_transport c') HVDCP_PULSE_COUNT_MAX = 0x40"
proof -
  have cfg: "icl_good (cc_icl charger_config_for_nabu)" "cc_qc35 charger_config_for_nabu = Supported False"
    "cc_max_icl_ua charger_config_for_nabu = 4500000" "cc_icl charger_config_for_nabu = icl_default"
    by (simp_all add: charger_config_for_nabu_def charger_config_default_def)
  have steps: "(1::u32) \<le> 1000" by simp
  have applied: "g USBIN_CURRENT_LIMIT_CFG = 29 \<and> g HVDCP_PULSE_COUNT_MAX = 0x40"
    if "applied charger_config_for_nabu Hvdcp3 (smb_reg (for_adapter Hvdcp3P5)) plan g" for plan g
  proof -
    from that have p: "plan_policy plan = policy_for Hvdcp3 (Supported False)"
      and raw: "icl_encode icl_default (quantize_down icl_default (min (pol_icl_ua (plan_policy plan)) 4500000)) = Inr (plan_icl_raw plan)"
      and g: "g = applied_regs (plan_icl_raw plan) (pol_qc2_voltage (plan_policy plan)) (smb_reg (for_adapter Hvdcp3P5))"
      by (auto simp: applied_def cfg)
    have "plan_icl_raw plan = 29"
      using raw by (simp add: p policy_for_def quantize_down_encodes(1) grid_steps_def icl_default_def icl_good_def u32_max_def)
    then show ?thesis
      by (simp add: g p policy_for_def applied_regs_def Let_def for_adapter_def set_adapter_ok smb_detached_ok masked_def)
  qed
  from bring_up_scripted [OF cfg(1) steps, of "\<lambda>n. n" Hvdcp3P5] applied show ?thesis
    by (fastforce simp: recognised_def cfg(2))
qed

section \<open>Hot plug, detach and close\<close>

text \<open>
  C21. A monitor cycle follows the adapter: in an open session whose charger now holds the registers of the
  adapter \<open>b\<close>, the cycle changes nothing when \<open>b\<close> is the adapter already recognised, and otherwise
  applies the policy of \<open>b\<close>, returns its plan, and leaves the session ready with exactly its registers;
  when the charger reports no adapter, the adapter is forgotten and nothing is written.
\<close>

theorem monitor_cycle_hot_plug:
  assumes "scripted_ok (ch_transport c)" "ch_state c \<noteq> StClosed" "icl_good (cc_icl (ch_config c))"
  shows "(let b' = recognised (cc_qc35 (ch_config c)) b; m = set_adapter b (ch_transport c) in
      \<exists>r c'. monitor_cycle scripted clk (c\<lparr>ch_transport := m\<rparr>) = Some (Inr r, c') \<and> ch_adapter c' = Some b' \<and>
        (if ch_adapter c = Some b' then r = None \<and> smb_reg (ch_transport c') = smb_reg m \<and> ch_state c' = ch_state c
         else ch_state c' = StReady \<and>
           (\<exists>plan. r = Some plan \<and> applied (ch_config c) b' (smb_reg m) plan (smb_reg (ch_transport c'))))) \<and>
    (smb_reg (ch_transport c) APSD_STATUS AND APSD_DTC_STATUS_DONE = 0 \<longrightarrow>
      (\<exists>c'. monitor_cycle scripted clk c = Some (Inr None, c') \<and> ch_adapter c' = None \<and>
         smb_reg (ch_transport c') = smb_reg (ch_transport c)))"
proof (intro conjI impI)
  let ?b = "recognised (cc_qc35 (ch_config c)) b" and ?m = "set_adapter b (ch_transport c)"
  let ?c = "c\<lparr>ch_transport := ?m\<rparr>" and ?f = "smb_reg (set_adapter b (ch_transport c))"
  let ?s = "if is_hvdcp b then APSD_DTC_STATUS_DONE OR QC_CHARGER else APSD_DTC_STATUS_DONE"
  let ?Q = "\<lambda>r c'. \<exists>p. r = Inr p \<and> co_adapter (core_of c') = Some ?b \<and>
    (if ch_adapter c = Some ?b then p = None \<and> smb_reg (ch_transport c') = ?f \<and> co_state (core_of c') = ch_state c
     else co_state (core_of c') = StReady \<and>
       (\<exists>plan. p = Some plan \<and> applied (ch_config c) ?b ?f plan (smb_reg (ch_transport c'))))"
  note f = set_adapter_ok [OF assms(1), of b]
  have regs: "?f APSD_STATUS = ?s" "?f APSD_RESULT_STATUS = apsd_pattern b" by (simp_all add: f)
  have s: "?s AND APSD_DTC_STATUS_DONE \<noteq> 0" by simp
  have linked: "linked scripted_ok smb_reg ?f ?c" using f(1) by simp
  have decode: "adapter_decode (?f APSD_STATUS) (?f APSD_RESULT_STATUS) (cc_qc35 (ch_config ?c)) = Inr ?b"
    unfolding regs decode_set_adapter by simp
  have "wp (monitor_cycle scripted clk) ?Q ?c"
    unfolding monitor_cycle_def wp_and_then
  proof (rule scripted_session.wp_monitor [OF linked _ _ decode], goal_cases)
    case 1
    show ?case using assms(2) by simp
  next
    case 2
    show ?case unfolding regs by (rule s)
  next
    case (3 c')
    have c': "ch_config c' = ch_config c" "ch_state c' = ch_state c" using 3(2) by (simp_all add: core_sel)
    show ?case
    proof (cases "ch_adapter c = Some ?b")
      case True
      with 3 show ?thesis by (simp add: linked_def core_sel)
    next
      case False
      have "wp (and_then (charger_apply scripted clk ?b) (\<lambda>plan. ret (Some plan))) ?Q c'"
        unfolding wp_and_then
        by (rule wp_apply_scripted [OF 3(1)]) (use False assms(2,3) c' in \<open>auto simp: linked_def\<close>)
      with False show ?thesis by simp
    qed
  qed
  then show "let b' = ?b; m = ?m in \<exists>r c'. monitor_cycle scripted clk (c\<lparr>ch_transport := m\<rparr>) = Some (Inr r, c') \<and>
      ch_adapter c' = Some b' \<and>
      (if ch_adapter c = Some b' then r = None \<and> smb_reg (ch_transport c') = smb_reg m \<and> ch_state c' = ch_state c
       else ch_state c' = StReady \<and>
         (\<exists>plan. r = Some plan \<and> applied (ch_config c) b' (smb_reg m) plan (smb_reg (ch_transport c'))))"
    unfolding Let_def wp_iff core_sel by blast
next
  let ?f = "smb_reg (ch_transport c)"
  assume off: "?f APSD_STATUS AND APSD_DTC_STATUS_DONE = 0"
  have linked: "linked scripted_ok smb_reg ?f c" using assms(1) by (simp add: linked_def)
  have "wp (monitor_cycle scripted clk) (\<lambda>r c'. r = Inr None \<and> co_adapter (core_of c') = None \<and>
      smb_reg (ch_transport c') = ?f) c"
    unfolding monitor_cycle_def wp_and_then
    by (rule scripted_session.wp_monitor_detached [OF linked assms(2) off]) (simp add: linked_def)
  then show "\<exists>c'. monitor_cycle scripted clk c = Some (Inr None, c') \<and> ch_adapter c' = None \<and>
      smb_reg (ch_transport c') = smb_reg (ch_transport c)"
    by (auto simp: wp_iff core_sel)
qed

definition ready_sdp :: "scripted_mock charger" where
  "ready_sdp = (charger_new charger_config_default (for_adapter Sdp))\<lparr>ch_state := StReady, ch_adapter := Some Sdp\<rparr>"

lemma ready_sdp_facts:
  "scripted_ok (ch_transport ready_sdp)" "ch_state ready_sdp \<noteq> StClosed" "icl_good (cc_icl (ch_config ready_sdp))"
  "ch_adapter ready_sdp = Some Sdp" "ch_config ready_sdp = charger_config_default"
  by (simp_all add: ready_sdp_def charger_new_def for_adapter_ok charger_config_default_def)

lemma monitor_cycle_hot_plug_witness:
  "\<exists>plan c'. monitor_cycle scripted (\<lambda>n. n) (ready_sdp\<lparr>ch_transport := set_adapter Dcp (ch_transport ready_sdp)\<rparr>) =
     Some (Inr (Some plan), c') \<and> plan_adapter plan = Dcp \<and> ch_state c' = StReady"
  using monitor_cycle_hot_plug [OF ready_sdp_facts(1-3), of Dcp "\<lambda>n. n"]
  by (fastforce simp: ready_sdp_facts Let_def recognised_def applied_def)

lemma apply_success_confirmed_witness:
  "\<exists>plan c' ks us. charger_apply scripted (\<lambda>n. n) Dcp ready_sdp = Some (Inr plan, c') \<and>
     map ev_kind (ch_events c') = map ev_kind (ch_events ready_sdp) @ ks \<and>
     EvWrite USBIN_CURRENT_LIMIT_CFG (plan_icl_raw plan) us \<in> set ks"
proof -
  have "linked scripted_ok smb_reg (smb_reg (ch_transport ready_sdp)) ready_sdp"
    by (simp add: linked_def ready_sdp_facts)
  from wp_apply_scripted [OF this ready_sdp_facts(2,3), where a = Dcp and clk = "\<lambda>n. n" and Q = "\<lambda>r _. \<exists>plan. r = Inr plan"]
  obtain plan c' where run: "charger_apply scripted (\<lambda>n. n) Dcp ready_sdp = Some (Inr plan, c')"
    by (auto simp: wp_iff)
  have "cc_max_transport_retries (ch_config ready_sdp) < u8_max" "cc_verify_writes (ch_config ready_sdp)"
    by (simp_all add: ready_sdp_facts charger_config_default_def u8_max_def)
  from apply_success_confirmed [OF this run] run show ?thesis by blast
qed

lemma closed_inert: "ch_state c = StClosed \<Longrightarrow> run_call T clk call c = Some c"
  by (cases call)
     (simp_all add: detect_step_def charger_apply_def charger_monitor_def reinit_def charger_close_def and_then_def)

lemma close_closes:
  assumes "cc_max_transport_retries (ch_config c) < u8_max"
  shows "\<exists>c'. charger_close T clk c = Some (Inr (), c') \<and> ch_state c' = StClosed"
proof -
  let ?e = "cc_icl (ch_config c)"
  let ?Q = "\<lambda>r (c' :: 'a charger). r = Inr () \<and> ch_state c' = StClosed"
  have tr: "wp (transition clk StClosed) ?Q c'" for c' :: "'a charger" by (auto simp: emit_def)
  have log: "wp (log_event clk q l k) ?Q c'" if "ch_state c' = StClosed" for q l k and c' :: "'a charger"
    using that by (simp add: emit_def)
  let ?q = "sat_add_u64 (ch_request_id c) 1"
  let ?c = "c\<lparr>ch_request_id := ?q\<rparr>"
  have S: "steady (ch_config c) ?q ?c" by (rule steady.new_request [OF steady_start [OF refl assms]])
  have written: "wp (write_reg T clk a v ?q) (\<lambda>_ _. True) ?c" for a v
    using keepsD [OF steady.keeps_write_reg S] by (fastforce simp: wp_iff)
  have "wp (charger_close T clk) ?Q c"
    unfolding charger_close_def wp_and_then wp_get_state sum.case
    by (auto simp: wp_if intro!: wp_mono [OF written] log wp_mono [OF tr] split: sum.split
        simp del: wp_log_event wp_transition One_nat_def)
  then show ?thesis by (auto simp: wp_iff)
qed

text \<open>
  C20. Closing always ends the session: on every link, whatever it answers, \<open>close\<close> succeeds and the session
  is closed, and from then on no call changes the session or touches the link. On the charger of the test
  kit the limit register then holds the code of the configured safe current, rounded down onto the grid,
  and every other register is as before.
\<close>

theorem close_ends_session:
  assumes "cc_max_transport_retries (ch_config c) < u8_max" "ch_state c \<noteq> StClosed"
  shows "(\<exists>c'. charger_close T clk c = Some (Inr (), c') \<and> ch_state c' = StClosed \<and>
      (\<forall>call. run_call T clk call c' = Some c')) \<and>
    (\<forall>s. scripted_ok (ch_transport s) \<longrightarrow> ch_state s \<noteq> StClosed \<longrightarrow> icl_good (cc_icl (ch_config s)) \<longrightarrow>
      (\<exists>s' raw. charger_close scripted clk s = Some (Inr (), s') \<and>
        icl_decode (cc_icl (ch_config s)) raw = quantize_down (cc_icl (ch_config s)) (cc_safe_icl_ua (ch_config s)) \<and>
        smb_reg (ch_transport s') = (smb_reg (ch_transport s))(USBIN_CURRENT_LIMIT_CFG := raw)))"
proof (intro conjI allI impI)
  show "\<exists>c'. charger_close T clk c = Some (Inr (), c') \<and> ch_state c' = StClosed \<and>
      (\<forall>call. run_call T clk call c' = Some c')"
    using close_closes [OF assms(1)] closed_inert by blast
next
  fix s :: "scripted_mock charger"
  let ?e = "cc_icl (ch_config s)" and ?safe = "cc_safe_icl_ua (ch_config s)"
  let ?raw = "word_of_nat (grid_steps ?e ?safe) :: u8"
  assume s: "scripted_ok (ch_transport s)" "ch_state s \<noteq> StClosed" "icl_good ?e"
  have linked: "linked scripted_ok smb_reg (smb_reg (ch_transport s)) s" using s(1) by (simp add: linked_def)
  have "wp (charger_close scripted clk) (\<lambda>r s'. r = Inr () \<and>
      smb_reg (ch_transport s') = (smb_reg (ch_transport s))(USBIN_CURRENT_LIMIT_CFG := ?raw)) s"
    by (rule scripted_session.wp_close [OF linked s(2) quantize_down_encodes(1) [OF s(3)]]) (simp add: linked_def)
  then show "\<exists>s' raw. charger_close scripted clk s = Some (Inr (), s') \<and>
      icl_decode ?e raw = quantize_down ?e ?safe \<and>
      smb_reg (ch_transport s') = (smb_reg (ch_transport s))(USBIN_CURRENT_LIMIT_CFG := raw)"
    using quantize_down_encodes(2) [OF s(3), of ?safe] by (fastforce simp: wp_iff)
qed

lemma close_ends_session_witness:
  "\<exists>s' raw. charger_close scripted (\<lambda>n. n) ready_sdp = Some (Inr (), s') \<and> icl_decode icl_default raw = 100000 \<and>
     smb_reg (ch_transport s') = (smb_reg (ch_transport ready_sdp))(USBIN_CURRENT_LIMIT_CFG := raw)"
proof -
  have "cc_max_transport_retries (ch_config ready_sdp) < u8_max"
    by (simp add: ready_sdp_facts charger_config_default_def u8_max_def)
  from close_ends_session [OF this ready_sdp_facts(2)] ready_sdp_facts show ?thesis
    by (fastforce simp: charger_config_default_def quantize_down_def icl_default_def)
qed

section \<open>Detection that never completes\<close>

text \<open>Polling \<open>detect_step\<close> at most \<open>n\<close> times, as long as it answers \<open>Pending\<close>.\<close>

fun detect_trace :: "'t smb_transport \<Rightarrow> (nat \<Rightarrow> u64) \<Rightarrow> nat \<Rightarrow> 't charger \<Rightarrow>
    (charger_error + detection) list \<times> 't charger" where
  "detect_trace T clk 0 c = ([], c)"
| "detect_trace T clk (Suc n) c = (case detect_step T clk c of
     None \<Rightarrow> ([], c)
   | Some (r, c') \<Rightarrow> (case r of
       Inr (Pending _ _) \<Rightarrow> (let (rs, c'') = detect_trace T clk n c' in (r # rs, c''))
     | _ \<Rightarrow> ([r], c')))"

text \<open>No operation turns the clock back.\<close>

definition later :: "charger_config \<Rightarrow> nat \<Rightarrow> u64 \<Rightarrow> 't charger \<Rightarrow> bool" where
  "later cfg k q c \<longleftrightarrow> steady cfg q c \<and> k \<le> ch_clock_reads c"

lemma later_tick: "later cfg k q c \<Longrightarrow> later cfg k q (tick c)"
  by (simp add: later_def tick_def steady_def)

interpretation later: session_invariant clk "later cfg k"
  for clk :: "nat \<Rightarrow> u64" and cfg k
  by unfold_locales (auto simp: later_def steady_def emit_def tick_def sat_add_u64_def simp del: One_nat_def)

lemma wp_conj: "wp m Q c \<Longrightarrow> wp m R c \<Longrightarrow> wp m (\<lambda>r c'. Q r c' \<and> R r c') c"
  by (auto simp: wp_iff)

text \<open>A session whose charger never completes detection and whose time is up.\<close>

definition overdue :: "charger_config \<Rightarrow> (nat \<Rightarrow> u64) \<Rightarrow> nat \<Rightarrow> scripted_mock charger \<Rightarrow> bool" where
  "overdue cfg clk reruns c \<longleftrightarrow> scripted_ok (ch_transport c) \<and>
     smb_reg (ch_transport c) APSD_STATUS AND APSD_DTC_STATUS_DONE = 0 \<and>
     ch_config c = cfg \<and> ch_state c \<noteq> StClosed \<and> ch_reruns c = reruns \<and>
     (\<exists>started. ch_detect_started_ms c = Some started \<and>
        (\<forall>k\<ge>ch_clock_reads c. started + cc_detect_timeout_ms cfg \<le> clk k))"

lemma overdue_step:
  assumes "overdue cfg clk reruns c" "cc_max_transport_retries cfg < u8_max" "cc_max_detect_reruns cfg \<le> u8_max"
  shows "\<exists>r c'. detect_step scripted clk c = Some (r, c') \<and>
    (if reruns < cc_max_detect_reruns cfg
     then (\<exists>ms n. r = Inr (Pending ms n)) \<and> overdue cfg clk (Suc reruns) c'
     else (\<exists>ms. r = Inl (DetectionTimeout ms)) \<and> ch_state c' = StFaulted)"
proof -
  let ?f = "smb_reg (ch_transport c)"
  from assms(1) obtain started where c: "scripted_ok (ch_transport c)" "?f APSD_STATUS AND APSD_DTC_STATUS_DONE = 0"
      "ch_config c = cfg" "ch_state c \<noteq> StClosed" "ch_reruns c = reruns" "ch_detect_started_ms c = Some started"
      "\<forall>k\<ge>ch_clock_reads c. started + cc_detect_timeout_ms cfg \<le> clk k"
    by (auto simp: overdue_def)
  have linked: "linked scripted_ok smb_reg ?f c" using c(1) by (simp add: linked_def)
  have late: "cc_detect_timeout_ms cfg \<le> clk (ch_clock_reads c) - started"
    using c(7) [rule_format, of "ch_clock_reads c"] by linarith
  have decode: "adapter_decode (?f APSD_STATUS) 0 q = Inl DetectionNotComplete" for q
    using c(2) by (simp add: adapter_decode_def)
  let ?g = "?f(CMD_APSD := masked (?f CMD_APSD) APSD_RERUN APSD_RERUN)"
  have g: "?g APSD_STATUS AND APSD_DTC_STATUS_DONE = 0" using c(2) by simp
  define Q where "Q r c' \<longleftrightarrow> (if reruns < cc_max_detect_reruns cfg
      then (\<exists>ms n. r = Inr (Pending ms n)) \<and> linked scripted_ok smb_reg ?g c' \<and>
        co_config (core_of c') = cfg \<and> co_state (core_of c') \<noteq> StClosed \<and> co_reruns (core_of c') = Suc reruns \<and>
        co_started (core_of c') = Some started
      else (\<exists>ms. r = Inl (DetectionTimeout ms)) \<and> co_state (core_of c') = StFaulted)"
    for r :: "charger_error + detection" and c' :: "scripted_mock charger"
  have core: "started_at (core_of c) now = core_of c" for now
    using c(6) by (simp add: started_at_def core_sel)
  have co: "co_config (core_of c) = cfg" "co_state (core_of c) \<noteq> StClosed" "co_reruns (core_of c) = reruns"
    "co_started (core_of c) = Some started"
    using c by (simp_all add: core_sel)
  have "wp (detect_step scripted clk) Q c"
  proof (rule scripted_session.wp_detect [OF linked c(4) refl], goal_cases)
    case (1 c' q)
    then have c': "ch_config c' = cfg" "ch_reruns c' = reruns" using co by (simp_all add: core core_sel)
    show ?case
      unfolding c(2) using 1(1)
      apply (simp add: c(2) decode c(6))
      apply (rule scripted_session.wp_decide_incomplete [where f = ?f])
      using late c' 1(2) co assms(3)
      apply (auto simp: Q_def core sat_add_u8_def)
      done
  qed
  moreover have "wp (detect_step scripted clk) (\<lambda>_ c'. ch_clock_reads c \<le> ch_clock_reads c') c"
  proof -
    have "later cfg (ch_clock_reads c) 0 c" using c(3) assms(2) by (simp add: later_def steady_start)
    from keepsD [OF later.keeps_detect_step this] show ?thesis unfolding wp_iff later_def by blast
  qed
  ultimately have "wp (detect_step scripted clk) (\<lambda>r c'. Q r c' \<and> ch_clock_reads c \<le> ch_clock_reads c') c"
    by (rule wp_conj)
  then obtain r c' where run: "detect_step scripted clk c = Some (r, c')" "Q r c'" "ch_clock_reads c \<le> ch_clock_reads c'"
    by (auto simp: wp_iff)
  have "overdue cfg clk (Suc reruns) c'" if "reruns < cc_max_detect_reruns cfg"
    using run(2,3) that c(7) g by (auto simp: Q_def overdue_def core_sel linked_def)
  with run show ?thesis by (auto simp: Q_def core_sel)
qed

lemma overdue_trace:
  assumes "cc_max_transport_retries cfg < u8_max" "cc_max_detect_reruns cfg \<le> u8_max"
    and "overdue cfg clk reruns c" "reruns \<le> cc_max_detect_reruns cfg" "cc_max_detect_reruns cfg - reruns < n"
  shows "\<exists>ps ms c'. detect_trace scripted clk n c = (map (\<lambda>(t, k). Inr (Pending t k)) ps @ [Inl (DetectionTimeout ms)], c') \<and>
    length ps = cc_max_detect_reruns cfg - reruns \<and> ch_state c' = StFaulted"
  using assms(3-5)
proof (induction n arbitrary: reruns c)
  case (Suc n)
  from overdue_step [OF Suc.prems(1) assms(1,2)] obtain r c' where step: "detect_step scripted clk c = Some (r, c')"
    and r: "if reruns < cc_max_detect_reruns cfg
      then (\<exists>ms k. r = Inr (Pending ms k)) \<and> overdue cfg clk (Suc reruns) c'
      else (\<exists>ms. r = Inl (DetectionTimeout ms)) \<and> ch_state c' = StFaulted" by blast
  show ?case
  proof (cases "reruns < cc_max_detect_reruns cfg")
    case True
    with r obtain ms k where p: "r = Inr (Pending ms k)" "overdue cfg clk (Suc reruns) c'" by auto
    with True Suc.IH [OF p(2)] Suc.prems(3) obtain ps ms' c'' where
      "detect_trace scripted clk n c' = (map (\<lambda>(t, k). Inr (Pending t k)) ps @ [Inl (DetectionTimeout ms')], c'')"
      "length ps = cc_max_detect_reruns cfg - Suc reruns" "ch_state c'' = StFaulted" by force
    with True step p(1) show ?thesis
      by (intro exI [of _ "(ms, k) # ps"] exI [of _ ms'] exI [of _ c'']) simp
  next
    case False
    with r obtain ms where "r = Inl (DetectionTimeout ms)" "ch_state c' = StFaulted" by auto
    with False step show ?thesis
      by (intro exI [of _ "[]"] exI [of _ ms] exI [of _ c']) simp
  qed
qed simp

text \<open>
  C19. Detection gives up, and its reruns wait for nothing: once the time limit has passed since the first
  step, on a charger that never reports completion the remaining reruns are used up in as many consecutive
  steps, each answered \<open>Pending\<close>, and the next step is the timeout error that leaves the session faulted.
  A rerun does not open a new time window.
\<close>

theorem detection_gives_up:
  assumes "cc_max_transport_retries (ch_config c) < u8_max" "cc_max_detect_reruns (ch_config c) \<le> u8_max"
    and "scripted_ok (ch_transport c)" "smb_reg (ch_transport c) APSD_STATUS AND APSD_DTC_STATUS_DONE = 0"
    and "ch_state c \<noteq> StClosed" "ch_detect_started_ms c = Some started"
    and "\<forall>k\<ge>ch_clock_reads c. started + cc_detect_timeout_ms (ch_config c) \<le> clk k"
    and "ch_reruns c \<le> cc_max_detect_reruns (ch_config c)" "cc_max_detect_reruns (ch_config c) - ch_reruns c < n"
  shows "\<exists>ps ms c'. detect_trace scripted clk n c = (map (\<lambda>(t, k). Inr (Pending t k)) ps @ [Inl (DetectionTimeout ms)], c') \<and>
    length ps = cc_max_detect_reruns (ch_config c) - ch_reruns c \<and> ch_state c' = StFaulted"
  by (rule overdue_trace [OF assms(1,2) _ assms(8,9)]) (use assms in \<open>auto simp: overdue_def\<close>)

lemma detection_gives_up_witness:
  "\<exists>p q ms c'. detect_trace scripted (\<lambda>_. 3000) 100
      ((charger_new charger_config_default smb_detached)\<lparr>ch_state := StDetecting, ch_detect_started_ms := Some 0\<rparr>) =
    ([Inr (Pending (fst p) (snd p)), Inr (Pending (fst q) (snd q)), Inl (DetectionTimeout ms)], c') \<and>
    ch_state c' = StFaulted"
proof -
  let ?c = "(charger_new charger_config_default smb_detached)\<lparr>ch_state := StDetecting, ch_detect_started_ms := Some 0\<rparr>"
  from detection_gives_up [of ?c 0 "\<lambda>_. 3000" 100] obtain ps ms c' where
    run: "detect_trace scripted (\<lambda>_. 3000) 100 ?c = (map (\<lambda>(t, k). Inr (Pending t k)) ps @ [Inl (DetectionTimeout ms)], c')"
      "length ps = 2" "ch_state c' = StFaulted"
    by (auto simp: charger_new_def charger_config_default_def u8_max_def smb_detached_ok simp del: detect_trace.simps)
  from run(2) obtain p q where "ps = [p, q]" by (auto simp: length_Suc_conv numeral_2_eq_2)
  with run show ?thesis by (auto simp: case_prod_beta)
qed

end
