(* ===== verification/Spmi_Superuser.thy ===== *)
theory Spmi_Superuser
  imports Prelude
begin

text \<open>
  The SUPERUSER sessions of \<open>crates/ln8000-kmdf/src/spb.rs\<close>: the request frames of the SPMI controller,
  register access through them, and the readings of the fuel gauge and the charger registers. The device
  behind the frames is Windows' own driver and a parameter; a simulated one that parses the frames shows
  what the requests mean.
\<close>

section \<open>The device\<close>

text \<open>
  \<open>dev_ioctl code input n\<close> is one request with \<open>n\<close> bytes of output; its answer is the bytes the device
  wrote at the start of the output buffer, or the status of the failure.
\<close>

type_synonym ('w, 'a) nt_op = "('w, i32, 'a) op"

record 'w superuser_dev =
  dev_open :: "'w \<Rightarrow> (i32 + unit) \<times> 'w"
  dev_ioctl :: "u32 \<Rightarrow> u8 list \<Rightarrow> nat \<Rightarrow> 'w \<Rightarrow> (i32 + u8 list) \<times> 'w"
  dev_close :: "'w \<Rightarrow> 'w"

abbreviation (input) IOCTL_SPMI_SUPERUSER_READ :: u32 where "IOCTL_SPMI_SUPERUSER_READ \<equiv> 0x85B5240C"
abbreviation (input) IOCTL_SPMI_SUPERUSER_WRITE :: u32 where "IOCTL_SPMI_SUPERUSER_WRITE \<equiv> 0x85B52410"
abbreviation (input) IOCTL_SPMI_SUPERUSER_GRANT :: u32 where "IOCTL_SPMI_SUPERUSER_GRANT \<equiv> 0x85B52418"
abbreviation (input) STATUS_INVALID_PARAMETER :: i32 where "STATUS_INVALID_PARAMETER \<equiv> - 1073741811"

definition nt_call :: "('w \<Rightarrow> ('e + 'a) \<times> 'w) \<Rightarrow> ('w, 'e, 'a) op" where
  "nt_call f = (\<lambda>w. Some (f w))"

section \<open>Frames\<close>

text \<open>\<open>(sid << 16) | reg\<close> and its four bytes, low byte first.\<close>

definition superuser_addr_enc :: "u8 \<Rightarrow> u16 \<Rightarrow> 32 word" where
  "superuser_addr_enc sid reg = push_bit 16 (ucast sid) OR ucast reg"

definition su_header :: "u8 \<Rightarrow> u16 \<Rightarrow> nat \<Rightarrow> u8 list" where
  "su_header sid reg len =
    (let enc = superuser_addr_enc sid reg in
     [0, 0, 0, 0, ucast (enc AND 0xFF), ucast (drop_bit 8 enc AND 0xFF), ucast (drop_bit 16 enc AND 0xFF),
      ucast (drop_bit 24 enc AND 0xFF), word_of_nat len, 0, 0, 0])"

text \<open>The output buffer is filled with \<open>0xFF\<close> before the request.\<close>

definition ioctl_in_out :: "'w superuser_dev \<Rightarrow> u32 \<Rightarrow> u8 list \<Rightarrow> nat \<Rightarrow> ('w, u8 list) nt_op" where
  "ioctl_in_out D ioctl input n =
     and_then (nt_call (dev_ioctl D ioctl input n)) (\<lambda>bytes. ret (take n (bytes @ replicate n 0xFF)))"

definition ioctl_in :: "'w superuser_dev \<Rightarrow> u32 \<Rightarrow> u8 list \<Rightarrow> ('w, unit) nt_op" where
  "ioctl_in D ioctl input = and_then (ioctl_in_out D ioctl input 0) (\<lambda>_. ret ())"

definition su_grant :: "'w superuser_dev \<Rightarrow> u16 \<Rightarrow> ('w, unit) nt_op" where
  "su_grant D peri = ioctl_in D IOCTL_SPMI_SUPERUSER_GRANT
     [1, 0, ucast (peri AND 0xFF), ucast (drop_bit 8 peri AND 0xFF)]"

definition su_read_bytes :: "'w superuser_dev \<Rightarrow> u8 \<Rightarrow> u16 \<Rightarrow> nat \<Rightarrow> ('w, u8 list) nt_op" where
  "su_read_bytes D sid reg len =
    (if len = 0 \<or> len > 255 then raise STATUS_INVALID_PARAMETER
     else ioctl_in_out D IOCTL_SPMI_SUPERUSER_READ (su_header sid reg len) len)"

definition su_write_bytes :: "'w superuser_dev \<Rightarrow> u8 \<Rightarrow> u16 \<Rightarrow> u8 list \<Rightarrow> ('w, unit) nt_op" where
  "su_write_bytes D sid reg data =
    (if length data = 0 \<or> length data > 255 then raise STATUS_INVALID_PARAMETER
     else ioctl_in D IOCTL_SPMI_SUPERUSER_WRITE (su_header sid reg (length data) @ data))"

definition su_read_u8 :: "'w superuser_dev \<Rightarrow> u8 \<Rightarrow> u16 \<Rightarrow> ('w, u8) nt_op" where
  "su_read_u8 D sid reg = and_then (su_read_bytes D sid reg 1) (\<lambda>buf. ret (buf ! 0))"

definition su_write_u8 :: "'w superuser_dev \<Rightarrow> u8 \<Rightarrow> u16 \<Rightarrow> u8 \<Rightarrow> ('w, unit) nt_op" where
  "su_write_u8 D sid reg v = su_write_bytes D sid reg [v]"

text \<open>
  One session: open, the body, and the close in \<open>Drop\<close> on every way out. \<open>or_none\<close> is \<open>.ok()\<close> on a body
  that may also decide that there is no value.
\<close>

definition with_superuser :: "'w superuser_dev \<Rightarrow> ('w, 'a) nt_op \<Rightarrow> ('w, 'a) nt_op" where
  "with_superuser D body =
     and_then (nt_call (dev_open D)) (\<lambda>_.
     and_then (outcome body) (\<lambda>r.
     and_then (modify (dev_close D)) (\<lambda>_. case r of Inl e \<Rightarrow> raise e | Inr x \<Rightarrow> ret x)))"

definition or_none :: "('w, 'a option) nt_op \<Rightarrow> ('w, 'e, 'a option) op" where
  "or_none m = and_then (outcome m) (\<lambda>r. ret (case r of Inl _ \<Rightarrow> None | Inr x \<Rightarrow> x))"

section \<open>State of charge\<close>

abbreviation (input) SPMI_SID_USBIN :: u8 where "SPMI_SID_USBIN \<equiv> 2"
abbreviation (input) SPMI_PERI_USBIN :: u16 where "SPMI_PERI_USBIN \<equiv> 0x0013"
abbreviation (input) SPMI_PERI_BATT_SOC :: u16 where "SPMI_PERI_BATT_SOC \<equiv> 0x0040"
abbreviation (input) SPMI_REG_BATT_SOC_SUBTYPE :: u16 where "SPMI_REG_BATT_SOC_SUBTYPE \<equiv> 0x4005"
abbreviation (input) SPMI_REG_BATT_SOC :: u16 where "SPMI_REG_BATT_SOC \<equiv> 0x4009"
abbreviation (input) SPMI_BATT_SOC_SUBTYPE_PM8150B :: u8 where "SPMI_BATT_SOC_SUBTYPE_PM8150B \<equiv> 0x10"
abbreviation (input) SPMI_PERI_CHGR :: u16 where "SPMI_PERI_CHGR \<equiv> 0x0010"
abbreviation (input) SPMI_PERI_BATT_INFO :: u16 where "SPMI_PERI_BATT_INFO \<equiv> 0x0041"
abbreviation (input) SPMI_REG_CHGR_FCC :: u16 where "SPMI_REG_CHGR_FCC \<equiv> 0x1061"
abbreviation (input) SPMI_REG_CHGR_CHARGING_ENABLE :: u16 where "SPMI_REG_CHGR_CHARGING_ENABLE \<equiv> 0x1042"
abbreviation (input) SPMI_REG_CHGR_CFG2 :: u16 where "SPMI_REG_CHGR_CFG2 \<equiv> 0x1051"
abbreviation (input) SPMI_REG_CHGR_STATUS_1 :: u16 where "SPMI_REG_CHGR_STATUS_1 \<equiv> 0x1006"
abbreviation (input) SPMI_REG_CHGR_FLOAT_VOLTAGE :: u16 where "SPMI_REG_CHGR_FLOAT_VOLTAGE \<equiv> 0x1070"
abbreviation (input) SPMI_REG_USBIN_ICL :: u16 where "SPMI_REG_USBIN_ICL \<equiv> 0x1370"
abbreviation (input) SPMI_REG_USBIN_ADAPTER_ALLOW :: u16 where "SPMI_REG_USBIN_ADAPTER_ALLOW \<equiv> 0x1360"
abbreviation (input) SPMI_REG_FG_IBATT_LSB :: u16 where "SPMI_REG_FG_IBATT_LSB \<equiv> 0x41A2"
abbreviation (input) SPMI_REG_FG_IBATT_LSB_CP :: u16 where "SPMI_REG_FG_IBATT_LSB_CP \<equiv> 0x41A8"
abbreviation (input) SPMI_REG_FG_VBATT_LSB :: u16 where "SPMI_REG_FG_VBATT_LSB \<equiv> 0x41A0"
abbreviation (input) SPMI_REG_FG_VBATT_LSB_CP :: u16 where "SPMI_REG_FG_VBATT_LSB_CP \<equiv> 0x41A6"

definition read_batt_soc_raw :: "'w superuser_dev \<Rightarrow> ('w, 'e, u8 option) op" where
  "read_batt_soc_raw D = or_none (with_superuser D (
     and_then (su_grant D SPMI_PERI_BATT_SOC) (\<lambda>_.
     and_then (su_read_u8 D SPMI_SID_USBIN SPMI_REG_BATT_SOC_SUBTYPE) (\<lambda>subtype.
       if subtype \<noteq> SPMI_BATT_SOC_SUBTYPE_PM8150B then ret None
       else and_then (su_read_bytes D SPMI_SID_USBIN SPMI_REG_BATT_SOC 2) (\<lambda>cap.
         ret (if cap ! 0 \<noteq> cap ! 1 then None else Some (cap ! 0)))))))"

section \<open>Charger registers and fuel gauge\<close>

abbreviation (input) FG_VBATT_NUMER :: u32 where "FG_VBATT_NUMER \<equiv> 122070"
abbreviation (input) FG_VBATT_DENOM :: u32 where "FG_VBATT_DENOM \<equiv> 1000"
abbreviation (input) FG_IBATT_NUMER :: i32 where "FG_IBATT_NUMER \<equiv> 488281"
abbreviation (input) FG_IBATT_DENOM :: i32 where "FG_IBATT_DENOM \<equiv> 1000"

record charge_regs =
  cr_fcc_raw :: u8
  cr_charge_enable :: u8
  cr_inhibit :: u8
  cr_chgr_status :: u8
  cr_fv_raw :: u8
  cr_icl_raw :: u8
  cr_usbin_allow :: u8
  cr_ibatt_ua :: u32        \<comment> \<open>two's complement\<close>
  cr_fg_vbatt_uv :: u32

text \<open>\<open>x as i32\<close> of a wider signed value, and \<open>x as u32\<close> of an \<open>i32\<close>.\<close>

definition as_i32 :: "int \<Rightarrow> i32" where
  "as_i32 x = (x + 2147483648) mod 4294967296 - 2147483648"

definition as_u32 :: "int \<Rightarrow> u32" where
  "as_u32 x = nat (x mod 4294967296)"

definition fg_ibatt_ua :: "u8 list \<Rightarrow> u32" where
  "fg_ibatt_ua ibatt = as_u32 (as_i32 (i32_div (sint (byte_pair (ibatt ! 0) (ibatt ! 1)) * FG_IBATT_NUMER) FG_IBATT_DENOM))"

definition fg_vbatt_uv :: "u8 list \<Rightarrow> u32" where
  "fg_vbatt_uv vbatt =
    (unat (byte_pair (vbatt ! 0) (vbatt ! 1)) * FG_VBATT_NUMER div FG_VBATT_DENOM) mod 4294967296"

text \<open>The two fuel gauge pairs with their shadow copies, and the whole snapshot.\<close>

definition read_shadowed :: "'w superuser_dev \<Rightarrow> u16 \<Rightarrow> u16 \<Rightarrow> ('w, u8 list option) nt_op" where
  "read_shadowed D reg copy =
     and_then (su_read_bytes D SPMI_SID_USBIN reg 2) (\<lambda>v.
     and_then (su_read_bytes D SPMI_SID_USBIN copy 2) (\<lambda>v_cp.
       ret (if v \<noteq> v_cp then None else Some v)))"

definition read_gauge ::
  "'w superuser_dev \<Rightarrow> (u32 \<Rightarrow> u32 \<Rightarrow> charge_regs) \<Rightarrow> ('w, charge_regs option) nt_op" where
  "read_gauge D snapshot =
     and_then (read_shadowed D SPMI_REG_FG_IBATT_LSB SPMI_REG_FG_IBATT_LSB_CP) (\<lambda>ibatt.
     case ibatt of None \<Rightarrow> ret None
     | Some ibatt \<Rightarrow>
         and_then (read_shadowed D SPMI_REG_FG_VBATT_LSB SPMI_REG_FG_VBATT_LSB_CP) (\<lambda>vbatt.
           ret (case vbatt of None \<Rightarrow> None
                | Some vbatt \<Rightarrow> Some (snapshot (fg_ibatt_ua ibatt) (fg_vbatt_uv vbatt)))))"

definition read_charge_regs :: "'w superuser_dev \<Rightarrow> ('w, 'e, charge_regs option) op" where
  "read_charge_regs D =
    (let read = su_read_u8 D SPMI_SID_USBIN in or_none (with_superuser D (
     and_then (su_grant D SPMI_PERI_CHGR) (\<lambda>_.
     and_then (su_grant D SPMI_PERI_USBIN) (\<lambda>_.
     and_then (su_grant D SPMI_PERI_BATT_INFO) (\<lambda>_.
     and_then (read SPMI_REG_CHGR_FCC) (\<lambda>fcc_raw.
     and_then (read SPMI_REG_CHGR_CHARGING_ENABLE) (\<lambda>charge_enable.
     and_then (read SPMI_REG_CHGR_CFG2) (\<lambda>inhibit.
     and_then (read SPMI_REG_CHGR_STATUS_1) (\<lambda>chgr_status.
     and_then (read SPMI_REG_CHGR_FLOAT_VOLTAGE) (\<lambda>fv_raw.
     and_then (read SPMI_REG_USBIN_ICL) (\<lambda>icl_raw.
     and_then (read SPMI_REG_USBIN_ADAPTER_ALLOW) (\<lambda>usbin_allow.
       read_gauge D (\<lambda>ibatt_ua fg_vbatt_uv.
         \<lparr>cr_fcc_raw = fcc_raw, cr_charge_enable = charge_enable, cr_inhibit = inhibit,
          cr_chgr_status = chgr_status, cr_fv_raw = fv_raw, cr_icl_raw = icl_raw,
          cr_usbin_allow = usbin_allow, cr_ibatt_ua = ibatt_ua, cr_fg_vbatt_uv = fg_vbatt_uv\<rparr>))))))))))))))"

definition write_fcc_raw :: "'w superuser_dev \<Rightarrow> u8 \<Rightarrow> ('w, 'e, u8 option) op" where
  "write_fcc_raw D raw = or_none (with_superuser D (
     and_then (su_grant D SPMI_PERI_CHGR) (\<lambda>_.
     and_then (su_write_u8 D SPMI_SID_USBIN SPMI_REG_CHGR_FCC raw) (\<lambda>_.
     and_then (su_read_u8 D SPMI_SID_USBIN SPMI_REG_CHGR_FCC) (\<lambda>v. ret (Some v))))))"

section \<open>A simulated controller\<close>

text \<open>
  A controller that parses the frames: a register file per slave, the peripherals granted in this session
  (the bank of a register is its high byte), and the number of open sessions.
\<close>

record pmic =
  pm_reg :: "u8 \<Rightarrow> u16 \<Rightarrow> u8"
  pm_granted :: "u16 set"
  pm_sessions :: nat

definition frame_addr :: "u8 list \<Rightarrow> 32 word" where
  "frame_addr i = ucast (i ! 4) OR push_bit 8 (ucast (i ! 5)) OR push_bit 16 (ucast (i ! 6)) OR push_bit 24 (ucast (i ! 7))"

definition frame_sid :: "u8 list \<Rightarrow> u8" where
  "frame_sid i = ucast (drop_bit 16 (frame_addr i))"

definition frame_reg :: "u8 list \<Rightarrow> u16" where
  "frame_reg i = ucast (frame_addr i)"

definition bank :: "u16 \<Rightarrow> u16" where
  "bank reg = drop_bit 8 reg"

abbreviation (input) STATUS_ACCESS_DENIED :: i32 where "STATUS_ACCESS_DENIED \<equiv> - 1073741790"

text \<open>The registers \<open>reg\<close>, \<open>reg + 1\<close>, ... hold \<open>data\<close>.\<close>

fun store_bytes :: "u16 \<Rightarrow> u8 list \<Rightarrow> (u16 \<Rightarrow> u8) \<Rightarrow> u16 \<Rightarrow> u8" where
  "store_bytes reg [] f = f"
| "store_bytes reg (b # bs) f = store_bytes (reg + 1) bs (f(reg := b))"

definition pmic_ioctl :: "u32 \<Rightarrow> u8 list \<Rightarrow> nat \<Rightarrow> pmic \<Rightarrow> (i32 + u8 list) \<times> pmic" where
  "pmic_ioctl code i n s =
    (if code = IOCTL_SPMI_SUPERUSER_GRANT \<and> length i = 4 \<and> i ! 0 = 1 \<and> i ! 1 = 0 then
       (Inr [], s\<lparr>pm_granted := insert (byte_pair (i ! 2) (i ! 3)) (pm_granted s)\<rparr>)
     else if length i < 12 then (Inl STATUS_INVALID_PARAMETER, s)
     else if bank (frame_reg i) \<notin> pm_granted s then (Inl STATUS_ACCESS_DENIED, s)
     else if code = IOCTL_SPMI_SUPERUSER_READ \<and> length i = 12 \<and> n = unat (i ! 8) then
       (Inr (map (\<lambda>k. pm_reg s (frame_sid i) (frame_reg i + word_of_nat k)) [0..<n]), s)
     else if code = IOCTL_SPMI_SUPERUSER_WRITE \<and> length i = 12 + unat (i ! 8) \<and> n = 0 then
       (Inr [], s\<lparr>pm_reg := (pm_reg s)(frame_sid i := store_bytes (frame_reg i) (drop 12 i) (pm_reg s (frame_sid i)))\<rparr>)
     else (Inl STATUS_INVALID_PARAMETER, s))"

definition pmic_dev :: "pmic superuser_dev" where
  "pmic_dev = \<lparr>dev_open = \<lambda>s. (Inr (), s\<lparr>pm_sessions := Suc (pm_sessions s), pm_granted := {}\<rparr>), dev_ioctl = pmic_ioctl,
     dev_close = \<lambda>s. s\<lparr>pm_sessions := pm_sessions s - 1\<rparr>\<rparr>"

lemma header_length [simp]: "length (su_header sid reg len) = 12"
  by (simp add: su_header_def Let_def)

lemma header_nth: "su_header sid reg len ! 8 = word_of_nat len"
  by (simp add: su_header_def Let_def)

lemma frame_addr_header: "frame_addr (su_header sid reg len @ data) = superuser_addr_enc sid reg"
proof -
  have ff: "(x :: 32 word) AND 0xFF = take_bit 8 x" for x
    by (simp add: take_bit_eq_mask mask_eq_exp_minus_1)
  define e where "e = superuser_addr_enc sid reg"
  have bytes: "ucast (ucast (take_bit 8 x) :: u8) = (take_bit 8 x :: 32 word)" for x :: "32 word"
    by (rule bit_word_eqI) (auto simp: bit_simps)
  have "take_bit 8 e OR push_bit 8 (take_bit 8 (drop_bit 8 e)) OR push_bit 16 (take_bit 8 (drop_bit 16 e)) OR
      push_bit 24 (take_bit 8 (drop_bit 24 e)) = e"
  proof (rule bit_word_eqI)
    fix n assume "n < LENGTH(32)"
    then show "bit (take_bit 8 e OR push_bit 8 (take_bit 8 (drop_bit 8 e)) OR push_bit 16 (take_bit 8 (drop_bit 16 e)) OR
      push_bit 24 (take_bit 8 (drop_bit 24 e))) n = bit e n"
      by (cases "n < 24"; cases "n < 16") (auto simp: bit_simps)
  qed
  then show ?thesis
    by (simp add: frame_addr_def su_header_def Let_def ff bytes flip: e_def)
qed

lemma frame_header:
  "frame_sid (su_header sid reg len @ data) = sid" "frame_reg (su_header sid reg len @ data) = reg"
proof -
  show "frame_sid (su_header sid reg len @ data) = sid"
    unfolding frame_sid_def frame_addr_header superuser_addr_enc_def
    by (rule bit_word_eqI) (auto simp: bit_simps dest: bit_imp_le_length)
  show "frame_reg (su_header sid reg len @ data) = reg"
    unfolding frame_reg_def frame_addr_header superuser_addr_enc_def
    by (rule bit_word_eqI) (auto simp: bit_simps dest: bit_imp_le_length)
qed

lemmas frame_header_Nil = frame_header [where data = "[]", simplified]

section \<open>What the requests do\<close>

lemma pmic_grant:
  "su_grant pmic_dev peri s = Some (Inr (), s\<lparr>pm_granted := insert peri (pm_granted s)\<rparr>)"
proof -
  have "byte_pair (ucast (peri AND 0xFF)) (ucast (drop_bit 8 peri AND 0xFF)) = peri"
  proof -
    have ff: "(x :: u16) AND 0xFF = take_bit 8 x" for x
      by (simp add: take_bit_eq_mask mask_eq_exp_minus_1)
    show ?thesis
      unfolding byte_pair_def ff by (rule bit_word_eqI) (auto simp: bit_simps dest: bit_imp_le_length)
  qed
  then show ?thesis
    by (simp add: su_grant_def ioctl_in_def ioctl_in_out_def nt_call_def and_then_def pmic_dev_def pmic_ioctl_def)
qed

lemma pmic_read_bytes:
  assumes "bank reg \<in> pm_granted s" "0 < len" "len \<le> 255"
  shows "su_read_bytes pmic_dev sid reg len s = Some (Inr (map (\<lambda>k. pm_reg s sid (reg + word_of_nat k)) [0..<len]), s)"
  using assms
  by (simp add: su_read_bytes_def ioctl_in_out_def nt_call_def and_then_def pmic_dev_def pmic_ioctl_def
      frame_header_Nil header_nth unat_u8_of_nat)

lemma pmic_read_u8:
  "bank reg \<in> pm_granted s \<Longrightarrow> su_read_u8 pmic_dev sid reg s = Some (Inr (pm_reg s sid reg), s)"
  by (simp add: su_read_u8_def and_then_def pmic_read_bytes)

lemma pmic_write_bytes:
  assumes "bank reg \<in> pm_granted s" "data \<noteq> []" "length data \<le> 255"
  shows "su_write_bytes pmic_dev sid reg data s =
    Some (Inr (), s\<lparr>pm_reg := (pm_reg s)(sid := store_bytes reg data (pm_reg s sid))\<rparr>)"
  using assms
  by (simp add: su_write_bytes_def ioctl_in_def ioctl_in_out_def nt_call_def and_then_def pmic_dev_def pmic_ioctl_def
      frame_header header_nth nth_append unat_u8_of_nat)

text \<open>A write leaves the other registers alone and its own bytes where a read finds them.\<close>

lemma store_bytes_outside:
  "(\<And>k. k < length data \<Longrightarrow> a \<noteq> reg + word_of_nat k) \<Longrightarrow> store_bytes reg data f a = f a"
proof (induction data arbitrary: reg f)
  case (Cons b bs)
  have "store_bytes (reg + 1) bs (f(reg := b)) a = (f(reg := b)) a"
  proof (rule Cons.IH)
    fix k assume "k < length bs"
    with Cons.prems [of "Suc k"] show "a \<noteq> reg + 1 + word_of_nat k" by (simp add: ac_simps)
  qed
  moreover from Cons.prems [of 0] have "a \<noteq> reg" by simp
  ultimately show ?case by simp
qed simp

lemma store_bytes_inside:
  assumes "length data \<le> 65536" "k < length data"
  shows "store_bytes reg data f (reg + word_of_nat k) = data ! k"
  using assms
proof (induction data arbitrary: reg f k)
  case (Cons b bs)
  show ?case
  proof (cases k)
    case 0
    have "store_bytes (reg + 1) bs (f(reg := b)) reg = (f(reg := b)) reg"
    proof (rule store_bytes_outside)
      fix j assume "j < length bs"
      with Cons.prems(1) have "Suc j < 65536" by simp
      then have "(word_of_nat (Suc j) :: u16) \<noteq> 0"
        by (simp add: word_of_nat_eq_0_iff nat_dvd_not_less del: of_nat_Suc)
      then show "reg \<noteq> reg + 1 + word_of_nat j" by (simp add: add.assoc)
    qed
    with 0 show ?thesis by simp
  next
    case (Suc j)
    with Cons.IH [of j "reg + 1"] Cons.prems show ?thesis by (simp add: ac_simps)
  qed
qed simp

text \<open>
  C34. The SUPERUSER frames carry what they are given: on a controller that parses them, writing 1 to 255
  bytes at a granted register and reading as many back returns exactly those bytes, and the write changes
  no other register of any slave.
\<close>

theorem superuser_write_read:
  assumes "bank reg \<in> pm_granted s" "data \<noteq> []" "length data \<le> 255"
  shows "\<exists>s'. su_write_bytes pmic_dev sid reg data s = Some (Inr (), s') \<and>
    su_read_bytes pmic_dev sid reg (length data) s' = Some (Inr data, s') \<and>
    (\<forall>sid' a. sid' \<noteq> sid \<or> (\<forall>k<length data. a \<noteq> reg + word_of_nat k) \<longrightarrow> pm_reg s' sid' a = pm_reg s sid' a)"
proof -
  let ?s = "s\<lparr>pm_reg := (pm_reg s)(sid := store_bytes reg data (pm_reg s sid))\<rparr>"
  have "map (\<lambda>k. pm_reg ?s sid (reg + word_of_nat k)) [0..<length data] = data"
    using assms(3) by (intro nth_equalityI) (simp_all add: store_bytes_inside)
  moreover have "su_read_bytes pmic_dev sid reg (length data) ?s =
      Some (Inr (map (\<lambda>k. pm_reg ?s sid (reg + word_of_nat k)) [0..<length data]), ?s)"
    by (rule pmic_read_bytes) (use assms in simp_all)
  ultimately have "su_read_bytes pmic_dev sid reg (length data) ?s = Some (Inr data, ?s)" by simp
  moreover have "pm_reg ?s sid' a = pm_reg s sid' a"
    if "sid' \<noteq> sid \<or> (\<forall>k<length data. a \<noteq> reg + word_of_nat k)" for sid' a
    using that by (auto simp: store_bytes_outside)
  ultimately show ?thesis
    using pmic_write_bytes [OF assms] by blast
qed

definition idle_pmic :: pmic where
  "idle_pmic = \<lparr>pm_reg = \<lambda>_ _. 0, pm_granted = {0x13}, pm_sessions = 1\<rparr>"

lemma superuser_write_read_witness:
  "\<exists>s'. su_write_bytes pmic_dev 2 0x1370 [60, 7] idle_pmic = Some (Inr (), s') \<and>
     su_read_bytes pmic_dev 2 0x1370 2 s' = Some (Inr [60, 7], s') \<and> pm_reg s' 2 0x1343 = 0"
proof -
  have "bank 0x1370 \<in> pm_granted idle_pmic" "[60, 7 :: u8] \<noteq> []" "length [60, 7 :: u8] \<le> 255"
    by (simp_all add: idle_pmic_def bank_def)
  from superuser_write_read [OF this, of 2] obtain s' where s':
    "su_write_bytes pmic_dev 2 0x1370 [60, 7] idle_pmic = Some (Inr (), s')"
    "su_read_bytes pmic_dev 2 0x1370 2 s' = Some (Inr [60, 7], s')"
    "\<forall>sid' a. sid' \<noteq> 2 \<or> (\<forall>k<2. a \<noteq> 0x1370 + word_of_nat k) \<longrightarrow> pm_reg s' sid' a = pm_reg idle_pmic sid' a"
    by (auto simp: numeral_2_eq_2)
  moreover have "\<forall>k<2. (0x1343 :: u16) \<noteq> 0x1370 + word_of_nat k"
    by (auto simp: less_2_cases_iff)
  ultimately show ?thesis by (auto simp: idle_pmic_def)
qed

section \<open>Readings\<close>

lemma wp_session [simp]:
  "wp (with_superuser pmic_dev m) Q s \<longleftrightarrow> wp m (\<lambda>r t. Q r (t\<lparr>pm_sessions := pm_sessions t - 1\<rparr>))
     (s\<lparr>pm_sessions := Suc (pm_sessions s), pm_granted := {}\<rparr>)"
  unfolding with_superuser_def
  by (simp add: wp_def nt_call_def pmic_dev_def and_then_def outcome_def split: option.split sum.split)

lemma wp_or_none [simp]:
  "wp (or_none m) Q s \<longleftrightarrow> wp m (\<lambda>r. Q (Inr (case r of Inl _ \<Rightarrow> None | Inr x \<Rightarrow> x))) s"
  by (simp add: or_none_def)

lemma wp_grant [simp]:
  "wp (su_grant pmic_dev peri) Q s \<longleftrightarrow> Q (Inr ()) (s\<lparr>pm_granted := insert peri (pm_granted s)\<rparr>)"
  by (simp add: wp_def pmic_grant)

lemma wp_read_u8 [simp]:
  "bank reg \<in> pm_granted s \<Longrightarrow> wp (su_read_u8 pmic_dev sid reg) Q s \<longleftrightarrow> Q (Inr (pm_reg s sid reg)) s"
  by (simp add: wp_def pmic_read_u8)

lemma wp_read_pair [simp]:
  "bank reg \<in> pm_granted s \<Longrightarrow>
   wp (su_read_bytes pmic_dev sid reg 2) Q s \<longleftrightarrow> Q (Inr [pm_reg s sid reg, pm_reg s sid (reg + 1)]) s"
  by (simp add: wp_def pmic_read_bytes upt_rec)

lemma wp_read_shadowed [simp]:
  "bank reg \<in> pm_granted s \<Longrightarrow> bank copy \<in> pm_granted s \<Longrightarrow>
   wp (read_shadowed pmic_dev reg copy) Q s \<longleftrightarrow>
     Q (Inr (if pm_reg s 2 reg = pm_reg s 2 copy \<and> pm_reg s 2 (reg + 1) = pm_reg s 2 (copy + 1)
             then Some [pm_reg s 2 reg, pm_reg s 2 (reg + 1)] else None)) s"
  by (auto simp: read_shadowed_def)

text \<open>The conversions never wrap: the extreme raw values are 16 A and 8 V.\<close>

lemma sint_pair_bounds: "- 32768 \<le> sint (p :: u16)" "sint (p :: u16) \<le> 32767"
  using sint_greater_eq [of p] sint_less [of p] by simp_all

lemma fg_ibatt_exact:
  "fg_ibatt_ua [lo, hi] = as_u32 (i32_div (sint (byte_pair lo hi) * 488281) 1000)"
  "\<bar>i32_div (sint (byte_pair lo hi) * 488281) 1000\<bar> \<le> 15999991"
proof -
  let ?r = "sint (byte_pair lo hi)"
  have "\<bar>?r\<bar> \<le> 32768" using sint_pair_bounds [of "byte_pair lo hi"] by linarith
  then have "\<bar>?r * 488281\<bar> \<le> 32768 * 488281" by (simp add: abs_mult)
  then have "\<bar>?r * 488281\<bar> div 1000 \<le> 32768 * 488281 div 1000" by (intro zdiv_mono1) simp_all
  then show b: "\<bar>i32_div (?r * 488281) 1000\<bar> \<le> 15999991"
    by (simp add: i32_div_def abs_mult abs_sgn_eq)
  then have "as_i32 (i32_div (?r * 488281) 1000) = i32_div (?r * 488281) 1000"
    by (simp add: as_i32_def)
  then show "fg_ibatt_ua [lo, hi] = as_u32 (i32_div (?r * 488281) 1000)"
    by (simp add: fg_ibatt_ua_def)
qed

lemma fg_vbatt_exact:
  "fg_vbatt_uv [lo, hi] = unat (byte_pair lo hi) * 122070 div 1000" "fg_vbatt_uv [lo, hi] \<le> 7999857"
proof -
  have "unat (byte_pair lo hi) \<le> 65535" using unsigned_less [of "byte_pair lo hi", where 'a = nat] by simp
  then have "unat (byte_pair lo hi) * 122070 div 1000 \<le> 65535 * 122070 div 1000"
    by (intro div_le_mono mult_le_mono1)
  then show "fg_vbatt_uv [lo, hi] = unat (byte_pair lo hi) * 122070 div 1000" "fg_vbatt_uv [lo, hi] \<le> 7999857"
    by (simp_all add: fg_vbatt_uv_def)
qed

text \<open>
  A charger snapshot is all or nothing, and exact: it is given exactly when both fuel gauge pairs equal
  their shadow copies; it then holds the seven charger registers, the cell current in microamps of the
  signed 16-bit reading in two's complement, and the cell voltage in microvolts, neither of which can
  wrap. Reading it writes no register and leaves no session open.
\<close>

theorem charge_regs_snapshot:
  "\<exists>s'. read_charge_regs pmic_dev s =
     (let r = pm_reg s 2 in Some (Inr (if r 0x41A2 = r 0x41A8 \<and> r 0x41A3 = r 0x41A9 \<and> r 0x41A0 = r 0x41A6 \<and> r 0x41A1 = r 0x41A7
        then Some \<lparr>cr_fcc_raw = r 0x1061, cr_charge_enable = r 0x1042, cr_inhibit = r 0x1051, cr_chgr_status = r 0x1006,
          cr_fv_raw = r 0x1070, cr_icl_raw = r 0x1370, cr_usbin_allow = r 0x1360,
          cr_ibatt_ua = as_u32 (i32_div (sint (byte_pair (r 0x41A2) (r 0x41A3)) * 488281) 1000),
          cr_fg_vbatt_uv = unat (byte_pair (r 0x41A0) (r 0x41A1)) * 122070 div 1000\<rparr>
        else None), s')) \<and>
     pm_reg s' = pm_reg s \<and> pm_sessions s' = pm_sessions s"
proof -
  have "wp (read_charge_regs pmic_dev) (\<lambda>x s'. x = Inr (let r = pm_reg s 2 in
      if r 0x41A2 = r 0x41A8 \<and> r 0x41A3 = r 0x41A9 \<and> r 0x41A0 = r 0x41A6 \<and> r 0x41A1 = r 0x41A7
      then Some \<lparr>cr_fcc_raw = r 0x1061, cr_charge_enable = r 0x1042, cr_inhibit = r 0x1051, cr_chgr_status = r 0x1006,
          cr_fv_raw = r 0x1070, cr_icl_raw = r 0x1370, cr_usbin_allow = r 0x1360,
          cr_ibatt_ua = as_u32 (i32_div (sint (byte_pair (r 0x41A2) (r 0x41A3)) * 488281) 1000),
          cr_fg_vbatt_uv = unat (byte_pair (r 0x41A0) (r 0x41A1)) * 122070 div 1000\<rparr> else None) \<and>
      pm_reg s' = pm_reg s \<and> pm_sessions s' = pm_sessions s) s"
    by (auto simp: read_charge_regs_def read_gauge_def bank_def Let_def fg_ibatt_exact fg_vbatt_exact wp_if)
  then show ?thesis by (auto simp: wp_iff Let_def)
qed

lemma batt_soc_reading:
  "\<exists>s'. read_batt_soc_raw pmic_dev s =
     Some (Inr (if pm_reg s 2 0x4005 = 0x10 \<and> pm_reg s 2 0x4009 = pm_reg s 2 0x400A then Some (pm_reg s 2 0x4009)
                else None), s') \<and> pm_reg s' = pm_reg s \<and> pm_sessions s' = pm_sessions s"
proof -
  have "wp (read_batt_soc_raw pmic_dev) (\<lambda>x s'. x =
      Inr (if pm_reg s 2 0x4005 = 0x10 \<and> pm_reg s 2 0x4009 = pm_reg s 2 0x400A then Some (pm_reg s 2 0x4009) else None) \<and>
      pm_reg s' = pm_reg s \<and> pm_sessions s' = pm_sessions s) s"
    by (auto simp: read_batt_soc_raw_def bank_def wp_if)
  then show ?thesis by (auto simp: wp_iff)
qed

lemma wp_write_u8 [simp]:
  "bank reg \<in> pm_granted s \<Longrightarrow> wp (su_write_u8 pmic_dev sid reg v) Q s \<longleftrightarrow>
     Q (Inr ()) (s\<lparr>pm_reg := (pm_reg s)(sid := (pm_reg s sid)(reg := v))\<rparr>)"
  by (simp add: wp_def su_write_u8_def pmic_write_bytes)

lemma fcc_written:
  "\<exists>s'. write_fcc_raw pmic_dev raw s = Some (Inr (Some raw), s') \<and>
     pm_reg s' = (pm_reg s)(2 := (pm_reg s 2)(0x1061 := raw)) \<and> pm_sessions s' = pm_sessions s"
proof -
  have "wp (write_fcc_raw pmic_dev raw) (\<lambda>x s'. x = Inr (Some raw) \<and>
      pm_reg s' = (pm_reg s)(2 := (pm_reg s 2)(0x1061 := raw)) \<and> pm_sessions s' = pm_sessions s) s"
    by (auto simp: write_fcc_raw_def bank_def)
  then show ?thesis by (auto simp: wp_iff)
qed

end
