(* ===== verification/Hvdcp_Policy.thy ===== *)
theory Hvdcp_Policy
  imports Prelude
begin

text \<open>
  \<open>crates/ln8000/src/hvdcp_policy.rs\<close> and \<open>crates/ln8000/src/qc35_auth.rs\<close>: the decisions of the
  high-voltage adapter negotiation that depend on no bus: retry scheduling, the forced 9 V wait, the
  choice of the elevation path from the detector's bits, and the verdict of the QC 3.5
  authentication.
\<close>

section \<open>Retry, plug edge and the forced 9 V wait\<close>

abbreviation (input) HVDCP_SUPERUSER_RETRY_MAX :: u32 where "HVDCP_SUPERUSER_RETRY_MAX \<equiv> 30"
abbreviation (input) HVDCP_SUPERUSER_RETRY_MS :: u64 where "HVDCP_SUPERUSER_RETRY_MS \<equiv> 2000"
abbreviation (input) VIN_UNPLUG_MAX_UV :: i32 where "VIN_UNPLUG_MAX_UV \<equiv> 1000000"
abbreviation (input) HVDCP_ERR_USBIN_UNAVAILABLE :: i32 where "HVDCP_ERR_USBIN_UNAVAILABLE \<equiv> - 10"
abbreviation (input) HVDCP_PHASE_IDLE :: u32 where "HVDCP_PHASE_IDLE \<equiv> 0"
abbreviation (input) HVDCP_PHASE_DONE :: u32 where "HVDCP_PHASE_DONE \<equiv> 6"
abbreviation (input) HVDCP_PHASE_FAILED :: u32 where "HVDCP_PHASE_FAILED \<equiv> 7"
abbreviation (input) HVDCP_PHASE_FIVE_V_BYPASS :: u32 where "HVDCP_PHASE_FIVE_V_BYPASS \<equiv> 9"
abbreviation (input) FORCE9V_RISE_UV :: i32 where "FORCE9V_RISE_UV \<equiv> 5600000"
abbreviation (input) FORCE9V_SETTLE_MS :: u32 where "FORCE9V_SETTLE_MS \<equiv> 1600"
abbreviation (input) FORCE9V_EXTEND_MS :: u32 where "FORCE9V_EXTEND_MS \<equiv> 2400"
abbreviation (input) FORCE9V_HARD_CAP_MS :: u32 where "FORCE9V_HARD_CAP_MS \<equiv> 5000"
abbreviation (input) APSD_BIT_DCP :: u8 where "APSD_BIT_DCP \<equiv> 0x08"
abbreviation (input) APSD_BIT_QC2 :: u8 where "APSD_BIT_QC2 \<equiv> 0x20"
abbreviation (input) APSD_BIT_QC3 :: u8 where "APSD_BIT_QC3 \<equiv> 0x40"
abbreviation (input) APSD_STAT_BIT_QC_CHARGER :: u8 where "APSD_STAT_BIT_QC_CHARGER \<equiv> 0x02"

definition should_schedule_superuser_retry :: "i32 \<Rightarrow> bool" where
  "should_schedule_superuser_retry negotiate_rc \<longleftrightarrow> negotiate_rc = HVDCP_ERR_USBIN_UNAVAILABLE"

definition superuser_retry_due :: "bool \<Rightarrow> u32 \<Rightarrow> u64 \<Rightarrow> u64 \<Rightarrow> bool" where
  "superuser_retry_due pending attempts now_ms next_ms \<longleftrightarrow>
     pending \<and> attempts < HVDCP_SUPERUSER_RETRY_MAX \<and> now_ms \<ge> next_ms"

definition should_renegotiate_on_input_edge :: "u32 \<Rightarrow> bool \<Rightarrow> bool \<Rightarrow> bool" where
  "should_renegotiate_on_input_edge phase was_input_present now_input_present =
    (if was_input_present \<or> \<not> now_input_present then False
     else phase = HVDCP_PHASE_IDLE \<or> phase = HVDCP_PHASE_FAILED \<or>
          phase = HVDCP_PHASE_DONE \<or> phase = HVDCP_PHASE_FIVE_V_BYPASS)"

definition input_present_from_vin :: "i32 \<Rightarrow> bool" where
  "input_present_from_vin vin_uv \<longleftrightarrow> vin_uv > VIN_UNPLUG_MAX_UV"

datatype force9v_wait = Continue | Extend | Stop

definition force9v_step :: "i32 \<Rightarrow> u32 \<Rightarrow> u32 \<Rightarrow> bool \<Rightarrow> i32 \<Rightarrow> force9v_wait" where
  "force9v_step vin_uv waited_ms deadline_ms extended switching_min_uv =
    (if vin_uv \<ge> switching_min_uv \<or> waited_ms \<ge> deadline_ms then Stop
     else if \<not> extended \<and> vin_uv \<ge> FORCE9V_RISE_UV then Extend
     else Continue)"

definition force9v_extended_deadline :: "u32 \<Rightarrow> u32" where
  "force9v_extended_deadline deadline_ms =
    (if sat_add_u32 deadline_ms FORCE9V_EXTEND_MS > FORCE9V_HARD_CAP_MS then FORCE9V_HARD_CAP_MS
     else sat_add_u32 deadline_ms FORCE9V_EXTEND_MS)"

section \<open>The elevation path\<close>

definition promote_qc_charger :: "u8 \<Rightarrow> u8 \<Rightarrow> u8" where
  "promote_qc_charger result apsd_status =
    (if apsd_status AND APSD_STAT_BIT_QC_CHARGER \<noteq> 0 \<and> result AND APSD_BIT_QC3 = 0
     then result OR APSD_BIT_DCP OR APSD_BIT_QC2
     else result)"

datatype apsd_elevate = Qc3Pulse | Force9v | Reject

definition apsd_elevate_path :: "u8 \<Rightarrow> bool \<Rightarrow> apsd_elevate" where
  "apsd_elevate_path result qc3_continuous =
    (if result AND APSD_BIT_QC3 \<noteq> 0 \<or> qc3_continuous then Qc3Pulse
     else if result AND APSD_BIT_QC2 \<noteq> 0 \<or> result AND APSD_BIT_DCP \<noteq> 0 then Force9v
     else Reject)"

section \<open>QC 3.5 authentication\<close>

abbreviation (input) QC35_AUTH_PULSE_GAP_MS :: u32 where "QC35_AUTH_PULSE_GAP_MS \<equiv> 5"
abbreviation (input) QC35_DETECT_TIMEOUT_MS :: u32 where "QC35_DETECT_TIMEOUT_MS \<equiv> 200"
abbreviation (input) QC35_CAP_TIMEOUT_MS :: u32 where "QC35_CAP_TIMEOUT_MS \<equiv> 250"
abbreviation (input) QC35_VIN_POLL_MS :: u32 where "QC35_VIN_POLL_MS \<equiv> 20"
abbreviation (input) QC35_PREP_MAX_INC :: u32 where "QC35_PREP_MAX_INC \<equiv> 8"
abbreviation (input) QC35_STEP_UV :: u32 where "QC35_STEP_UV \<equiv> 20000"
abbreviation (input) QC35_DETECT_LO_UV :: i32 where "QC35_DETECT_LO_UV \<equiv> 5500000"
abbreviation (input) QC35_DETECT_HI_UV :: i32 where "QC35_DETECT_HI_UV \<equiv> 6400000"
abbreviation (input) QC35_CAP_LO_UV :: i32 where "QC35_CAP_LO_UV \<equiv> 6650000"
abbreviation (input) QC35_CAP_HI_UV :: i32 where "QC35_CAP_HI_UV \<equiv> 9800000"
abbreviation (input) QC35_18W_HI_UV :: i32 where "QC35_18W_HI_UV \<equiv> 7350000"
abbreviation (input) QC35_27W_LO_UV :: i32 where "QC35_27W_LO_UV \<equiv> 7600000"
abbreviation (input) QC35_27W_HI_UV :: i32 where "QC35_27W_HI_UV \<equiv> 8400000"
abbreviation (input) QC35_40W_LO_UV :: i32 where "QC35_40W_LO_UV \<equiv> 8550000"
abbreviation (input) ICL_RAW_QC35_2A :: u8 where "ICL_RAW_QC35_2A \<equiv> 0x28"
abbreviation (input) ICL_RAW_QC35_40W :: u8 where "ICL_RAW_QC35_40W \<equiv> 0x3C"

datatype qc35_auth_pulse = Inc | Dec

definition QC35_SRC_CAP_PULSES :: "qc35_auth_pulse list" where
  "QC35_SRC_CAP_PULSES = [Inc, Dec, Inc, Dec, Inc, Dec]"

definition QC35_CONFIRM_PULSES :: "qc35_auth_pulse list" where
  "QC35_CONFIRM_PULSES = [Inc, Inc, Dec, Dec]"

datatype qc35_auth_gate = Attempt | SkipVinTooHigh | SkipVinInvalid

datatype qc35_auth_result = Authenticated u32 | FallbackQc3

definition decide_qc35_auth_attempt :: "i32 \<Rightarrow> qc35_auth_gate" where
  "decide_qc35_auth_attempt vin_uv =
    (if vin_uv \<le> 0 then SkipVinInvalid
     else if vin_uv \<ge> QC35_DETECT_HI_UV then SkipVinTooHigh
     else Attempt)"

definition qc35_detect_window :: "i32 \<Rightarrow> bool" where
  "qc35_detect_window vin_uv \<longleftrightarrow> vin_uv > QC35_DETECT_LO_UV \<and> vin_uv < QC35_DETECT_HI_UV"

definition qc35_cap_window :: "i32 \<Rightarrow> bool" where
  "qc35_cap_window vin_uv \<longleftrightarrow> vin_uv \<ge> QC35_CAP_LO_UV \<and> vin_uv \<le> QC35_CAP_HI_UV"

definition qc35_power_limit_w :: "i32 \<Rightarrow> u32 option" where
  "qc35_power_limit_w vin_uv =
    (if vin_uv \<ge> QC35_CAP_LO_UV \<and> vin_uv \<le> QC35_18W_HI_UV then Some 18
     else if vin_uv \<ge> QC35_27W_LO_UV \<and> vin_uv \<le> QC35_27W_HI_UV then Some 27
     else if vin_uv \<ge> QC35_40W_LO_UV \<and> vin_uv \<le> QC35_CAP_HI_UV then Some 40
     else None)"

definition qc35_icl_raw :: "u32 \<Rightarrow> u8" where
  "qc35_icl_raw power_w = (if power_w \<ge> 40 then ICL_RAW_QC35_40W else ICL_RAW_QC35_2A)"

definition qc35_authenticate_outcome :: "i32 \<Rightarrow> i32 option \<Rightarrow> i32 option \<Rightarrow> qc35_auth_result" where
  "qc35_authenticate_outcome vin_before_auth detect_vin src_cap_vin =
    (case decide_qc35_auth_attempt vin_before_auth of
       SkipVinInvalid \<Rightarrow> FallbackQc3
     | SkipVinTooHigh \<Rightarrow> FallbackQc3
     | Attempt \<Rightarrow>
        (case detect_vin of
           None \<Rightarrow> FallbackQc3
         | Some det \<Rightarrow>
            if \<not> qc35_detect_window det then FallbackQc3
            else (case src_cap_vin of
                    None \<Rightarrow> FallbackQc3
                  | Some cap \<Rightarrow>
                     if \<not> qc35_cap_window cap then FallbackQc3
                     else (case qc35_power_limit_w cap of
                             Some power_w \<Rightarrow> Authenticated power_w
                           | None \<Rightarrow> FallbackQc3))))"

section \<open>Lemmas\<close>

lemma qc_promote_elevates:
  "apsd_status AND APSD_STAT_BIT_QC_CHARGER \<noteq> 0 \<Longrightarrow>
   apsd_elevate_path (promote_qc_charger result apsd_status) c \<noteq> Reject"
proof -
  assume s: "apsd_status AND APSD_STAT_BIT_QC_CHARGER \<noteq> 0"
  have "(r OR 8 OR 32) AND 32 = (32 :: u8)" for r
    by (simp add: word_ao_dist word_ao_absorbs)
  with s show ?thesis
    by (simp add: apsd_elevate_path_def promote_qc_charger_def)
qed

text \<open>
  The QC 3.5 authentication accepts an adapter with a given power exactly when the input
  voltage before it is positive and below 6.4 V, the answer to the detect request lies strictly
  between 5.5 V and 6.4 V, and the capability answer lies in the band of that power: 6.65-7.35 V for
  18 W, 7.6-8.4 V for 27 W, 8.55-9.8 V for 40 W. Everything else, missing measurements included,
  falls back to QC 3.0.
\<close>

lemma qc35_authenticated_iff:
  "qc35_authenticate_outcome vin detect cap = Authenticated w \<longleftrightarrow>
     0 < vin \<and> vin < 6400000 \<and>
     (\<exists>d c. detect = Some d \<and> cap = Some c \<and> 5500000 < d \<and> d < 6400000 \<and>
        (w, c) \<in> {18} \<times> {6650000..7350000} \<union> {27} \<times> {7600000..8400000} \<union> {40} \<times> {8550000..9800000})"
  by (cases detect; cases cap)
     (auto simp: qc35_authenticate_outcome_def decide_qc35_auth_attempt_def qc35_detect_window_def
       qc35_cap_window_def qc35_power_limit_w_def)

end
