(* ===== verification/Hvdcp_Link.thy ===== *)
theory Hvdcp_Link
  imports Spmi_Superuser Hvdcp_Policy Encoding
begin

text \<open>
  \<open>crates/ln8000-kmdf/src/hvdcp.rs\<close>, first part: the voltage targets of the negotiation, its state, and the
  operations on the charger registers of the PMIC it is made of. The registers are reached through a
  SUPERUSER session or through the Resource Hub; the hub, the clock and the pump's ADC are parameters.
\<close>

section \<open>Registers and limits\<close>

abbreviation (input) REG_APSD_STATUS :: u16 where "REG_APSD_STATUS \<equiv> 0x1307"
abbreviation (input) REG_APSD_RESULT :: u16 where "REG_APSD_RESULT \<equiv> 0x1308"
abbreviation (input) REG_QC_CHANGE_STATUS :: u16 where "REG_QC_CHANGE_STATUS \<equiv> 0x1309"
abbreviation (input) REG_QC_PULSE_COUNT :: u16 where "REG_QC_PULSE_COUNT \<equiv> 0x130A"
abbreviation (input) REG_INT_LATCHED_CLR :: u16 where "REG_INT_LATCHED_CLR \<equiv> 0x1314"
abbreviation (input) REG_USBIN_CMD_IL :: u16 where "REG_USBIN_CMD_IL \<equiv> 0x1340"
abbreviation (input) REG_CMD_APSD :: u16 where "REG_CMD_APSD \<equiv> 0x1341"
abbreviation (input) REG_CMD_ICL_OVERRIDE :: u16 where "REG_CMD_ICL_OVERRIDE \<equiv> 0x1342"
abbreviation (input) REG_CMD_HVDCP_2 :: u16 where "REG_CMD_HVDCP_2 \<equiv> 0x1343"
abbreviation (input) REG_TYPE_C_CFG :: u16 where "REG_TYPE_C_CFG \<equiv> 0x1358"
abbreviation (input) REG_HVDCP_PULSE_COUNT_MAX :: u16 where "REG_HVDCP_PULSE_COUNT_MAX \<equiv> 0x135B"
abbreviation (input) REG_USBIN_ADAPTER_ALLOW :: u16 where "REG_USBIN_ADAPTER_ALLOW \<equiv> 0x1360"
abbreviation (input) REG_USBIN_OPTIONS_1 :: u16 where "REG_USBIN_OPTIONS_1 \<equiv> 0x1362"
abbreviation (input) REG_USBIN_ICL_CFG :: u16 where "REG_USBIN_ICL_CFG \<equiv> 0x1370"

abbreviation (input) BIT_HVDCP_EN :: u8 where "BIT_HVDCP_EN \<equiv> 0x04"
abbreviation (input) BIT_BC1P2_SRC_DETECT :: u8 where "BIT_BC1P2_SRC_DETECT \<equiv> 0x08"
abbreviation (input) BIT_HVDCP_AUTONOMOUS :: u8 where "BIT_HVDCP_AUTONOMOUS \<equiv> 0x20"
abbreviation (input) BIT_HVDCP_AUTH_ALG_EN :: u8 where "BIT_HVDCP_AUTH_ALG_EN \<equiv> 0x40"
abbreviation (input) BIT_BC1P2_START_ON_CC :: u8 where "BIT_BC1P2_START_ON_CC \<equiv> 0x80"
abbreviation (input) BIT_USBIN_SUSPEND :: u8 where "BIT_USBIN_SUSPEND \<equiv> 0x01"
abbreviation (input) BIT_ICL_OVERRIDE :: u8 where "BIT_ICL_OVERRIDE \<equiv> 0x01"
abbreviation (input) BIT_APSD_RERUN :: u8 where "BIT_APSD_RERUN \<equiv> 0x01"
abbreviation (input) BIT_APSD_DONE :: u8 where "BIT_APSD_DONE \<equiv> 0x01"
abbreviation (input) BIT_QC_CHARGER :: u8 where "BIT_QC_CHARGER \<equiv> 0x02"
abbreviation (input) BIT_DCP :: u8 where "BIT_DCP \<equiv> 0x08"
abbreviation (input) BIT_QC2 :: u8 where "BIT_QC2 \<equiv> 0x20"
abbreviation (input) BIT_QC3 :: u8 where "BIT_QC3 \<equiv> 0x40"
abbreviation (input) BIT_SINGLE_INC :: u8 where "BIT_SINGLE_INC \<equiv> 0x01"
abbreviation (input) BIT_SINGLE_DEC :: u8 where "BIT_SINGLE_DEC \<equiv> 0x02"
abbreviation (input) BIT_FORCE_5V :: u8 where "BIT_FORCE_5V \<equiv> 0x08"
abbreviation (input) BIT_FORCE_9V :: u8 where "BIT_FORCE_9V \<equiv> 0x10"
abbreviation (input) MASK_HVDCP_PULSE_COUNT_MAX_QC2 :: u8 where "MASK_HVDCP_PULSE_COUNT_MAX_QC2 \<equiv> 0xC0"
abbreviation (input) HVDCP_PULSE_COUNT_MAX_QC2_9V :: u8 where "HVDCP_PULSE_COUNT_MAX_QC2_9V \<equiv> 0x40"
abbreviation (input) MASK_USBIN_ADAPTER_ALLOW :: u8 where "MASK_USBIN_ADAPTER_ALLOW \<equiv> 0x0F"
abbreviation (input) USBIN_ADAPTER_ALLOW_5V_TO_12V :: u8 where "USBIN_ADAPTER_ALLOW_5V_TO_12V \<equiv> 0x0C"
abbreviation (input) BIT_QC_9V :: u8 where "BIT_QC_9V \<equiv> 0x02"
abbreviation (input) BIT_QC_CONTINUOUS :: u8 where "BIT_QC_CONTINUOUS \<equiv> 0x08"
abbreviation (input) BIT_QC_5V_TO_9V_REASON :: u8 where "BIT_QC_5V_TO_9V_REASON \<equiv> 0x10"

abbreviation (input) ICL_RAW_500MA :: u8 where "ICL_RAW_500MA \<equiv> 10"
abbreviation (input) ICL_RAW_PUMP_3A :: u8 where "ICL_RAW_PUMP_3A \<equiv> 60"
abbreviation (input) ICL_RAW_5V_2P7A :: u8 where "ICL_RAW_5V_2P7A \<equiv> 54"
abbreviation (input) ICL_RAW_DCP_2A :: u8 where "ICL_RAW_DCP_2A \<equiv> 40"
abbreviation (input) ICL_RAW_HVDCP2_1P5A :: u8 where "ICL_RAW_HVDCP2_1P5A \<equiv> 30"

abbreviation (input) QC_STATUS_SETTLE_MS :: u32 where "QC_STATUS_SETTLE_MS \<equiv> 200"
abbreviation (input) FORCE9V_POLL_MS :: u32 where "FORCE9V_POLL_MS \<equiv> 50"
abbreviation (input) FORCE9V_CONFIRM_N :: u32 where "FORCE9V_CONFIRM_N \<equiv> 2"
abbreviation (input) QC3_STEP_UV :: u32 where "QC3_STEP_UV \<equiv> 200000"
abbreviation (input) MICRO_5V_UV :: u32 where "MICRO_5V_UV \<equiv> 5000000"
abbreviation (input) MAX_PULSE_CNT :: u32 where "MAX_PULSE_CNT \<equiv> 23"
abbreviation (input) PUMP_VIN_TRIM_UV :: i32 where "PUMP_VIN_TRIM_UV \<equiv> 10500000"
abbreviation (input) PUMP_VIN_TARGET_MIN_UV :: i32 where "PUMP_VIN_TARGET_MIN_UV \<equiv> 9500000"
abbreviation (input) PUMP_VIN_TARGET_ABS_MIN_UV :: u32 where "PUMP_VIN_TARGET_ABS_MIN_UV \<equiv> 6000000"
abbreviation (input) PUMP_VIN_TARGET_CEIL_UV :: u32 where "PUMP_VIN_TARGET_CEIL_UV \<equiv> 9600000"
abbreviation (input) MAX_TRIM_DEC :: u32 where "MAX_TRIM_DEC \<equiv> 20"
abbreviation (input) MAX_BOOST_INC :: u32 where "MAX_BOOST_INC \<equiv> 23"
abbreviation (input) PULSE_GAP_MS :: u32 where "PULSE_GAP_MS \<equiv> 40"
abbreviation (input) APSD_WAIT_MS :: u32 where "APSD_WAIT_MS \<equiv> 2000"
abbreviation (input) APSD_POLL_MS :: u32 where "APSD_POLL_MS \<equiv> 200"
abbreviation (input) ENABLE_SETTLE_MS :: u32 where "ENABLE_SETTLE_MS \<equiv> 50"
abbreviation (input) FIVE_V_STAY_MAX_UV :: i32 where "FIVE_V_STAY_MAX_UV \<equiv> 6000000"

section \<open>Voltage targets\<close>

definition target_vbus_uv :: "u32 \<Rightarrow> u32" where
  "target_vbus_uv vbat_uv =
    (if vbat_uv = 0 then nat PUMP_VIN_TARGET_MIN_UV
     else let target = window_target_uv vbat_uv;
              target = (if target < PUMP_VIN_TARGET_ABS_MIN_UV then PUMP_VIN_TARGET_ABS_MIN_UV else target)
          in if target > PUMP_VIN_TARGET_CEIL_UV then PUMP_VIN_TARGET_CEIL_UV else target)"

definition trim_target_uv :: "u32 \<Rightarrow> i32" where
  "trim_target_uv vbat_uv =
    (if vbat_uv = 0 then PUMP_VIN_TARGET_MIN_UV
     else let top = window_top_uv vbat_uv
          in if top > nat PUMP_VIN_TRIM_UV then PUMP_VIN_TRIM_UV else int top)"

text \<open>\<open>hvdcp::window_floor_uv\<close>, on top of the function of the same name in \<open>encoding.rs\<close>; \<open>floor as i32\<close>.\<close>

definition hv_window_floor_uv :: "u32 \<Rightarrow> i32" where
  "hv_window_floor_uv vbat_uv =
    (if vbat_uv = 0 then PUMP_VIN_TARGET_MIN_UV
     else let floor = window_floor_uv vbat_uv
          in if floor < PUMP_VIN_TARGET_ABS_MIN_UV then int PUMP_VIN_TARGET_ABS_MIN_UV else as_i32 (int floor))"

definition estimated_vbus_uv :: "u32 \<Rightarrow> u32" where
  "estimated_vbus_uv pulse_cnt = sat_add_u32 MICRO_5V_UV (sat_mul_u32 QC3_STEP_UV pulse_cnt)"

definition div_ceil :: "u32 \<Rightarrow> u32 \<Rightarrow> u32" where
  "div_ceil a b = (if a mod b = 0 then a div b else a div b + 1)"

definition pulses_toward_target :: "u32 \<Rightarrow> u32" where
  "pulses_toward_target vbat_uv =
    (let target = target_vbus_uv vbat_uv
     in if target \<le> MICRO_5V_UV then 0
        else min (div_ceil (target - MICRO_5V_UV) QC3_STEP_UV) MAX_PULSE_CNT)"

definition with_qc2_max_9v :: "u8 \<Rightarrow> u8" where
  "with_qc2_max_9v pulse_max_reg =
     (pulse_max_reg AND NOT MASK_HVDCP_PULSE_COUNT_MAX_QC2) OR HVDCP_PULSE_COUNT_MAX_QC2_9V"

definition with_adapter_allow_5v_to_12v :: "u8 \<Rightarrow> u8" where
  "with_adapter_allow_5v_to_12v allow_reg =
     (allow_reg AND NOT MASK_USBIN_ADAPTER_ALLOW) OR USBIN_ADAPTER_ALLOW_5V_TO_12V"

definition qc_status_indicates_9v :: "u8 \<Rightarrow> bool" where
  "qc_status_indicates_9v qc_change \<longleftrightarrow>
     qc_change AND BIT_QC_9V \<noteq> 0 \<or> qc_change AND BIT_QC_5V_TO_9V_REASON \<noteq> 0"

definition vin_stayed_near_5v :: "i32 \<Rightarrow> bool" where
  "vin_stayed_near_5v vin_uv \<longleftrightarrow> vin_uv > 0 \<and> vin_uv < FIVE_V_STAY_MAX_UV"

section \<open>State\<close>

datatype hvdcp_transport = TransportNone | TransportSuperuser | TransportUsbinRh

datatype hvdcp_phase = PhIdle | PhEnable | PhApsdRerun | PhApsdWait | PhQc2Force9v | PhQc3Pulse | PhDone
  | PhFailed | PhQc35Auth | PhFiveVBypass

datatype hvdcp_error = UsbinUnavailable | BusOpenFailed | SpmiIo | ApsdTimeout | NotQcAdapter

fun transport_code :: "hvdcp_transport \<Rightarrow> u32" where
  "transport_code TransportNone = 0"
| "transport_code TransportSuperuser = 1"
| "transport_code TransportUsbinRh = 2"

fun phase_code :: "hvdcp_phase \<Rightarrow> u32" where
  "phase_code PhIdle = 0"
| "phase_code PhEnable = 1"
| "phase_code PhApsdRerun = 2"
| "phase_code PhApsdWait = 3"
| "phase_code PhQc2Force9v = 4"
| "phase_code PhQc3Pulse = 5"
| "phase_code PhDone = 6"
| "phase_code PhFailed = 7"
| "phase_code PhQc35Auth = 8"
| "phase_code PhFiveVBypass = 9"

fun hvdcp_error_code :: "hvdcp_error \<Rightarrow> i32" where
  "hvdcp_error_code UsbinUnavailable = - 10"
| "hvdcp_error_code BusOpenFailed = - 11"
| "hvdcp_error_code SpmiIo = - 12"
| "hvdcp_error_code ApsdTimeout = - 13"
| "hvdcp_error_code NotQcAdapter = - 14"

text \<open>
  \<open>HvdcpState\<close>, with the world it acts on: the registry marks it has written and the devices behind it.
\<close>

record 'w hvdcp =
  hv_pulse_cnt :: u32
  hv_apsd_status :: u8
  hv_apsd_result :: u8
  hv_options1 :: u8
  hv_phase :: hvdcp_phase
  hv_big_endian :: bool
  hv_endian_known :: bool
  hv_transport :: hvdcp_transport
  hv_force9v_latched :: bool
  hv_marks :: "(string \<times> u32) list"
  hv_world :: 'w

definition hvdcp_new :: "'w \<Rightarrow> 'w hvdcp" where
  "hvdcp_new w = \<lparr>hv_pulse_cnt = 0, hv_apsd_status = 0, hv_apsd_result = 0, hv_options1 = 0, hv_phase = PhIdle,
     hv_big_endian = True, hv_endian_known = False, hv_transport = TransportNone, hv_force9v_latched = False,
     hv_marks = [], hv_world = w\<rparr>"

type_synonym ('w, 'a) hv_op = "('w hvdcp, hvdcp_error, 'a) op"

text \<open>
  The platform: the SUPERUSER device, the Resource Hub connection of the PMIC (\<open>SpbBus\<close>, whose failures the
  negotiation does not tell apart), the delay, and the input voltage the pump's ADC measures.
\<close>

record 'w platform =
  pf_superuser :: "'w superuser_dev"
  pf_usbin_open :: "u64 \<Rightarrow> 'w \<Rightarrow> (unit + unit) \<times> 'w"
  pf_usbin_transact :: "u16 \<Rightarrow> u8 option \<Rightarrow> bool \<Rightarrow> 'w \<Rightarrow> (unit + u8) \<times> 'w"
  pf_sleep_ms :: "u32 \<Rightarrow> 'w \<Rightarrow> 'w"
  pf_read_vin :: "'w \<Rightarrow> i32 \<times> 'w"

definition on_world :: "('w, 'e, 'a) op \<Rightarrow> ('w hvdcp, 'e, 'a) op" where
  "on_world m = (\<lambda>h. case m (hv_world h) of None \<Rightarrow> None | Some (r, w) \<Rightarrow> Some (r, h\<lparr>hv_world := w\<rparr>))"

definition sleep_ms :: "'w platform \<Rightarrow> u32 \<Rightarrow> ('w hvdcp, 'e, unit) op" where
  "sleep_ms P ms = modify (\<lambda>h. h\<lparr>hv_world := pf_sleep_ms P ms (hv_world h)\<rparr>)"

definition read_vin :: "'w platform \<Rightarrow> ('w hvdcp, 'e, i32) op" where
  "read_vin P = on_world (\<lambda>w. case pf_read_vin P w of (v, w') \<Rightarrow> Some (Inr v, w'))"

text \<open>Registry marks, in the order they are written.\<close>

definition marks :: "(string \<times> u32) list \<Rightarrow> ('w hvdcp, 'e, unit) op" where
  "marks ms = modify (\<lambda>h. h\<lparr>hv_marks := hv_marks h @ ms\<rparr>)"

definition mark :: "string \<Rightarrow> u32 \<Rightarrow> ('w hvdcp, 'e, unit) op" where
  "mark name v = marks [(name, v)]"

definition set_phase :: "hvdcp_phase \<Rightarrow> ('w hvdcp, 'e, unit) op" where
  "set_phase ph = modify (\<lambda>h. h\<lparr>hv_phase := ph\<rparr>)"

definition error_mark :: "hvdcp_error option \<Rightarrow> u32" where
  "error_mark err = (case err of Some e \<Rightarrow> as_u32 (hvdcp_error_code e) | None \<Rightarrow> 0)"

definition publish_marks :: "hvdcp_error option \<Rightarrow> ('w hvdcp, 'e, unit) op" where
  "publish_marks err = and_then get_state (\<lambda>h. marks
     [(''HvdcpPhase'', phase_code (hv_phase h)), (''HvdcpVia'', transport_code (hv_transport h)),
      (''HvdcpEnSt'', unat (hv_options1 h)), (''ApsdSt'', unat (hv_apsd_status h)),
      (''ApsdResult'', unat (hv_apsd_result h)), (''PulseCnt'', hv_pulse_cnt h),
      (''HvdcpBe'', of_bool (hv_big_endian h)), (''SuPulseCnt'', hv_pulse_cnt h),
      (''SuApsdResult'', unat (hv_apsd_result h)), (''SuVbusEst'', estimated_vbus_uv (hv_pulse_cnt h)),
      (''QcLatch'', of_bool (hv_force9v_latched h)), (''HvdcpErr'', error_mark err)])"

section \<open>Register access\<close>

datatype hv_bus = BusSuperuser | BusUsbin

text \<open>Every failure of the bus is the same error.\<close>

definition spmi_io :: "('w, 'e, 'a) op \<Rightarrow> ('w, 'a) hv_op" where
  "spmi_io m = or_else (on_world m) (\<lambda>_. raise SpmiIo)"

definition open_usbin :: "'w platform \<Rightarrow> u64 \<Rightarrow> ('w, unit) hv_op" where
  "open_usbin P usbin_id = or_else (on_world (nt_call (pf_usbin_open P usbin_id))) (\<lambda>_. raise BusOpenFailed)"

definition spmi_rw_usbin :: "'w platform \<Rightarrow> u16 \<Rightarrow> u8 option \<Rightarrow> bool \<Rightarrow> ('w, u8) hv_op" where
  "spmi_rw_usbin P addr v big_endian = spmi_io (nt_call (pf_usbin_transact P addr v big_endian))"

definition hv_read_reg :: "'w platform \<Rightarrow> hv_bus \<Rightarrow> u16 \<Rightarrow> ('w, u8) hv_op" where
  "hv_read_reg P bus addr = (case bus of
     BusSuperuser \<Rightarrow> spmi_io (su_read_u8 (pf_superuser P) SPMI_SID_USBIN addr)
   | BusUsbin \<Rightarrow> and_then get_state (\<lambda>h. spmi_rw_usbin P addr None (hv_big_endian h)))"

definition hv_write_reg :: "'w platform \<Rightarrow> hv_bus \<Rightarrow> u16 \<Rightarrow> u8 \<Rightarrow> ('w, unit) hv_op" where
  "hv_write_reg P bus addr v = (case bus of
     BusSuperuser \<Rightarrow> spmi_io (su_write_u8 (pf_superuser P) SPMI_SID_USBIN addr v)
   | BusUsbin \<Rightarrow> and_then get_state (\<lambda>h.
       and_then (spmi_rw_usbin P addr (Some v) (hv_big_endian h)) (\<lambda>_. ret ())))"

definition resolve_endian_usbin :: "'w platform \<Rightarrow> ('w, unit) hv_op" where
  "resolve_endian_usbin P = and_then get_state (\<lambda>h.
     if hv_endian_known h then ret ()
     else and_then (outcome (spmi_rw_usbin P REG_APSD_STATUS None True)) (\<lambda>r. case r of
       Inr _ \<Rightarrow> modify (\<lambda>h. h\<lparr>hv_big_endian := True, hv_endian_known := True\<rparr>)
     | Inl _ \<Rightarrow> and_then (outcome (spmi_rw_usbin P REG_APSD_STATUS None False)) (\<lambda>r. case r of
         Inr _ \<Rightarrow> modify (\<lambda>h. h\<lparr>hv_big_endian := False, hv_endian_known := True\<rparr>)
       | Inl _ \<Rightarrow> raise SpmiIo)))"

definition clear_usbin_latched :: "'w platform \<Rightarrow> hv_bus \<Rightarrow> ('w, unit) hv_op" where
  "clear_usbin_latched P bus = ignore (hv_write_reg P bus REG_INT_LATCHED_CLR 0xFF)"

definition clear_apsd_cc_gate :: "'w platform \<Rightarrow> hv_bus \<Rightarrow> ('w, u8) hv_op" where
  "clear_apsd_cc_gate P bus = and_then (hv_read_reg P bus REG_TYPE_C_CFG) (\<lambda>cfg.
     if cfg AND BIT_BC1P2_START_ON_CC \<noteq> 0 then
       (let cfg = cfg AND NOT BIT_BC1P2_START_ON_CC in
        and_then (hv_write_reg P bus REG_TYPE_C_CFG cfg) (\<lambda>_. ret cfg))
     else ret cfg)"

definition clear_usbin_suspend :: "'w platform \<Rightarrow> hv_bus \<Rightarrow> ('w, unit) hv_op" where
  "clear_usbin_suspend P bus = and_then (outcome (hv_read_reg P bus REG_USBIN_CMD_IL)) (\<lambda>r. case r of
     Inr cmd_il \<Rightarrow> when_op (cmd_il AND BIT_USBIN_SUSPEND \<noteq> 0)
       (ignore (hv_write_reg P bus REG_USBIN_CMD_IL (cmd_il AND NOT BIT_USBIN_SUSPEND)))
   | Inl _ \<Rightarrow> ret ())"

definition ensure_icl_floor_500ma :: "'w platform \<Rightarrow> hv_bus \<Rightarrow> ('w, u8) hv_op" where
  "ensure_icl_floor_500ma P bus = and_then (hv_read_reg P bus REG_USBIN_ICL_CFG) (\<lambda>current.
     if current \<ge> ICL_RAW_500MA then ret current
     else and_then (hv_write_reg P bus REG_USBIN_ICL_CFG ICL_RAW_500MA) (\<lambda>_.
          and_then (ignore (hv_write_reg P bus REG_CMD_ICL_OVERRIDE BIT_ICL_OVERRIDE)) (\<lambda>_.
            ret ICL_RAW_500MA)))"

definition ensure_icl_at_least :: "'w platform \<Rightarrow> hv_bus \<Rightarrow> u8 \<Rightarrow> ('w, u8) hv_op" where
  "ensure_icl_at_least P bus target = and_then (hv_read_reg P bus REG_USBIN_ICL_CFG) (\<lambda>current.
     and_then (if current \<ge> target then ret current
               else and_then (hv_write_reg P bus REG_USBIN_ICL_CFG target) (\<lambda>_. ret target)) (\<lambda>applied.
     and_then (ignore (hv_write_reg P bus REG_CMD_ICL_OVERRIDE BIT_ICL_OVERRIDE)) (\<lambda>_.
     and_then (clear_usbin_suspend P bus) (\<lambda>_. ret applied))))"

definition ensure_icl_for_pump :: "'w platform \<Rightarrow> hv_bus \<Rightarrow> ('w, u8) hv_op" where
  "ensure_icl_for_pump P bus = ensure_icl_at_least P bus ICL_RAW_PUMP_3A"

definition enable_hvdcp :: "'w platform \<Rightarrow> hv_bus \<Rightarrow> ('w, unit) hv_op" where
  "enable_hvdcp P bus = and_then (hv_read_reg P bus REG_USBIN_OPTIONS_1) (\<lambda>options.
     let options = (options OR (BIT_HVDCP_EN OR BIT_HVDCP_AUTH_ALG_EN OR BIT_BC1P2_SRC_DETECT))
                     AND NOT BIT_HVDCP_AUTONOMOUS in
     and_then (hv_write_reg P bus REG_USBIN_OPTIONS_1 options) (\<lambda>_.
       modify (\<lambda>h. h\<lparr>hv_options1 := options\<rparr>)))"

definition ensure_hvdcp_voltage_gates :: "'w platform \<Rightarrow> hv_bus \<Rightarrow> ('w, u8 \<times> u8) hv_op" where
  "ensure_hvdcp_voltage_gates P bus = and_then (hv_read_reg P bus REG_USBIN_ADAPTER_ALLOW) (\<lambda>allow.
     let allow_new = with_adapter_allow_5v_to_12v allow in
     and_then (when_op (allow_new \<noteq> allow) (hv_write_reg P bus REG_USBIN_ADAPTER_ALLOW allow_new)) (\<lambda>_.
     and_then (hv_read_reg P bus REG_HVDCP_PULSE_COUNT_MAX) (\<lambda>pulse_max.
     let pulse_max_new = with_qc2_max_9v pulse_max in
     and_then (when_op (pulse_max_new \<noteq> pulse_max) (hv_write_reg P bus REG_HVDCP_PULSE_COUNT_MAX pulse_max_new)) (\<lambda>_.
       ret (allow_new, pulse_max_new)))))"

definition sample_qc_status :: "'w platform \<Rightarrow> hv_bus \<Rightarrow> ('w, u8 \<times> u8) hv_op" where
  "sample_qc_status P bus = and_then (sleep_ms P QC_STATUS_SETTLE_MS) (\<lambda>_.
     and_then (hv_read_reg P bus REG_QC_CHANGE_STATUS) (\<lambda>qc_change.
     and_then (hv_read_reg P bus REG_QC_PULSE_COUNT) (\<lambda>qc_pulses. ret (qc_change, qc_pulses))))"

definition apsd_rerun :: "'w platform \<Rightarrow> hv_bus \<Rightarrow> ('w, unit) hv_op" where
  "apsd_rerun P bus = hv_write_reg P bus REG_CMD_APSD BIT_APSD_RERUN"

text \<open>The polling loop of \<open>wait_apsd_done\<close>; \<open>waited\<close> is its local counter.\<close>

function apsd_poll :: "'w platform \<Rightarrow> hv_bus \<Rightarrow> u32 \<Rightarrow> ('w, unit) hv_op" where
  "apsd_poll P bus waited = and_then (hv_read_reg P bus REG_APSD_STATUS) (\<lambda>status.
     and_then (modify (\<lambda>h. h\<lparr>hv_apsd_status := status\<rparr>)) (\<lambda>_.
     if status AND BIT_APSD_DONE \<noteq> 0 then
       and_then (hv_read_reg P bus REG_APSD_RESULT) (\<lambda>res. modify (\<lambda>h. h\<lparr>hv_apsd_result := res\<rparr>))
     else if waited \<ge> APSD_WAIT_MS then raise ApsdTimeout
     else and_then (sleep_ms P APSD_POLL_MS) (\<lambda>_. apsd_poll P bus (sat_add_u32 waited APSD_POLL_MS))))"
  by pat_completeness auto
termination
  by (relation "measure (\<lambda>(_, _, waited). 2000 - waited)") (auto simp: sat_add_u32_def u32_max_def)

declare apsd_poll.simps [simp del]

definition wait_apsd_done :: "'w platform \<Rightarrow> hv_bus \<Rightarrow> ('w, unit) hv_op" where
  "wait_apsd_done P bus = apsd_poll P bus 0"

section \<open>Voltage commands\<close>

definition pulse_cmd_bit :: "'w platform \<Rightarrow> hv_bus \<Rightarrow> u8 \<Rightarrow> ('w, bool) hv_op" where
  "pulse_cmd_bit P bus b = and_then get_state (\<lambda>h.
     if hv_force9v_latched h then ret False
     else and_then (value_or (hv_read_reg P bus REG_CMD_HVDCP_2) 0) (\<lambda>cur.
          and_then (hv_write_reg P bus REG_CMD_HVDCP_2
            ((cur AND NOT (BIT_SINGLE_INC OR BIT_SINGLE_DEC)) OR b)) (\<lambda>_. ret True)))"

definition pulse_inc_gap :: "'w platform \<Rightarrow> hv_bus \<Rightarrow> u32 \<Rightarrow> ('w, unit) hv_op" where
  "pulse_inc_gap P bus gap_ms = and_then (pulse_cmd_bit P bus BIT_SINGLE_INC) (\<lambda>sent.
     and_then (when_op sent (modify (\<lambda>h. h\<lparr>hv_pulse_cnt := min (sat_add_u32 (hv_pulse_cnt h) 1) MAX_PULSE_CNT\<rparr>))) (\<lambda>_.
       sleep_ms P gap_ms))"

definition pulse_inc :: "'w platform \<Rightarrow> hv_bus \<Rightarrow> ('w, unit) hv_op" where
  "pulse_inc P bus = pulse_inc_gap P bus PULSE_GAP_MS"

definition pulse_dec_gap :: "'w platform \<Rightarrow> hv_bus \<Rightarrow> u32 \<Rightarrow> ('w, unit) hv_op" where
  "pulse_dec_gap P bus gap_ms = and_then (pulse_cmd_bit P bus BIT_SINGLE_DEC) (\<lambda>sent.
     and_then (when_op sent (modify (\<lambda>h. h\<lparr>hv_pulse_cnt := hv_pulse_cnt h - 1\<rparr>))) (\<lambda>_.
       sleep_ms P gap_ms))"

definition pulse_dec :: "'w platform \<Rightarrow> hv_bus \<Rightarrow> ('w, unit) hv_op" where
  "pulse_dec P bus = pulse_dec_gap P bus PULSE_GAP_MS"

definition force_9v :: "'w platform \<Rightarrow> hv_bus \<Rightarrow> ('w, unit) hv_op" where
  "force_9v P bus = and_then (value_or (hv_read_reg P bus REG_CMD_HVDCP_2) 0) (\<lambda>existing.
     and_then (hv_write_reg P bus REG_CMD_HVDCP_2 (existing OR BIT_FORCE_9V)) (\<lambda>_.
     and_then (modify (\<lambda>h. h\<lparr>hv_force9v_latched := True, hv_pulse_cnt := 20\<rparr>)) (\<lambda>_.
       sleep_ms P 100)))"

definition safe_force_5v :: "'w platform \<Rightarrow> hv_bus \<Rightarrow> ('w hvdcp, 'e, unit) op" where
  "safe_force_5v P bus = and_then (ignore (hv_write_reg P bus REG_CMD_HVDCP_2 BIT_FORCE_5V)) (\<lambda>_.
     modify (\<lambda>h. h\<lparr>hv_force9v_latched := False\<rparr>))"

end
