(* ===== verification/Hvdcp_Negotiate.thy ===== *)
theory Hvdcp_Negotiate
  imports Hvdcp_Link
begin

text \<open>
  \<open>crates/ln8000-kmdf/src/hvdcp.rs\<close>, second part: the negotiation of a raised input voltage, from the
  classification of the adapter over the QC 3.5, QC 3.0 and QC 2.0 paths to the corrections of the bus
  voltage afterwards.
\<close>

section \<open>Waiting for the input voltage\<close>

text \<open>
  The loop of \<open>wait_force9v_rise\<close>: the last sample and the peak. The locals of the loop are its arguments.
\<close>

definition force9v_decide :: "i32 \<Rightarrow> u32 \<Rightarrow> u32 \<Rightarrow> bool \<Rightarrow> u32 \<Rightarrow> (u32 \<times> bool \<times> u32) option" where
  "force9v_decide vin waited deadline extended confirm =
    (if vin \<ge> SWITCHING_MIN_VIN_UV then
       (let confirm = sat_add_u32 confirm 1
        in if confirm \<ge> FORCE9V_CONFIRM_N then None else Some (deadline, extended, confirm))
     else (case force9v_step vin waited deadline extended SWITCHING_MIN_VIN_UV of
       Stop \<Rightarrow> None
     | Extend \<Rightarrow> Some (force9v_extended_deadline deadline, True, 0)
     | Continue \<Rightarrow> Some (deadline, extended, 0)))"

function force9v_loop ::
  "'w platform \<Rightarrow> u32 \<Rightarrow> u32 \<Rightarrow> bool \<Rightarrow> i32 \<Rightarrow> i32 \<Rightarrow> u32 \<Rightarrow> ('w hvdcp, 'e, i32 \<times> i32) op" where
  "force9v_loop P waited deadline extended vin peak confirm =
    (case force9v_decide vin waited deadline extended confirm of
       None \<Rightarrow> ret (vin, max peak vin)
     | Some (deadline, extended, confirm) \<Rightarrow>
         if waited \<ge> FORCE9V_HARD_CAP_MS then ret (vin, max peak vin)
         else and_then (sleep_ms P FORCE9V_POLL_MS) (\<lambda>_.
              and_then (read_vin P) (\<lambda>v.
                force9v_loop P (sat_add_u32 waited FORCE9V_POLL_MS) deadline extended v (max (max peak vin) v) confirm)))"
  by pat_completeness auto
termination
  by (relation "measure (\<lambda>(_, waited, _). 5000 - waited)") (auto simp: sat_add_u32_def u32_max_def)

declare force9v_loop.simps [simp del]

definition wait_force9v_rise :: "'w platform \<Rightarrow> ('w hvdcp, 'e, i32 \<times> i32) op" where
  "wait_force9v_rise P = and_then (read_vin P) (\<lambda>vin. force9v_loop P 0 FORCE9V_SETTLE_MS False vin vin 0)"

text \<open>The timeout is a \<open>u32\<close>; for those \<open>min\<close> is the timeout itself.\<close>

function vin_poll :: "'w platform \<Rightarrow> u32 \<Rightarrow> (i32 \<Rightarrow> bool) \<Rightarrow> u32 \<Rightarrow> ('w hvdcp, 'e, i32 option) op" where
  "vin_poll P timeout_ms pred waited = and_then (read_vin P) (\<lambda>vin.
     if pred vin then ret (Some vin)
     else if waited \<ge> min timeout_ms u32_max then ret None
     else and_then (sleep_ms P QC35_VIN_POLL_MS) (\<lambda>_. vin_poll P timeout_ms pred (sat_add_u32 waited QC35_VIN_POLL_MS)))"
  by pat_completeness auto
termination
  by (relation "measure (\<lambda>(_, timeout, _, waited). min timeout u32_max - waited)")
     (auto simp: sat_add_u32_def u32_max_def)

declare vin_poll.simps [simp del]

definition wait_vin_window :: "'w platform \<Rightarrow> u32 \<Rightarrow> (i32 \<Rightarrow> bool) \<Rightarrow> ('w hvdcp, 'e, i32 option) op" where
  "wait_vin_window P timeout_ms pred = vin_poll P timeout_ms pred 0"

section \<open>Failing\<close>

text \<open>The ways out with an error: the phase, the marks and the error of the source, in its order.\<close>

definition hv_fail :: "(string \<times> u32) list \<Rightarrow> hvdcp_error \<Rightarrow> ('w, 'a) hv_op" where
  "hv_fail extra err =
     and_then (set_phase PhFailed) (\<lambda>_.
     and_then (marks extra) (\<lambda>_.
     and_then (publish_marks (Some err)) (\<lambda>_. raise err)))"

definition or_hv_fail :: "('w, 'a) hv_op \<Rightarrow> (hvdcp_error \<Rightarrow> (string \<times> u32) list) \<Rightarrow> ('w, 'a) hv_op" where
  "or_hv_fail m extra = or_else m (\<lambda>err. hv_fail (extra err) err)"

definition or_fail_5v :: "'w platform \<Rightarrow> hv_bus \<Rightarrow> ('w, 'a) hv_op \<Rightarrow> ('w, 'a) hv_op" where
  "or_fail_5v P bus m = or_else m (\<lambda>err.
     and_then (set_phase PhFailed) (\<lambda>_.
     and_then (safe_force_5v P bus) (\<lambda>_.
     and_then (publish_marks (Some err)) (\<lambda>_. raise err))))"

text \<open>\<open>match m { Ok(icl) => mark(name, icl), Err(err) => mark(name, err.code()) }\<close>.\<close>

definition mark_icl :: "string \<Rightarrow> ('w, u8) hv_op \<Rightarrow> ('w hvdcp, 'e, unit) op" where
  "mark_icl name m = and_then (outcome m) (\<lambda>r.
     mark name (case r of Inl err \<Rightarrow> as_u32 (hvdcp_error_code err) | Inr icl \<Rightarrow> unat icl))"

section \<open>QC 3.5 authentication\<close>

definition pulse_auth_step :: "'w platform \<Rightarrow> hv_bus \<Rightarrow> qc35_auth_pulse \<Rightarrow> ('w, unit) hv_op" where
  "pulse_auth_step P bus pulse = (case pulse of
     Inc \<Rightarrow> pulse_inc_gap P bus QC35_AUTH_PULSE_GAP_MS
   | Dec \<Rightarrow> pulse_dec_gap P bus QC35_AUTH_PULSE_GAP_MS)"

text \<open>An error of the authentication carries no value: \<open>map_err(|_| ())\<close>.\<close>

definition no_reason :: "('s, 'd, 'a) op \<Rightarrow> ('s, unit, 'a) op" where
  "no_reason m = or_else m (\<lambda>_. raise ())"

function prep_loop :: "'w platform \<Rightarrow> hv_bus \<Rightarrow> u32 \<Rightarrow> i32 \<Rightarrow> ('w hvdcp, unit, unit) op" where
  "prep_loop P bus prep vin =
    (if \<not> qc35_detect_window vin \<and> prep < QC35_PREP_MAX_INC then
       and_then (no_reason (pulse_inc_gap P bus QC35_AUTH_PULSE_GAP_MS)) (\<lambda>_.
       and_then (read_vin P) (\<lambda>vin.
         if decide_qc35_auth_attempt vin \<noteq> Attempt then raise ()
         else prep_loop P bus (sat_add_u32 prep 1) vin))
     else ret ())"
  by pat_completeness auto
termination
  by (relation "measure (\<lambda>(_, _, prep, _). 8 - prep)") (auto simp: sat_add_u32_def u32_max_def)

declare prep_loop.simps [simp del]

definition prep_qc35_detect_window :: "'w platform \<Rightarrow> hv_bus \<Rightarrow> ('w hvdcp, unit, i32) op" where
  "prep_qc35_detect_window P bus = and_then (read_vin P) (\<lambda>vin.
     case decide_qc35_auth_attempt vin of
       Attempt \<Rightarrow>
         and_then (prep_loop P bus 0 vin) (\<lambda>_.
         and_then (wait_vin_window P QC35_DETECT_TIMEOUT_MS qc35_detect_window) (\<lambda>r.
           case r of None \<Rightarrow> raise () | Some v \<Rightarrow> ret v))
     | _ \<Rightarrow> raise ())"

text \<open>\<open>mark(.., code); return Err(())\<close> where a step of the authentication fails.\<close>

definition auth_fail :: "(string \<times> u32) list \<Rightarrow> ('w hvdcp, unit, 'a) op" where
  "auth_fail ms = and_then (marks ms) (\<lambda>_. raise ())"

definition auth_pulses :: "'w platform \<Rightarrow> hv_bus \<Rightarrow> u32 \<Rightarrow> qc35_auth_pulse list \<Rightarrow> ('w hvdcp, unit, unit) op" where
  "auth_pulses P bus code pulses =
     block (map (\<lambda>pulse. or_else (pulse_auth_step P bus pulse) (\<lambda>_. auth_fail [(''SuQc35Fail'', code)])) pulses)"

definition auth_confirm :: "'w platform \<Rightarrow> hv_bus \<Rightarrow> u32 \<Rightarrow> ('w hvdcp, unit, u32) op" where
  "auth_confirm P bus power_w =
     and_then (auth_pulses P bus 5 QC35_CONFIRM_PULSES) (\<lambda>_.
     let icl = qc35_icl_raw power_w in
     and_then (ignore (ensure_icl_at_least P bus icl)) (\<lambda>_.
     and_then (marks [(''SuQc35Auth'', 1), (''SuQc35Fail'', 0), (''SuQc35PowerW'', power_w),
       (''SuIclQc35'', unat icl), (''SuQc35StepUv'', QC35_STEP_UV)]) (\<lambda>_. ret power_w)))"

definition attempt_qc35_authenticate :: "'w platform \<Rightarrow> hv_bus \<Rightarrow> ('w hvdcp, unit, u32) op" where
  "attempt_qc35_authenticate P bus =
     and_then (marks [(''SuQc35Auth'', 0), (''SuQc35PowerW'', 0)]) (\<lambda>_.
     and_then (ignore (ensure_icl_floor_500ma P bus)) (\<lambda>_.
     and_then (or_else (prep_qc35_detect_window P bus) (\<lambda>_. auth_fail [(''SuQc35Fail'', 1)])) (\<lambda>detect_vin.
     and_then (mark ''SuQc35DetVin'' (u32_of_i32 detect_vin)) (\<lambda>_.
     and_then (auth_pulses P bus 2 QC35_SRC_CAP_PULSES) (\<lambda>_.
     and_then (wait_vin_window P QC35_CAP_TIMEOUT_MS qc35_cap_window) (\<lambda>cap. case cap of
       None \<Rightarrow>
         and_then (mark ''SuQc35Fail'' 3) (\<lambda>_.
         and_then (read_vin P) (\<lambda>v. auth_fail [(''SuQc35CapVin'', u32_of_i32 v)]))
     | Some cap_vin \<Rightarrow>
         and_then (mark ''SuQc35CapVin'' (u32_of_i32 cap_vin)) (\<lambda>_.
         case qc35_power_limit_w cap_vin of
           None \<Rightarrow> auth_fail [(''SuQc35Fail'', 4)]
         | Some power_w \<Rightarrow> auth_confirm P bus power_w)))))))"

section \<open>Elevation\<close>

text \<open>The pulse train of the QC 3.0 path: pulse, read the voltage, stop at the target or above the ceiling.\<close>

fun qc3_raise :: "'w platform \<Rightarrow> hv_bus \<Rightarrow> i32 \<Rightarrow> i32 \<Rightarrow> nat \<Rightarrow> i32 \<Rightarrow> ('w, i32) hv_op" where
  "qc3_raise P bus target ceiling 0 vin = ret vin"
| "qc3_raise P bus target ceiling (Suc n) vin = and_then get_state (\<lambda>h.
     if hv_pulse_cnt h \<ge> MAX_PULSE_CNT then ret vin
     else if vin \<ge> target then ret vin
     else and_then (or_fail_5v P bus (pulse_inc P bus)) (\<lambda>_.
          and_then get_state (\<lambda>h.
          and_then (marks [(''PulseCnt'', hv_pulse_cnt h), (''SuPulseCnt'', hv_pulse_cnt h)]) (\<lambda>_.
          and_then (read_vin P) (\<lambda>vin.
            if vin > ceiling then ret vin else qc3_raise P bus target ceiling n vin)))))"

definition elevate_qc3 :: "'w platform \<Rightarrow> hv_bus \<Rightarrow> u32 \<Rightarrow> ('w, unit) hv_op" where
  "elevate_qc3 P bus vbat_uv =
     and_then (set_phase PhQc35Auth) (\<lambda>_.
     and_then (publish_marks None) (\<lambda>_.
     and_then (ignore (attempt_qc35_authenticate P bus)) (\<lambda>_.
     and_then (set_phase PhQc3Pulse) (\<lambda>_.
     and_then (publish_marks None) (\<lambda>_.
     let want = pulses_toward_target vbat_uv in
     and_then (marks [(''HvdcpTarget'', target_vbus_uv vbat_uv), (''HvdcpWantPulses'', want)]) (\<lambda>_.
     and_then (read_vin P) (\<lambda>vin_now.
     and_then (qc3_raise P bus (int (target_vbus_uv vbat_uv)) (trim_target_uv vbat_uv) want vin_now) (\<lambda>vin_now.
       mark ''SuQcEndVin'' (u32_of_i32 vin_now)))))))))"

definition elevate_qc2 :: "'w platform \<Rightarrow> hv_bus \<Rightarrow> ('w, unit) hv_op" where
  "elevate_qc2 P bus =
     and_then (set_phase PhQc2Force9v) (\<lambda>_.
     and_then (publish_marks None) (\<lambda>_.
     and_then (or_fail_5v P bus (force_9v P bus)) (\<lambda>_.
       mark_icl ''SuQc2Icl'' (ensure_icl_at_least P bus ICL_RAW_HVDCP2_1P5A))))"

text \<open>The DCP path: two consecutive samples at 8 V count as held, within four polls.\<close>

fun hold_loop :: "'w platform \<Rightarrow> nat \<Rightarrow> i32 \<Rightarrow> u32 \<Rightarrow> ('w hvdcp, 'e, i32 \<times> u32) op" where
  "hold_loop P 0 vin hold = ret (vin, hold)"
| "hold_loop P (Suc n) vin hold =
    (let hold = (if vin \<ge> SWITCHING_MIN_VIN_UV then sat_add_u32 hold 1 else 0) in
     if hold \<ge> 2 then ret (vin, hold)
     else and_then (sleep_ms P FORCE9V_POLL_MS) (\<lambda>_. and_then (read_vin P) (\<lambda>vin. hold_loop P n vin hold)))"

text \<open>The pulses of a DCP that did not hold 9 V; the bound on \<open>inc\<close> ends the loop.\<close>

function dcp_raise :: "'w platform \<Rightarrow> hv_bus \<Rightarrow> i32 \<Rightarrow> u32 \<Rightarrow> i32 \<Rightarrow> ('w hvdcp, 'e, u32 \<times> i32) op" where
  "dcp_raise P bus target inc vin = and_then get_state (\<lambda>h.
     if vin < target \<and> inc < MAX_PULSE_CNT \<and> hv_pulse_cnt h < MAX_PULSE_CNT then
       and_then (outcome (pulse_inc P bus)) (\<lambda>r. case r of
         Inl _ \<Rightarrow> ret (inc, vin)
       | Inr _ \<Rightarrow> and_then (read_vin P) (\<lambda>vin. dcp_raise P bus target (sat_add_u32 inc 1) vin))
     else ret (inc, vin))"
  by pat_completeness auto
termination
  by (relation "measure (\<lambda>(_, _, _, inc, _). 23 - inc)") (auto simp: sat_add_u32_def u32_max_def)

declare dcp_raise.simps [simp del]

definition dcp_retreat :: "'w platform \<Rightarrow> hv_bus \<Rightarrow> u32 \<Rightarrow> i32 \<Rightarrow> ('w, unit) hv_op" where
  "dcp_retreat P bus vbat_uv vin_after =
     and_then (mark ''SuDcpNoElevate'' 1) (\<lambda>_.
     and_then (safe_force_5v P bus) (\<lambda>_.
     and_then (modify (\<lambda>h. h\<lparr>hv_pulse_cnt := 0\<rparr>)) (\<lambda>_.
     and_then (dcp_raise P bus (int (target_vbus_uv vbat_uv)) 0 vin_after) (\<lambda>(inc, vin_now).
     and_then (marks [(''SuDcpPulseRaise'', inc), (''SuDcpPulseVin'', u32_of_i32 vin_now)]) (\<lambda>_.
       if vin_now < FORCE9V_RISE_UV then
         and_then (safe_force_5v P bus) (\<lambda>_. mark_icl ''SuDcpIcl'' (ensure_icl_at_least P bus ICL_RAW_DCP_2A))
       else mark_icl ''SuDcpIcl'' (ensure_icl_at_least P bus ICL_RAW_HVDCP2_1P5A))))))"

definition elevate_dcp :: "'w platform \<Rightarrow> hv_bus \<Rightarrow> u32 \<Rightarrow> ('w, unit) hv_op" where
  "elevate_dcp P bus vbat_uv =
     and_then (mark ''SuDcpNoElevate'' 0) (\<lambda>_.
     and_then (set_phase PhQc2Force9v) (\<lambda>_.
     and_then (publish_marks None) (\<lambda>_.
     and_then (or_fail_5v P bus (force_9v P bus)) (\<lambda>_.
     and_then (mark_icl ''SuDcpIcl'' (ensure_icl_at_least P bus ICL_RAW_HVDCP2_1P5A)) (\<lambda>_.
     and_then (wait_force9v_rise P) (\<lambda>(vin_end, vin_peak).
     and_then (marks [(''SuDcp9vVin'', u32_of_i32 vin_end), (''SuDcpPeakVin'', u32_of_i32 vin_peak)]) (\<lambda>_.
     and_then (read_vin P) (\<lambda>vin_after.
     and_then (hold_loop P 4 vin_after 0) (\<lambda>(vin_after, hold).
     and_then (mark ''SuDcpHoldN'' hold) (\<lambda>_.
       when_op (hold < 2) (dcp_retreat P bus vbat_uv vin_after)))))))))))"

section \<open>Classification\<close>

record apsd_snapshot =
  pre_status :: u8
  pre_result :: u8
  pre_qc :: u8

definition already_qc3 :: "apsd_snapshot \<Rightarrow> bool" where
  "already_qc3 pre \<longleftrightarrow> pre_result pre AND BIT_QC3 \<noteq> 0 \<or> pre_qc pre AND BIT_QC_CONTINUOUS \<noteq> 0"

definition already_qc2 :: "apsd_snapshot \<Rightarrow> bool" where
  "already_qc2 pre \<longleftrightarrow> pre_result pre AND BIT_QC2 \<noteq> 0 \<or>
     (pre_status pre AND BIT_QC_CHARGER \<noteq> 0 \<and> pre_result pre AND BIT_DCP \<noteq> 0 \<and>
      pre_result pre AND BIT_QC3 = 0 \<and> \<not> already_qc3 pre)"

definition already_dcp :: "apsd_snapshot \<Rightarrow> bool" where
  "already_dcp pre \<longleftrightarrow> pre_result pre AND BIT_DCP \<noteq> 0 \<and> \<not> already_qc3 pre \<and> \<not> already_qc2 pre"

definition skip_apsd_rerun :: "apsd_snapshot \<Rightarrow> bool" where
  "skip_apsd_rerun pre \<longleftrightarrow> pre_status pre AND BIT_APSD_DONE \<noteq> 0 \<and> (already_qc3 pre \<or> already_qc2 pre)"

definition negotiate_prepare :: "'w platform \<Rightarrow> hv_bus \<Rightarrow> ('w, unit) hv_op" where
  "negotiate_prepare P bus =
     and_then (marks [(''SuAfcProto'', 0), (''SuAfc5vPath'', 0), (''SuQc35Auth'', 0), (''SuQc35Fail'', 0),
       (''SuQc35PowerW'', 0)]) (\<lambda>_.
     and_then (modify (\<lambda>h. h\<lparr>hv_pulse_cnt := 0\<rparr>)) (\<lambda>_.
     and_then (clear_usbin_latched P bus) (\<lambda>_.
     and_then (clear_usbin_suspend P bus) (\<lambda>_.
     and_then (or_hv_fail (clear_apsd_cc_gate P bus) (\<lambda>_. [(''SuTypecCfg'', 0xFFFFFFFF)])) (\<lambda>cfg.
     and_then (mark ''SuTypecCfg'' (unat cfg)) (\<lambda>_.
     and_then (mark_icl ''SuIclRaw'' (ensure_icl_floor_500ma P bus)) (\<lambda>_.
     and_then (outcome (ensure_hvdcp_voltage_gates P bus)) (\<lambda>r. case r of
       Inr (allow, pulse_max) \<Rightarrow> marks [(''SuAdapterAllow'', unat allow), (''SuPulseMax'', unat pulse_max)]
     | Inl err \<Rightarrow> marks [(''SuAdapterAllow'', as_u32 (hvdcp_error_code err)),
         (''SuPulseMax'', as_u32 (hvdcp_error_code err))]))))))))"

definition read_snapshot :: "'w platform \<Rightarrow> hv_bus \<Rightarrow> ('w, apsd_snapshot) hv_op" where
  "read_snapshot P bus =
     and_then (value_or (hv_read_reg P bus REG_APSD_STATUS) 0) (\<lambda>st.
     and_then (value_or (hv_read_reg P bus REG_APSD_RESULT) 0) (\<lambda>res.
     and_then (value_or (hv_read_reg P bus REG_QC_CHANGE_STATUS) 0) (\<lambda>qc.
     and_then (marks [(''SuApsdPre'', unat st), (''SuApsdPreR'', unat res), (''SuQcPre'', unat qc)]) (\<lambda>_.
       ret \<lparr>pre_status = st, pre_result = res, pre_qc = qc\<rparr>))))"

text \<open>The result registers of the detector, and the marks that publish the result.\<close>

definition set_apsd :: "u8 \<Rightarrow> u8 \<Rightarrow> ('w hvdcp, 'e, unit) op" where
  "set_apsd st res = modify (\<lambda>h. h\<lparr>hv_apsd_status := st, hv_apsd_result := res\<rparr>)"

definition mark_result :: "('w hvdcp, 'e, unit) op" where
  "mark_result = and_then get_state (\<lambda>h.
     marks [(''ApsdResult'', unat (hv_apsd_result h)), (''SuApsdResult'', unat (hv_apsd_result h))])"

definition demote_guard :: "apsd_snapshot \<Rightarrow> ('w hvdcp, 'e, unit) op" where
  "demote_guard pre = and_then get_state (\<lambda>h.
     let res = hv_apsd_result h in
     if (res AND BIT_QC3 = 0 \<and> pre_result pre AND BIT_QC3 \<noteq> 0 \<and> res AND BIT_DCP \<noteq> 0) \<or>
        (res AND BIT_QC2 = 0 \<and> pre_result pre AND BIT_QC2 \<noteq> 0 \<and> res AND BIT_DCP \<noteq> 0)
     then and_then (mark ''SuApsdDemote'' 1) (\<lambda>_.
          and_then (set_apsd (pre_status pre) (pre_result pre)) (\<lambda>_. mark_result))
     else mark ''SuApsdDemote'' 0)"

definition classify_rerun :: "'w platform \<Rightarrow> hv_bus \<Rightarrow> apsd_snapshot \<Rightarrow> ('w, unit) hv_op" where
  "classify_rerun P bus pre =
     and_then (marks [(''SuApsdSkip'', 0), (''SuApsdSkipQc2'', 0), (''SuApsdSkipDcp'', of_bool (already_dcp pre))]) (\<lambda>_.
     and_then (set_phase PhApsdRerun) (\<lambda>_.
     and_then (publish_marks None) (\<lambda>_.
     and_then (or_hv_fail (apsd_rerun P bus) (\<lambda>err. [(''SuApsdRerunSt'', as_u32 (hvdcp_error_code err))])) (\<lambda>_.
     and_then (mark ''SuApsdRerunSt'' 0) (\<lambda>_.
     and_then (set_phase PhApsdWait) (\<lambda>_.
     and_then (publish_marks None) (\<lambda>_.
     and_then (or_hv_fail (wait_apsd_done P bus) (\<lambda>_. [])) (\<lambda>_.
     and_then (mark ''ApsdSt'' 0) (\<lambda>_.
     and_then mark_result (\<lambda>_. demote_guard pre))))))))))"

definition classify_latched :: "apsd_snapshot \<Rightarrow> ('w, unit) hv_op" where
  "classify_latched pre =
     and_then (marks [(''SuApsdSkip'', 1), (''SuApsdSkipQc2'', of_bool (already_qc2 pre)), (''SuApsdSkipDcp'', 0)]) (\<lambda>_.
     and_then (set_apsd (pre_status pre) (pre_result pre)) (\<lambda>_.
     and_then (marks [(''SuApsdRerunSt'', 0), (''ApsdSt'', 0)]) (\<lambda>_. mark_result)))"

definition promote :: "('w, unit) hv_op" where
  "promote = and_then get_state (\<lambda>h.
     let promoted = promote_qc_charger (hv_apsd_result h) (hv_apsd_status h) in
     if promoted \<noteq> hv_apsd_result h then
       and_then (marks [(''ApsdPromote'', 1), (''ApsdPromoted'', unat promoted)]) (\<lambda>_.
       and_then (modify (\<lambda>h. h\<lparr>hv_apsd_result := promoted\<rparr>)) (\<lambda>_. mark_result))
     else mark ''ApsdPromote'' 0)"

definition negotiate_classify :: "'w platform \<Rightarrow> hv_bus \<Rightarrow> apsd_snapshot \<Rightarrow> ('w, apsd_elevate) hv_op" where
  "negotiate_classify P bus pre =
     and_then (set_phase PhEnable) (\<lambda>_.
     and_then (publish_marks None) (\<lambda>_.
     and_then (or_hv_fail (enable_hvdcp P bus) (\<lambda>_. [(''HvdcpEnSt'', 0xFFFFFFFF), (''SuHvdcpEnSt'', 0xFFFFFFFF)])) (\<lambda>_.
     and_then get_state (\<lambda>h.
     and_then (marks [(''HvdcpEnSt'', 0), (''SuHvdcpEnSt'', unat (hv_options1 h))]) (\<lambda>_.
     and_then (sleep_ms P ENABLE_SETTLE_MS) (\<lambda>_.
     and_then (if skip_apsd_rerun pre then classify_latched pre else classify_rerun P bus pre) (\<lambda>_.
     and_then promote (\<lambda>_.
     and_then get_state (\<lambda>h.
       ret (apsd_elevate_path (hv_apsd_result h) (pre_qc pre AND BIT_QC_CONTINUOUS \<noteq> 0)))))))))))"

section \<open>The negotiation\<close>

definition negotiate_elevate :: "'w platform \<Rightarrow> hv_bus \<Rightarrow> u32 \<Rightarrow> apsd_elevate \<Rightarrow> ('w, unit) hv_op" where
  "negotiate_elevate P bus vbat_uv elevate = and_then get_state (\<lambda>h. case elevate of
     Qc3Pulse \<Rightarrow> elevate_qc3 P bus vbat_uv
   | Force9v \<Rightarrow>
       if hv_apsd_result h AND BIT_QC2 \<noteq> 0 then elevate_qc2 P bus else elevate_dcp P bus vbat_uv
   | Reject \<Rightarrow> hv_fail [] NotQcAdapter)"

definition negotiate_finish :: "'w platform \<Rightarrow> hv_bus \<Rightarrow> ('w, unit) hv_op" where
  "negotiate_finish P bus =
     and_then (outcome (sample_qc_status P bus)) (\<lambda>r.
     and_then (case r of
       Inr (qc_change, qc_pulses) \<Rightarrow> marks [(''SuQcChgSt'', unat qc_change), (''SuQcPulseHw'', unat qc_pulses),
         (''SuQc9vHint'', of_bool (qc_status_indicates_9v qc_change))]
     | Inl err \<Rightarrow> marks [(''SuQcChgSt'', as_u32 (hvdcp_error_code err)),
         (''SuQcPulseHw'', as_u32 (hvdcp_error_code err)), (''SuQc9vHint'', 0)]) (\<lambda>_.
     and_then (set_phase PhDone) (\<lambda>_.
     and_then get_state (\<lambda>h.
     and_then (marks [(''HvdcpEstVbus'', estimated_vbus_uv (hv_pulse_cnt h)),
       (''SuVbusEst'', estimated_vbus_uv (hv_pulse_cnt h))]) (\<lambda>_. publish_marks None)))))"

definition negotiate_on_bus :: "'w platform \<Rightarrow> hv_bus \<Rightarrow> u32 \<Rightarrow> ('w, unit) hv_op" where
  "negotiate_on_bus P bus vbat_uv =
     and_then (negotiate_prepare P bus) (\<lambda>_.
     and_then (read_snapshot P bus) (\<lambda>pre.
     and_then (negotiate_classify P bus pre) (\<lambda>elevate.
     and_then (mark ''SuApsdAfc5v'' 0) (\<lambda>_.
     and_then (negotiate_elevate P bus vbat_uv elevate) (\<lambda>_. negotiate_finish P bus)))))"

text \<open>
  \<open>run_negotiate\<close>: the SUPERUSER session when it opens and grants, else the Resource Hub. The session is
  closed when it goes out of scope.
\<close>

definition su_open :: "'w platform \<Rightarrow> ('w hvdcp, i32, unit) op" where
  "su_open P = on_world (nt_call (dev_open (pf_superuser P)))"

definition su_close :: "'w platform \<Rightarrow> ('w hvdcp, 'e, unit) op" where
  "su_close P = modify (\<lambda>h. h\<lparr>hv_world := dev_close (pf_superuser P) (hv_world h)\<rparr>)"

definition closing :: "'w platform \<Rightarrow> ('w hvdcp, 'e, 'a) op \<Rightarrow> ('w hvdcp, 'e, 'a) op" where
  "closing P m = and_then (outcome m) (\<lambda>r. and_then (su_close P) (\<lambda>_. case r of Inl e \<Rightarrow> raise e | Inr x \<Rightarrow> ret x))"

definition negotiate_usbin :: "'w platform \<Rightarrow> u64 option \<Rightarrow> u32 \<Rightarrow> ('w, unit) hv_op" where
  "negotiate_usbin P usbin_id vbat_uv = (case usbin_id of
     None \<Rightarrow>
       and_then (modify (\<lambda>h. h\<lparr>hv_transport := TransportNone\<rparr>)) (\<lambda>_. hv_fail [] UsbinUnavailable)
   | Some usbin \<Rightarrow>
       and_then (or_hv_fail (open_usbin P usbin) (\<lambda>_. [])) (\<lambda>_.
       and_then (or_hv_fail (resolve_endian_usbin P) (\<lambda>_. [])) (\<lambda>_.
       and_then (modify (\<lambda>h. h\<lparr>hv_transport := TransportUsbinRh\<rparr>)) (\<lambda>_.
       and_then (mark ''HvdcpVia'' (transport_code TransportUsbinRh)) (\<lambda>_.
         negotiate_on_bus P BusUsbin vbat_uv)))))"

definition run_negotiate :: "'w platform \<Rightarrow> u64 option \<Rightarrow> u32 \<Rightarrow> ('w, unit) hv_op" where
  "run_negotiate P usbin_id vbat_uv =
     and_then (modify (\<lambda>h. h\<lparr>hv_phase := PhEnable, hv_transport := TransportNone\<rparr>)) (\<lambda>_.
     and_then (publish_marks None) (\<lambda>_.
     and_then (outcome (su_open P)) (\<lambda>opened. case opened of
       Inl st \<Rightarrow> and_then (mark ''SuHvdcpOpen'' (as_u32 st)) (\<lambda>_. negotiate_usbin P usbin_id vbat_uv)
     | Inr _ \<Rightarrow>
         and_then (mark ''SuHvdcpOpen'' 0) (\<lambda>_.
         and_then (outcome (on_world (su_grant (pf_superuser P) SPMI_PERI_USBIN))) (\<lambda>granted. case granted of
           Inl st \<Rightarrow>
             and_then (mark ''SuHvdcpOpen'' (as_u32 st)) (\<lambda>_.
             and_then (su_close P) (\<lambda>_. negotiate_usbin P usbin_id vbat_uv))
         | Inr _ \<Rightarrow>
             and_then (modify (\<lambda>h. h\<lparr>hv_transport := TransportSuperuser, hv_endian_known := True,
               hv_big_endian := True\<rparr>)) (\<lambda>_.
             and_then (mark ''HvdcpVia'' (transport_code TransportSuperuser)) (\<lambda>_.
               closing P (negotiate_on_bus P BusSuperuser vbat_uv))))))))"

definition run_negotiate_report :: "'w platform \<Rightarrow> u64 option \<Rightarrow> u32 \<Rightarrow> ('w hvdcp, 'e, i32 \<times> u32) op" where
  "run_negotiate_report P usbin_id vbat_uv = and_then (outcome (run_negotiate P usbin_id vbat_uv)) (\<lambda>r.
     ret (case r of Inl err \<Rightarrow> hvdcp_error_code err | Inr _ \<Rightarrow> 0, target_vbus_uv vbat_uv))"

section \<open>Corrections of the bus voltage\<close>

text \<open>
  The later entry points take whichever transport opens. Unlike the negotiation, none of them asks the
  SUPERUSER session for the grant of the peripheral.
\<close>

definition on_open_bus ::
  "'w platform \<Rightarrow> u64 option \<Rightarrow> (hv_bus \<Rightarrow> ('w hvdcp, 'e, 'a) op) \<Rightarrow> 'a \<Rightarrow> ('w hvdcp, 'e, 'a) op" where
  "on_open_bus P usbin_id body none =
     and_then (outcome (su_open P)) (\<lambda>opened. case opened of
       Inr _ \<Rightarrow> and_then (modify (\<lambda>h. h\<lparr>hv_transport := TransportSuperuser\<rparr>)) (\<lambda>_. closing P (body BusSuperuser))
     | Inl _ \<Rightarrow> (case usbin_id of
         None \<Rightarrow> ret none
       | Some usbin \<Rightarrow> and_then (outcome (open_usbin P usbin)) (\<lambda>r. case r of
           Inr _ \<Rightarrow> body BusUsbin | Inl _ \<Rightarrow> ret none)))"

definition sat_add_i32 :: "i32 \<Rightarrow> i32 \<Rightarrow> i32" where
  "sat_add_i32 a b = max i32_min (min i32_max (a + b))"

function trim_loop :: "'w platform \<Rightarrow> hv_bus \<Rightarrow> i32 \<Rightarrow> i32 \<Rightarrow> u32 \<Rightarrow> i32 \<Rightarrow> ('w hvdcp, 'e, u32) op" where
  "trim_loop P bus stop floor dec vin_uv =
    (if vin_uv > stop \<and> vin_uv > floor \<and> dec < MAX_TRIM_DEC then
       and_then (outcome (pulse_dec P bus)) (\<lambda>r. case r of
         Inl _ \<Rightarrow> ret dec
       | Inr _ \<Rightarrow> trim_loop P bus stop floor (sat_add_u32 dec 1) (sat_sub_i32 vin_uv (int QC3_STEP_UV)))
     else ret dec)"
  by pat_completeness auto
termination
  by (relation "measure (\<lambda>(_, _, _, _, dec, _). 20 - dec)") (auto simp: sat_add_u32_def u32_max_def)

declare trim_loop.simps [simp del]

definition trim_vin_for_pump :: "'w platform \<Rightarrow> u64 option \<Rightarrow> i32 \<Rightarrow> u32 \<Rightarrow> ('w hvdcp, 'e, u32) op" where
  "trim_vin_for_pump P usbin_id vin_uv vbat_uv =
    (let stop = int (target_vbus_uv vbat_uv); floor = hv_window_floor_uv vbat_uv in
     and_then (if vin_uv \<le> stop then ret 0
               else on_open_bus P usbin_id (\<lambda>bus. trim_loop P bus stop floor 0 vin_uv) 0) (\<lambda>dec.
     and_then (mark ''TrimDec'' dec) (\<lambda>_. ret dec)))"

function boost_loop :: "'w platform \<Rightarrow> hv_bus \<Rightarrow> i32 \<Rightarrow> i32 \<Rightarrow> u32 \<Rightarrow> i32 \<Rightarrow> ('w hvdcp, 'e, u32) op" where
  "boost_loop P bus stop ceil_uv inc vin_uv =
    (if vin_uv < stop \<and> inc < MAX_BOOST_INC then
       and_then (outcome (pulse_inc P bus)) (\<lambda>r. case r of
         Inl _ \<Rightarrow> ret inc
       | Inr _ \<Rightarrow>
           let inc = sat_add_u32 inc 1; vin_uv = sat_add_i32 vin_uv (int QC3_STEP_UV) in
           if vin_uv > ceil_uv then ret inc else boost_loop P bus stop ceil_uv inc vin_uv)
     else ret inc)"
  by pat_completeness auto
termination
  by (relation "measure (\<lambda>(_, _, _, _, inc, _). 23 - inc)") (auto simp: sat_add_u32_def u32_max_def)

declare boost_loop.simps [simp del]

definition boost_vin_for_pump :: "'w platform \<Rightarrow> u64 option \<Rightarrow> i32 \<Rightarrow> u32 \<Rightarrow> ('w hvdcp, 'e, u32) op" where
  "boost_vin_for_pump P usbin_id vin_uv vbat_uv =
    (let stop = int (target_vbus_uv vbat_uv); ceil_uv = trim_target_uv vbat_uv in
     and_then (if vin_uv \<ge> stop then ret 0
               else on_open_bus P usbin_id (\<lambda>bus. boost_loop P bus stop ceil_uv 0 vin_uv) 0) (\<lambda>inc.
     and_then (mark ''BoostInc'' inc) (\<lambda>_. ret inc)))"

definition one_dec_pulse :: "'w platform \<Rightarrow> u64 option \<Rightarrow> ('w hvdcp, 'e, u32) op" where
  "one_dec_pulse P usbin_id = on_open_bus P usbin_id (\<lambda>bus.
     and_then (outcome (pulse_dec P bus)) (\<lambda>r. ret (case r of Inl _ \<Rightarrow> 0 | Inr _ \<Rightarrow> 1))) 0"

definition nudge_vin_into_window ::
  "'w platform \<Rightarrow> u64 option \<Rightarrow> i32 \<Rightarrow> u32 \<Rightarrow> bool \<Rightarrow> ('w hvdcp, 'e, u32) op" where
  "nudge_vin_into_window P usbin_id vin_uv vbat_uv dead_current = and_then get_state (\<lambda>h.
     if vin_uv \<le> 0 \<or> vbat_uv = 0 then ret 0
     else if hv_force9v_latched h then ret 0
     else let ceil_uv = trim_target_uv vbat_uv; floor = hv_window_floor_uv vbat_uv;
              target = int (target_vbus_uv vbat_uv) in
       if vin_uv > ceil_uv then
         and_then (trim_vin_for_pump P usbin_id vin_uv vbat_uv) (\<lambda>dec.
         and_then (mark ''NudgeDec'' dec) (\<lambda>_. ret dec))
       else if vin_uv < target \<and> (dead_current \<or> vin_uv < floor) then
         and_then (boost_vin_for_pump P usbin_id vin_uv vbat_uv) (\<lambda>inc.
         and_then (mark ''NudgeInc'' inc) (\<lambda>_. ret inc))
       else if dead_current \<and> vin_uv > floor then
         and_then (one_dec_pulse P usbin_id) (\<lambda>dec.
         and_then (mark ''NudgeDec'' dec) (\<lambda>_. ret dec))
       else ret 0)"

text \<open>
  Raising the input current limit: over the SUPERUSER session, and over the hub when that fails; the answer
  is the limit in force, or 0.
\<close>

definition raise_icl :: "'w platform \<Rightarrow> u64 option \<Rightarrow> string \<Rightarrow> u8 \<Rightarrow> ('w hvdcp, 'e, u8) op" where
  "raise_icl P usbin_id name target =
    (let on_hub = (case usbin_id of
         None \<Rightarrow> ret 0
       | Some usbin \<Rightarrow> and_then (outcome (open_usbin P usbin)) (\<lambda>r. case r of
           Inl _ \<Rightarrow> ret 0
         | Inr _ \<Rightarrow> and_then (outcome (ensure_icl_at_least P BusUsbin target)) (\<lambda>r. case r of
             Inl _ \<Rightarrow> ret 0
           | Inr icl \<Rightarrow> and_then (mark name (unat icl)) (\<lambda>_. ret icl)))) in
     and_then (outcome (su_open P)) (\<lambda>opened. case opened of
       Inl _ \<Rightarrow> on_hub
     | Inr _ \<Rightarrow>
         and_then (modify (\<lambda>h. h\<lparr>hv_transport := TransportSuperuser\<rparr>)) (\<lambda>_.
         and_then (closing P (outcome (ensure_icl_at_least P BusSuperuser target))) (\<lambda>r. case r of
           Inr icl \<Rightarrow> and_then (mark name (unat icl)) (\<lambda>_. ret icl)
         | Inl err \<Rightarrow> and_then (mark name (as_u32 (hvdcp_error_code err))) (\<lambda>_. on_hub)))))"

definition raise_icl_for_pump :: "'w platform \<Rightarrow> u64 option \<Rightarrow> ('w hvdcp, 'e, u8) op" where
  "raise_icl_for_pump P usbin_id = raise_icl P usbin_id ''SuIclPump'' ICL_RAW_PUMP_3A"

definition raise_icl_for_5v_bypass :: "'w platform \<Rightarrow> u64 option \<Rightarrow> ('w hvdcp, 'e, u8) op" where
  "raise_icl_for_5v_bypass P usbin_id =
     and_then (marks [(''SuAfcProto'', 0), (''SuAfc5vPath'', 1), (''SuApsdAfc5v'', 1)]) (\<lambda>_.
     and_then (set_phase PhFiveVBypass) (\<lambda>_.
     and_then (mark ''HvdcpPhase'' (phase_code PhFiveVBypass)) (\<lambda>_.
       raise_icl P usbin_id ''SuIcl5v'' ICL_RAW_5V_2P7A)))"

end
