(* ===== verification/Hvdcp_Safety.thy ===== *)
theory Hvdcp_Safety
  imports Hvdcp_Negotiate
begin

text \<open>
  What holds of the negotiation on every platform, whatever the adapter, the buses and the ADC do: it
  returns, it counts at most 23 pulses, it writes only the registers and values listed here, and the phase
  and the error it publishes are those of its result.
\<close>

section \<open>The interface\<close>

text \<open>
  The writes the negotiation and the later corrections may make. \<open>setting_ok\<close> lists the nine registers that are
  set up; \<open>command_ok cur\<close> is for the command register, whose bits 0 and 1 are a pulse up and down and whose bits 3,
  4 and 5 force 5, 9 and 12 V: the command to force 5 V, or what its last reading \<open>cur\<close> showed with the command
  to force 9 V, or with one pulse in place of the pulse bits. The bit that forces 12 V is never added.
\<close>

definition setting_ok :: "u16 \<Rightarrow> u8 \<Rightarrow> bool" where
  "setting_ok a v \<longleftrightarrow>
     a = REG_INT_LATCHED_CLR \<and> v = 0xFF \<or>
     a = REG_USBIN_CMD_IL \<and> \<not> bit v 0 \<or>
     a = REG_CMD_APSD \<and> v = BIT_APSD_RERUN \<or>
     a = REG_CMD_ICL_OVERRIDE \<and> v = BIT_ICL_OVERRIDE \<or>
     a = REG_TYPE_C_CFG \<and> \<not> bit v 7 \<or>
     a = REG_HVDCP_PULSE_COUNT_MAX \<and> v AND 0xC0 = 0x40 \<or>
     a = REG_USBIN_ADAPTER_ALLOW \<and> v AND 0x0F = 0x0C \<or>
     a = REG_USBIN_OPTIONS_1 \<and> v AND 0x6C = 0x4C \<or>
     a = REG_USBIN_ICL_CFG \<and> v \<in> {10, 30, 40, 54, 60}"

definition command_ok :: "u8 \<Rightarrow> u8 \<Rightarrow> bool" where
  "command_ok cur v \<longleftrightarrow> v = BIT_FORCE_5V \<or> v = cur OR BIT_FORCE_9V \<or>
     v = (cur AND NOT (BIT_SINGLE_INC OR BIT_SINGLE_DEC)) OR BIT_SINGLE_INC \<or>
     v = (cur AND NOT (BIT_SINGLE_INC OR BIT_SINGLE_DEC)) OR BIT_SINGLE_DEC"

definition allowed_write :: "u8 \<Rightarrow> u16 \<Rightarrow> u8 \<Rightarrow> bool" where
  "allowed_write cur a v \<longleftrightarrow> a = REG_CMD_HVDCP_2 \<and> command_ok cur v \<or> setting_ok a v"

lemma command_never_forces_12v: "command_ok cur v \<Longrightarrow> bit v 5 \<Longrightarrow> bit cur 5"
  by (auto simp: command_ok_def bit_simps)

text \<open>What a reading of the command register counts as: 0 when it is not answered, as the code takes it.\<close>

definition frame_reading :: "'e + u8 list \<Rightarrow> u8" where
  "frame_reading r = (case r of Inl _ \<Rightarrow> 0 | Inr bytes \<Rightarrow> (bytes @ [0xFF]) ! 0)"

definition hub_reading :: "'e + u8 \<Rightarrow> u8" where
  "hub_reading r = (case r of Inl _ \<Rightarrow> 0 | Inr v \<Rightarrow> v)"

text \<open>Marks that never claim more than 23 pulses' worth of voltage.\<close>

definition vbus_marks_ok :: "(string \<times> u32) list \<Rightarrow> bool" where
  "vbus_marks_ok ms \<longleftrightarrow> (\<forall>v. (''SuVbusEst'', v) \<in> set ms \<longrightarrow> v \<le> PUMP_VIN_TARGET_CEIL_UV)"

text \<open>
  An invariant of the negotiation: it survives whatever the devices do on the accesses the code makes, any
  change of the bookkeeping fields, a pulse count of at most 23, and honest marks. \<open>seen\<close> is what a state knows of
  the last reading of the command register; a command may be made of any value in it.
\<close>

locale hvdcp_invariant =
  fixes P :: "'w platform" and I :: "'w hvdcp \<Rightarrow> bool" and seen :: "'w \<Rightarrow> u8 set"
  assumes sleeping: "I h \<Longrightarrow> I (h\<lparr>hv_world := pf_sleep_ms P d (hv_world h)\<rparr>)"
    and measuring: "I h \<Longrightarrow> I (h\<lparr>hv_world := snd (pf_read_vin P (hv_world h))\<rparr>)"
    and device_open: "I h \<Longrightarrow> I (h\<lparr>hv_world := snd (dev_open (pf_superuser P) (hv_world h))\<rparr>)"
    and device_close: "I h \<Longrightarrow> I (h\<lparr>hv_world := dev_close (pf_superuser P) (hv_world h)\<rparr>)"
    and device_request: "I h \<Longrightarrow> code \<noteq> IOCTL_SPMI_SUPERUSER_WRITE \<Longrightarrow>
      I (h\<lparr>hv_world := snd (dev_ioctl (pf_superuser P) code i n (hv_world h))\<rparr>)"
    and device_write: "I h \<Longrightarrow> cur \<in> seen (hv_world h) \<Longrightarrow> allowed_write cur a v \<Longrightarrow>
      I (h\<lparr>hv_world := snd (dev_ioctl (pf_superuser P) IOCTL_SPMI_SUPERUSER_WRITE (su_header 2 a 1 @ [v]) 0 (hv_world h))\<rparr>)"
    and hub_open: "I h \<Longrightarrow> I (h\<lparr>hv_world := snd (pf_usbin_open P usbin (hv_world h))\<rparr>)"
    and hub_read: "I h \<Longrightarrow> I (h\<lparr>hv_world := snd (pf_usbin_transact P a None be (hv_world h))\<rparr>)"
    and hub_write: "I h \<Longrightarrow> cur \<in> seen (hv_world h) \<Longrightarrow> allowed_write cur a v \<Longrightarrow>
      I (h\<lparr>hv_world := snd (pf_usbin_transact P a (Some v) be (hv_world h))\<rparr>)"
    and seen_some: "\<exists>cur. cur \<in> seen w"
    and seen_frame: "dev_ioctl (pf_superuser P) IOCTL_SPMI_SUPERUSER_READ (su_header 2 REG_CMD_HVDCP_2 1) 1 w = (r, w') \<Longrightarrow>
      frame_reading r \<in> seen w'"
    and seen_hub: "pf_usbin_transact P REG_CMD_HVDCP_2 None be w = (r', w') \<Longrightarrow> hub_reading r' \<in> seen w'"
    and bookkeeping: "I h \<Longrightarrow> hv_world h' = hv_world h \<Longrightarrow> hv_pulse_cnt h' = hv_pulse_cnt h \<Longrightarrow>
      hv_marks h' = hv_marks h \<Longrightarrow> I h'"
    and pulses: "I h \<Longrightarrow> n \<le> MAX_PULSE_CNT \<Longrightarrow> I (h\<lparr>hv_pulse_cnt := n\<rparr>)"
    and pulses_bounded: "I h \<Longrightarrow> hv_pulse_cnt h \<le> MAX_PULSE_CNT"
    and marking: "I h \<Longrightarrow> vbus_marks_ok ms \<Longrightarrow> I (h\<lparr>hv_marks := hv_marks h @ ms\<rparr>)"
begin

lemma keeps_book: "(\<And>h. hv_world (f h) = hv_world h \<and> hv_pulse_cnt (f h) = hv_pulse_cnt h \<and> hv_marks (f h) = hv_marks h) \<Longrightarrow>
  keeps I (modify f)"
  by (auto intro!: keeps_modify elim: bookkeeping)

lemma keeps_pulses: "(\<And>h. hv_pulse_cnt h \<le> MAX_PULSE_CNT \<Longrightarrow> n h \<le> MAX_PULSE_CNT) \<Longrightarrow>
  keeps I (modify (\<lambda>h. h\<lparr>hv_pulse_cnt := n h\<rparr>))"
  by (auto intro!: keeps_modify pulses dest: pulses_bounded)

lemma keeps_sleep: "keeps I (sleep_ms P ms)"
  unfolding sleep_ms_def by (rule keeps_modify) (rule sleeping)

lemma keeps_vin: "keeps I (read_vin P)"
proof (rule keepsI)
  fix h assume "I h"
  from measuring [OF this] show "\<exists>r t. read_vin P h = Some (r, t) \<and> I t"
    by (simp add: read_vin_def on_world_def case_prod_beta)
qed

lemma keeps_marks: "vbus_marks_ok ms \<Longrightarrow> keeps I (marks ms)"
  unfolding marks_def by (rule keeps_modify) (rule marking)

lemma keeps_mark: "name \<noteq> ''SuVbusEst'' \<Longrightarrow> keeps I (mark name v)"
  unfolding mark_def by (rule keeps_marks) (simp add: vbus_marks_ok_def)

lemma estimated_ok: "n \<le> MAX_PULSE_CNT \<Longrightarrow> estimated_vbus_uv n \<le> PUMP_VIN_TARGET_CEIL_UV"
  by (simp add: estimated_vbus_uv_def sat_add_u32_def sat_mul_u32_def)

lemma keeps_publish: "keeps I (publish_marks err)"
proof (rule keepsI)
  fix h assume "I h"
  with pulses_bounded [OF this] show "\<exists>r t. publish_marks err h = Some (r, t) \<and> I t"
    by (auto simp: publish_marks_def and_then_def marks_def vbus_marks_ok_def intro!: marking estimated_ok)
qed

lemma keeps_call: "(\<And>h. I h \<Longrightarrow> I (h\<lparr>hv_world := snd (f (hv_world h))\<rparr>)) \<Longrightarrow> keeps I (on_world (nt_call f))"
  by (simp add: keeps_def on_world_def nt_call_def case_prod_beta)

lemma on_world_and_then: "on_world (and_then m f) = and_then (on_world m) (\<lambda>x. on_world (f x))"
  by (auto simp: fun_eq_iff on_world_def and_then_def split: option.split sum.split)

lemma on_world_ret: "on_world (ret x) = ret x" "on_world (raise e) = raise e"
  by (simp_all add: fun_eq_iff on_world_def)

lemma keeps_request: "code \<noteq> IOCTL_SPMI_SUPERUSER_WRITE \<Longrightarrow>
  keeps I (on_world (ioctl_in_out (pf_superuser P) code i n))"
  unfolding ioctl_in_out_def on_world_and_then on_world_ret
  by (intro keeps_and_then keeps_ret keeps_call device_request)

lemma keeps_grant: "keeps I (on_world (su_grant (pf_superuser P) peri))"
  unfolding su_grant_def ioctl_in_def on_world_and_then on_world_ret
  by (intro keeps_and_then keeps_ret keeps_request) simp

lemma keeps_su_read: "keeps I (on_world (su_read_u8 (pf_superuser P) sid a))"
  unfolding su_read_u8_def su_read_bytes_def on_world_and_then on_world_ret
  by (simp, intro keeps_and_then keeps_ret keeps_request) simp

lemma su_write_byte:
  "su_write_u8 D 2 a v = ioctl_in D IOCTL_SPMI_SUPERUSER_WRITE (su_header 2 a 1 @ [v])"
  by (simp add: su_write_u8_def su_write_bytes_def)

text \<open>A write of a byte the last reading allows, and of a register that does not depend on it.\<close>

lemma write_ends:
  assumes "I h" "cur \<in> seen (hv_world h)" "allowed_write cur a v"
  shows "\<exists>r h'. hv_write_reg P bus a v h = Some (r, h') \<and> I h'"
proof (cases bus)
  case BusSuperuser
  obtain r w where c: "dev_ioctl (pf_superuser P) IOCTL_SPMI_SUPERUSER_WRITE (su_header 2 a 1 @ [v]) 0 (hv_world h) = (r, w)"
    by fastforce
  with device_write [OF assms] have "I (h\<lparr>hv_world := w\<rparr>)" by simp
  with BusSuperuser c show ?thesis
    by (cases r) (auto simp: hv_write_reg_def spmi_io_def or_else_def outcome_def on_world_def su_write_byte ioctl_in_def
        ioctl_in_out_def nt_call_def and_then_def ret_def raise_def)
next
  case BusUsbin
  obtain r w where c: "pf_usbin_transact P a (Some v) (hv_big_endian h) (hv_world h) = (r, w)" by fastforce
  with hub_write [OF assms, of "hv_big_endian h"] have "I (h\<lparr>hv_world := w\<rparr>)" by simp
  with BusUsbin c show ?thesis
    by (cases r) (auto simp: hv_write_reg_def spmi_rw_usbin_def spmi_io_def or_else_def outcome_def on_world_def nt_call_def
        and_then_def get_state_def ret_def raise_def)
qed

lemma keeps_spmi_io: "keeps I (on_world m) \<Longrightarrow> keeps I (spmi_io m)"
  unfolding spmi_io_def by (intro keeps_or_else keeps_raise)

lemma keeps_hub_open: "keeps I (open_usbin P usbin)"
  unfolding open_usbin_def by (intro keeps_or_else keeps_raise keeps_call hub_open)

lemma keeps_hub_read: "keeps I (spmi_rw_usbin P a None be)"
  unfolding spmi_rw_usbin_def by (intro keeps_spmi_io keeps_call hub_read)

lemma keeps_read: "keeps I (hv_read_reg P bus a)"
  unfolding hv_read_reg_def
  by (cases bus) (auto intro!: keeps_intros keeps_spmi_io keeps_su_read keeps_hub_read)

lemma keeps_write:
  assumes c: "\<And>cur. allowed_write cur a v"
  shows "keeps I (hv_write_reg P bus a v)"
proof (rule keepsI)
  fix h assume I: "I h"
  obtain cur where "cur \<in> seen (hv_world h)" using seen_some by blast
  from write_ends [OF I this c] show "\<exists>r t. hv_write_reg P bus a v h = Some (r, t) \<and> I t" .
qed

text \<open>A command made of a reading of the command register.\<close>

lemma command_reading:
  assumes "I h"
  shows "\<exists>cur h'. value_or (hv_read_reg P bus REG_CMD_HVDCP_2) 0 h = Some (Inr cur :: 'e + u8, h') \<and> I h' \<and>
    cur \<in> seen (hv_world h')"
proof (cases bus)
  case BusSuperuser
  obtain r w where c: "dev_ioctl (pf_superuser P) IOCTL_SPMI_SUPERUSER_READ (su_header 2 REG_CMD_HVDCP_2 1) 1 (hv_world h) = (r, w)"
    by fastforce
  with device_request [OF assms, of IOCTL_SPMI_SUPERUSER_READ "su_header 2 REG_CMD_HVDCP_2 1" 1] have "I (h\<lparr>hv_world := w\<rparr>)"
    by simp
  with BusSuperuser c seen_frame [OF c] show ?thesis
    by (cases r) (auto simp: hv_read_reg_def spmi_io_def or_else_def on_world_def su_read_u8_def su_read_bytes_def ioctl_in_out_def
        nt_call_def and_then_def ret_def raise_def value_or_def outcome_def frame_reading_def nth_append split: list.splits)
next
  case BusUsbin
  obtain r w where c: "pf_usbin_transact P REG_CMD_HVDCP_2 None (hv_big_endian h) (hv_world h) = (r, w)" by fastforce
  with hub_read [OF assms, of REG_CMD_HVDCP_2 "hv_big_endian h"] have "I (h\<lparr>hv_world := w\<rparr>)" by simp
  with BusUsbin c seen_hub [OF c] show ?thesis
    by (cases r) (auto simp: hv_read_reg_def spmi_rw_usbin_def spmi_io_def or_else_def on_world_def nt_call_def and_then_def
        get_state_def ret_def raise_def value_or_def outcome_def hub_reading_def)
qed

lemma keeps_command:
  assumes "\<And>cur. command_ok cur (f cur)" "\<And>cur. keeps I (k cur)"
  shows "keeps I (and_then (value_or (hv_read_reg P bus REG_CMD_HVDCP_2) 0) (\<lambda>cur.
    and_then (hv_write_reg P bus REG_CMD_HVDCP_2 (f cur)) (\<lambda>_. k cur)))"
proof (rule keepsI)
  fix h assume "I h"
  from command_reading [OF this, of bus, where 'e = hvdcp_error] obtain cur h' where r:
    "value_or (hv_read_reg P bus REG_CMD_HVDCP_2) 0 h = Some (Inr cur :: hvdcp_error + u8, h')" "I h'" "cur \<in> seen (hv_world h')" by blast
  from write_ends [OF r(2,3), of REG_CMD_HVDCP_2 "f cur" bus] assms(1) obtain x t
    where w: "hv_write_reg P bus REG_CMD_HVDCP_2 (f cur) h' = Some (x, t)" "I t" by (auto simp: allowed_write_def)
  from keepsD [OF assms(2) w(2), of cur] r(1) w(1) w(2)
  show "\<exists>x t. and_then (value_or (hv_read_reg P bus REG_CMD_HVDCP_2) 0) (\<lambda>cur.
    and_then (hv_write_reg P bus REG_CMD_HVDCP_2 (f cur)) (\<lambda>_. k cur)) h = Some (x, t) \<and> I t"
    by (cases x) (auto simp: and_then_def)
qed

text \<open>The register operations.\<close>

lemma allowed_writes:
  "allowed_write cur REG_CMD_HVDCP_2 BIT_FORCE_5V" "allowed_write cur REG_INT_LATCHED_CLR 0xFF"
  "allowed_write cur REG_USBIN_CMD_IL (v AND NOT BIT_USBIN_SUSPEND)" "allowed_write cur REG_CMD_APSD BIT_APSD_RERUN"
  "allowed_write cur REG_CMD_ICL_OVERRIDE BIT_ICL_OVERRIDE" "allowed_write cur REG_TYPE_C_CFG (v AND NOT BIT_BC1P2_START_ON_CC)"
  "allowed_write cur REG_HVDCP_PULSE_COUNT_MAX (with_qc2_max_9v v)"
  "allowed_write cur REG_USBIN_ADAPTER_ALLOW (with_adapter_allow_5v_to_12v v)"
  "allowed_write cur REG_USBIN_OPTIONS_1 ((v OR (BIT_HVDCP_EN OR BIT_HVDCP_AUTH_ALG_EN OR BIT_BC1P2_SRC_DETECT)) AND NOT BIT_HVDCP_AUTONOMOUS)"
  "allowed_write cur REG_USBIN_ICL_CFG ICL_RAW_500MA" "allowed_write cur REG_USBIN_ICL_CFG ICL_RAW_PUMP_3A"
  "allowed_write cur REG_USBIN_ICL_CFG ICL_RAW_5V_2P7A" "allowed_write cur REG_USBIN_ICL_CFG ICL_RAW_DCP_2A"
  "allowed_write cur REG_USBIN_ICL_CFG ICL_RAW_HVDCP2_1P5A" "allowed_write cur REG_USBIN_ICL_CFG (qc35_icl_raw w)"
proof -
  have q: "with_qc2_max_9v v AND 0xC0 = 0x40" and a: "with_adapter_allow_5v_to_12v v AND 0x0F = 0x0C"
    and o: "((v OR 0x4C) AND NOT 0x20) AND 0x6C = (0x4C :: u8)" and s: "\<not> bit (v AND NOT 1) 0"
    and c: "\<not> bit (v AND NOT 0x80) 7" for v :: u8
    by (simp_all add: with_qc2_max_9v_def with_adapter_allow_5v_to_12v_def word_ao_dist and.assoc bit_simps)
  show "allowed_write cur REG_CMD_HVDCP_2 BIT_FORCE_5V" "allowed_write cur REG_INT_LATCHED_CLR 0xFF"
    "allowed_write cur REG_USBIN_CMD_IL (v AND NOT BIT_USBIN_SUSPEND)" "allowed_write cur REG_CMD_APSD BIT_APSD_RERUN"
    "allowed_write cur REG_CMD_ICL_OVERRIDE BIT_ICL_OVERRIDE" "allowed_write cur REG_TYPE_C_CFG (v AND NOT BIT_BC1P2_START_ON_CC)"
    "allowed_write cur REG_HVDCP_PULSE_COUNT_MAX (with_qc2_max_9v v)"
    "allowed_write cur REG_USBIN_ADAPTER_ALLOW (with_adapter_allow_5v_to_12v v)"
    "allowed_write cur REG_USBIN_OPTIONS_1 ((v OR (BIT_HVDCP_EN OR BIT_HVDCP_AUTH_ALG_EN OR BIT_BC1P2_SRC_DETECT)) AND NOT BIT_HVDCP_AUTONOMOUS)"
    "allowed_write cur REG_USBIN_ICL_CFG ICL_RAW_500MA" "allowed_write cur REG_USBIN_ICL_CFG ICL_RAW_PUMP_3A"
    "allowed_write cur REG_USBIN_ICL_CFG ICL_RAW_5V_2P7A" "allowed_write cur REG_USBIN_ICL_CFG ICL_RAW_DCP_2A"
    "allowed_write cur REG_USBIN_ICL_CFG ICL_RAW_HVDCP2_1P5A" "allowed_write cur REG_USBIN_ICL_CFG (qc35_icl_raw w)"
    using q [of v] a [of v] o [of v] s [of v] c [of v] by (simp_all add: allowed_write_def setting_ok_def command_ok_def qc35_icl_raw_def)
qed

lemmas keeps_flow = keeps_ret keeps_raise keeps_get keeps_and_then keeps_outcome keeps_or_else keeps_ignore
  keeps_value_or keeps_when keeps_block keeps_if keeps_case_option keeps_case_sum keeps_case_prod keeps_Let

lemmas keeps_base = keeps_flow keeps_book keeps_pulses keeps_sleep keeps_vin keeps_publish keeps_read
  keeps_write [OF allowed_writes(1)] keeps_write [OF allowed_writes(2)] keeps_write [OF allowed_writes(3)]
  keeps_write [OF allowed_writes(4)] keeps_write [OF allowed_writes(5)] keeps_write [OF allowed_writes(6)]
  keeps_write [OF allowed_writes(7)] keeps_write [OF allowed_writes(8)] keeps_write [OF allowed_writes(9)]
  keeps_write [OF allowed_writes(10)]

lemma keeps_resolve: "keeps I (resolve_endian_usbin P)"
  unfolding resolve_endian_usbin_def by (auto intro!: keeps_base keeps_hub_read split: sum.split)

lemma keeps_prepare_ops:
  "keeps I (clear_usbin_latched P bus)" "keeps I (clear_apsd_cc_gate P bus)" "keeps I (clear_usbin_suspend P bus)"
  "keeps I (ensure_icl_floor_500ma P bus)" "keeps I (enable_hvdcp P bus)" "keeps I (ensure_hvdcp_voltage_gates P bus)"
  "keeps I (sample_qc_status P bus)" "keeps I (apsd_rerun P bus)"
  unfolding clear_usbin_latched_def clear_apsd_cc_gate_def clear_usbin_suspend_def ensure_icl_floor_500ma_def
    enable_hvdcp_def ensure_hvdcp_voltage_gates_def sample_qc_status_def apsd_rerun_def Let_def
  by (intro keeps_base | simp)+

lemma keeps_icl_at_least: "(\<And>cur. allowed_write cur REG_USBIN_ICL_CFG target) \<Longrightarrow> keeps I (ensure_icl_at_least P bus target)"
  unfolding ensure_icl_at_least_def
  by (intro keeps_base keeps_prepare_ops keeps_write)

lemma keeps_apsd_poll: "keeps I (apsd_poll P bus waited)"
proof (induction "2000 - waited" arbitrary: waited rule: less_induct)
  case less
  have "keeps I (apsd_poll P bus (sat_add_u32 waited 200))" if "\<not> 2000 \<le> waited"
    using less that by (simp add: sat_add_u32_def u32_max_def)
  then show ?case
    by (subst apsd_poll.simps) (intro keeps_base | simp)+
qed

lemma keeps_pulse_cmd: "b \<in> {BIT_SINGLE_INC, BIT_SINGLE_DEC} \<Longrightarrow> keeps I (pulse_cmd_bit P bus b)"
  unfolding pulse_cmd_bit_def by (intro keeps_flow keeps_command) (auto simp: command_ok_def)

lemma keeps_pulse: "keeps I (pulse_inc_gap P bus gap)" "keeps I (pulse_dec_gap P bus gap)"
  "keeps I (pulse_inc P bus)" "keeps I (pulse_dec P bus)"
  unfolding pulse_inc_gap_def pulse_dec_gap_def pulse_inc_def pulse_dec_def
  by (intro keeps_base keeps_pulse_cmd | simp)+

lemma keeps_force: "keeps I (force_9v P bus)" "keeps I (safe_force_5v P bus)"
proof -
  have "keeps I (modify (\<lambda>h. h\<lparr>hv_force9v_latched := True, hv_pulse_cnt := 20\<rparr>))"
  proof (rule keeps_modify)
    fix h assume "I h"
    then have "I (h\<lparr>hv_pulse_cnt := 20\<rparr>)" by (rule pulses) simp
    then show "I (h\<lparr>hv_force9v_latched := True, hv_pulse_cnt := 20\<rparr>)" by (rule bookkeeping) simp_all
  qed
  then show "keeps I (force_9v P bus)"
    unfolding force_9v_def by (intro keeps_command keeps_flow keeps_sleep) (simp_all add: command_ok_def)
  show "keeps I (safe_force_5v P bus)"
    unfolding safe_force_5v_def by (intro keeps_base | simp)+
qed

text \<open>The loops.\<close>

lemma keeps_force9v_loop: "keeps I (force9v_loop P waited deadline extended v peak confirm)"
proof (induction "5000 - waited" arbitrary: waited deadline extended v peak confirm rule: less_induct)
  case less
  show ?case
    by (subst force9v_loop.simps) (intro keeps_base less | simp add: sat_add_u32_def u32_max_def)+
qed

lemma keeps_vin_poll: "keeps I (vin_poll P timeout pred waited)"
proof (induction "min timeout u32_max - waited" arbitrary: waited rule: less_induct)
  case less
  show ?case
    by (subst vin_poll.simps) (intro keeps_base less | simp add: sat_add_u32_def u32_max_def)+
qed

lemma keeps_waits: "keeps I (wait_force9v_rise P)" "keeps I (wait_vin_window P timeout pred)" "keeps I (wait_apsd_done P bus)"
  unfolding wait_force9v_rise_def wait_vin_window_def wait_apsd_done_def
  by (intro keeps_base keeps_force9v_loop keeps_vin_poll keeps_apsd_poll)+

lemma keeps_prep_loop: "keeps I (prep_loop P bus prep vin)"
proof (induction "8 - prep" arbitrary: prep vin rule: less_induct)
  case less
  show ?case
    by (subst prep_loop.simps) (intro keeps_base keeps_pulse less | simp add: sat_add_u32_def u32_max_def no_reason_def | (elim conjE, arith))+
qed

lemma keeps_qc3_raise: "keeps I (or_fail_5v P bus m)" if "keeps I m" for m
  unfolding or_fail_5v_def set_phase_def using that by (intro keeps_base keeps_force | simp)+

lemma keeps_qc3_loop: "keeps I (qc3_raise P bus target ceiling n vin)"
  by (induction n arbitrary: vin)
     (auto simp: vbus_marks_ok_def intro!: keeps_flow keeps_qc3_raise keeps_pulse keeps_marks keeps_vin)

lemma keeps_hold_loop: "keeps I (hold_loop P n vin hold)"
  by (induction n arbitrary: vin hold) (auto simp: Let_def intro!: keeps_flow keeps_sleep keeps_vin)

lemma keeps_dcp_raise: "keeps I (dcp_raise P bus target inc vin)"
proof (induction "23 - inc" arbitrary: inc vin rule: less_induct)
  case less
  show ?case
    by (subst dcp_raise.simps) (intro keeps_base keeps_pulse less | simp add: sat_add_u32_def u32_max_def | (elim conjE, arith))+
qed

lemma keeps_trim_loop: "keeps I (trim_loop P bus stop low dec vin)"
proof (induction "20 - dec" arbitrary: dec vin rule: less_induct)
  case less
  show ?case
    by (subst trim_loop.simps) (intro keeps_base keeps_pulse less | simp add: sat_add_u32_def u32_max_def | (elim conjE, arith))+
qed

lemma keeps_boost_loop: "keeps I (boost_loop P bus stop high inc vin)"
proof (induction "23 - inc" arbitrary: inc vin rule: less_induct)
  case less
  show ?case
    by (subst boost_loop.simps) (intro keeps_base keeps_pulse less | simp add: sat_add_u32_def u32_max_def Let_def | (elim conjE, arith))+
qed

text \<open>The paths of the negotiation.\<close>

lemma keeps_phase: "keeps I (set_phase ph)"
  unfolding set_phase_def by (rule keeps_book) simp

lemma keeps_set_apsd: "keeps I (set_apsd st res)"
  unfolding set_apsd_def by (rule keeps_book) simp

lemma keeps_fails:
  "vbus_marks_ok extra \<Longrightarrow> keeps I (hv_fail extra err)"
  "keeps I m \<Longrightarrow> (\<And>e. vbus_marks_ok (ex e)) \<Longrightarrow> keeps I (or_hv_fail m ex)"
  "vbus_marks_ok ms \<Longrightarrow> keeps I (auth_fail ms)"
  unfolding hv_fail_def or_hv_fail_def auth_fail_def
  by (intro keeps_flow keeps_phase keeps_marks keeps_publish | assumption)+

lemma keeps_mark_icl: "keeps I m \<Longrightarrow> name \<noteq> ''SuVbusEst'' \<Longrightarrow> keeps I (mark_icl name m)"
  unfolding mark_icl_def by (intro keeps_flow keeps_mark)

lemma keeps_mark_result: "keeps I mark_result"
  unfolding mark_result_def by (intro keeps_flow keeps_marks) (simp add: vbus_marks_ok_def)

lemma keeps_icl_targets:
  "keeps I (ensure_icl_at_least P bus ICL_RAW_PUMP_3A)" "keeps I (ensure_icl_at_least P bus ICL_RAW_5V_2P7A)"
  "keeps I (ensure_icl_at_least P bus ICL_RAW_DCP_2A)" "keeps I (ensure_icl_at_least P bus ICL_RAW_HVDCP2_1P5A)"
  "keeps I (ensure_icl_at_least P bus (qc35_icl_raw w))"
  by (intro keeps_icl_at_least allowed_writes)+

lemmas keeps_steps = keeps_flow keeps_waits keeps_prepare_ops keeps_pulse keeps_force keeps_phase keeps_set_apsd
  keeps_fails keeps_mark_icl keeps_mark_result keeps_icl_targets keeps_publish keeps_marks keeps_mark keeps_vin
  keeps_sleep keeps_read keeps_qc3_raise keeps_qc3_loop keeps_hold_loop keeps_dcp_raise keeps_prep_loop

lemma keeps_authenticate: "keeps I (attempt_qc35_authenticate P bus)"
proof -
  have pulses: "keeps I (auth_pulses P bus code ps)" for code ps
    unfolding auth_pulses_def
    by (rule keeps_block)
       (auto simp: pulse_auth_step_def vbus_marks_ok_def intro!: keeps_steps split: qc35_auth_pulse.split)
  have prep: "keeps I (prep_qc35_detect_window P bus)"
    unfolding prep_qc35_detect_window_def
    by (auto intro!: keeps_steps split: qc35_auth_gate.split option.split)
  show ?thesis
    unfolding attempt_qc35_authenticate_def auth_confirm_def Let_def
    by (intro keeps_steps pulses prep) (simp_all add: vbus_marks_ok_def)
qed

lemma keeps_elevations:
  "keeps I (elevate_qc3 P bus vbat)" "keeps I (elevate_qc2 P bus)" "keeps I (elevate_dcp P bus vbat)"
proof -
  have reset: "keeps I (modify (\<lambda>h. h\<lparr>hv_pulse_cnt := 0\<rparr>))" by (rule keeps_pulses) simp
  show "keeps I (elevate_qc3 P bus vbat)" "keeps I (elevate_qc2 P bus)" "keeps I (elevate_dcp P bus vbat)"
    unfolding elevate_qc3_def elevate_qc2_def elevate_dcp_def dcp_retreat_def Let_def
    by (intro keeps_steps keeps_authenticate reset | simp add: vbus_marks_ok_def)+
qed

lemma keeps_classify: "keeps I (negotiate_classify P bus pre)"
proof -
  have guard: "keeps I (demote_guard pre)" and promote: "keeps I promote" and latched: "keeps I (classify_latched pre)"
    unfolding demote_guard_def promote_def classify_latched_def Let_def
    by (intro keeps_steps keeps_book | simp add: vbus_marks_ok_def)+
  have "keeps I (classify_rerun P bus pre)"
    unfolding classify_rerun_def by (intro keeps_steps guard | simp add: vbus_marks_ok_def)+
  with latched promote show ?thesis
    unfolding negotiate_classify_def by (intro keeps_steps | simp add: vbus_marks_ok_def)+
qed

lemma keeps_bounded:
  assumes "\<And>h. hv_pulse_cnt h \<le> MAX_PULSE_CNT \<Longrightarrow> keeps I (f h)"
  shows "keeps I (and_then get_state f)"
proof (rule keepsI)
  fix h assume "I h"
  with keepsD [OF assms [OF pulses_bounded [OF \<open>I h\<close>]] \<open>I h\<close>] show "\<exists>r t. and_then get_state f h = Some (r, t) \<and> I t"
    by (simp add: and_then_eq(1) [where m = get_state])
qed

lemma keeps_negotiate_on_bus: "keeps I (negotiate_on_bus P bus vbat)"
proof -
  have reset: "keeps I (modify (\<lambda>h. h\<lparr>hv_pulse_cnt := 0\<rparr>))" by (rule keeps_pulses) simp
  have prepare: "keeps I (negotiate_prepare P bus)"
    unfolding negotiate_prepare_def by (intro keeps_steps reset | simp add: vbus_marks_ok_def)+
  have snapshot: "keeps I (read_snapshot P bus)"
    unfolding read_snapshot_def by (intro keeps_steps | simp add: vbus_marks_ok_def)+
  have elevate: "keeps I (negotiate_elevate P bus vbat e)" for e
    unfolding negotiate_elevate_def
    by (auto intro!: keeps_steps keeps_elevations simp: vbus_marks_ok_def split: apsd_elevate.split)
  have finish: "keeps I (negotiate_finish P bus)"
    unfolding negotiate_finish_def
    by (intro keeps_bounded keeps_steps | simp add: vbus_marks_ok_def estimated_ok)+
  show ?thesis
    unfolding negotiate_on_bus_def
    by (intro keeps_steps prepare snapshot keeps_classify elevate finish) simp
qed

lemma keeps_open: "keeps I (su_open P)" "keeps I (su_close P)" "keeps I m \<Longrightarrow> keeps I (closing P m)"
proof -
  show open': "keeps I (su_open P)" unfolding su_open_def by (rule keeps_call) (rule device_open)
  have close: "keeps I (su_close P)" unfolding su_close_def by (rule keeps_modify) (rule device_close)
  then show "keeps I (su_close P)" .
  show "keeps I (closing P m)" if "keeps I m"
  proof -
    have "keeps I (su_close P)" unfolding su_close_def by (rule keeps_modify) (rule device_close)
    with that show ?thesis unfolding closing_def by (intro keeps_flow)
  qed
qed

lemma keeps_run_negotiate: "keeps I (run_negotiate P usbin vbat)"
proof -
  have hub: "keeps I (negotiate_usbin P usbin vbat)"
    unfolding negotiate_usbin_def
    by (auto intro!: keeps_steps keeps_book keeps_hub_open keeps_resolve keeps_negotiate_on_bus
        simp: vbus_marks_ok_def split: option.split)
  show ?thesis
    unfolding run_negotiate_def
    by (intro keeps_steps keeps_book hub keeps_open keeps_grant keeps_negotiate_on_bus | simp)+
qed

lemma keeps_on_open_bus: "(\<And>bus. keeps I (body bus)) \<Longrightarrow> keeps I (on_open_bus P usbin body none)"
  unfolding on_open_bus_def
  by (intro keeps_flow keeps_book keeps_open keeps_hub_open | simp)+

lemma keeps_trim_boost:
  "keeps I (trim_vin_for_pump P usbin vin vbat)" "keeps I (boost_vin_for_pump P usbin vin vbat)"
  "keeps I (one_dec_pulse P usbin)"
  unfolding trim_vin_for_pump_def boost_vin_for_pump_def one_dec_pulse_def Let_def
  by (intro keeps_steps keeps_on_open_bus keeps_trim_loop keeps_boost_loop | simp)+

lemma keeps_nudge: "keeps I (nudge_vin_into_window P usbin vin vbat dead)"
  unfolding nudge_vin_into_window_def Let_def
  by (intro keeps_steps keeps_trim_boost | simp)+

lemma keeps_raise_icl:
  assumes "\<And>cur. allowed_write cur REG_USBIN_ICL_CFG target" "name \<noteq> ''SuVbusEst''"
  shows "keeps I (raise_icl P usbin name target)"
  unfolding raise_icl_def Let_def
  by (intro keeps_flow keeps_book keeps_open keeps_hub_open keeps_icl_at_least [OF assms(1)] keeps_mark assms(2) | simp)+

lemma keeps_raise_limit:
  "keeps I (raise_icl_for_pump P usbin)" "keeps I (raise_icl_for_5v_bypass P usbin)"
  unfolding raise_icl_for_pump_def raise_icl_for_5v_bypass_def
  by (intro keeps_flow keeps_marks keeps_phase keeps_mark keeps_raise_icl allowed_writes | simp add: vbus_marks_ok_def)+

end

section \<open>Termination and the pulse count\<close>

definition honest :: "'w hvdcp \<Rightarrow> bool" where
  "honest h \<longleftrightarrow> hv_pulse_cnt h \<le> MAX_PULSE_CNT \<and> vbus_marks_ok (hv_marks h)"

interpretation honest: hvdcp_invariant P honest "\<lambda>_. UNIV"
  for P :: "'w platform"
  by unfold_locales (auto simp: honest_def vbus_marks_ok_def)

lemma honest_new [simp]: "honest (hvdcp_new w)"
  by (simp add: honest_def hvdcp_new_def vbus_marks_ok_def)

text \<open>The entry points the driver calls, in any order.\<close>

datatype hvdcp_call = CallNegotiate | CallTrim i32 | CallBoost i32 | CallNudge i32 bool | CallRaisePump | CallRaise5v

fun hvdcp_call_op :: "'w platform \<Rightarrow> u64 option \<Rightarrow> u32 \<Rightarrow> hvdcp_call \<Rightarrow> ('w, unit) hv_op" where
  "hvdcp_call_op P usbin vbat CallNegotiate = run_negotiate P usbin vbat"
| "hvdcp_call_op P usbin vbat (CallTrim vin) = and_then (trim_vin_for_pump P usbin vin vbat) (\<lambda>_. ret ())"
| "hvdcp_call_op P usbin vbat (CallBoost vin) = and_then (boost_vin_for_pump P usbin vin vbat) (\<lambda>_. ret ())"
| "hvdcp_call_op P usbin vbat (CallNudge vin dead) = and_then (nudge_vin_into_window P usbin vin vbat dead) (\<lambda>_. ret ())"
| "hvdcp_call_op P usbin vbat CallRaisePump = and_then (raise_icl_for_pump P usbin) (\<lambda>_. ret ())"
| "hvdcp_call_op P usbin vbat CallRaise5v = and_then (raise_icl_for_5v_bypass P usbin) (\<lambda>_. ret ())"

text \<open>A run of calls, each with the cell voltage of its time, whatever each of them answers.\<close>

definition hvdcp_calls :: "'w platform \<Rightarrow> u64 option \<Rightarrow> (u32 \<times> hvdcp_call) list \<Rightarrow> ('w, unit) hv_op" where
  "hvdcp_calls P usbin calls = block (map (\<lambda>(vbat, call). ignore (hvdcp_call_op P usbin vbat call)) calls)"

lemma hvdcp_calls_keep:
  assumes "hvdcp_invariant P I seen"
  shows "keeps I (hvdcp_calls P usbin calls)"
proof -
  have "keeps I (hvdcp_call_op P usbin vbat call)" for vbat call
    by (cases call) (auto intro!: keeps_and_then keeps_ret hvdcp_invariant.keeps_run_negotiate [OF assms]
        hvdcp_invariant.keeps_trim_boost [OF assms] hvdcp_invariant.keeps_nudge [OF assms]
        hvdcp_invariant.keeps_raise_limit [OF assms])
  then show ?thesis
    unfolding hvdcp_calls_def by (intro keeps_block) (auto intro!: keeps_ignore)
qed

lemma hvdcp_calls_ok: "hvdcp_calls P usbin calls h = Some (r, h') \<Longrightarrow> r = Inr ()"
  unfolding hvdcp_calls_def
  by (induction calls arbitrary: h) (auto simp: ignore_def and_then_def outcome_def split: option.splits prod.splits)

text \<open>
  C23. The voltage negotiation always comes to an end, and never counts past its budget: on every platform,
  whatever the buses, the adapter and the ADC answer, every run of negotiations, trims, boosts, nudges and
  current votes returns, with at most 23 pulses counted and no published bus estimate above 9.6 V.
\<close>

theorem hvdcp_returns_bounded:
  "\<exists>h. hvdcp_calls P usbin calls (hvdcp_new w) = Some (Inr (), h) \<and> hv_pulse_cnt h \<le> 23 \<and>
     estimated_vbus_uv (hv_pulse_cnt h) \<le> 9600000 \<and>
     {v. (''SuVbusEst'', v) \<in> set (hv_marks h)} \<subseteq> {..9600000}"
proof -
  have "\<exists>r h. hvdcp_calls P usbin calls (hvdcp_new w) = Some (r, h) \<and> honest h"
    by (rule keepsD [OF hvdcp_calls_keep [OF honest.hvdcp_invariant_axioms] honest_new])
  then show ?thesis
    using hvdcp_calls_ok by (fastforce simp: honest_def vbus_marks_ok_def estimated_vbus_uv_def sat_add_u32_def sat_mul_u32_def)
qed

section \<open>What is written\<close>

text \<open>
  A platform that keeps a record of every write it is asked for, over frames and over the hub, and of what each
  reading of the command register counts as, beside the platform it passes the accesses on to.
\<close>

datatype access = Wrote u8 u16 "u8 list" | Command u8

type_synonym write_log = "access list"

text \<open>The last reading of the command register after a record, and each write with the reading before it.\<close>

primrec last_command :: "u8 \<Rightarrow> write_log \<Rightarrow> u8" where
  "last_command cur [] = cur"
| "last_command cur (x # xs) = last_command (case x of Command v \<Rightarrow> v | Wrote _ _ _ \<Rightarrow> cur) xs"

primrec writes_from :: "u8 \<Rightarrow> write_log \<Rightarrow> (u8 \<times> u8 \<times> u16 \<times> u8 list) list" where
  "writes_from cur [] = []"
| "writes_from cur (x # xs) = (case x of
     Command v \<Rightarrow> writes_from v xs
   | Wrote sid a data \<Rightarrow> (cur, sid, a, data) # writes_from cur xs)"

abbreviation writes :: "write_log \<Rightarrow> (u8 \<times> u8 \<times> u16 \<times> u8 list) list" where
  "writes \<equiv> writes_from 0"

lemma last_command_append [simp]: "last_command cur (l @ l') = last_command (last_command cur l) l'"
  by (induction l arbitrary: cur) simp_all

lemma writes_from_append [simp]: "writes_from cur (l @ l') = writes_from cur l @ writes_from (last_command cur l) l'"
  by (induction l arbitrary: cur) (simp_all split: access.split)

definition recorded :: "('w \<Rightarrow> 'r \<times> 'w) \<Rightarrow> ('r \<Rightarrow> write_log) \<Rightarrow> 'w \<times> write_log \<Rightarrow> 'r \<times> 'w \<times> write_log" where
  "recorded f ws = (\<lambda>(w, l). let (r, w') = f w in (r, w', l @ ws r))"

definition recording_dev :: "'w superuser_dev \<Rightarrow> ('w \<times> write_log) superuser_dev" where
  "recording_dev D =
     \<lparr>dev_open = recorded (dev_open D) (\<lambda>_. []),
      dev_ioctl = (\<lambda>code i n. recorded (dev_ioctl D code i n) (\<lambda>r.
        if code = IOCTL_SPMI_SUPERUSER_WRITE then [Wrote (frame_sid i) (frame_reg i) (drop 12 i)]
        else if code = IOCTL_SPMI_SUPERUSER_READ \<and> frame_sid i = 2 \<and> frame_reg i = REG_CMD_HVDCP_2
        then [Command (frame_reading r)] else [])),
      dev_close = (\<lambda>(w, l). (dev_close D w, l))\<rparr>"

definition recording :: "'w platform \<Rightarrow> ('w \<times> write_log) platform" where
  "recording P =
     \<lparr>pf_superuser = recording_dev (pf_superuser P),
      pf_usbin_open = (\<lambda>usbin. recorded (pf_usbin_open P usbin) (\<lambda>_. [])),
      pf_usbin_transact = (\<lambda>a v be. recorded (pf_usbin_transact P a v be) (\<lambda>r. case v of
          None \<Rightarrow> if a = REG_CMD_HVDCP_2 then [Command (hub_reading r)] else []
        | Some x \<Rightarrow> [Wrote 2 a [x]])),
      pf_sleep_ms = (\<lambda>ms (w, l). (pf_sleep_ms P ms w, l)),
      pf_read_vin = recorded (pf_read_vin P) (\<lambda>_. [])\<rparr>"

definition log_ok :: "write_log \<Rightarrow> bool" where
  "log_ok l \<longleftrightarrow> (\<forall>(cur, sid, a, data)\<in>set (writes l). sid = 2 \<and> (\<exists>v. data = [v] \<and> allowed_write cur a v))"

definition writes_ok :: "('w \<times> write_log) hvdcp \<Rightarrow> bool" where
  "writes_ok h \<longleftrightarrow> honest h \<and> log_ok (snd (hv_world h))"

lemma recorded_simps [simp]:
  "fst (recorded f ws x) = fst (f (fst x))" "snd (snd (recorded f ws x)) = snd x @ ws (fst (f (fst x)))"
  by (simp_all add: recorded_def Let_def case_prod_beta)

lemma recorded_eq: "recorded f ws x = (r, y) \<Longrightarrow> snd y = snd x @ ws r"
  by (auto simp: recorded_def Let_def split: prod.splits)

lemma log_ok_append [simp]:
  "log_ok []" "log_ok (l @ [Command v]) = log_ok l"
  "log_ok (l @ [Wrote sid a data]) \<longleftrightarrow> log_ok l \<and> sid = 2 \<and> (\<exists>v. data = [v] \<and> allowed_write (last_command 0 l) a v)"
  by (auto simp: log_ok_def)

interpretation recorder: hvdcp_invariant "recording P" writes_ok "\<lambda>w. {last_command 0 (snd w)}"
  for P :: "'w platform"
  by unfold_locales
     (auto simp: writes_ok_def honest_def recording_def recording_dev_def frame_header frame_header_Nil vbus_marks_ok_def
       case_prod_beta dest!: recorded_eq)

text \<open>
  C22. The charger of the PMIC is only ever written where the negotiation means to: every run of negotiations
  and corrections, over the SUPERUSER frames or the Resource Hub and on every platform, leaves a record of
  writes that are one byte each, to the charger peripheral, and to the ten registers listed with their
  values: the input current limit only to one of the five known limits, the suspend bit and the CC gate only
  cleared, autonomous HVDCP never switched on, the QC 2.0 ceiling never above 9 V, and the command register only
  to force 5 V, or to what its last reading showed with 9 V forced or with one pulse: 12 V is never commanded
  unless the register already showed that command (lemma \<open>command_never_forces_12v\<close>).
\<close>

theorem hvdcp_writes_allowed:
  "\<exists>h. hvdcp_calls (recording P) usbin calls (hvdcp_new (w, [])) = Some (Inr (), h) \<and>
     set (writes (snd (hv_world h))) \<subseteq> {(cur, SPMI_SID_USBIN, a, [v]) |cur a v. allowed_write cur a v}"
proof -
  have "writes_ok (hvdcp_new (w, []))" by (simp add: writes_ok_def) (simp add: hvdcp_new_def)
  from keepsD [OF hvdcp_calls_keep [OF recorder.hvdcp_invariant_axioms] this, of P usbin calls]
  obtain r h where "hvdcp_calls (recording P) usbin calls (hvdcp_new (w, [])) = Some (r, h)" "writes_ok h"
    by blast
  with hvdcp_calls_ok [OF this(1)] show ?thesis
    by (auto simp: writes_ok_def log_ok_def)
qed

end
