(* ===== verification/Hvdcp_Outcome.thy ===== *)
theory Hvdcp_Outcome
  imports Hvdcp_Safety
begin

text \<open>
  What the negotiation reports and aims at: the phase and the error code it publishes are those of its
  result, its voltage target fits the pump's window, and a latched \<open>FORCE_9V\<close> is never nudged.
\<close>

section \<open>How a method can fail\<close>

text \<open>
  \<open>fails_as E m\<close>: whenever the method ends with an error, \<open>E\<close> holds of the error and the state. Most methods
  never fail, and the rules for the ways of catching an error say so.
\<close>

definition fails_as :: "('e \<Rightarrow> 's \<Rightarrow> bool) \<Rightarrow> ('s, 'e, 'a) op \<Rightarrow> bool" where
  "fails_as E m \<longleftrightarrow> (\<forall>s e t. m s = Some (Inl e, t) \<longrightarrow> E e t)"

named_theorems fails_intros "rules for the errors a method can end with"

lemma fails_pure [fails_intros]:
  "fails_as E (ret x)" "fails_as E get_state" "fails_as E (modify f)" "fails_as E (outcome m)"
  "fails_as E (ignore m')" "fails_as E (value_or m' d)"
  by (auto simp: fails_as_def outcome_def ignore_def value_or_def and_then_def split: option.splits prod.splits)

lemma fails_and_then [fails_intros]:
  "fails_as E m \<Longrightarrow> (\<And>x. fails_as E (f x)) \<Longrightarrow> fails_as E (and_then m f)"
  unfolding fails_as_def by (blast dest: and_then_SomeD)

lemma fails_or_else [fails_intros]: "(\<And>e. fails_as E (f e)) \<Longrightarrow> fails_as E (or_else m f)"
  unfolding or_else_def by (rule fails_and_then) (auto intro: fails_intros split: sum.split)

lemma fails_if [fails_intros]:
  "(b \<Longrightarrow> fails_as E m) \<Longrightarrow> (\<not> b \<Longrightarrow> fails_as E n) \<Longrightarrow> fails_as E (if b then m else n)"
  "(b \<Longrightarrow> fails_as E m') \<Longrightarrow> fails_as E (when_op b m')"
  by (simp_all add: when_op_def fails_as_def)

lemma fails_cases [fails_intros]:
  "(\<And>y. x = Inl y \<Longrightarrow> fails_as E (f y)) \<Longrightarrow> (\<And>y. x = Inr y \<Longrightarrow> fails_as E (g y)) \<Longrightarrow> fails_as E (case_sum f g x)"
  "(x' = None \<Longrightarrow> fails_as E n) \<Longrightarrow> (\<And>y. x' = Some y \<Longrightarrow> fails_as E (h y)) \<Longrightarrow> fails_as E (case_option n h x')"
  "(\<And>a b. fails_as E (k a b)) \<Longrightarrow> fails_as E (case_prod k z)"
  "fails_as E (l v) \<Longrightarrow> fails_as E (Let v l)"
  by (auto split: sum.split option.split prod.split)

lemma fails_world [fails_intros]:
  "fails_as E (sleep_ms P ms)" "fails_as E (read_vin P)" "fails_as E (marks xs)" "fails_as E (mark name v)"
  "fails_as E (set_phase ph)" "fails_as E (publish_marks err)" "fails_as E (mark_icl name m)"
  "fails_as E (set_apsd st res)" "fails_as E mark_result" "fails_as E (safe_force_5v P bus)"
  unfolding sleep_ms_def read_vin_def mark_def marks_def set_phase_def publish_marks_def mark_icl_def set_apsd_def
    mark_result_def safe_force_5v_def
  by (intro fails_intros | simp add: fails_as_def on_world_def split: prod.splits option.splits)+

lemma fails_clear [fails_intros]:
  "fails_as E (clear_usbin_latched P bus)" "fails_as E (clear_usbin_suspend P bus)"
  unfolding clear_usbin_latched_def clear_usbin_suspend_def by (intro fails_intros)+

lemma fails_force9v_loop: "fails_as E (force9v_loop P waited deadline extended v peak confirm)"
proof (induction "5000 - waited" arbitrary: waited deadline extended v peak confirm rule: less_induct)
  case less
  show ?case
    by (subst force9v_loop.simps) (intro fails_intros less; simp add: sat_add_u32_def u32_max_def)
qed

lemma fails_hold_loop: "fails_as E (hold_loop P n v hold)"
  by (induction n arbitrary: v hold) (auto simp: Let_def intro!: fails_intros)

lemma fails_dcp_raise: "fails_as E (dcp_raise P bus target inc v)"
proof (induction "23 - inc" arbitrary: inc v rule: less_induct)
  case less
  show ?case
    by (subst dcp_raise.simps)
       (intro fails_intros less; elim conjE; simp add: sat_add_u32_def u32_max_def)
qed

lemmas fails_loops [fails_intros] = fails_force9v_loop fails_hold_loop fails_dcp_raise

section \<open>The result is what is published\<close>

text \<open>The value a registry mark was last set to.\<close>

definition mark_value :: "string \<Rightarrow> 'w hvdcp \<Rightarrow> u32 option" where
  "mark_value name h = map_of (rev (hv_marks h)) name"

text \<open>The phase and the error mark are those of a failure with error \<open>err\<close>.\<close>

definition published :: "hvdcp_phase \<Rightarrow> hvdcp_error option \<Rightarrow> 'w hvdcp \<Rightarrow> bool" where
  "published ph err h \<longleftrightarrow> hv_phase h = ph \<and> mark_value ''HvdcpPhase'' h = Some (phase_code ph) \<and>
     mark_value ''HvdcpErr'' h = Some (error_mark err) \<and>
     mark_value ''SuVbusEst'' h = Some (estimated_vbus_uv (hv_pulse_cnt h))"

abbreviation (input) failed_with :: "hvdcp_error \<Rightarrow> 'w hvdcp \<Rightarrow> bool" where
  "failed_with err \<equiv> published PhFailed (Some err)"

lemma published_publish:
  "publish_marks err h = Some (r, h') \<Longrightarrow> r = Inr () \<and> published (hv_phase h) err h'"
  by (auto simp: publish_marks_def published_def mark_value_def and_then_def marks_def)

lemma published_world [simp]: "published ph err (h\<lparr>hv_world := w\<rparr>) = published ph err h"
  by (simp add: published_def mark_value_def)

lemma fails_publish_raise:
  "hv_phase h = PhFailed \<Longrightarrow> and_then (publish_marks (Some err)) (\<lambda>_. raise err) h = Some (Inl e, h') \<Longrightarrow> failed_with e h'"
  by (fastforce dest!: and_then_SomeD published_publish)

lemma fails_hv_fail [fails_intros]: "fails_as failed_with (hv_fail extra err)"
  unfolding fails_as_def hv_fail_def set_phase_def marks_def
  by (auto simp: and_then_eq(1) [where m = "modify f" for f] dest!: fails_publish_raise [rotated])

lemma fails_or_hv_fail [fails_intros]: "fails_as failed_with (or_hv_fail m extra)"
  unfolding or_hv_fail_def by (intro fails_intros)

lemma on_world_phase: "on_world m h = Some (r, h') \<Longrightarrow> hv_phase h' = hv_phase h"
  by (auto simp: on_world_def split: option.splits)

lemma outcome_SomeD: "outcome m h = Some (x, h') \<Longrightarrow> \<exists>r. x = Inr r \<and> m h = Some (r, h')"
  by (auto simp: outcome_def split: option.splits)

lemma spmi_io_phase: "spmi_io m h = Some (r, h') \<Longrightarrow> hv_phase h' = hv_phase h"
  unfolding spmi_io_def or_else_def
  by (auto dest!: and_then_SomeD outcome_SomeD on_world_phase split: sum.splits)

lemma write_reg_phase: "hv_write_reg P bus a v h = Some (r, h') \<Longrightarrow> hv_phase h' = hv_phase h"
  unfolding hv_write_reg_def spmi_rw_usbin_def
  by (cases bus) (auto dest!: and_then_SomeD spmi_io_phase)

lemma safe_force_5v_phase: "safe_force_5v P bus h = Some (r, h') \<Longrightarrow> hv_phase h' = hv_phase h"
  unfolding safe_force_5v_def ignore_def
  by (auto dest!: and_then_SomeD outcome_SomeD write_reg_phase)

lemma fails_retreat:
  fixes P :: "'w platform"
  assumes "hv_phase h = PhFailed"
    and "and_then (safe_force_5v P bus) (\<lambda>_. and_then (publish_marks (Some err)) (\<lambda>_. raise err :: ('w, 'b) hv_op)) h = Some (Inl e, h')"
  shows "failed_with e h'"
proof -
  have "\<not> safe_force_5v P bus h = Some (Inl e, h')"
    using fails_world(10) [of "\<lambda>(_ :: hvdcp_error) _. False" P bus] by (auto simp: fails_as_def)
  with and_then_SomeD [OF assms(2)] obtain u where u: "safe_force_5v P bus h = Some (Inr () :: hvdcp_error + unit, u)"
    and raised: "and_then (publish_marks (Some err)) (\<lambda>_. raise err :: ('w, 'b) hv_op) u = Some (Inl e, h')"
    by auto
  with assms(1) show ?thesis
    by (intro fails_publish_raise [OF _ raised]) (simp_all add: safe_force_5v_phase [OF u])
qed

lemma fails_or_fail_5v [fails_intros]: "fails_as failed_with (or_fail_5v P bus m)"
proof (unfold or_fail_5v_def, rule fails_or_else)
  show "fails_as failed_with (and_then (set_phase PhFailed) (\<lambda>_. and_then (safe_force_5v P bus)
      (\<lambda>_. and_then (publish_marks (Some err)) (\<lambda>_. raise err))))" for err
    by (auto simp: fails_as_def set_phase_def and_then_eq(1) [where m = "modify f" for f] intro: fails_retreat [rotated])
qed

lemma fails_qc3_raise [fails_intros]: "fails_as failed_with (qc3_raise P bus target ceiling n v)"
  by (induction n arbitrary: v) (auto intro!: fails_intros)

lemma fails_negotiate_on_bus [fails_intros]: "fails_as failed_with (negotiate_on_bus P bus vbat)"
proof -
  have elevate: "fails_as failed_with (negotiate_elevate P bus vbat e)" for e
    unfolding negotiate_elevate_def elevate_qc3_def elevate_qc2_def elevate_dcp_def dcp_retreat_def wait_force9v_rise_def Let_def
    by (auto intro!: fails_intros split: apsd_elevate.split)
  have "fails_as failed_with (negotiate_classify P bus pre)" for pre
    unfolding negotiate_classify_def classify_rerun_def classify_latched_def promote_def demote_guard_def Let_def
    by (intro fails_intros)+
  then show ?thesis
    unfolding negotiate_on_bus_def negotiate_prepare_def read_snapshot_def negotiate_finish_def
    by (intro fails_intros elevate)+
qed

lemma fails_run_negotiate: "fails_as failed_with (run_negotiate P usbin vbat)"
proof -
  have closing: "fails_as failed_with m \<Longrightarrow> fails_as failed_with (closing P m)" for m :: "('a, unit) hv_op"
    unfolding fails_as_def closing_def su_close_def
    by (fastforce dest!: and_then_SomeD outcome_SomeD split: sum.splits)
  have "fails_as failed_with (negotiate_usbin P usbin vbat)"
    unfolding negotiate_usbin_def by (intro fails_intros)
  then show ?thesis
    unfolding run_negotiate_def su_close_def
    by (intro fails_intros closing | simp)+
qed

text \<open>A method that ends well went through its last step.\<close>

definition ends_as :: "('s \<Rightarrow> bool) \<Rightarrow> ('s, 'e, 'a) op \<Rightarrow> bool" where
  "ends_as E m \<longleftrightarrow> (\<forall>s x t. m s = Some (Inr x, t) \<longrightarrow> E t)"

named_theorems ends_intros "rules for the state after a method that succeeds"

lemma ends_flow [ends_intros]:
  "ends_as E (raise e)" "(\<And>x. ends_as E (f x)) \<Longrightarrow> ends_as E (and_then m f)"
  "(\<And>y. x' = Inl y \<Longrightarrow> ends_as E (g y)) \<Longrightarrow> (\<And>y. x' = Inr y \<Longrightarrow> ends_as E (k y)) \<Longrightarrow> ends_as E (case_sum g k x')"
  "(z = None \<Longrightarrow> ends_as E n) \<Longrightarrow> (\<And>y. z = Some y \<Longrightarrow> ends_as E (l y)) \<Longrightarrow> ends_as E (case_option n l z)"
  by (auto simp: ends_as_def dest!: and_then_SomeD split: sum.split option.split)

lemma ends_negotiate_on_bus [ends_intros]: "ends_as (published PhDone None) (negotiate_on_bus P bus vbat)"
proof -
  have "ends_as (published PhDone None) (and_then (set_phase PhDone) (\<lambda>_. and_then get_state (\<lambda>h.
      and_then (marks (ms h)) (\<lambda>_. publish_marks None))))" for ms :: "'a hvdcp \<Rightarrow> (string \<times> u32) list"
    by (fastforce simp: ends_as_def set_phase_def marks_def and_then_eq(1) [where m = "modify f" for f]
        and_then_eq(1) [where m = get_state] dest: published_publish)
  then have "ends_as (published PhDone None) (negotiate_finish P bus)"
    unfolding negotiate_finish_def by (rule ends_flow(2) [OF ends_flow(2)])
  then show ?thesis
    unfolding negotiate_on_bus_def by (intro ends_flow)
qed

lemma ends_run_negotiate: "ends_as (published PhDone None) (run_negotiate P usbin vbat)"
proof -
  have closing: "ends_as (published PhDone None) m \<Longrightarrow> ends_as (published PhDone None) (closing P m)" for m :: "('a, unit) hv_op"
    unfolding ends_as_def closing_def su_close_def
    by (fastforce dest!: and_then_SomeD outcome_SomeD split: sum.splits)
  have fail: "ends_as E (hv_fail extra err)" for E extra err
    unfolding hv_fail_def by (intro ends_flow)
  have "ends_as (published PhDone None) (negotiate_usbin P usbin vbat)"
    unfolding negotiate_usbin_def by (intro ends_intros fail)
  then show ?thesis
    unfolding run_negotiate_def
    by (intro ends_intros closing)
qed

text \<open>
  C24. What a negotiation reports is what happened: after any run of earlier calls, the negotiation returns;
  when it succeeds its phase is \<open>Done\<close> and the published error 0, when it fails its phase is \<open>Failed\<close> and the
  published error the code of the very error it returns, and in both cases the published phase and bus
  estimate are those of its state.
\<close>

theorem negotiation_reports:
  "\<exists>r h. and_then (hvdcp_calls P usbin calls) (\<lambda>_. run_negotiate P usbin vbat) (hvdcp_new w) = Some (r, h) \<and>
     (case r of Inr _ \<Rightarrow> published PhDone None h | Inl e \<Rightarrow> published PhFailed (Some e) h)"
proof -
  have "keeps honest (and_then (hvdcp_calls P usbin calls) (\<lambda>_. run_negotiate P usbin vbat))"
    by (intro keeps_and_then hvdcp_calls_keep [OF honest.hvdcp_invariant_axioms] honest.keeps_run_negotiate)
  from keepsD [OF this honest_new] obtain r h where
    run: "and_then (hvdcp_calls P usbin calls) (\<lambda>_. run_negotiate P usbin vbat) (hvdcp_new w) = Some (r, h)"
    by blast
  then obtain h' where "run_negotiate P usbin vbat h' = Some (r, h)"
    by (auto dest!: and_then_SomeD hvdcp_calls_ok)
  then show ?thesis
    using run fails_run_negotiate [of P usbin vbat] ends_run_negotiate [of P usbin vbat]
    by (auto simp: fails_as_def ends_as_def split: sum.split)
qed

end
