(* ===== verification/Hvdcp_Brick.thy ===== *)
theory Hvdcp_Brick
  imports Hvdcp_Outcome
begin

text \<open>
  The voltage targets of the negotiation, and its corrections on an ideal adapter: one that raises or lowers
  its voltage by one step of 200 mV for each pulse of the command register.
\<close>

section \<open>Targets\<close>

lemma target_cases:
  "target_vbus_uv vbat = (if vbat = 0 then 9500000 else max 6000000 (min 9600000 (2 * vbat + 300000)))"
  by (auto simp: target_vbus_uv_def window_target_uv_def sat_add_u32_def sat_mul_u32_def u32_max_def Let_def)

lemma div_ceil_least:
  assumes "0 < b"
  shows "a \<le> b * n \<longleftrightarrow> div_ceil a b \<le> n"
proof -
  have "b * q + r \<le> b * n \<longleftrightarrow> (if r = 0 then q else Suc q) \<le> n" if "r < b" for q r
  proof (cases "q < n")
    case True
    then have "b * Suc q \<le> b * n" by (intro mult_le_mono2) simp
    with True that show ?thesis by auto
  next
    case False
    then have "b * n \<le> b * q" by simp
    then have "\<not> b * q + r \<le> b * n" if "r \<noteq> 0" using that by linarith
    with False assms show ?thesis by auto
  qed
  from this [of "a mod b" "a div b"] assms show ?thesis by (simp add: div_ceil_def)
qed

text \<open>
  C26. The voltage the negotiation aims at is between 6.0 V and 9.6 V for every cell voltage, and the number of
  pulses it wants is the least one whose estimated bus voltage reaches the target; that number is within the
  budget of 23 pulses, and it overshoots the target by less than one step.
\<close>

theorem target_reachable:
  "6000000 \<le> target_vbus_uv vbat \<and> target_vbus_uv vbat \<le> 9600000 \<and>
   pulses_toward_target vbat \<le> 23 \<and>
   {n. n \<le> 23 \<and> target_vbus_uv vbat \<le> estimated_vbus_uv n} = {pulses_toward_target vbat..23} \<and>
   estimated_vbus_uv (pulses_toward_target vbat) < target_vbus_uv vbat + 200000"
proof -
  have target: "6000000 \<le> target_vbus_uv vbat" "target_vbus_uv vbat \<le> 9600000"
    by (auto simp: target_cases)
  have est: "estimated_vbus_uv n = 5000000 + 200000 * n" if "n \<le> 23" for n
    using that by (simp add: estimated_vbus_uv_def sat_add_u32_def sat_mul_u32_def u32_max_def)
  define p where "p = div_ceil (target_vbus_uv vbat - 5000000) 200000"
  have reach: "target_vbus_uv vbat \<le> 5000000 + 200000 * n \<longleftrightarrow> p \<le> n" for n
    using div_ceil_least [of 200000 "target_vbus_uv vbat - 5000000" n] target by (simp add: p_def) linarith
  then have "p \<le> 23" using target reach [of 23] by simp
  moreover have "pulses_toward_target vbat = min p 23"
    using target by (simp add: pulses_toward_target_def Let_def p_def)
  moreover have "5000000 + 200000 * p < target_vbus_uv vbat + 200000"
    using reach [of "p - 1"] target by (cases p) auto
  ultimately show ?thesis
    using target reach est by auto
qed

section \<open>The adapter\<close>

text \<open>
  The adapter behind the Resource Hub: its world is the voltage at the input. A pulse is a write to the command
  register with one of the two bits set; every other access answers zero and changes nothing. The SUPERUSER
  device of this platform does not open.
\<close>

definition brick :: "int platform" where
  "brick =
     \<lparr>pf_superuser = \<lparr>dev_open = (\<lambda>v. (Inl STATUS_INVALID_PARAMETER, v)),
        dev_ioctl = (\<lambda>_ _ _ v. (Inl STATUS_INVALID_PARAMETER, v)), dev_close = (\<lambda>v. v)\<rparr>,
      pf_usbin_open = (\<lambda>_ v. (Inr (), v)),
      pf_usbin_transact = (\<lambda>a val be v. (Inr 0,
        if a = REG_CMD_HVDCP_2 then (case val of
            Some b \<Rightarrow> if b AND BIT_SINGLE_INC \<noteq> 0 then v + 200000
                      else if b AND BIT_SINGLE_DEC \<noteq> 0 then v - 200000 else v
          | None \<Rightarrow> v)
        else v)),
      pf_sleep_ms = (\<lambda>_ v. v),
      pf_read_vin = (\<lambda>v. (v, v))\<rparr>"

lemma wp_brick_access [simp]:
  "wp (hv_read_reg brick BusUsbin a) R h \<longleftrightarrow> R (Inr 0) h"
  "wp (hv_write_reg brick BusUsbin REG_CMD_HVDCP_2 v) Q h \<longleftrightarrow>
    Q (Inr ()) (h\<lparr>hv_world := if v AND BIT_SINGLE_INC \<noteq> 0 then hv_world h + 200000
                             else if v AND BIT_SINGLE_DEC \<noteq> 0 then hv_world h - 200000 else hv_world h\<rparr>)"
  by (simp_all add: hv_read_reg_def hv_write_reg_def spmi_rw_usbin_def spmi_io_def brick_def wp_def on_world_def nt_call_def
      op_defs)

lemma wp_brick_sleep [simp]: "wp (sleep_ms brick n) Q h \<longleftrightarrow> Q (Inr ()) h"
  by (simp add: sleep_ms_def brick_def)

lemma wp_brick_pulse [simp]:
  "wp (pulse_inc brick BusUsbin) Q h \<longleftrightarrow> Q (Inr ()) (if hv_force9v_latched h then h
     else h\<lparr>hv_world := hv_world h + 200000, hv_pulse_cnt := min (sat_add_u32 (hv_pulse_cnt h) 1) 23\<rparr>)"
  "wp (pulse_dec brick BusUsbin) Q h \<longleftrightarrow> Q (Inr ()) (if hv_force9v_latched h then h
     else h\<lparr>hv_world := hv_world h - 200000, hv_pulse_cnt := hv_pulse_cnt h - 1\<rparr>)"
  by (simp_all add: pulse_inc_def pulse_inc_gap_def pulse_dec_def pulse_dec_gap_def pulse_cmd_bit_def value_or_def wp_if)

lemma wp_brick_open [simp]:
  "wp (on_open_bus brick (Some usbin) body none) Q h \<longleftrightarrow> wp (body BusUsbin) Q h"
  by (simp add: on_open_bus_def su_open_def open_usbin_def brick_def wp_def on_world_def nt_call_def op_defs)

text \<open>The two voltages are a whole number of steps apart.\<close>

definition whole_steps :: "int \<Rightarrow> int \<Rightarrow> bool" where
  "whole_steps base v \<longleftrightarrow> (\<exists>k. v = base + 200000 * k)"

lemma whole_steps_refl [simp]: "whole_steps v v"
  by (auto simp: whole_steps_def intro: exI [of _ 0])

lemma whole_steps_inc: "whole_steps base v \<Longrightarrow> whole_steps base (v + 200000)"
  by (auto simp: whole_steps_def intro: exI [of _ "k + 1" for k])

lemma whole_steps_dec: "whole_steps base v \<Longrightarrow> whole_steps base (v - 200000)"
  by (auto simp: whole_steps_def intro: exI [of _ "k - 1" for k])

lemma whole_steps_between:
  "whole_steps base v \<Longrightarrow> base - 400000 < v \<Longrightarrow> v < base \<Longrightarrow> v = base - 200000"
  "whole_steps base v \<Longrightarrow> base < v \<Longrightarrow> v < base + 400000 \<Longrightarrow> v = base + 200000"
  by (auto simp: whole_steps_def)

lemma brick_trim:
  assumes "hv_world h = v" "\<not> hv_force9v_latched h" "0 \<le> floor" "floor < stop"
    "stop < v" "v \<le> stop + 200000 * (20 - int dec)" "v \<le> i32_max"
    "whole_steps base v"
  shows "wp (trim_loop brick BusUsbin stop floor dec v)
     (\<lambda>r h'. (\<exists>n. r = Inr n) \<and> \<not> hv_force9v_latched h' \<and> stop - 200000 < hv_world h' \<and> hv_world h' \<le> stop \<and>
       whole_steps base (hv_world h')) h"
  using assms
proof (induction "20 - dec" arbitrary: dec v h rule: less_induct)
  case less
  have "int dec < 20" using less.prems(5,6) by (simp add: algebra_simps)
  then have dec: "dec < 20" by simp
  have step: "whole_steps base (v - 200000)" using less.prems(8) by (rule whole_steps_dec)
  show ?case
  proof (cases "v - 200000 \<le> stop")
    case True
    with less.prems dec step show ?thesis
      by (subst trim_loop.simps, simp, subst trim_loop.simps) (simp add: sat_sub_i32_def i32_min_def i32_max_def)
  next
    case False
    with less.prems dec step show ?thesis
      by (subst trim_loop.simps) (simp add: sat_sub_i32_def i32_min_def i32_max_def sat_add_u32_def u32_max_def less.hyps)
  qed
qed

lemma brick_boost:
  assumes "hv_world h = v" "\<not> hv_force9v_latched h" "i32_min \<le> v" "stop \<le> ceiling" "ceiling \<le> 100000000"
    "v < stop" "stop \<le> v + 200000 * (23 - int inc)" "whole_steps base v"
  shows "wp (boost_loop brick BusUsbin stop ceiling inc v)
     (\<lambda>r h'. (\<exists>n. r = Inr n) \<and> \<not> hv_force9v_latched h' \<and> stop \<le> hv_world h' \<and> hv_world h' < stop + 200000 \<and>
       whole_steps base (hv_world h')) h"
  using assms
proof (induction "23 - inc" arbitrary: inc v h rule: less_induct)
  case less
  have "int inc < 23" using less.prems(6,7) by (simp add: algebra_simps)
  then have inc: "inc < 23" by simp
  have step: "whole_steps base (v + 200000)" using less.prems(8) by (rule whole_steps_inc)
  show ?case
  proof (cases "stop \<le> v + 200000")
    case True
    with less.prems inc step show ?thesis
      by (subst boost_loop.simps, simp add: Let_def wp_if, subst boost_loop.simps) (simp add: sat_add_i32_def i32_min_def i32_max_def)
  next
    case False
    with less.prems inc step show ?thesis
      by (subst boost_loop.simps) (simp add: Let_def wp_if sat_add_i32_def i32_min_def i32_max_def sat_add_u32_def u32_max_def less.hyps)
  qed
qed

section \<open>Nudging\<close>

text \<open>A pack voltage at which none of the targets is clamped, and its target.\<close>

definition pack_target :: "u32 \<Rightarrow> int \<Rightarrow> bool" where
  "pack_target vbat t \<longleftrightarrow> 2900000 \<le> vbat \<and> vbat \<le> 4650000 \<and> t = 2 * int vbat + 300000"

lemma unclamped:
  assumes "pack_target vbat t"
  shows "int (target_vbus_uv vbat) = t" "trim_target_uv vbat = t + 100000" "hv_window_floor_uv vbat = t - 100000"
    "vin_in_switching_window v vbat \<longleftrightarrow> t - 100000 \<le> v \<and> v \<le> t + 100000" "vbat \<noteq> 0"
    "6000000 \<le> t" "t \<le> 9600000"
  using assms
  by (auto simp: pack_target_def target_cases trim_target_uv_def hv_window_floor_uv_def window_order
      vin_in_switching_window_def Let_def as_i32_def)

text \<open>The state after a correction: it answered, nothing is latched, and \<open>E\<close> holds of the voltage.\<close>

definition corrected :: "(int \<Rightarrow> bool) \<Rightarrow> 'e + u32 \<Rightarrow> int hvdcp \<Rightarrow> bool" where
  "corrected E r h \<longleftrightarrow> (\<exists>n. r = Inr n) \<and> \<not> hv_force9v_latched h \<and> E (hv_world h)"

lemma corrected_marked:
  assumes "wp m (corrected E) h"
  shows "wp (and_then m (\<lambda>n. and_then (mark name n) (\<lambda>_. ret n))) (corrected E) h"
  unfolding wp_and_then
  by (rule wp_mono [OF assms]) (auto simp: corrected_def mark_def marks_def)

lemma corrected_mono: "wp m (corrected E) h \<Longrightarrow> (\<And>v. E v \<Longrightarrow> F v) \<Longrightarrow> wp m (corrected F) h"
  by (erule wp_mono) (auto simp: corrected_def)

lemma corrected_trim:
  assumes pack: "pack_target vbat t" and free: "\<not> hv_force9v_latched h" and "t < hv_world h" "hv_world h \<le> t + 4000000"
  shows "wp (trim_vin_for_pump brick (Some usbin) (hv_world h) vbat)
    (corrected (\<lambda>v. t - 200000 < v \<and> v \<le> t \<and> whole_steps (hv_world h) v)) h"
proof -
  have "wp (trim_loop brick BusUsbin t (t - 100000) 0 (hv_world h))
      (corrected (\<lambda>v. t - 200000 < v \<and> v \<le> t \<and> whole_steps (hv_world h) v)) h"
    by (rule wp_mono [OF brick_trim [where base = "hv_world h"]])
       (use assms unclamped [OF pack] in \<open>auto simp: corrected_def i32_max_def\<close>)
  with assms show ?thesis
    unfolding trim_vin_for_pump_def Let_def
    by (intro corrected_marked) (simp add: unclamped [OF pack])
qed

lemma corrected_boost:
  assumes pack: "pack_target vbat t" and free: "\<not> hv_force9v_latched h" and "hv_world h < t" "t \<le> hv_world h + 4600000"
  shows "wp (boost_vin_for_pump brick (Some usbin) (hv_world h) vbat)
    (corrected (\<lambda>v. t \<le> v \<and> v < t + 200000 \<and> whole_steps (hv_world h) v)) h"
proof -
  have "wp (boost_loop brick BusUsbin t (t + 100000) 0 (hv_world h))
      (corrected (\<lambda>v. t \<le> v \<and> v < t + 200000 \<and> whole_steps (hv_world h) v)) h"
    by (rule wp_mono [OF brick_boost [where base = "hv_world h"]])
       (use assms unclamped [OF pack] in \<open>auto simp: corrected_def i32_min_def\<close>)
  with assms show ?thesis
    unfolding boost_vin_for_pump_def Let_def
    by (intro corrected_marked) (simp add: unclamped [OF pack])
qed

lemma corrected_dec:
  "\<not> hv_force9v_latched h \<Longrightarrow> wp (one_dec_pulse brick (Some usbin)) (corrected (\<lambda>v. v = hv_world h - 200000)) h"
  by (simp add: one_dec_pulse_def corrected_def)

text \<open>One nudge from anywhere in reach ends within a step of the target; from there, in the window.\<close>

lemma nudge_near:
  assumes pack: "pack_target vbat t" and free: "\<not> hv_force9v_latched h" and "0 < hv_world h" "\<bar>hv_world h - t\<bar> \<le> 4000000"
  shows "wp (nudge_vin_into_window brick (Some usbin) (hv_world h) vbat dead) (corrected (\<lambda>v. \<bar>v - t\<bar> \<le> 200000)) h"
proof -
  have "wp (and_then (trim_vin_for_pump brick (Some usbin) (hv_world h) vbat) (\<lambda>n. and_then (mark name n) (\<lambda>_. ret n)))
      (corrected (\<lambda>v. \<bar>v - t\<bar> \<le> 200000)) h" if "t + 100000 < hv_world h" for name
    using that assms by (intro corrected_marked corrected_mono [OF corrected_trim [OF pack free]]) auto
  moreover have "wp (and_then (boost_vin_for_pump brick (Some usbin) (hv_world h) vbat) (\<lambda>n. and_then (mark name n) (\<lambda>_. ret n)))
      (corrected (\<lambda>v. \<bar>v - t\<bar> \<le> 200000)) h" if "hv_world h < t" for name
    using that assms by (intro corrected_marked corrected_mono [OF corrected_boost [OF pack free]]) auto
  moreover have "wp (and_then (one_dec_pulse brick (Some usbin)) (\<lambda>n. and_then (mark name n) (\<lambda>_. ret n)))
      (corrected (\<lambda>v. \<bar>v - t\<bar> \<le> 200000)) h" if "t - 100000 < hv_world h" "hv_world h \<le> t + 100000" "t \<le> hv_world h" for name
    using that assms by (intro corrected_marked corrected_mono [OF corrected_dec [OF free]]) auto
  ultimately show ?thesis
    using assms
    by (simp del: wp_and_then add: nudge_vin_into_window_def wp_and_then [where m = get_state] Let_def wp_if unclamped [OF pack])
       (auto simp: corrected_def)
qed

lemma nudge_in_window:
  assumes pack: "pack_target vbat t" and free: "\<not> hv_force9v_latched h" and near: "\<bar>hv_world h - t\<bar> \<le> 200000"
  shows "wp (nudge_vin_into_window brick (Some usbin) (hv_world h) vbat False)
    (corrected (\<lambda>v. vin_in_switching_window v vbat)) h"
proof -
  have "wp (and_then (trim_vin_for_pump brick (Some usbin) (hv_world h) vbat) (\<lambda>n. and_then (mark name n) (\<lambda>_. ret n)))
      (corrected (\<lambda>v. vin_in_switching_window v vbat)) h" if "t + 100000 < hv_world h" for name
    using that near
    by (intro corrected_marked corrected_mono [OF corrected_trim [OF pack free]])
       (auto simp: unclamped(4) [OF pack] dest!: whole_steps_between(1))
  moreover have "wp (and_then (boost_vin_for_pump brick (Some usbin) (hv_world h) vbat) (\<lambda>n. and_then (mark name n) (\<lambda>_. ret n)))
      (corrected (\<lambda>v. vin_in_switching_window v vbat)) h" if "hv_world h < t - 100000" for name
    using that near
    by (intro corrected_marked corrected_mono [OF corrected_boost [OF pack free]])
       (auto simp: unclamped(4) [OF pack] dest!: whole_steps_between(2))
  moreover have "0 < hv_world h" using near unclamped(6) [OF pack] by linarith
  ultimately show ?thesis
    using assms
    by (simp del: wp_and_then add: nudge_vin_into_window_def wp_and_then [where m = get_state] Let_def wp_if unclamped [OF pack])
       (auto simp: corrected_def)
qed

text \<open>
  C25. On an adapter that takes 200 mV steps, with no 9 V command latched (under a latch every pulse is skipped,
  lemma \<open>latched_trim_counts_unsent\<close>) and a cell voltage between 2.9 and 4.65 V, two nudges bring a positive
  input voltage into the pump's transfer window from anywhere within 4 V of the target: the first, with or
  without the dead-current flag, ends within one step of the target, the second inside the window, and from then
  on a nudge sends nothing and changes nothing.
\<close>

theorem nudges_settle:
  assumes "2900000 \<le> vbat" "vbat \<le> 4650000" "\<not> hv_force9v_latched h" "0 < hv_world h"
    "\<bar>hv_world h - int (target_vbus_uv vbat)\<bar> \<le> 4000000"
  shows "\<exists>n1 h1 n2 h2.
    nudge_vin_into_window brick (Some usbin) (hv_world h) vbat dead h = Some (Inr n1 :: hvdcp_error + u32, h1) \<and>
    \<bar>hv_world h1 - int (target_vbus_uv vbat)\<bar> \<le> 200000 \<and>
    nudge_vin_into_window brick (Some usbin) (hv_world h1) vbat False h1 = Some (Inr n2 :: hvdcp_error + u32, h2) \<and>
    vin_in_switching_window (hv_world h2) vbat \<and>
    nudge_vin_into_window brick (Some usbin) (hv_world h2) vbat False h2 = Some (Inr 0 :: hvdcp_error + u32, h2)"
proof -
  have pack: "pack_target vbat (2 * int vbat + 300000)"
    using assms by (simp add: pack_target_def)
  note window = unclamped [OF pack]
  have "\<bar>hv_world h - (2 * int vbat + 300000)\<bar> \<le> 4000000" using assms(5) by (simp add: window)
  from nudge_near [OF pack assms(3,4) this, of usbin dead] obtain n1 h1
    where 1: "nudge_vin_into_window brick (Some usbin) (hv_world h) vbat dead h = Some (Inr n1 :: hvdcp_error + u32, h1)"
      "\<not> hv_force9v_latched h1" "\<bar>hv_world h1 - (2 * int vbat + 300000)\<bar> \<le> 200000"
    by (auto simp: wp_iff corrected_def window)
  from nudge_in_window [OF pack 1(2,3), of usbin] obtain n2 h2
    where 2: "nudge_vin_into_window brick (Some usbin) (hv_world h1) vbat False h1 = Some (Inr n2 :: hvdcp_error + u32, h2)"
      "\<not> hv_force9v_latched h2" "vin_in_switching_window (hv_world h2) vbat"
    by (auto simp: wp_iff corrected_def)
  then have "nudge_vin_into_window brick (Some usbin) (hv_world h2) vbat False h2 = Some (Inr 0 :: hvdcp_error + u32, h2)"
    using window by (simp add: nudge_vin_into_window_def and_then_eq(1) [where m = get_state] Let_def)
  moreover have "\<bar>hv_world h1 - int (target_vbus_uv vbat)\<bar> \<le> 200000" using 1(3) by (simp add: window)
  ultimately show ?thesis using 1(1) 2 by blast
qed

theorem nudges_settle_witness:
  "\<exists>n1 h1 n2 h2.
    nudge_vin_into_window brick (Some 1) 9210000 4200000 True (hvdcp_new 9210000) = Some (Inr n1 :: hvdcp_error + u32, h1) \<and>
    \<bar>hv_world h1 - 8700000\<bar> \<le> 200000 \<and>
    nudge_vin_into_window brick (Some 1) (hv_world h1) 4200000 False h1 = Some (Inr n2 :: hvdcp_error + u32, h2) \<and>
    vin_in_switching_window (hv_world h2) 4200000 \<and>
    nudge_vin_into_window brick (Some 1) (hv_world h2) 4200000 False h2 = Some (Inr 0 :: hvdcp_error + u32, h2)"
  using nudges_settle [of 4200000 "hvdcp_new 9210000" 1 True]
  by (simp add: hvdcp_new_def target_cases)

text \<open>
  One trim can leave the bus below the window: from 8.91 V with the pack at 4.2 V, whose window is 8.6 to
  8.8 V, the trim steps down twice and ends at 8.51 V, although the voltage was above the floor before
  each step.
\<close>

theorem trim_undershoots:
  "\<exists>h'. trim_vin_for_pump brick (Some usbin) 8910000 4200000 (hvdcp_new 8910000) = Some (Inr 2, h') \<and>
     hv_world h' = 8510000 \<and> hv_window_floor_uv 4200000 = 8600000 \<and>
     \<not> vin_in_switching_window (hv_world h') 4200000"
proof -
  have pack: "pack_target 4200000 8700000" by (simp add: pack_target_def)
  have "wp (trim_vin_for_pump brick (Some usbin) 8910000 4200000) (\<lambda>r h'. r = Inr 2 \<and> hv_world h' = 8510000)
      (hvdcp_new 8910000)"
    by (simp add: trim_vin_for_pump_def Let_def unclamped [OF pack] wp_if trim_loop.simps mark_def marks_def
        hvdcp_new_def sat_sub_i32_def sat_add_u32_def rust_int)
  then show ?thesis
    by (auto simp: wp_iff unclamped [OF pack])
qed

text \<open>
  Under a latched 9 V no pulse reaches the adapter, and a trim still counts the pulses it wanted to send:
  it answers 4 although the voltage and the pulse counter are what they were. A nudge sends none and says so,
  on every platform.
\<close>

theorem latched_trim_counts_unsent:
  assumes "hv_force9v_latched h" "hv_world h = 9500000"
  shows "\<exists>h'. trim_vin_for_pump brick (Some usbin) 9500000 4200000 h = Some (Inr 4, h') \<and>
     hv_world h' = hv_world h \<and> hv_pulse_cnt h' = hv_pulse_cnt h \<and>
     nudge_vin_into_window brick (Some usbin) 9500000 4200000 dead h = Some (Inr 0, h)"
proof -
  have pack: "pack_target 4200000 8700000" by (simp add: pack_target_def)
  have "wp (trim_vin_for_pump brick (Some usbin) 9500000 4200000)
      (\<lambda>r h'. r = Inr 4 \<and> hv_world h' = hv_world h \<and> hv_pulse_cnt h' = hv_pulse_cnt h) h"
    using assms by (simp add: trim_vin_for_pump_def Let_def unclamped [OF pack] wp_if trim_loop.simps mark_def marks_def
        sat_sub_i32_def sat_add_u32_def rust_int)
  moreover have "nudge_vin_into_window brick (Some usbin) 9500000 4200000 dead h = Some (Inr 0, h)"
    using assms by (simp add: nudge_vin_into_window_def and_then_eq(1) [where m = get_state])
  ultimately show ?thesis
    by (auto simp: wp_iff)
qed

theorem latched_trim_counts_unsent_witness:
  "\<exists>h'. trim_vin_for_pump brick (Some 1) 9500000 4200000 ((hvdcp_new 9500000)\<lparr>hv_force9v_latched := True\<rparr>)
       = Some (Inr 4 :: hvdcp_error + u32, h') \<and>
     hv_world h' = 9500000 \<and> hv_pulse_cnt h' = 0 \<and>
     nudge_vin_into_window brick (Some 1) 9500000 4200000 True ((hvdcp_new 9500000)\<lparr>hv_force9v_latched := True\<rparr>)
       = Some (Inr 0 :: hvdcp_error + u32, (hvdcp_new 9500000)\<lparr>hv_force9v_latched := True\<rparr>)"
  using latched_trim_counts_unsent [of "(hvdcp_new 9500000)\<lparr>hv_force9v_latched := True\<rparr>" 1 True]
  by (simp add: hvdcp_new_def)

end
