(* ===== verification/Spb_List.thy ===== *)
theory Spb_List
  imports Prelude
begin

text \<open>
  \<open>crates/spb/src/lib.rs\<close>: the transfer list of the Windows serial bus framework, built byte by byte in a
  memory area, and the path of a Resource Hub connection. A reader of the list, following the layout the
  framework documents, shows that what was written is what is read.
\<close>

section \<open>Memory\<close>

text \<open>A flat memory of bytes; numbers are stored low byte first, as on the machine of the driver.\<close>

type_synonym mem = "nat \<Rightarrow> u8"

definition put_bytes :: "nat \<Rightarrow> u8 list \<Rightarrow> mem \<Rightarrow> mem" where
  "put_bytes a bs m = (\<lambda>x. if a \<le> x \<and> x < a + length bs then bs ! (x - a) else m x)"

definition get_bytes :: "mem \<Rightarrow> nat \<Rightarrow> nat \<Rightarrow> u8 list" where
  "get_bytes m a n = map (\<lambda>i. m (a + i)) [0..<n]"

definition num_bytes :: "nat \<Rightarrow> nat \<Rightarrow> u8 list" where
  "num_bytes k v = map (\<lambda>i. word_of_nat (v div 256 ^ i)) [0..<k]"

fun bytes_num :: "u8 list \<Rightarrow> nat" where
  "bytes_num [] = 0"
| "bytes_num (b # bs) = unat b + 256 * bytes_num bs"

lemma length_bytes [simp]: "length (get_bytes m a n) = n" "length (num_bytes k v) = k"
  by (simp_all add: get_bytes_def num_bytes_def)

lemma num_bytes_Suc: "num_bytes (Suc k) v = word_of_nat v # num_bytes k (v div 256)"
  by (simp add: num_bytes_def map_upt_Suc div_mult2_eq del: upt_Suc)

lemma bytes_num_bytes: "v < 256 ^ k \<Longrightarrow> bytes_num (num_bytes k v) = v"
proof (induction k arbitrary: v)
  case (Suc k)
  then have "v div 256 < 256 ^ k" by (simp add: less_mult_imp_div_less mult.commute)
  with Suc.IH [of "v div 256"] show ?case
    by (simp add: num_bytes_Suc unsigned_of_nat take_bit_eq_mod)
qed (simp add: num_bytes_def)

lemma get_put_same [simp]: "length bs = n \<Longrightarrow> get_bytes (put_bytes a bs m) a n = bs"
  by (auto simp: get_bytes_def put_bytes_def intro: nth_equalityI)

lemma get_put_apart:
  "b + n \<le> a \<or> a + length bs \<le> b \<Longrightarrow> get_bytes (put_bytes a bs m) b n = get_bytes m b n"
  by (auto simp: get_bytes_def put_bytes_def)

lemma put_apart: "x < a \<or> a + length bs \<le> x \<Longrightarrow> put_bytes a bs m x = m x"
  by (auto simp: put_bytes_def)

section \<open>The transfer list\<close>

abbreviation (input) SPB_DIRECTION_NONE :: u32 where "SPB_DIRECTION_NONE \<equiv> 0"
abbreviation (input) SPB_DIRECTION_FROM_DEVICE :: u32 where "SPB_DIRECTION_FROM_DEVICE \<equiv> 1"
abbreviation (input) SPB_DIRECTION_TO_DEVICE :: u32 where "SPB_DIRECTION_TO_DEVICE \<equiv> 2"
abbreviation (input) SPB_FORMAT_SIMPLE :: u32 where "SPB_FORMAT_SIMPLE \<equiv> 1"

text \<open>
  One entry of the list: \<open>SpbTransferListEntry\<close> with its buffer in the simple format. The layout of the
  structures, for a machine of 64 bits, is the one the assertions of \<open>spb_abi.rs\<close> fix.
\<close>

record transfer =
  tf_direction :: u32
  tf_delay_in_us :: u32
  tf_format :: u32
  tf_buffer :: nat
  tf_buffer_cb :: u32

definition entry_init :: "u32 \<Rightarrow> nat \<Rightarrow> u32 \<Rightarrow> transfer" where
  "entry_init direction buffer buffer_cb = \<lparr>tf_direction = direction, tf_delay_in_us = 0,
     tf_format = SPB_FORMAT_SIMPLE, tf_buffer = buffer, tf_buffer_cb = buffer_cb\<rparr>"

abbreviation (input) OFFSET_SIZE :: nat where "OFFSET_SIZE \<equiv> 0"
abbreviation (input) OFFSET_RESERVED :: nat where "OFFSET_RESERVED \<equiv> 4"
abbreviation (input) OFFSET_TRANSFER_COUNT :: nat where "OFFSET_TRANSFER_COUNT \<equiv> 8"
abbreviation (input) OFFSET_TRANSFERS :: nat where "OFFSET_TRANSFERS \<equiv> 16"

definition header_size :: nat where [simp]: "header_size = 48"
definition entry_size :: nat where [simp]: "entry_size = 32"

definition area_size :: "nat \<Rightarrow> nat" where
  "area_size count = sat_add_u64 header_size (sat_mul_u64 entry_size (count - 1))"

datatype sequence_error = AreaTooSmall | TooManyTransfers

text \<open>\<open>write_u32\<close> and \<open>write_pointer\<close> on the area of length \<open>len\<close> at \<open>a\<close>: nothing happens out of bounds.\<close>

definition area_write :: "nat \<Rightarrow> nat \<Rightarrow> nat \<Rightarrow> u8 list \<Rightarrow> mem \<Rightarrow> mem" where
  "area_write a len offset bytes m =
     (if sat_add_u64 offset (length bytes) \<le> len then put_bytes (a + offset) bytes m else m)"

definition write_u32 :: "nat \<Rightarrow> nat \<Rightarrow> nat \<Rightarrow> u32 \<Rightarrow> mem \<Rightarrow> mem" where
  "write_u32 a len offset v = area_write a len offset (num_bytes 4 v)"

definition write_pointer :: "nat \<Rightarrow> nat \<Rightarrow> nat \<Rightarrow> nat \<Rightarrow> mem \<Rightarrow> mem" where
  "write_pointer a len offset v = area_write a len offset (num_bytes 8 v)"

definition write_entry :: "nat \<Rightarrow> nat \<Rightarrow> nat \<Rightarrow> transfer \<Rightarrow> mem \<Rightarrow> mem" where
  "write_entry a len base t m =
     (let m = write_u32 a len (sat_add_u64 base 0) (tf_direction t) m;
          m = write_u32 a len (sat_add_u64 base 4) (tf_delay_in_us t) m;
          buffer_base = sat_add_u64 base 8;
          m = write_u32 a len (sat_add_u64 buffer_base 0) (tf_format t) m;
          simple_base = sat_add_u64 buffer_base 8;
          m = write_pointer a len (sat_add_u64 simple_base 0) (tf_buffer t) m
      in write_u32 a len (sat_add_u64 simple_base 8) (tf_buffer_cb t) m)"

definition write_entries :: "nat \<Rightarrow> nat \<Rightarrow> transfer list \<Rightarrow> mem \<Rightarrow> mem" where
  "write_entries a len transfers m =
     fold (\<lambda>(index, t). write_entry a len (sat_add_u64 OFFSET_TRANSFERS (sat_mul_u64 index entry_size)) t)
       (zip [0..<length transfers] transfers) m"

definition describe :: "nat \<Rightarrow> nat \<Rightarrow> transfer list \<Rightarrow> mem \<Rightarrow> (sequence_error + nat) \<times> mem" where
  "describe a len transfers m =
     (let needed = area_size (length transfers) in
      if len < needed \<or> a mod 8 \<noteq> 0 then (Inl AreaTooSmall, m)
      else if length transfers > u32_max then (Inl TooManyTransfers, m)
      else let m = write_u32 a len OFFSET_SIZE header_size m;
               m = write_u32 a len OFFSET_RESERVED 0 m;
               m = write_u32 a len OFFSET_TRANSFER_COUNT (length transfers) m
           in (Inr needed, write_entries a len transfers m))"

text \<open>The sequences of one register access; the two bytes stand at \<open>address\<close> and \<open>data\<close>.\<close>

definition write_one :: "nat \<Rightarrow> nat \<Rightarrow> nat \<Rightarrow> nat \<Rightarrow> mem \<Rightarrow> (sequence_error + nat) \<times> mem" where
  "write_one a len address data =
     describe a len [entry_init SPB_DIRECTION_TO_DEVICE address 1, entry_init SPB_DIRECTION_TO_DEVICE data 1]"

definition read_one :: "nat \<Rightarrow> nat \<Rightarrow> nat \<Rightarrow> nat \<Rightarrow> mem \<Rightarrow> (sequence_error + nat) \<times> mem" where
  "read_one a len address data =
     describe a len [entry_init SPB_DIRECTION_TO_DEVICE address 1, entry_init SPB_DIRECTION_FROM_DEVICE data 1]"

section \<open>Reading the list\<close>

text \<open>What a controller finds in an area: the number of entries, and the entries behind each other.\<close>

definition read_u32 :: "mem \<Rightarrow> nat \<Rightarrow> u32" where
  "read_u32 m a = bytes_num (get_bytes m a 4)"

definition read_entry :: "mem \<Rightarrow> nat \<Rightarrow> transfer" where
  "read_entry m b = \<lparr>tf_direction = read_u32 m b, tf_delay_in_us = read_u32 m (b + 4), tf_format = read_u32 m (b + 8),
     tf_buffer = bytes_num (get_bytes m (b + 16) 8), tf_buffer_cb = read_u32 m (b + 24)\<rparr>"

definition read_list :: "mem \<Rightarrow> nat \<Rightarrow> transfer list" where
  "read_list m a = map (\<lambda>i. read_entry m (a + OFFSET_TRANSFERS + 32 * i)) [0..<read_u32 m (a + OFFSET_TRANSFER_COUNT)]"

definition transfer_ok :: "transfer \<Rightarrow> bool" where
  "transfer_ok t \<longleftrightarrow> tf_direction t \<le> u32_max \<and> tf_delay_in_us t \<le> u32_max \<and> tf_format t \<le> u32_max \<and>
     tf_buffer t \<le> u64_max \<and> tf_buffer_cb t \<le> u32_max"

lemma read_u32_put: "v \<le> u32_max \<Longrightarrow> read_u32 (put_bytes a (num_bytes 4 v) m) a = v"
  by (simp add: read_u32_def bytes_num_bytes u32_max_def)

lemma read_u32_apart: "b + 4 \<le> a \<or> a + length bs \<le> b \<Longrightarrow> read_u32 (put_bytes a bs m) b = read_u32 m b"
  by (simp add: read_u32_def get_put_apart)

lemma read_entry_cong:
  assumes "\<And>x. b \<le> x \<Longrightarrow> x < b + 28 \<Longrightarrow> m x = m' x"
  shows "read_entry m b = read_entry m' b"
proof -
  have "get_bytes m c n = get_bytes m' c n" if "b \<le> c" "c + n \<le> b + 28" for c n
    using that by (auto simp: get_bytes_def intro!: assms)
  then show ?thesis by (simp add: read_entry_def read_u32_def)
qed

lemma write_entry_puts:
  assumes "base + 28 \<le> len" "len \<le> u64_max"
  shows "write_entry a len base t m =
    put_bytes (a + base + 24) (num_bytes 4 (tf_buffer_cb t))
     (put_bytes (a + base + 16) (num_bytes 8 (tf_buffer t))
      (put_bytes (a + base + 8) (num_bytes 4 (tf_format t))
       (put_bytes (a + base + 4) (num_bytes 4 (tf_delay_in_us t))
        (put_bytes (a + base) (num_bytes 4 (tf_direction t)) m))))"
  using assms
  by (simp add: write_entry_def write_u32_def write_pointer_def area_write_def sat_add_u64_def u64_max_def Let_def add.assoc)

lemma read_write_entry:
  assumes "base + 28 \<le> len" "len \<le> u64_max" "transfer_ok t"
  shows "read_entry (write_entry a len base t m) (a + base) = t"
  using assms
  by (simp add: write_entry_puts read_entry_def read_u32_put read_u32_apart transfer_ok_def get_put_apart bytes_num_bytes u64_max_def)

lemma write_entry_apart:
  assumes "base + 28 \<le> len" "len \<le> u64_max" "x < a + base \<or> a + base + 32 \<le> x"
  shows "write_entry a len base t m x = m x"
  using assms by (auto simp: write_entry_puts put_apart)

lemma entries_written:
  assumes "OFFSET_TRANSFERS + 32 * (k + length ts) \<le> len" "len \<le> u64_max" "list_all transfer_ok ts"
    and "m' = fold (\<lambda>(index, t). write_entry a len (sat_add_u64 OFFSET_TRANSFERS (sat_mul_u64 index entry_size)) t)
       (zip [k..<k + length ts] ts) m"
  shows "(\<forall>i<length ts. read_entry m' (a + OFFSET_TRANSFERS + 32 * (k + i)) = ts ! i) \<and>
    (\<forall>x. x < a + OFFSET_TRANSFERS + 32 * k \<or> a + OFFSET_TRANSFERS + 32 * (k + length ts) \<le> x \<longrightarrow> m' x = m x)"
  using assms
proof (induction ts arbitrary: k m)
  case (Cons t ts)
  let ?m = "write_entry a len (OFFSET_TRANSFERS + 32 * k) t m"
  have sat: "sat_add_u64 OFFSET_TRANSFERS (sat_mul_u64 k entry_size) = OFFSET_TRANSFERS + 32 * k"
    using Cons.prems(1,2) by (simp add: sat_add_u64_def sat_mul_u64_def u64_max_def mult.commute)
  have m': "m' = fold (\<lambda>(index, t). write_entry a len (sat_add_u64 OFFSET_TRANSFERS (sat_mul_u64 index entry_size)) t)
       (zip [Suc k..<Suc k + length ts] ts) ?m"
    using Cons.prems(4) sat by (simp add: upt_conv_Cons del: upt_Suc)
  have rest: "\<forall>i<length ts. read_entry m' (a + OFFSET_TRANSFERS + 32 * (Suc k + i)) = ts ! i"
    and outside: "x < a + OFFSET_TRANSFERS + 32 * Suc k \<or> a + OFFSET_TRANSFERS + 32 * (Suc k + length ts) \<le> x \<Longrightarrow> m' x = ?m x" for x
    using Cons.IH [of "Suc k", OF _ _ _ m'] Cons.prems by auto
  have fits: "OFFSET_TRANSFERS + 32 * k + 28 \<le> len" using Cons.prems(1) by simp
  have "read_entry m' (a + (OFFSET_TRANSFERS + 32 * k)) = read_entry ?m (a + (OFFSET_TRANSFERS + 32 * k))"
    by (rule read_entry_cong) (simp add: outside)
  also have "\<dots> = t"
    using read_write_entry [OF fits Cons.prems(2)] Cons.prems(3) by simp
  finally have "read_entry m' (a + OFFSET_TRANSFERS + 32 * (k + i)) = (t # ts) ! i" if "i < length (t # ts)" for i
    using that rest by (cases i) (auto simp: add.assoc)
  moreover have "m' x = m x" if "x < a + OFFSET_TRANSFERS + 32 * k \<or> a + OFFSET_TRANSFERS + 32 * (k + length (t # ts)) \<le> x" for x
    using that outside [of x] write_entry_apart [OF fits Cons.prems(2), of x a t m] by auto
  ultimately show ?case by blast
qed simp

lemma described:
  assumes "area_size (length transfers) \<le> len" "len \<le> u64_max" "a mod 8 = 0" "length transfers \<le> u32_max"
    "list_all transfer_ok transfers" "describe a len transfers m = (r, m')"
  shows "r = Inr (area_size (length transfers)) \<and> read_u32 m' a = header_size \<and> read_list m' a = transfers \<and>
    {x. m' x \<noteq> m x} \<subseteq> {a..<a + area_size (length transfers)}"
proof -
  have size: "OFFSET_TRANSFERS + 32 * length transfers \<le> area_size (length transfers)" "48 \<le> area_size (length transfers)"
    using assms(1,2,4) by (auto simp: area_size_def sat_add_u64_def sat_mul_u64_def u64_max_def u32_max_def)
  define h where "h = put_bytes (a + 8) (num_bytes 4 (length transfers)) (put_bytes (a + 4) (num_bytes 4 0)
    (put_bytes a (num_bytes 4 48) m))"
  have m': "r = Inr (area_size (length transfers))" "m' = write_entries a len transfers h"
    using assms size
    by (auto simp: describe_def Let_def h_def write_u32_def area_write_def sat_add_u64_def u64_max_def)
  have fits: "OFFSET_TRANSFERS + 32 * (0 + length transfers) \<le> len" using size assms(1) by simp
  from entries_written [OF fits assms(2,5), of m' a h] m'(2)
  have entries: "\<forall>i<length transfers. read_entry m' (a + OFFSET_TRANSFERS + 32 * i) = transfers ! i"
    and outside: "\<And>x. x < a + OFFSET_TRANSFERS \<or> a + OFFSET_TRANSFERS + 32 * length transfers \<le> x \<Longrightarrow> m' x = h x"
    by (auto simp: write_entries_def)
  have head: "read_u32 m' (a + k) = read_u32 h (a + k)" if "k \<le> 12" for k
    using that by (auto simp: read_u32_def get_bytes_def intro!: arg_cong [where f = bytes_num] outside)
  have "read_u32 m' a = 48" "read_u32 m' (a + 8) = length transfers"
    using head [of 0] head [of 8] assms(4) by (simp_all add: h_def read_u32_put read_u32_apart u32_max_def)
  with entries have "read_list m' a = transfers"
    by (auto simp: read_list_def intro: nth_equalityI)
  have same: "m' x = m x" if "x < a \<or> a + area_size (length transfers) \<le> x" for x
    using that size outside [of x] by (auto simp: h_def put_apart)
  have "{x. m' x \<noteq> m x} \<subseteq> {a..<a + area_size (length transfers)}"
    using same by (metis (mono_tags, lifting) atLeastLessThan_iff mem_Collect_eq not_le subsetI)
  with m'(1) \<open>read_u32 m' a = 48\<close> \<open>read_list m' a = transfers\<close> show ?thesis
    by (simp add: header_size_def)
qed

text \<open>
  C29. What the framing writes is what a controller reads, or it writes nothing: for every list of transfers whose
  numbers fit their fields and every area, \<open>describe\<close> refuses an area that is too small or not aligned and then a
  list with too many transfers, each time with the memory untouched; otherwise it answers the size in use, the
  area then holds the header and exactly these transfers in their order, and no byte outside the size in use has
  changed.
\<close>

theorem describe_reads_back:
  assumes "len \<le> u64_max" "list_all transfer_ok transfers" "describe a len transfers m = (r, m')"
  shows "if len < area_size (length transfers) \<or> a mod 8 \<noteq> 0 then r = Inl AreaTooSmall \<and> m' = m
    else if u32_max < length transfers then r = Inl TooManyTransfers \<and> m' = m
    else r = Inr (area_size (length transfers)) \<and> read_u32 m' a = header_size \<and> read_list m' a = transfers \<and>
      {x. m' x \<noteq> m x} \<subseteq> {a..<a + area_size (length transfers)}"
proof (cases "len < area_size (length transfers) \<or> a mod 8 \<noteq> 0 \<or> u32_max < length transfers")
  case True
  with assms(3) show ?thesis by (auto simp: describe_def Let_def split: if_splits)
next
  case False
  with described [of transfers len a m r m'] assms show ?thesis by (simp del: header_size_def)
qed

theorem describe_reads_back_witness:
  "fst (describe 8 80 [entry_init 2 200 1, entry_init 1 201 1] (\<lambda>_. 0)) = Inr 80 \<and>
   read_list (snd (describe 8 80 [entry_init 2 200 1, entry_init 1 201 1] (\<lambda>_. 0))) 8 =
     [entry_init 2 200 1, entry_init 1 201 1] \<and>
   describe 8 79 [entry_init 2 200 1, entry_init 1 201 1] (\<lambda>_. 0) = (Inl AreaTooSmall, \<lambda>_. 0)"
proof -
  have size: "area_size (length [entry_init 2 200 1, entry_init 1 201 1]) = 80"
    by (simp add: area_size_def sat_add_u64_def sat_mul_u64_def u64_max_def)
  note at = describe_reads_back [of _ "[entry_init 2 200 1, entry_init 1 201 1]" 8 "\<lambda>_. 0", OF _ _ prod.collapse [symmetric]]
  from at [of 80] at [of 79] size show ?thesis
    by (simp add: u64_max_def u32_max_def transfer_ok_def entry_init_def prod_eq_iff)
qed

section \<open>The path of a connection\<close>

text \<open>The characters are 16-bit units. The buffer has 40 of them, the path uses 37.\<close>

abbreviation (input) HUB_PATH_CHARS :: nat where "HUB_PATH_CHARS \<equiv> 40"

definition HUB_PATH_PREFIX :: "u8 list" where
  "HUB_PATH_PREFIX = map of_char (CHR 0x5C # ''Device'' @ CHR 0x5C # ''RESOURCE_HUB'' @ [CHR 0x5C])"

record hub_path =
  hp_chars :: "u16 list"
  hp_len :: nat

definition push_char :: "u16 \<Rightarrow> hub_path \<Rightarrow> hub_path" where
  "push_char c p = (if hp_len p < length (hp_chars p)
     then p\<lparr>hp_chars := (hp_chars p)[hp_len p := c], hp_len := hp_len p + 1\<rparr> else p)"

definition hub_digit :: "u64 \<Rightarrow> nat \<Rightarrow> u16" where
  "hub_digit conn nibble = (let digit = conn div 2 ^ (4 * nibble) mod 16 in
     if digit < 10 then word_of_nat (of_char CHR ''0'' + digit) else word_of_nat (of_char CHR ''a'' + (digit - 10)))"

definition resource_hub_path :: "u64 \<Rightarrow> hub_path" where
  "resource_hub_path conn =
     fold (\<lambda>nibble. push_char (hub_digit conn nibble)) (rev [0..<16])
       (fold (\<lambda>b. push_char (ucast b)) HUB_PATH_PREFIX \<lparr>hp_chars = replicate HUB_PATH_CHARS 0, hp_len = 0\<rparr>)"

definition hub_chars :: "hub_path \<Rightarrow> u16 list" where
  "hub_chars p = (if hp_len p \<le> length (hp_chars p) then take (hp_len p) (hp_chars p) else [])"

definition byte_len :: "hub_path \<Rightarrow> nat" where
  "byte_len p = (if 2 * hp_len p \<le> u16_max then 2 * hp_len p else u16_max)"

lemma push_char_chars:
  assumes "hp_len p < length (hp_chars p)"
  shows "hub_chars (push_char c p) = hub_chars p @ [c]" "hp_len (push_char c p) = Suc (hp_len p)"
    "length (hp_chars (push_char c p)) = length (hp_chars p)"
  using assms by (simp_all add: push_char_def hub_chars_def take_Suc_conv_app_nth)

lemma push_chars:
  "hp_len p + length cs \<le> length (hp_chars p) \<Longrightarrow>
   hub_chars (fold (\<lambda>c. push_char (f c)) cs p) = hub_chars p @ map f cs \<and>
   hp_len (fold (\<lambda>c. push_char (f c)) cs p) = hp_len p + length cs \<and>
   length (hp_chars (fold (\<lambda>c. push_char (f c)) cs p)) = length (hp_chars p)"
  by (induction cs arbitrary: p) (auto simp: push_char_chars)

lemma resource_hub_path_chars:
  "hub_chars (resource_hub_path conn) = map ucast HUB_PATH_PREFIX @ map (hub_digit conn) (rev [0..<16])"
  "hp_len (resource_hub_path conn) = 37" "byte_len (resource_hub_path conn) = 74"
proof -
  define p where "p = fold (\<lambda>b. push_char (ucast b)) HUB_PATH_PREFIX \<lparr>hp_chars = replicate HUB_PATH_CHARS 0, hp_len = 0\<rparr>"
  have n: "length HUB_PATH_PREFIX = 21" by (simp add: HUB_PATH_PREFIX_def)
  have p: "hub_chars p = map ucast HUB_PATH_PREFIX" "hp_len p = 21" "length (hp_chars p) = 40"
    using push_chars [of "\<lparr>hp_chars = replicate HUB_PATH_CHARS 0, hp_len = 0\<rparr>" HUB_PATH_PREFIX ucast] n
      hub_chars_def [of "\<lparr>hp_chars = replicate HUB_PATH_CHARS 0, hp_len = 0\<rparr>"]
    by (simp_all add: p_def)
  show chars: "hub_chars (resource_hub_path conn) = map ucast HUB_PATH_PREFIX @ map (hub_digit conn) (rev [0..<16])"
    and len: "hp_len (resource_hub_path conn) = 37"
    using push_chars [of p "rev [0..<16]" "hub_digit conn"] p by (simp_all add: resource_hub_path_def p_def)
  show "byte_len (resource_hub_path conn) = 74"
    by (simp add: byte_len_def len u16_max_def)
qed

text \<open>The number a path stands for: its last sixteen characters as hexadecimal digits.\<close>

definition digit_value :: "u16 \<Rightarrow> nat" where
  "digit_value c = (if unat c < 58 then unat c - 48 else unat c - 87)"

definition path_id :: "u16 list \<Rightarrow> nat" where
  "path_id cs = foldl (\<lambda>n c. 16 * n + digit_value c) 0 (drop 21 cs)"

lemma digit_value_digit: "digit_value (hub_digit conn n) = conn div 2 ^ (4 * n) mod 16"
proof -
  let ?d = "conn div 2 ^ (4 * n) mod 16"
  have "?d < 16" by simp
  moreover have "unat (word_of_nat n :: u16) = n" if "n < 65536" for n
    using that by (simp add: unsigned_of_nat take_bit_eq_mod)
  ultimately show ?thesis
    unfolding digit_value_def hub_digit_def Let_def
    by (simp del: of_nat_add)
qed

lemma hex_digits:
  "foldl (\<lambda>n c. 16 * n + digit_value c) acc (map (hub_digit conn) (rev [0..<k])) = acc * 16 ^ k + conn mod 16 ^ k"
proof (induction k arbitrary: acc)
  case (Suc k)
  have "conn mod (16 ^ k * 16) = 16 ^ k * (conn div 16 ^ k mod 16) + conn mod 16 ^ k"
    by (rule mod_mult2_eq)
  moreover have "(2 :: nat) ^ (4 * k) = 16 ^ k" by (simp add: power_mult)
  ultimately show ?case
    using Suc.IH by (simp add: digit_value_digit algebra_simps)
qed simp

text \<open>
  The path of a connection names it: the path has 37 characters, 74 bytes, and the number its digits stand
  for is the 64-bit connection identifier.
\<close>

theorem hub_path_names:
  "length (hub_chars (resource_hub_path conn)) = 37 \<and> byte_len (resource_hub_path conn) = 74 \<and>
   path_id (hub_chars (resource_hub_path conn)) = conn mod 2 ^ 64"
  using hex_digits [of 0 conn 16]
  by (simp add: resource_hub_path_chars path_id_def HUB_PATH_PREFIX_def)

end
