(* ===== verification/Spb_Bus.thy ===== *)
theory Spb_Bus
  imports Spb_List Register_Bus
begin

text \<open>
  \<open>SpbBus\<close> of \<open>crates/ln8000-kmdf/src/spb.rs\<close>: register access as transfer lists of the serial bus framework,
  to the LN8000 with 8-bit addresses and to the PMIC with 16-bit ones. The calls of the driver framework are
  parameters; on a chip that executes the lists the bus is a working register bus.
\<close>

section \<open>The framework\<close>

text \<open>
  A request: its control code and the buffers it names, by address and length. \<open>wdf_format\<close> is the status of
  formatting it; \<open>wdf_send\<close> sends it, with \<open>None\<close> when the send did not complete, and may change the memory.
\<close>

record request =
  rq_ioctl :: u32
  rq_input :: "(nat \<times> nat) option"
  rq_output :: "(nat \<times> nat) option"

record 'w wdf =
  wdf_format :: "request \<Rightarrow> 'w \<Rightarrow> i32 \<times> 'w"
  wdf_send :: "request \<Rightarrow> mem \<Rightarrow> 'w \<Rightarrow> i32 option \<times> mem \<times> 'w"

abbreviation (input) IOCTL_SPB_EXECUTE_SEQUENCE :: u32 where "IOCTL_SPB_EXECUTE_SEQUENCE \<equiv> 0x00041808"
abbreviation (input) IOCTL_SPB_LOCK_CONNECTION :: u32 where "IOCTL_SPB_LOCK_CONNECTION \<equiv> 0x0004180C"
abbreviation (input) IOCTL_ATTACH :: u32 where "IOCTL_ATTACH \<equiv> 0x0032C004"
abbreviation (input) ATTACH_MAGIC :: u32 where "ATTACH_MAGIC \<equiv> 0x42696541"
abbreviation (input) ATTACH_REPLY_LEN :: nat where "ATTACH_REPLY_LEN \<equiv> 1024"
abbreviation (input) SPB_FORMAT_SIMPLE_NON_PAGED :: u32 where "SPB_FORMAT_SIMPLE_NON_PAGED \<equiv> 3"
abbreviation (input) VARIANT_OUTPUT_SIMPLE :: u8 where "VARIANT_OUTPUT_SIMPLE \<equiv> 0"
abbreviation (input) VARIANT_OUTPUT_NON_PAGED :: u8 where "VARIANT_OUTPUT_NON_PAGED \<equiv> 1"
abbreviation (input) VARIANT_TERMINATED :: u8 where "VARIANT_TERMINATED \<equiv> 3"
abbreviation (input) VARIANT_OUTPUT_MEMORY :: u8 where "VARIANT_OUTPUT_MEMORY \<equiv> 4"
abbreviation (input) VARIANT_OUTPUT_MEMORY_NON_PAGED :: u8 where "VARIANT_OUTPUT_MEMORY_NON_PAGED \<equiv> 5"

definition abi_area_size :: "nat \<Rightarrow> nat" where
  "abi_area_size count =
     (if count \<le> 1 then header_size else sat_add_u64 header_size (sat_mul_u64 entry_size (count - 1)))"

lemma abi_area_size_eq: "abi_area_size = area_size"
  by (auto simp: abi_area_size_def area_size_def sat_add_u64_def sat_mul_u64_def u64_max_def)

lemma area_sizes: "abi_area_size 1 = 48" "abi_area_size 2 = 80" "abi_area_size 3 = 112"
  by (simp_all add: abi_area_size_def sat_add_u64_def sat_mul_u64_def u64_max_def)

section \<open>State\<close>

text \<open>
  \<open>SpbBus\<close>: the addresses of its buffers (null is 0), what it remembers between exchanges, and the memory and
  the framework it acts on. The handles of the framework objects are not part of the model.
\<close>

record 'w spb_bus =
  sb_area :: nat
  sb_data :: nat
  sb_attach_in :: nat
  sb_attach_out :: nat
  sb_peripheral_id :: u64
  sb_last_status :: i32
  sb_request_lost :: bool
  sb_variant :: u8
  sb_attach_words :: "u32 list"
  sb_last_count :: u32
  sb_mem :: mem
  sb_world :: 'w

text \<open>The bus \<open>SpbBus::open\<close> answers, with the addresses of the buffers it allocated.\<close>

definition spb_open :: "nat \<Rightarrow> nat \<Rightarrow> nat \<Rightarrow> nat \<Rightarrow> u64 \<Rightarrow> mem \<Rightarrow> 'w \<Rightarrow> 'w spb_bus" where
  "spb_open area data attach_in attach_out peripheral_id m w =
     \<lparr>sb_area = area, sb_data = data, sb_attach_in = attach_in, sb_attach_out = attach_out,
      sb_peripheral_id = peripheral_id, sb_last_status = 0, sb_request_lost = False,
      sb_variant = VARIANT_OUTPUT_SIMPLE, sb_attach_words = [0, 0, 0, 0], sb_last_count = 0, sb_mem = m, sb_world = w\<rparr>"

definition store :: "nat \<Rightarrow> u8 list \<Rightarrow> 'w spb_bus \<Rightarrow> 'w spb_bus" where
  "store a bs b = b\<lparr>sb_mem := put_bytes a bs (sb_mem b)\<rparr>"

text \<open>An entry written as a structure; its padding keeps what it held.\<close>

definition put_entry :: "nat \<Rightarrow> transfer \<Rightarrow> mem \<Rightarrow> mem" where
  "put_entry base t m =
    put_bytes (base + 24) (num_bytes 4 (tf_buffer_cb t))
     (put_bytes (base + 16) (num_bytes 8 (tf_buffer t))
      (put_bytes (base + 8) (num_bytes 4 (tf_format t))
       (put_bytes (base + 4) (num_bytes 4 (tf_delay_in_us t))
        (put_bytes base (num_bytes 4 (tf_direction t)) m))))"

definition store_entry :: "nat \<Rightarrow> transfer \<Rightarrow> 'w spb_bus \<Rightarrow> 'w spb_bus" where
  "store_entry base t b = b\<lparr>sb_mem := put_entry base t (sb_mem b)\<rparr>"

definition entry_with_format :: "u32 \<Rightarrow> u32 \<Rightarrow> nat \<Rightarrow> u32 \<Rightarrow> transfer" where
  "entry_with_format fmt direction buffer buffer_cb = (entry_init direction buffer buffer_cb)\<lparr>tf_format := fmt\<rparr>"

definition set_variant :: "u8 \<Rightarrow> 'w spb_bus \<Rightarrow> 'w spb_bus" where
  "set_variant v b = b\<lparr>sb_variant := v\<rparr>"

definition variant_format :: "u8 \<Rightarrow> u32" where
  "variant_format v = (if v = VARIANT_OUTPUT_NON_PAGED \<or> v = VARIANT_OUTPUT_MEMORY_NON_PAGED
     then SPB_FORMAT_SIMPLE_NON_PAGED else SPB_FORMAT_SIMPLE)"

definition cached_request :: "'w spb_bus \<Rightarrow> bus_error + unit" where
  "cached_request b = (if sb_request_lost b
     then Inl (bus_error_new BkTimeout 0 ''cached request lost: a device restart is required'') else Inr ())"

definition send_failed :: "string \<Rightarrow> 'w spb_bus \<Rightarrow> bus_error \<times> 'w spb_bus" where
  "send_failed reason b =
     (bus_error_new BkTimeout 0 reason, b\<lparr>sb_request_lost := True, sb_last_status := - 1\<rparr>)"

section \<open>The lists\<close>

definition list_header :: "u32 \<Rightarrow> 'w spb_bus \<Rightarrow> 'w spb_bus" where
  "list_header count b =
     store (sb_area b + OFFSET_TRANSFER_COUNT) (num_bytes 4 count)
      (store (sb_area b + OFFSET_RESERVED) (num_bytes 4 0)
       (store (sb_area b + OFFSET_SIZE) (num_bytes 4 header_size) (b\<lparr>sb_last_count := count\<rparr>)))"

definition prepare_count :: "bool \<Rightarrow> bool \<Rightarrow> u32" where
  "prepare_count writing terminated = (case (writing, terminated) of
     (True, False) \<Rightarrow> 1 | (False, False) \<Rightarrow> 2 | (True, True) \<Rightarrow> 2 | (False, True) \<Rightarrow> 3)"

definition prepare :: "u8 \<Rightarrow> u8 option \<Rightarrow> 'w spb_bus \<Rightarrow> (bus_error + unit) \<times> 'w spb_bus" where
  "prepare addr val b =
     (if sb_area b = 0 \<or> sb_data b = 0 then (Inl (bus_error_new BkUnsupported 0 ''SPB buffers not created''), b)
      else let terminated = sb_variant b = VARIANT_TERMINATED;
               count = prepare_count (val \<noteq> None) terminated;
               b = list_header count b;
               fmt = variant_format (sb_variant b);
               payload = sb_data b;
               read_target = sb_data b + 1;
               b = (case val of
                   Some byte \<Rightarrow>
                     store_entry (sb_area b + OFFSET_TRANSFERS) (entry_with_format fmt SPB_DIRECTION_TO_DEVICE payload 2)
                       (store payload [addr, byte] b)
                 | None \<Rightarrow>
                     store_entry (sb_area b + header_size) (entry_with_format fmt SPB_DIRECTION_FROM_DEVICE read_target 1)
                       (store_entry (sb_area b + OFFSET_TRANSFERS) (entry_with_format fmt SPB_DIRECTION_TO_DEVICE payload 1)
                         (store payload [addr] b)));
               b = (if terminated
                    then store_entry (sb_area b + (header_size + (count - 2) * entry_size))
                           (entry_with_format fmt SPB_DIRECTION_NONE 0 0) b
                    else b)
           in (Inr (), b))"

definition prepare_spmi16 :: "u16 \<Rightarrow> u8 option \<Rightarrow> bool \<Rightarrow> 'w spb_bus \<Rightarrow> (bus_error + unit) \<times> 'w spb_bus" where
  "prepare_spmi16 addr val big_endian b =
     (if sb_area b = 0 \<or> sb_data b = 0 then (Inl (bus_error_new BkUnsupported 0 ''SPB buffers not created''), b)
      else let count = (if val \<noteq> None then 1 else 2);
               b = list_header count b;
               fmt = variant_format (sb_variant b);
               low = ucast (addr AND 0xFF); high = ucast (drop_bit 8 addr);
               addr_bytes = (if big_endian then [high, low] else [low, high]);
               payload = sb_data b;
               read_target = sb_data b + 2
           in (Inr (), case val of
                   Some byte \<Rightarrow>
                     store_entry (sb_area b + OFFSET_TRANSFERS) (entry_with_format fmt SPB_DIRECTION_TO_DEVICE payload 3)
                       (store payload (addr_bytes @ [byte]) b)
                 | None \<Rightarrow>
                     store_entry (sb_area b + header_size) (entry_with_format fmt SPB_DIRECTION_FROM_DEVICE read_target 1)
                       (store_entry (sb_area b + OFFSET_TRANSFERS) (entry_with_format fmt SPB_DIRECTION_TO_DEVICE payload 2)
                         (store payload addr_bytes b))))"

section \<open>Exchanges\<close>

datatype submission = Rejected i32 | NotSent | Completed i32

definition submit :: "'w wdf \<Rightarrow> request \<Rightarrow> 'w spb_bus \<Rightarrow> submission \<times> 'w spb_bus" where
  "submit W rq b =
     (case wdf_format W rq (sb_world b) of (status, w) \<Rightarrow>
        let b = b\<lparr>sb_world := w\<rparr> in
        if status < 0 then (Rejected status, b)
        else case wdf_send W rq (sb_mem b) (sb_world b) of (sent, m, w) \<Rightarrow>
          let b = b\<lparr>sb_mem := m, sb_world := w\<rparr> in
          case sent of None \<Rightarrow> (NotSent, b) | Some status \<Rightarrow> (Completed status, b\<lparr>sb_last_status := status\<rparr>))"

text \<open>The request of a sequence: the view of the area for the transfers declared, and the data buffer in some variants.\<close>

definition sequence_request :: "'w spb_bus \<Rightarrow> request" where
  "sequence_request b =
     \<lparr>rq_ioctl = IOCTL_SPB_EXECUTE_SEQUENCE,
      rq_input = Some (sb_area b, if sb_last_count b = 1 then abi_area_size 1
        else if sb_last_count b = 2 then abi_area_size 2 else abi_area_size 3),
      rq_output = (if sb_variant b \<ge> VARIANT_OUTPUT_MEMORY then Some (sb_data b, 8) else None)\<rparr>"

definition finish_sequence ::
  "string \<Rightarrow> string \<Rightarrow> string \<Rightarrow> nat \<Rightarrow> bool \<Rightarrow> submission \<times> 'w spb_bus \<Rightarrow> (bus_error + u8) \<times> 'w spb_bus" where
  "finish_sequence rejected silent failed reply writing res = (case res of
     (Rejected _, b) \<Rightarrow> (Inl (bus_error_new BkProtocol 0 rejected), b)
   | (NotSent, b) \<Rightarrow> (case send_failed silent b of (e, b) \<Rightarrow> (Inl e, b))
   | (Completed status, b) \<Rightarrow>
       let byte = sb_mem b (sb_data b + reply) in
       if status < 0 then (Inl (bus_error_new BkIo 0 failed), b)
       else (Inr (if \<not> writing then byte else 0), b))"

definition transact :: "'w wdf \<Rightarrow> u8 \<Rightarrow> u8 option \<Rightarrow> 'w spb_bus \<Rightarrow> (bus_error + u8) \<times> 'w spb_bus" where
  "transact W addr val b = (case cached_request b of
     Inl e \<Rightarrow> (Inl e, b)
   | Inr _ \<Rightarrow> (case prepare addr val b of
       (Inl e, b) \<Rightarrow> (Inl e, b)
     | (Inr _, b) \<Rightarrow> finish_sequence ''SPB rejected the sequence'' ''I2C bus did not answer''
         ''SPB returned a failure for the transaction'' 1 (val \<noteq> None) (submit W (sequence_request b) b)))"

definition transact_spmi16 ::
  "'w wdf \<Rightarrow> u16 \<Rightarrow> u8 option \<Rightarrow> bool \<Rightarrow> 'w spb_bus \<Rightarrow> (bus_error + u8) \<times> 'w spb_bus" where
  "transact_spmi16 W addr val big_endian b = (case cached_request b of
     Inl e \<Rightarrow> (Inl e, b)
   | Inr _ \<Rightarrow> (case prepare_spmi16 addr val big_endian b of
       (Inl e, b) \<Rightarrow> (Inl e, b)
     | (Inr _, b) \<Rightarrow> finish_sequence ''SPB rejected the SPMI sequence'' ''SPMI bus did not answer''
         ''SPB returned a failure for the SPMI transaction'' 2 (val \<noteq> None) (submit W (sequence_request b) b)))"

text \<open>Requests without a transfer list answer a status.\<close>

definition plain_request :: "'w wdf \<Rightarrow> request \<Rightarrow> 'w spb_bus \<Rightarrow> i32 \<times> 'w spb_bus" where
  "plain_request W rq b = (case submit W rq b of
     (Rejected status, b) \<Rightarrow> (status, b\<lparr>sb_last_status := status\<rparr>)
   | (NotSent, b) \<Rightarrow> (- 1, snd (send_failed ''the I/O target did not complete the request'' b))
   | (Completed status, b) \<Rightarrow> (status, b))"

definition probe_ioctl :: "'w wdf \<Rightarrow> u32 \<Rightarrow> 'w spb_bus \<Rightarrow> i32 \<times> 'w spb_bus" where
  "probe_ioctl W code b = (if sb_request_lost b then (- 1, b)
     else plain_request W \<lparr>rq_ioctl = code, rq_input = None, rq_output = None\<rparr> b)"

definition lock_connection :: "'w wdf \<Rightarrow> 'w spb_bus \<Rightarrow> i32 \<times> 'w spb_bus" where
  "lock_connection W b = (if sb_request_lost b then (- 1, b)
     else plain_request W \<lparr>rq_ioctl = IOCTL_SPB_LOCK_CONNECTION, rq_input = None, rq_output = None\<rparr> b)"

definition attach_request :: "'w spb_bus \<Rightarrow> request" where
  "attach_request b = \<lparr>rq_ioctl = IOCTL_ATTACH, rq_input = Some (sb_attach_in b, 8),
     rq_output = Some (sb_attach_out b, ATTACH_REPLY_LEN)\<rparr>"

definition attach :: "'w wdf \<Rightarrow> 'w spb_bus \<Rightarrow> i32 \<times> 'w spb_bus" where
  "attach W b =
     (if sb_request_lost b then (- 1, b)
      else if sb_attach_in b = 0 \<or> sb_attach_out b = 0 then (- 1, b)
      else let b = store (sb_attach_in b + 4) (num_bytes 4 1) (store (sb_attach_in b) (num_bytes 4 ATTACH_MAGIC) b) in
        case submit W (attach_request b) b of
          (Rejected status, b) \<Rightarrow> (status, b\<lparr>sb_last_status := status\<rparr>)
        | (NotSent, b) \<Rightarrow> (- 1, snd (send_failed ''the I/O target did not complete the request'' b))
        | (Completed status, b) \<Rightarrow>
            (status, if status \<ge> 0
               then b\<lparr>sb_attach_words := map (\<lambda>i. read_u32 (sb_mem b) (sb_attach_out b + 4 * i)) [0..<4]\<rparr> else b))"

definition attach_word :: "nat \<Rightarrow> 'w spb_bus \<Rightarrow> u32" where
  "attach_word index b = (if index < length (sb_attach_words b) then sb_attach_words b ! index else 0)"

text \<open>\<open>impl RegisterBus for SpbBus\<close>; the pair read is the provided method of the trait.\<close>

definition spb_read :: "'w wdf \<Rightarrow> u8 \<Rightarrow> ('w spb_bus, u8) bus_call" where
  "spb_read W addr b = transact W addr None b"

definition spb_write :: "'w wdf \<Rightarrow> u8 \<Rightarrow> u8 \<Rightarrow> ('w spb_bus, unit) bus_call" where
  "spb_write W addr v b = (case transact W addr (Some v) b of (Inl e, b) \<Rightarrow> (Inl e, b) | (Inr _, b) \<Rightarrow> (Inr (), b))"

definition spb_reset :: "('w spb_bus, unit) bus_call" where
  "spb_reset b = (Inr (), b)"

definition spb_reg_bus :: "'w wdf \<Rightarrow> 'w spb_bus reg_bus" where
  "spb_reg_bus W = \<lparr>rb_read = spb_read W, rb_write = spb_write W, rb_reset = spb_reset,
     rb_read_pair = default_read_pair (spb_read W)\<rparr>"

section \<open>A lost request\<close>

text \<open>A framework that keeps a record of the calls it gets.\<close>

datatype framework_event = Formatted | Sent "i32 option"

definition watched :: "'w wdf \<Rightarrow> ('w \<times> framework_event list) wdf" where
  "watched W =
     \<lparr>wdf_format = (\<lambda>rq (w, l). case wdf_format W rq w of (status, w) \<Rightarrow> (status, w, l @ [Formatted])),
      wdf_send = (\<lambda>rq m (w, l). case wdf_send W rq m w of (sent, m, w) \<Rightarrow> (sent, m, w, l @ [Sent sent]))\<rparr>"

datatype spb_call = CallTransact u8 "u8 option" | CallTransact16 u16 "u8 option" bool | CallAttach | CallProbe u32
  | CallLock | CallVariant u8

fun run_spb_call :: "'w wdf \<Rightarrow> spb_call \<Rightarrow> 'w spb_bus \<Rightarrow> 'w spb_bus" where
  "run_spb_call W (CallTransact addr val) b = snd (transact W addr val b)"
| "run_spb_call W (CallTransact16 addr val big_endian) b = snd (transact_spmi16 W addr val big_endian b)"
| "run_spb_call W CallAttach b = snd (attach W b)"
| "run_spb_call W (CallProbe code) b = snd (probe_ioctl W code b)"
| "run_spb_call W CallLock b = snd (lock_connection W b)"
| "run_spb_call W (CallVariant v) b = set_variant v b"

definition request_safe :: "('w \<times> framework_event list) spb_bus \<Rightarrow> bool" where
  "request_safe b \<longleftrightarrow> (if sb_request_lost b
     then \<exists>l. snd (sb_world b) = l @ [Sent None] \<and> Sent None \<notin> set l
     else Sent None \<notin> set (snd (sb_world b)))"

lemma prepare_fields:
  "prepare addr val b = (r, b') \<Longrightarrow> sb_request_lost b' = sb_request_lost b \<and> sb_world b' = sb_world b"
  by (auto simp: prepare_def Let_def list_header_def store_def store_entry_def split: if_splits option.splits)

lemma prepare_spmi16_fields:
  "prepare_spmi16 addr val big_endian b = (r, b') \<Longrightarrow> sb_request_lost b' = sb_request_lost b \<and> sb_world b' = sb_world b"
  by (auto simp: prepare_spmi16_def Let_def list_header_def store_def store_entry_def split: if_splits option.splits)

lemma submit_safe:
  assumes "request_safe b" "\<not> sb_request_lost b"
  shows "case submit (watched W) rq b of (s, b') \<Rightarrow> \<not> sb_request_lost b' \<and>
    (if s = NotSent then \<exists>l. snd (sb_world b') = l @ [Sent None] \<and> Sent None \<notin> set l
     else Sent None \<notin> set (snd (sb_world b')))"
  using assms
  by (cases "sb_world b") (auto simp: submit_def watched_def request_safe_def Let_def split: prod.splits option.splits)

lemma finish_safe:
  assumes "request_safe b" "\<not> sb_request_lost b"
  shows "request_safe (snd (finish_sequence rejected silent failed reply writing (submit (watched W) rq b)))"
  using submit_safe [OF assms, of W rq]
  by (auto simp: finish_sequence_def send_failed_def request_safe_def Let_def split: prod.splits submission.splits if_splits)

lemma plain_safe:
  assumes "request_safe b" "\<not> sb_request_lost b"
  shows "request_safe (snd (plain_request (watched W) rq b))"
  using submit_safe [OF assms, of W rq]
  by (auto simp: plain_request_def send_failed_def request_safe_def Let_def split: prod.splits submission.splits if_splits)

lemma store_safe [simp]:
  "request_safe (store a bs b) = request_safe b" "sb_request_lost (store a bs b) = sb_request_lost b"
  by (simp_all add: request_safe_def store_def)

lemma call_safe:
  assumes "request_safe b"
  shows "request_safe (run_spb_call (watched W) call b)"
proof (cases "sb_request_lost b")
  case True
  with assms show ?thesis
    by (cases call) (auto simp: transact_def transact_spmi16_def cached_request_def attach_def probe_ioctl_def
        lock_connection_def set_variant_def request_safe_def)
next
  case False
  have kept: "sb_request_lost b' = sb_request_lost b \<and> sb_world b' = sb_world b \<Longrightarrow> request_safe b' \<and> \<not> sb_request_lost b'"
    for b' :: "('a \<times> framework_event list) spb_bus"
    using assms False by (simp add: request_safe_def)
  show ?thesis
  proof (cases call)
    case (CallTransact addr val)
    with assms False show ?thesis
      by (auto simp: transact_def cached_request_def dest!: prepare_fields kept intro: finish_safe split: prod.splits sum.splits)
  next
    case (CallTransact16 addr val be)
    with assms False show ?thesis
      by (auto simp: transact_spmi16_def cached_request_def dest!: prepare_spmi16_fields kept intro: finish_safe
          split: prod.splits sum.splits)
  next
    case CallAttach
    define b' where "b' = store (sb_attach_in b + 4) (num_bytes 4 1) (store (sb_attach_in b) (num_bytes 4 ATTACH_MAGIC) b)"
    have "request_safe b'" "\<not> sb_request_lost b'" using assms False by (simp_all add: b'_def)
    from submit_safe [OF this, of W "attach_request b'"] have "request_safe (snd (attach (watched W) b))"
      using assms False unfolding attach_def b'_def [symmetric] Let_def
      by (auto simp: send_failed_def request_safe_def split: prod.splits submission.splits if_splits)
    with CallAttach show ?thesis by simp
  next
    case (CallVariant v)
    with assms False show ?thesis by (simp add: set_variant_def request_safe_def)
  qed (use assms False in \<open>auto simp: probe_ioctl_def lock_connection_def intro: plain_safe\<close>)
qed

lemma request_safe_log: "request_safe b \<Longrightarrow> Sent None \<notin> set (butlast (snd (sb_world b)))"
  by (auto simp: request_safe_def dest: in_set_butlastD split: if_splits)

text \<open>
  C28. A request the framework still owns is never used again: in every run of exchanges, attachments, probes and
  locks on a bus just opened, whatever the framework answers, nothing is formatted or sent after a send that did
  not complete. Reusing such a request is a fatal error of the framework.
\<close>

theorem lost_request_never_reused:
  "Sent None \<notin> set (butlast (snd (sb_world (fold (run_spb_call (watched W)) calls
     (spb_open area data attach_in attach_out peripheral_id m (w, []))))))"
proof -
  have "request_safe (fold (run_spb_call (watched W)) calls b)" if "request_safe b" for b
    using that by (induction calls arbitrary: b) (auto intro: call_safe)
  moreover have "request_safe (spb_open area data attach_in attach_out peripheral_id m (w, []))"
    by (simp add: request_safe_def spb_open_def)
  ultimately show ?thesis
    by (intro request_safe_log)
qed

section \<open>A chip behind the lists\<close>

text \<open>
  A chip with registers that executes the transfers of a list: bytes to the device are an address of \<open>alen\<close>
  bytes, high byte first, and data for the registers from there on; bytes from the device are the registers
  from the last address on. A transfer without a direction ends a list and does nothing.
\<close>

type_synonym chip = "(nat \<Rightarrow> u8) \<times> nat"

definition run_transfer :: "nat \<Rightarrow> transfer \<Rightarrow> mem \<times> chip \<Rightarrow> mem \<times> chip" where
  "run_transfer alen t s = (case s of (m, regs, pos) \<Rightarrow>
     if tf_direction t = SPB_DIRECTION_TO_DEVICE then
       let bytes = get_bytes m (tf_buffer t) (tf_buffer_cb t) in
       if length bytes < alen then s
       else let start = bytes_num (rev (take alen bytes)); data = drop alen bytes
            in (m, put_bytes start data regs, start + length data)
     else if tf_direction t = SPB_DIRECTION_FROM_DEVICE then
       (put_bytes (tf_buffer t) (get_bytes regs pos (tf_buffer_cb t)) m, regs, pos + tf_buffer_cb t)
     else s)"

definition chip_wdf :: "nat \<Rightarrow> chip wdf" where
  "chip_wdf alen =
     \<lparr>wdf_format = (\<lambda>rq c. (0, c)),
      wdf_send = (\<lambda>rq m c. case rq_input rq of
        None \<Rightarrow> (Some 0, m, c)
      | Some (a, len) \<Rightarrow>
          if rq_ioctl rq \<noteq> IOCTL_SPB_EXECUTE_SEQUENCE \<or> len \<noteq> abi_area_size (read_u32 m (a + OFFSET_TRANSFER_COUNT))
          then (Some (- 1073741811), m, c)
          else let (m, c) = fold (run_transfer alen) (read_list m a) (m, c) in (Some 0, m, c))\<rparr>"

lemma put_entry_apart: "x < b \<or> b + 28 \<le> x \<Longrightarrow> put_entry b t m x = m x"
  by (auto simp: put_entry_def put_apart)

lemma get_bytes_cong: "(\<And>x. c \<le> x \<Longrightarrow> x < c + n \<Longrightarrow> m x = m' x) \<Longrightarrow> get_bytes m c n = get_bytes m' c n"
  by (auto simp: get_bytes_def)

lemma read_put_entry:
  "transfer_ok t \<Longrightarrow> read_entry (put_entry b t m) b = t"
  "c + 28 \<le> b \<or> b + 28 \<le> c \<Longrightarrow> read_entry (put_entry b t m) c = read_entry m c"
  "c + 4 \<le> b \<or> b + 28 \<le> c \<Longrightarrow> read_u32 (put_entry b t m) c = read_u32 m c"
  "c + n \<le> b \<or> b + 28 \<le> c \<Longrightarrow> get_bytes (put_entry b t m) c n = get_bytes m c n"
proof -
  show "transfer_ok t \<Longrightarrow> read_entry (put_entry b t m) b = t"
    by (simp add: put_entry_def read_entry_def read_u32_put read_u32_apart transfer_ok_def get_put_apart bytes_num_bytes
        u64_max_def)
  show "c + 28 \<le> b \<or> b + 28 \<le> c \<Longrightarrow> read_entry (put_entry b t m) c = read_entry m c"
    by (rule read_entry_cong, rule put_entry_apart) linarith
  show get: "c + n \<le> b \<or> b + 28 \<le> c \<Longrightarrow> get_bytes (put_entry b t m) c n = get_bytes m c n" for n
    by (rule get_bytes_cong, rule put_entry_apart) linarith
  show "c + 4 \<le> b \<or> b + 28 \<le> c \<Longrightarrow> read_u32 (put_entry b t m) c = read_u32 m c"
    by (simp add: read_u32_def get)
qed

lemma read_entry_apart:
  "c + 28 \<le> b \<or> b + length bs \<le> c \<Longrightarrow> read_entry (put_bytes b bs m) c = read_entry m c"
  by (rule read_entry_cong, rule put_apart) linarith

lemma read_list_count:
  "read_u32 m (a + 8) = 1 \<Longrightarrow> read_list m a = [read_entry m (a + 16)]"
  "read_u32 m (a + 8) = 2 \<Longrightarrow> read_list m a = [read_entry m (a + 16), read_entry m (a + 48)]"
  "read_u32 m (a + 8) = 3 \<Longrightarrow> read_list m a = [read_entry m (a + 16), read_entry m (a + 48), read_entry m (a + 80)]"
proof -
  have a: "a + 16 + 32 * 0 = a + 16" "a + 16 + 32 * Suc 0 = a + 48" "a + 16 + 32 * Suc (Suc 0) = a + 80" by simp_all
  have upt: "[0..<1] = [0]" "[0..<2] = [0, Suc 0]" "[0..<3] = [0, Suc 0, Suc (Suc 0)]"
    by (simp_all add: upt_rec)
  show "read_u32 m (a + 8) = 1 \<Longrightarrow> read_list m a = [read_entry m (a + 16)]"
    "read_u32 m (a + 8) = 2 \<Longrightarrow> read_list m a = [read_entry m (a + 16), read_entry m (a + 48)]"
    "read_u32 m (a + 8) = 3 \<Longrightarrow> read_list m a = [read_entry m (a + 16), read_entry m (a + 48), read_entry m (a + 80)]"
    by (simp_all only: read_list_def upt list.map a)
qed

text \<open>The buffers are there and apart from each other.\<close>

definition buffers_ok :: "'w spb_bus \<Rightarrow> bool" where
  "buffers_ok b \<longleftrightarrow> 0 < sb_area b \<and> 0 < sb_data b \<and> \<not> sb_request_lost b \<and> sb_data b + 8 \<le> u64_max \<and>
     (sb_area b + 112 \<le> sb_data b \<or> sb_data b + 8 \<le> sb_area b)"

lemma transfer_ok_format [simp]:
  "transfer_ok (entry_with_format (variant_format v) d p n) \<longleftrightarrow> d \<le> u32_max \<and> p \<le> u64_max \<and> n \<le> u32_max"
  by (auto simp: transfer_ok_def entry_with_format_def entry_init_def variant_format_def u32_max_def)

text \<open>The list an access leaves in the memory, and the bytes it sends.\<close>

lemma get_put_split: "get_bytes (put_bytes a bs m) a n = take n bs" if "n \<le> length bs" for n
  using that by (auto simp: get_bytes_def put_bytes_def intro: nth_equalityI)

lemma prepare_list:
  assumes "buffers_ok b"
  defines "fmt \<equiv> variant_format (sb_variant b)"
  obtains b' where "prepare addr val b = (Inr (), b')"
    "read_list (sb_mem b') (sb_area b) = (case val of
        Some v \<Rightarrow> [entry_with_format fmt 2 (sb_data b) 2]
      | None \<Rightarrow> [entry_with_format fmt 2 (sb_data b) 1, entry_with_format fmt 1 (sb_data b + 1) 1]) @
      (if sb_variant b = VARIANT_TERMINATED then [entry_with_format fmt 0 0 0] else [])"
    "get_bytes (sb_mem b') (sb_data b) (case val of None \<Rightarrow> 1 | Some _ \<Rightarrow> 2) = addr # (case val of None \<Rightarrow> [] | Some v \<Rightarrow> [v])"
    "sb_last_count b' = read_u32 (sb_mem b') (sb_area b + 8)" "sb_last_count b' \<in> {1, 2, 3}"
    "b' = b\<lparr>sb_mem := sb_mem b', sb_last_count := sb_last_count b'\<rparr>"
proof -
  obtain b' where p: "prepare addr val b = (Inr (), b')"
    using assms(1) by (auto simp: prepare_def buffers_ok_def Let_def)
  have apart: "sb_area b + 112 \<le> sb_data b \<or> sb_data b + 8 \<le> sb_area b" and data: "sb_data b + 8 \<le> u64_max"
    using assms(1) by (auto simp: buffers_ok_def)
  show ?thesis
  proof (rule that [OF p])
    show "read_list (sb_mem b') (sb_area b) = (case val of
        Some v \<Rightarrow> [entry_with_format fmt 2 (sb_data b) 2]
      | None \<Rightarrow> [entry_with_format fmt 2 (sb_data b) 1, entry_with_format fmt 1 (sb_data b + 1) 1]) @
      (if sb_variant b = VARIANT_TERMINATED then [entry_with_format fmt 0 0 0] else [])"
      using p assms(1) apart data
      by (cases val; cases "sb_variant b = VARIANT_TERMINATED")
         (auto simp del: One_nat_def simp: prepare_def Let_def buffers_ok_def list_header_def store_def store_entry_def
           prepare_count_def read_list_count read_put_entry read_u32_put read_u32_apart u32_max_def u64_max_def fmt_def)
  next
    show "get_bytes (sb_mem b') (sb_data b) (case val of None \<Rightarrow> 1 | Some _ \<Rightarrow> 2) = addr # (case val of None \<Rightarrow> [] | Some v \<Rightarrow> [v])"
      using p assms(1) apart data
      by (cases val; cases "sb_variant b = VARIANT_TERMINATED") (auto simp del: One_nat_def simp: prepare_def Let_def buffers_ok_def list_header_def store_def store_entry_def
           prepare_count_def read_put_entry read_u32_put read_u32_apart u32_max_def get_put_split)
  next
    show "sb_last_count b' = read_u32 (sb_mem b') (sb_area b + 8)"
      using p assms(1) apart data
      by (cases val; cases "sb_variant b = VARIANT_TERMINATED") (auto simp del: One_nat_def simp: prepare_def Let_def buffers_ok_def list_header_def store_def store_entry_def
           prepare_count_def read_put_entry read_u32_put read_u32_apart u32_max_def get_put_split)
    show "sb_last_count b' \<in> {1, 2, 3}"
      using p assms(1) apart data
      by (cases val; cases "sb_variant b = VARIANT_TERMINATED") (auto simp del: One_nat_def simp: prepare_def Let_def buffers_ok_def list_header_def store_def store_entry_def
           prepare_count_def read_put_entry read_u32_put read_u32_apart u32_max_def get_put_split)
    show "b' = b\<lparr>sb_mem := sb_mem b', sb_last_count := sb_last_count b'\<rparr>"
      using p assms(1) apart data
      by (cases val; cases "sb_variant b = VARIANT_TERMINATED") (auto simp del: One_nat_def simp: prepare_def Let_def buffers_ok_def list_header_def store_def store_entry_def
           prepare_count_def read_put_entry read_u32_put read_u32_apart u32_max_def get_put_split)
  qed
qed

lemma entry_fields [simp]:
  "tf_direction (entry_with_format f d p n) = d" "tf_buffer (entry_with_format f d p n) = p"
  "tf_buffer_cb (entry_with_format f d p n) = n"
  by (simp_all add: entry_with_format_def entry_init_def)

lemma put_one [simp]: "put_bytes a [v] m = m(a := v)"
  by (auto simp: put_bytes_def fun_eq_iff)

lemma put_none [simp]: "put_bytes a [] m = m"
  by (auto simp: put_bytes_def fun_eq_iff)

lemma get_one [simp]: "get_bytes m a (Suc 0) = [m a]"
  by (simp add: get_bytes_def)

lemma run_transfer_simps:
  "run_transfer alen (entry_with_format f 0 p n) s = s"
  "run_transfer alen (entry_with_format f 1 p n) (m, regs, pos) =
    (put_bytes p (get_bytes regs pos n) m, regs, pos + n)"
  "get_bytes m p n = as @ ds \<Longrightarrow> length as = alen \<Longrightarrow>
   run_transfer alen (entry_with_format f 2 p n) (m, regs, pos) =
     (m, put_bytes (bytes_num (rev as)) ds regs, bytes_num (rev as) + length ds)"
  using length_bytes(1) [of m p n] by (auto simp: run_transfer_def Let_def)

text \<open>A prepared sequence is accepted by the chip, which runs the transfers of the list.\<close>

lemma submit_chip:
  assumes "sb_last_count b = read_u32 (sb_mem b) (sb_area b + 8)" "sb_last_count b \<in> {1, 2, 3}"
    and "fold (run_transfer alen) (read_list (sb_mem b) (sb_area b)) (sb_mem b, sb_world b) = (m, c)"
  shows "submit (chip_wdf alen) (sequence_request b) b =
    (Completed 0, b\<lparr>sb_mem := m, sb_world := c, sb_last_status := 0\<rparr>)"
  using assms by (auto simp: submit_def chip_wdf_def sequence_request_def Let_def)

lemma chip_read:
  assumes "buffers_ok b"
  obtains b' where "transact (chip_wdf 1) addr None b = (Inr (fst (sb_world b) (unat addr)), b')"
    "buffers_ok b'" "fst (sb_world b') = fst (sb_world b)"
proof -
  obtain regs pos where w: "sb_world b = (regs, pos)" by (cases "sb_world b")
  from prepare_list [OF assms, of addr None] obtain b1 where p: "prepare addr None b = (Inr (), b1)"
    and list: "read_list (sb_mem b1) (sb_area b) =
      [entry_with_format (variant_format (sb_variant b)) 2 (sb_data b) 1,
       entry_with_format (variant_format (sb_variant b)) 1 (sb_data b + 1) 1] @
      (if sb_variant b = VARIANT_TERMINATED then [entry_with_format (variant_format (sb_variant b)) 0 0 0] else [])"
    and bytes: "get_bytes (sb_mem b1) (sb_data b) 1 = [addr]"
    and count: "sb_last_count b1 = read_u32 (sb_mem b1) (sb_area b + 8)" "sb_last_count b1 \<in> {1, 2, 3}"
    and b1: "b1 = b\<lparr>sb_mem := sb_mem b1, sb_last_count := sb_last_count b1\<rparr>"
    by (auto simp del: One_nat_def)
  have fields: "sb_area b1 = sb_area b" "sb_world b1 = (regs, pos)" "sb_data b1 = sb_data b"
    "sb_request_lost b1 = sb_request_lost b"
    by (subst b1, simp add: w)+
  let ?m = "put_bytes (sb_data b + 1) (get_bytes regs (unat addr) 1) (sb_mem b1)"
  let ?b' = "b1\<lparr>sb_mem := ?m, sb_world := (regs, unat addr + 1), sb_last_status := 0\<rparr>"
  have "fold (run_transfer 1) (read_list (sb_mem b1) (sb_area b1)) (sb_mem b1, sb_world b1) = (?m, regs, unat addr + 1)"
    using run_transfer_simps(3) [of "sb_mem b1" "sb_data b" 1 "[addr]" "[]" 1 "variant_format (sb_variant b)" regs pos] bytes
    by (simp del: One_nat_def add: fields list run_transfer_simps(1,2))
  from submit_chip [OF _ _ this] have "submit (chip_wdf 1) (sequence_request b1) b1 = (Completed 0, ?b')"
    using count by (simp add: fields)
  then have "transact (chip_wdf 1) addr None b = (Inr (regs (unat addr)), ?b')"
    using assms p by (simp add: transact_def cached_request_def buffers_ok_def finish_sequence_def fields)
  moreover have "buffers_ok ?b'" using assms by (simp add: buffers_ok_def fields)
  moreover have "fst (sb_world ?b') = fst (sb_world b)" by (simp add: w)
  ultimately show ?thesis using w by (metis fst_conv that)
qed

lemma chip_write:
  assumes "buffers_ok b"
  obtains b' where "transact (chip_wdf 1) addr (Some v) b = (Inr 0, b')"
    "buffers_ok b'" "fst (sb_world b') = (fst (sb_world b))(unat addr := v)"
proof -
  obtain regs pos where w: "sb_world b = (regs, pos)" by (cases "sb_world b")
  from prepare_list [OF assms, of addr "Some v"] obtain b1 where p: "prepare addr (Some v) b = (Inr (), b1)"
    and list: "read_list (sb_mem b1) (sb_area b) =
      entry_with_format (variant_format (sb_variant b)) 2 (sb_data b) 2 #
      (if sb_variant b = VARIANT_TERMINATED then [entry_with_format (variant_format (sb_variant b)) 0 0 0] else [])"
    and bytes: "get_bytes (sb_mem b1) (sb_data b) 2 = [addr] @ [v]"
    and count: "sb_last_count b1 = read_u32 (sb_mem b1) (sb_area b + 8)" "sb_last_count b1 \<in> {1, 2, 3}"
    and b1: "b1 = b\<lparr>sb_mem := sb_mem b1, sb_last_count := sb_last_count b1\<rparr>"
    by (auto simp del: One_nat_def)
  have fields: "sb_area b1 = sb_area b" "sb_world b1 = (regs, pos)" "sb_data b1 = sb_data b"
    "sb_request_lost b1 = sb_request_lost b"
    by (subst b1, simp add: w)+
  let ?b' = "b1\<lparr>sb_mem := sb_mem b1, sb_world := (regs(unat addr := v), unat addr + 1), sb_last_status := 0\<rparr>"
  have "fold (run_transfer 1) (read_list (sb_mem b1) (sb_area b1)) (sb_mem b1, sb_world b1) =
      (sb_mem b1, regs(unat addr := v), unat addr + 1)"
    using run_transfer_simps(3) [OF bytes, of 1 "variant_format (sb_variant b)" regs pos]
    by (simp del: One_nat_def add: fields list run_transfer_simps(1,2))
  from submit_chip [OF _ _ this] have "submit (chip_wdf 1) (sequence_request b1) b1 = (Completed 0, ?b')"
    using count by (simp add: fields)
  then have "transact (chip_wdf 1) addr (Some v) b = (Inr 0, ?b')"
    using assms p by (simp add: transact_def cached_request_def buffers_ok_def finish_sequence_def fields)
  moreover have "buffers_ok ?b'" using assms by (simp add: buffers_ok_def fields)
  moreover have "fst (sb_world ?b') = (fst (sb_world b))(unat addr := v)" by (simp add: w)
  ultimately show ?thesis by (rule that)
qed

text \<open>
  So the bus with such a chip behind it keeps the contract of a working register bus, in every variant of the
  request.
\<close>

definition chip_view :: "chip spb_bus \<Rightarrow> u8 \<Rightarrow> u8" where
  "chip_view b = (\<lambda>a. fst (sb_world b) (unat a))"

lemma spb_read_ok:
  "buffers_ok b \<Longrightarrow> \<exists>b'. spb_read (chip_wdf 1) a b = (Inr (chip_view b a), b') \<and> buffers_ok b' \<and> chip_view b' = chip_view b"
  by (rule chip_read [of b a]) (auto simp: spb_read_def chip_view_def)

interpretation spb_chip: register_chip "spb_reg_bus (chip_wdf 1)" buffers_ok chip_view "\<lambda>a v f. f(a := v)" UNIV
proof
  fix b :: "chip spb_bus" and a v :: u8
  assume b: "buffers_ok b"
  show "\<exists>b'. rb_read (spb_reg_bus (chip_wdf 1)) a b = (Inr (chip_view b a), b') \<and> buffers_ok b' \<and> chip_view b' = chip_view b"
    using spb_read_ok [OF b] by (simp add: spb_reg_bus_def)
  obtain b1 where r: "spb_read (chip_wdf 1) a b = (Inr (chip_view b a), b1)" "buffers_ok b1" "chip_view b1 = chip_view b"
    using spb_read_ok [OF b] by blast
  show "\<exists>b'. rb_read_pair (spb_reg_bus (chip_wdf 1)) a b = (Inr (byte_pair (chip_view b a) (chip_view b (a + 1))), b') \<and>
      buffers_ok b' \<and> chip_view b' = chip_view b"
    using spb_read_ok [OF r(2), of "a + 1"] r by (auto simp: spb_reg_bus_def default_read_pair_def)
  show "\<exists>b'. rb_write (spb_reg_bus (chip_wdf 1)) a v b = (Inr (), b') \<and> buffers_ok b' \<and>
      chip_view b' = (chip_view b)(a := v)"
    by (rule chip_write [OF b, of a v]) (auto simp: spb_reg_bus_def spb_write_def chip_view_def fun_eq_iff word_unat_eq_iff)
  show "\<exists>r b'. rb_reset (spb_reg_bus (chip_wdf 1)) b = (r, b') \<and> buffers_ok b' \<and> chip_view b' = chip_view b"
    using b by (simp add: spb_reg_bus_def spb_reset_def)
qed simp

text \<open>
  C27. Through the transfer lists of the bus the registers of the chip are what the pump driver sees: with the
  buffers in place and in every variant of the request, updating bits of a register changes exactly those bits
  of exactly that register, and reading it afterwards gives the new value, on a chip that executes the lists.
\<close>

theorem spb_update_then_read:
  assumes "buffers_ok b"
  shows "\<exists>b1 b2. bus_update_bits (spb_reg_bus (chip_wdf 1)) a m v b = (Inr (), b1) \<and>
    chip_view b1 = (chip_view b)(a := masked (chip_view b a) m v) \<and>
    rb_read (spb_reg_bus (chip_wdf 1)) a b1 = (Inr (masked (chip_view b a) m v), b2) \<and> chip_view b2 = chip_view b1"
proof -
  obtain b1 where 1: "bus_update_bits (spb_reg_bus (chip_wdf 1)) a m v b = (Inr (), b1)" "buffers_ok b1"
    "chip_view b1 = (chip_view b)(a := masked (chip_view b a) m v)"
    using spb_chip.update_bits_ok [OF assms] by blast
  then show ?thesis using spb_chip.read_ok [OF 1(2), of a] by auto
qed

text \<open>A bus with its buffers in place, before a chip all of whose registers hold \<open>0x5A\<close>.\<close>

definition sample_bus :: "chip spb_bus" where
  "sample_bus = spb_open 64 512 1024 2048 1 (\<lambda>_. 0) (\<lambda>_. 0x5A, 0)"

lemma sample_bus_ok: "buffers_ok sample_bus" "fst (sb_world sample_bus) = (\<lambda>_. 0x5A)"
  by (simp_all add: sample_bus_def spb_open_def buffers_ok_def u64_max_def)

theorem spb_update_then_read_witness:
  "\<exists>b1 b2. bus_update_bits (spb_reg_bus (chip_wdf 1)) 0x1E 0x0F 0x33 sample_bus = (Inr (), b1) \<and>
    chip_view b1 = (\<lambda>_. 0x5A)(0x1E := 0x53) \<and>
    rb_read (spb_reg_bus (chip_wdf 1)) 0x1E b1 = (Inr 0x53, b2) \<and> chip_view b2 = chip_view b1"
  using spb_update_then_read [OF sample_bus_ok(1), of "0x1E" "0x0F" "0x33"]
  by (simp add: chip_view_def sample_bus_ok(2) masked_def)

section \<open>Registers with 16-bit addresses\<close>

lemma prepare_spmi16_list:
  assumes "buffers_ok b"
  defines "fmt \<equiv> variant_format (sb_variant b)"
  obtains b' where "prepare_spmi16 addr val True b = (Inr (), b')"
    "read_list (sb_mem b') (sb_area b) = (case val of
        Some v \<Rightarrow> [entry_with_format fmt 2 (sb_data b) 3]
      | None \<Rightarrow> [entry_with_format fmt 2 (sb_data b) 2, entry_with_format fmt 1 (sb_data b + 2) 1])"
    "get_bytes (sb_mem b') (sb_data b) (case val of None \<Rightarrow> 2 | Some _ \<Rightarrow> 3) =
      [ucast (drop_bit 8 addr), ucast (addr AND 0xFF)] @ (case val of None \<Rightarrow> [] | Some v \<Rightarrow> [v])"
    "sb_last_count b' = read_u32 (sb_mem b') (sb_area b + 8)" "sb_last_count b' \<in> {1, 2, 3}"
    "b' = b\<lparr>sb_mem := sb_mem b', sb_last_count := sb_last_count b'\<rparr>"
proof -
  obtain b' where p: "prepare_spmi16 addr val True b = (Inr (), b')"
    using assms(1) by (auto simp: prepare_spmi16_def buffers_ok_def Let_def)
  have apart: "sb_area b + 112 \<le> sb_data b \<or> sb_data b + 8 \<le> sb_area b" and data: "sb_data b + 8 \<le> u64_max"
    using assms(1) by (auto simp: buffers_ok_def)
  note defs = prepare_spmi16_def Let_def buffers_ok_def list_header_def store_def store_entry_def read_list_count
    read_put_entry read_u32_put read_u32_apart u32_max_def u64_max_def fmt_def get_put_split
  show ?thesis
  proof (rule that [OF p])
    show "read_list (sb_mem b') (sb_area b) = (case val of
        Some v \<Rightarrow> [entry_with_format fmt 2 (sb_data b) 3]
      | None \<Rightarrow> [entry_with_format fmt 2 (sb_data b) 2, entry_with_format fmt 1 (sb_data b + 2) 1])"
      using p assms(1) apart data by (cases val) (auto simp del: One_nat_def simp: defs)
    show "get_bytes (sb_mem b') (sb_data b) (case val of None \<Rightarrow> 2 | Some _ \<Rightarrow> 3) =
        [ucast (drop_bit 8 addr), ucast (addr AND 0xFF)] @ (case val of None \<Rightarrow> [] | Some v \<Rightarrow> [v])"
      using p assms(1) apart data by (cases val) (auto simp del: One_nat_def simp: defs)
    show "sb_last_count b' = read_u32 (sb_mem b') (sb_area b + 8)"
      using p assms(1) apart data by (cases val) (auto simp del: One_nat_def simp: defs)
    show "sb_last_count b' \<in> {1, 2, 3}"
      using p assms(1) by (cases val) (auto simp del: One_nat_def simp: defs)
    show "b' = b\<lparr>sb_mem := sb_mem b', sb_last_count := sb_last_count b'\<rparr>"
      using p assms(1) by (cases val) (auto simp del: One_nat_def simp: defs)
  qed
qed

lemma u16_high_low: "unat (ucast (drop_bit 8 a) :: u8) * 256 + unat (ucast (a AND 0xFF) :: u8) = unat (a :: u16)"
proof -
  have "unat (ucast (drop_bit 8 a) :: u8) = unat a div 256 mod 256"
    by (simp add: unsigned_ucast_eq take_bit_eq_mod drop_bit_eq_div unat_div_distrib)
  moreover have "x AND 255 = x mod 256" for x :: nat
    using take_bit_eq_mask [of 8 x] by (simp add: take_bit_eq_mod mask_eq_exp_minus_1)
  then have "unat (ucast (a AND 0xFF) :: u8) = unat a mod 256"
    by (simp add: unsigned_ucast_eq unsigned_and_eq take_bit_eq_mod)
  moreover have "unat a div 256 < 256" using unsigned_less [where ?'b = 16 and ?'a = nat and w = a] by simp
  ultimately show ?thesis by simp
qed

text \<open>
  The Resource Hub connection of the PMIC reads and writes the register it is asked for: on a chip with 16-bit
  addresses, high byte first, a read answers the register and changes none, and a write changes that register
  and no other.
\<close>

theorem spmi16_registers:
  assumes "buffers_ok b"
  shows "\<exists>b1 b2. transact_spmi16 (chip_wdf 2) addr None True b = (Inr (fst (sb_world b) (unat addr)), b1) \<and>
    fst (sb_world b1) = fst (sb_world b) \<and>
    transact_spmi16 (chip_wdf 2) addr (Some v) True b = (Inr 0, b2) \<and>
    fst (sb_world b2) = (fst (sb_world b))(unat addr := v)"
proof -
  obtain regs pos where w: "sb_world b = (regs, pos)" by (cases "sb_world b")
  let ?fmt = "variant_format (sb_variant b)" and ?addr = "[ucast (drop_bit 8 addr), ucast (addr AND 0xFF)] :: u8 list"
  have seen: "bytes_num (rev ?addr) = unat addr"
    using u16_high_low [of addr] by simp
  have run: "transact_spmi16 (chip_wdf 2) addr val True b = (Inr res, b1\<lparr>sb_mem := m, sb_world := c, sb_last_status := 0\<rparr>)"
    if p: "prepare_spmi16 addr val True b = (Inr (), b1)"
      and count: "sb_last_count b1 = read_u32 (sb_mem b1) (sb_area b + 8)" "sb_last_count b1 \<in> {1, 2, 3}"
      and b1: "b1 = b\<lparr>sb_mem := sb_mem b1, sb_last_count := sb_last_count b1\<rparr>"
      and "fold (run_transfer 2) (read_list (sb_mem b1) (sb_area b)) (sb_mem b1, regs, pos) = (m, c)"
      and "res = (if val = None then m (sb_data b + 2) else 0)" for val b1 res m c
  proof -
    have fields: "sb_area b1 = sb_area b" "sb_world b1 = (regs, pos)" "sb_data b1 = sb_data b"
      by (subst b1, simp add: w)+
    with submit_chip [of b1 2 m c] that
    have "submit (chip_wdf 2) (sequence_request b1) b1 = (Completed 0, b1\<lparr>sb_mem := m, sb_world := c, sb_last_status := 0\<rparr>)"
      by simp
    then show ?thesis
      using assms p that(6) by (simp add: transact_spmi16_def cached_request_def buffers_ok_def finish_sequence_def fields)
  qed
  obtain b1 where 1: "prepare_spmi16 addr None True b = (Inr (), b1)"
    "read_list (sb_mem b1) (sb_area b) = [entry_with_format ?fmt 2 (sb_data b) 2, entry_with_format ?fmt 1 (sb_data b + 2) 1]"
    "get_bytes (sb_mem b1) (sb_data b) 2 = ?addr @ []"
    "sb_last_count b1 = read_u32 (sb_mem b1) (sb_area b + 8)" "sb_last_count b1 \<in> {1, 2, 3}"
    "b1 = b\<lparr>sb_mem := sb_mem b1, sb_last_count := sb_last_count b1\<rparr>"
    by (rule prepare_spmi16_list [OF assms, of addr None]) (auto simp del: One_nat_def)
  obtain b2 where 2: "prepare_spmi16 addr (Some v) True b = (Inr (), b2)"
    "read_list (sb_mem b2) (sb_area b) = [entry_with_format ?fmt 2 (sb_data b) 3]"
    "get_bytes (sb_mem b2) (sb_data b) 3 = ?addr @ [v]"
    "sb_last_count b2 = read_u32 (sb_mem b2) (sb_area b + 8)" "sb_last_count b2 \<in> {1, 2, 3}"
    "b2 = b\<lparr>sb_mem := sb_mem b2, sb_last_count := sb_last_count b2\<rparr>"
    by (rule prepare_spmi16_list [OF assms, of addr "Some v"]) (auto simp del: One_nat_def)
  have "transact_spmi16 (chip_wdf 2) addr None True b = (Inr (regs (unat addr)),
      b1\<lparr>sb_mem := (sb_mem b1)(sb_data b + 2 := regs (unat addr)), sb_world := (regs, unat addr + 1), sb_last_status := 0\<rparr>)"
    by (rule run [OF 1(1,4,5,6)])
       (use run_transfer_simps(3) [OF 1(3), of 2 ?fmt regs pos] in
         \<open>simp_all del: One_nat_def bytes_num.simps rev.simps add: 1(2) seen run_transfer_simps(2) get_one [folded One_nat_def]\<close>)
  moreover have "transact_spmi16 (chip_wdf 2) addr (Some v) True b = (Inr 0,
      b2\<lparr>sb_mem := sb_mem b2, sb_world := (regs(unat addr := v), unat addr + 1), sb_last_status := 0\<rparr>)"
    by (rule run [OF 2(1,4,5,6)])
       (use run_transfer_simps(3) [OF 2(3), of 2 ?fmt regs pos] in
         \<open>simp_all del: One_nat_def bytes_num.simps rev.simps add: 2(2) seen\<close>)
  ultimately show ?thesis using w by simp
qed

theorem spmi16_registers_witness:
  "\<exists>b1 b2. transact_spmi16 (chip_wdf 2) 0x1307 None True sample_bus = (Inr 0x5A, b1) \<and>
    fst (sb_world b1) = (\<lambda>_. 0x5A) \<and>
    transact_spmi16 (chip_wdf 2) 0x1307 (Some 0x40) True sample_bus = (Inr 0, b2) \<and>
    fst (sb_world b2) = (\<lambda>_. 0x5A)(0x1307 := 0x40)"
  using spmi16_registers [OF sample_bus_ok(1), of "0x1307" "0x40"] by (simp add: sample_bus_ok(2))

section \<open>The path of a connection\<close>

text \<open>
  The driver builds the path of a Resource Hub connection by index, from a prefix with slashes; the narrow
  variant is the one it logs.
\<close>

definition RESOURCE_HUB_PREFIX :: "u8 list" where
  "RESOURCE_HUB_PREFIX = map of_char ''/Device/RESOURCE_HUB/''"

definition kmdf_hub_symbol :: "u64 \<Rightarrow> nat \<Rightarrow> u16" where
  "kmdf_hub_symbol peripheral_id position =
     (let shift = 60 - position * 4; nibble = word_of_nat (peripheral_id div 2 ^ shift mod 16) :: u8
      in if nibble \<le> 9 then ucast (of_char CHR ''0'' + nibble) else ucast (of_char CHR ''a'' + (nibble - 10)))"

definition kmdf_resource_hub_path :: "u64 \<Rightarrow> u16 list" where
  "kmdf_resource_hub_path peripheral_id =
     fold (\<lambda>position chars. chars[length RESOURCE_HUB_PREFIX + position := kmdf_hub_symbol peripheral_id position])
       [0..<16]
       (fold (\<lambda>index chars. let byte = RESOURCE_HUB_PREFIX ! index in
           chars[index := if byte = of_char CHR ''/'' then of_char CHR 0x5C else ucast byte])
         [0..<length RESOURCE_HUB_PREFIX] (replicate (length RESOURCE_HUB_PREFIX + 16) 0))"

definition as_ascii :: "u16 list \<Rightarrow> u8 list" where
  "as_ascii chars = map (\<lambda>symbol. if unat symbol < 256 then ucast symbol else of_char CHR ''?'') chars"

lemma fold_list_update:
  "n + k \<le> length xs \<Longrightarrow>
   fold (\<lambda>i ys. ys[n + i := f i]) [0..<k] xs = take n xs @ map f [0..<k] @ drop (n + k) xs"
proof (induction k)
  case (Suc k)
  then have "drop (n + k) xs = xs ! (n + k) # drop (Suc (n + k)) xs"
    by (simp add: Cons_nth_drop_Suc)
  with Suc show ?case by (simp add: list_update_append)
qed simp

text \<open>The two symbol computations, in 8-bit and in wider arithmetic, agree.\<close>

lemma nibble_symbol:
  fixes n :: nat
  assumes "n < 16"
  shows "(if (word_of_nat n :: u8) \<le> 9 then ucast (of_char CHR ''0'' + word_of_nat n :: u8) :: u16
          else ucast (of_char CHR ''a'' + (word_of_nat n - 10) :: u8)) =
    (if n < 10 then word_of_nat (of_char CHR ''0'' + n) else word_of_nat (of_char CHR ''a'' + (n - 10)))"
proof -
  have "n \<in> set [0..<16]" using assms by simp
  then have "n \<in> {0, 1, 2, 3, 4, 5, 6, 7, 8, 9, 10, 11, 12, 13, 14, 15}" by (simp add: upt_rec numeral_eq_Suc)
  then show ?thesis by (elim insertE emptyE; simp)
qed

lemma kmdf_hub_symbol_digit: "position < 16 \<Longrightarrow> kmdf_hub_symbol conn position = hub_digit conn (15 - position)"
proof -
  assume "position < 16"
  then have "60 - position * 4 = 4 * (15 - position)" by simp
  then show ?thesis
    using nibble_symbol [of "conn div 2 ^ (4 * (15 - position)) mod 16"]
    by (simp add: kmdf_hub_symbol_def hub_digit_def Let_def)
qed

lemma kmdf_hub_chars:
  "kmdf_resource_hub_path conn = map ucast HUB_PATH_PREFIX @ map (hub_digit conn) (rev [0..<16])"
proof -
  have n: "length RESOURCE_HUB_PREFIX = 21" by (simp add: RESOURCE_HUB_PREFIX_def)
  have prefix: "map (\<lambda>index. if RESOURCE_HUB_PREFIX ! index = of_char CHR ''/'' then of_char CHR 0x5C
      else ucast (RESOURCE_HUB_PREFIX ! index)) [0..<21] = (map ucast HUB_PATH_PREFIX :: u16 list)"
    by (simp add: RESOURCE_HUB_PREFIX_def HUB_PATH_PREFIX_def upt_rec)
  have digits: "map (kmdf_hub_symbol conn) [0..<16] = map (hub_digit conn) (rev [0..<16])"
    by (rule nth_equalityI) (simp_all add: kmdf_hub_symbol_digit rev_nth)
  have "fold (\<lambda>index chars. chars[index := if RESOURCE_HUB_PREFIX ! index = of_char CHR ''/'' then of_char CHR 0x5C
      else ucast (RESOURCE_HUB_PREFIX ! index)]) [0..<21] (replicate 37 0 :: u16 list) =
      map ucast HUB_PATH_PREFIX @ replicate 16 0"
    using fold_list_update [of 0 21 "replicate 37 0" "\<lambda>index. if RESOURCE_HUB_PREFIX ! index = of_char CHR ''/''
        then of_char CHR 0x5C else ucast (RESOURCE_HUB_PREFIX ! index) :: u16", unfolded prefix]
    by (simp only: add_0 take_0 append_Nil) simp
  moreover have "length HUB_PATH_PREFIX = 21" by (simp add: HUB_PATH_PREFIX_def)
  ultimately show ?thesis
    using fold_list_update [of 21 16 "map ucast HUB_PATH_PREFIX @ replicate 16 0" "kmdf_hub_symbol conn", unfolded digits]
    by (simp add: kmdf_resource_hub_path_def n Let_def)
qed

text \<open>
  C30. The two drivers name a connection alike: for every identifier the path the pump driver builds by index is
  the path the other driver pushes character by character, and its logged form loses no character.
\<close>

theorem hub_paths_agree:
  "kmdf_resource_hub_path conn = hub_chars (resource_hub_path conn) \<and>
   map ucast (as_ascii (kmdf_resource_hub_path conn)) = kmdf_resource_hub_path conn"
proof
  show path: "kmdf_resource_hub_path conn = hub_chars (resource_hub_path conn)"
    by (simp add: kmdf_hub_chars resource_hub_path_chars)
  have digit: "unat (hub_digit conn n) < 256" for n
    using mod_less_divisor [of 16 "conn div 2 ^ (4 * n)"]
    unfolding hub_digit_def Let_def by (simp del: of_nat_add mod_less_divisor add: unsigned_of_nat take_bit_eq_mod)
  have narrow: "(ucast (ucast c :: u8) :: u16) = c" if "unat c < 256" for c :: u16
    using that by (simp add: word_unat_eq_iff unsigned_ucast_eq take_bit_eq_mod unat_mod)
  have "\<forall>c \<in> set (kmdf_resource_hub_path conn). unat c < 256"
    using digit by (auto simp: kmdf_hub_chars HUB_PATH_PREFIX_def)
  then show "map ucast (as_ascii (kmdf_resource_hub_path conn)) = kmdf_resource_hub_path conn"
    unfolding as_ascii_def map_map by (intro map_idI) (simp add: narrow)
qed

end
