(* ===== verification/Spmi_Link.thy ===== *)
theory Spmi_Link
  imports Spb_Bus Charger_Runner
begin

text \<open>
  \<open>crates/kmdf\<close>: the Windows driver of the SMB charger. \<open>SpmiTransport\<close> of \<open>spmi.rs\<close> is the link to the
  registers of the PMIC, with transfer lists as in \<open>Spb_Bus\<close>; \<open>lib.rs\<close> has the journal ring, the device
  start and the control requests. The calls of the driver framework are parameters.
\<close>

section \<open>The link\<close>

abbreviation (input) TRANSFER_AREA :: nat where "TRANSFER_AREA \<equiv> 256"
abbreviation (input) DATA_LEN :: nat where "DATA_LEN \<equiv> 8"
abbreviation (input) MAX_TRANSFERS :: nat where "MAX_TRANSFERS \<equiv> 2"
abbreviation (input) PAYLOAD_OFFSET :: nat where "PAYLOAD_OFFSET \<equiv> 80"
abbreviation (input) SPB_TIMEOUT_100NS :: int where "SPB_TIMEOUT_100NS \<equiv> - 10000000"

record spmi_config =
  sc_timeout_100ns :: int
  sc_address_big_endian :: bool

definition spmi_config_nabu :: spmi_config where
  "spmi_config_nabu = \<lparr>sc_timeout_100ns = SPB_TIMEOUT_100NS, sc_address_big_endian = True\<rparr>"

definition address_bytes :: "spmi_config \<Rightarrow> u16 \<Rightarrow> u8 list" where
  "address_bytes config addr =
     (let low = ucast (addr AND 0xFF); high = ucast (drop_bit 8 addr)
      in if sc_address_big_endian config then [high, low] else [low, high])"

text \<open>\<open>SpmiTransport\<close>: the addresses of its buffers, and the memory and the framework it acts on.\<close>

record 'w spmi =
  sm_area :: nat
  sm_data :: nat
  sm_config :: spmi_config
  sm_mem :: mem
  sm_world :: 'w

definition sm_store :: "nat \<Rightarrow> u8 list \<Rightarrow> 'w spmi \<Rightarrow> 'w spmi" where
  "sm_store a bs s = s\<lparr>sm_mem := put_bytes a bs (sm_mem s)\<rparr>"

definition sm_entry :: "nat \<Rightarrow> transfer \<Rightarrow> 'w spmi \<Rightarrow> 'w spmi" where
  "sm_entry base t s = s\<lparr>sm_mem := put_entry base t (sm_mem s)\<rparr>"

text \<open>\<open>begin\<close>: the header of the list, and where the payload stands.\<close>

definition spmi_begin :: "nat \<Rightarrow> 'w spmi \<Rightarrow> (transport_error + nat) \<times> 'w spmi" where
  "spmi_begin count s =
     (if count = 0 \<or> count > MAX_TRANSFERS then (Inl (transport_error_new TkUnsupported 0 ''invalid transfer count''), s)
      else (Inr (sm_area s + PAYLOAD_OFFSET),
        sm_store (sm_area s + OFFSET_TRANSFER_COUNT) (num_bytes 4 count)
         (sm_store (sm_area s + OFFSET_RESERVED) (num_bytes 4 0)
          (sm_store (sm_area s + OFFSET_SIZE) (num_bytes 4 header_size) s))))"

text \<open>\<open>send\<close>: the whole area is the input of the request, the data buffer its output.\<close>

definition spmi_request :: "'w spmi \<Rightarrow> request" where
  "spmi_request s = \<lparr>rq_ioctl = IOCTL_SPB_EXECUTE_SEQUENCE, rq_input = Some (sm_area s, TRANSFER_AREA),
     rq_output = Some (sm_data s, DATA_LEN)\<rparr>"

definition spmi_send :: "'w wdf \<Rightarrow> 'w spmi \<Rightarrow> (transport_error + unit) \<times> 'w spmi" where
  "spmi_send W s =
     (case wdf_format W (spmi_request s) (sm_world s) of (status, w) \<Rightarrow>
        let s = s\<lparr>sm_world := w\<rparr> in
        if status < 0 then (Inl (transport_error_new TkProtocol 0 ''the bus rejected the SPB sequence''), s)
        else case wdf_send W (spmi_request s) (sm_mem s) (sm_world s) of (sent, m, w) \<Rightarrow>
          let s = s\<lparr>sm_mem := m, sm_world := w\<rparr> in
          (case sent of
             None \<Rightarrow> (Inl (transport_error_new TkTimeout 0 ''the SPMI bus did not respond''), s)
           | Some status \<Rightarrow>
               if status < 0 then (Inl (transport_error_new TkIo 0 ''the SPMI bus returned a failure''), s)
               else (Inr (), s)))"

abbreviation (input) spmi_no_buffers :: transport_error where
  "spmi_no_buffers \<equiv> transport_error_new TkUnsupported 0 ''SPB buffers were not created''"

definition spmi_write_reg :: "'w wdf \<Rightarrow> u16 \<Rightarrow> u8 \<Rightarrow> ('w spmi, unit) link_call" where
  "spmi_write_reg W addr val s =
     (if sm_area s = 0 \<or> sm_data s = 0 then (Inl spmi_no_buffers, s)
      else case spmi_begin 1 s of
        (Inl e, s) \<Rightarrow> (Inl e, s)
      | (Inr payload, s) \<Rightarrow>
          spmi_send W (sm_entry (sm_area s + OFFSET_TRANSFERS) (entry_init SPB_DIRECTION_TO_DEVICE payload 3)
            (sm_store payload (address_bytes (sm_config s) addr @ [val]) s)))"

text \<open>The transfers of a read: two address bytes out, one byte in. The second entry stands one entry too far.\<close>

definition spmi_prepare_read :: "u16 \<Rightarrow> nat \<Rightarrow> 'w spmi \<Rightarrow> 'w spmi" where
  "spmi_prepare_read addr payload s =
     sm_entry (sm_area s + header_size + entry_size) (entry_init SPB_DIRECTION_FROM_DEVICE (sm_data s) 1)
       (sm_entry (sm_area s + OFFSET_TRANSFERS) (entry_init SPB_DIRECTION_TO_DEVICE payload 2)
         (sm_store payload (address_bytes (sm_config s) addr) s))"

definition spmi_read_reg :: "'w wdf \<Rightarrow> u16 \<Rightarrow> ('w spmi, u8) link_call" where
  "spmi_read_reg W addr s =
     (if sm_area s = 0 \<or> sm_data s = 0 then (Inl spmi_no_buffers, s)
      else case spmi_begin MAX_TRANSFERS s of
        (Inl e, s) \<Rightarrow> (Inl e, s)
      | (Inr payload, s) \<Rightarrow>
          (case spmi_send W (spmi_prepare_read addr payload s) of
             (Inl e, s) \<Rightarrow> (Inl e, s)
           | (Inr _, s) \<Rightarrow> (Inr (sm_mem s (sm_data s)), s)))"

definition spmi_reset :: "('w spmi, unit) link_call" where
  "spmi_reset s = (Inr (), s)"

definition spmi_transport :: "'w wdf \<Rightarrow> 'w spmi smb_transport" where
  "spmi_transport W = \<lparr>tr_name = ''spmi'', tr_read = spmi_read_reg W, tr_write = spmi_write_reg W, tr_reset = spmi_reset\<rparr>"

text \<open>Writing an entry over two bytes forgets them: its first word covers both.\<close>

lemma put_entry_over: "length bs \<le> 4 \<Longrightarrow> put_entry p t (put_bytes p bs m) = put_entry p t m"
  by (auto simp: put_entry_def put_bytes_def fun_eq_iff)

lemma put_entry_commute:
  "b + 28 \<le> p \<or> p + length bs \<le> b \<Longrightarrow> put_entry b t (put_bytes p bs m) = put_bytes p bs (put_entry b t m)"
  by (auto simp: put_entry_def put_bytes_def fun_eq_iff)

lemma spmi_prepare_read_eq:
  "spmi_prepare_read addr (sm_area s + 80) s =
   s\<lparr>sm_mem := put_entry (sm_area s + 80) (entry_init 1 (sm_data s) 1)
     (put_entry (sm_area s + 16) (entry_init 2 (sm_area s + 80) 2) (sm_mem s))\<rparr>"
proof -
  have "length (address_bytes (sm_config s) addr) = 2" by (simp add: address_bytes_def Let_def)
  then show ?thesis
    by (simp add: spmi_prepare_read_def sm_entry_def sm_store_def put_entry_commute put_entry_over add.assoc)
qed

text \<open>
  C31. A register read of the SPMI link does not depend on the register: the second transfer is written over the
  address bytes of the first, so for every framework, state and pair of addresses the read gives the same
  answer and the same state, and the two bytes it sends as the address are 1 and 0.
\<close>

theorem spmi_read_ignores_address:
  fixes s :: "'w spmi"
  shows "spmi_read_reg W a s = spmi_read_reg W b s \<and>
   get_bytes (sm_mem (spmi_prepare_read a (sm_area s + PAYLOAD_OFFSET) s)) (sm_area s + PAYLOAD_OFFSET) 2 = [1, 0]"
proof
  have "spmi_prepare_read a (sm_area s + 80) s' = spmi_prepare_read b (sm_area s + 80) s'"
    if "sm_area s' = sm_area s" for s' :: "'w spmi" using spmi_prepare_read_eq [of _ s'] that by simp
  then show "spmi_read_reg W a s = spmi_read_reg W b s"
    by (simp add: spmi_read_reg_def spmi_begin_def sm_store_def del: One_nat_def)
  show "get_bytes (sm_mem (spmi_prepare_read a (sm_area s + PAYLOAD_OFFSET) s)) (sm_area s + PAYLOAD_OFFSET) 2 = [1, 0]"
    by (simp add: spmi_prepare_read_eq)
       (simp add: put_entry_def get_bytes_def put_bytes_def num_bytes_def entry_init_def upt_rec)
qed

lemma entry_with_simple: "entry_with_format (Suc 0) d p n = entry_init d p n"
  by (simp add: entry_with_format_def entry_init_def)

text \<open>
  A controller before a chip with 16-bit addresses. With \<open>checked\<close> it refuses a list whose input is not exactly as
  long as its number of transfers asks for, as the comment in \<open>crates/ln8000-kmdf/src/spb.rs\<close> documents of the
  node (\<open>chip_wdf\<close> in \<open>Spb_Bus\<close> does so too); without, it takes the list at the start of an input of any length.
\<close>

definition spmi_chip_wdf :: "bool \<Rightarrow> chip wdf" where
  "spmi_chip_wdf checked =
     \<lparr>wdf_format = (\<lambda>rq c. (0, c)),
      wdf_send = (\<lambda>rq m c. case rq_input rq of
        None \<Rightarrow> (Some (- 1), m, c)
      | Some (a, len) \<Rightarrow>
          if checked \<and> len \<noteq> abi_area_size (read_u32 m (a + OFFSET_TRANSFER_COUNT)) then (Some (- 1073741811), m, c)
          else let (m, c) = fold (run_transfer 2) (read_list m a) (m, c) in (Some 0, m, c))\<rparr>"

abbreviation (input) spmi_bus_failed :: transport_error where
  "spmi_bus_failed \<equiv> transport_error_new TkIo 0 ''the SPMI bus returned a failure''"

lemma spmi_write_taken:
  assumes "0 < sm_area s" "0 < sm_data s" "sm_config s = spmi_config_nabu" "sm_area s + PAYLOAD_OFFSET \<le> u64_max"
  shows "\<exists>s'. spmi_write_reg (spmi_chip_wdf False) addr v s = (Inr (), s') \<and>
    fst (sm_world s') = (fst (sm_world s))(unat addr := v)"
proof -
  obtain regs pos where w: "sm_world s = (regs, pos)" by (cases "sm_world s")
  let ?addr = "[ucast (drop_bit 8 addr), ucast (addr AND 0xFF)] :: u8 list"
  let ?m = "put_entry (sm_area s + 16) (entry_init 2 (sm_area s + 80) 3) (put_bytes (sm_area s + 80) (?addr @ [v])
    (put_bytes (sm_area s + 8) (num_bytes 4 1) (put_bytes (sm_area s + 4) (num_bytes 4 0)
      (put_bytes (sm_area s) (num_bytes 4 48) (sm_mem s)))))"
  have ok: "transfer_ok (entry_init 2 (sm_area s + 80) 3)"
    using assms(4) by (simp add: transfer_ok_def entry_init_def u32_max_def)
  have "read_u32 ?m (sm_area s + 8) = 1"
    by (simp add: read_put_entry read_u32_apart read_u32_put u32_max_def del: One_nat_def)
  then have list: "read_list ?m (sm_area s) = [entry_init 2 (sm_area s + 80) 3]"
    by (simp add: read_list_count(1) read_put_entry(1) [OF ok] del: One_nat_def)
  have bytes: "get_bytes ?m (sm_area s + 80) 3 = ?addr @ [v]"
    by (simp add: read_put_entry(4))
  have "fold (run_transfer 2) (read_list ?m (sm_area s)) (?m, regs, pos) = (?m, regs(unat addr := v), unat addr + 1)"
    using run_transfer_simps(3) [OF bytes, of 2 1 regs pos] u16_high_low [of addr] unfolding list
    by (simp add: entry_with_simple add.commute mult.commute)
  then have "spmi_write_reg (spmi_chip_wdf False) addr v s =
      (Inr (), s\<lparr>sm_mem := ?m, sm_world := (regs(unat addr := v), unat addr + 1)\<rparr>)"
    using assms(1-3) by (simp add: spmi_write_reg_def spmi_begin_def spmi_send_def spmi_chip_wdf_def spmi_request_def
        sm_store_def sm_entry_def address_bytes_def spmi_config_nabu_def w Let_def del: One_nat_def)
  then show ?thesis by (simp add: w)
qed

text \<open>A list of one or two transfers is never 256 bytes long, so a node that checks refuses it.\<close>

lemma spmi_send_refused:
  assumes "read_u32 (sm_mem s) (sm_area s + 8) \<in> {1, 2}"
  shows "spmi_send (spmi_chip_wdf True) s = (Inl spmi_bus_failed, s)"
  using assms area_sizes by (auto simp: spmi_send_def spmi_chip_wdf_def spmi_request_def Let_def)

lemma spmi_calls_refused:
  assumes "0 < sm_area s" "0 < sm_data s"
  shows "\<exists>s'. spmi_write_reg (spmi_chip_wdf True) addr v s = (Inl spmi_bus_failed, s') \<and> sm_world s' = sm_world s"
    "\<exists>s'. spmi_read_reg (spmi_chip_wdf True) addr s = (Inl spmi_bus_failed, s') \<and> sm_world s' = sm_world s"
proof -
  have count: "read_u32 (put_bytes (sm_area s + 8) (num_bytes 4 n) m) (sm_area s + 8) = n" if "n \<le> 2" for n m
    using that by (simp add: read_u32_put u32_max_def)
  show "\<exists>s'. spmi_write_reg (spmi_chip_wdf True) addr v s = (Inl spmi_bus_failed, s') \<and> sm_world s' = sm_world s"
    using assms count [of 1]
    by (simp add: spmi_write_reg_def spmi_begin_def spmi_send_refused sm_store_def sm_entry_def read_put_entry read_u32_apart
        del: One_nat_def)
  show "\<exists>s'. spmi_read_reg (spmi_chip_wdf True) addr s = (Inl spmi_bus_failed, s') \<and> sm_world s' = sm_world s"
    using assms count [of 2]
    by (simp add: spmi_read_reg_def spmi_begin_def spmi_prepare_read_def spmi_send_refused sm_store_def sm_entry_def
        read_put_entry read_u32_apart del: One_nat_def)
qed

text \<open>
  C32. A register write of the SPMI link arrives only at a node that does not look at the length of the list: there
  the register named gets the value and no other register changes. The link always sends its whole area of 256
  bytes; a node that checks the length, as the other driver's source documents, refuses every write and every
  read with an Io error, and its registers stay as they were.
\<close>

theorem spmi_write_needs_lenient_node:
  assumes "0 < sm_area s" "0 < sm_data s" "sm_config s = spmi_config_nabu" "sm_area s + PAYLOAD_OFFSET \<le> u64_max"
  shows "(\<exists>s'. spmi_write_reg (spmi_chip_wdf False) addr v s = (Inr (), s') \<and>
      fst (sm_world s') = (fst (sm_world s))(unat addr := v)) \<and>
    (\<exists>s'. spmi_write_reg (spmi_chip_wdf True) addr v s = (Inl spmi_bus_failed, s') \<and> sm_world s' = sm_world s) \<and>
    (\<exists>s'. spmi_read_reg (spmi_chip_wdf True) addr s = (Inl spmi_bus_failed, s') \<and> sm_world s' = sm_world s)"
  using spmi_write_taken [OF assms] spmi_calls_refused [OF assms(1,2)] by blast

theorem spmi_write_needs_lenient_node_witness:
  "(\<exists>s'. spmi_write_reg (spmi_chip_wdf False) 0x1370 0x14 \<lparr>sm_area = 4096, sm_data = 8192, sm_config = spmi_config_nabu,
      sm_mem = (\<lambda>_. 0), sm_world = (\<lambda>_. 0, 0)\<rparr> = (Inr (), s') \<and>
    fst (sm_world s') = (\<lambda>_. 0)(0x1370 := 0x14)) \<and>
   (\<exists>s'. spmi_write_reg (spmi_chip_wdf True) 0x1370 0x14 \<lparr>sm_area = 4096, sm_data = 8192, sm_config = spmi_config_nabu,
      sm_mem = (\<lambda>_. 0), sm_world = (\<lambda>_. 0, 0)\<rparr> = (Inl spmi_bus_failed, s') \<and> sm_world s' = (\<lambda>_. 0, 0))"
  using spmi_write_needs_lenient_node [of "\<lparr>sm_area = 4096, sm_data = 8192, sm_config = spmi_config_nabu,
      sm_mem = (\<lambda>_. 0), sm_world = (\<lambda>_. 0, 0)\<rparr>" "0x1370" "0x14"]
  by (simp add: u64_max_def)

section \<open>The journal ring\<close>

abbreviation (input) JOURNAL_CAPACITY :: nat where "JOURNAL_CAPACITY \<equiv> 256"

record ring_journal =
  rj_entries :: "event option list"
  rj_next :: nat
  rj_total :: u64

definition ring_journal_new :: ring_journal where
  "ring_journal_new = \<lparr>rj_entries = replicate JOURNAL_CAPACITY None, rj_next = 0, rj_total = 0\<rparr>"

definition ring_event :: "event \<Rightarrow> ring_journal \<Rightarrow> ring_journal" where
  "ring_event e j =
     \<lparr>rj_entries = (if rj_next j < length (rj_entries j) then (rj_entries j)[rj_next j := Some e] else rj_entries j),
      rj_next = sat_add_u64 (rj_next j) 1 mod JOURNAL_CAPACITY,
      rj_total = sat_add_u64 (rj_total j) 1\<rparr>"

lemma ring_shape:
  "length (rj_entries (fold ring_event es ring_journal_new)) = 256"
  "rj_next (fold ring_event es ring_journal_new) = length es mod 256"
  "rj_total (fold ring_event es ring_journal_new) = min (length es) u64_max"
proof (induction es rule: rev_induct)
  case (snoc e es)
  case 1 with snoc show ?case by (simp add: ring_event_def)
  case 2 with snoc(2) show ?case
    by (simp add: ring_event_def sat_add_u64_def u64_max_def mod_Suc_eq)
  case 3 with snoc show ?case by (simp add: ring_event_def sat_add_u64_def)
qed (simp_all add: ring_journal_new_def)

text \<open>
  C33. The journal ring of the driver keeps the last 256 events: after any events the slots of the last ones, in
  their order, hold exactly them, and the counter is the number of events ever recorded.
\<close>

theorem ring_journal_keeps_last:
  "map (\<lambda>i. rj_entries (fold ring_event es ring_journal_new) ! (i mod JOURNAL_CAPACITY))
     [length es - JOURNAL_CAPACITY..<length es] = map Some (drop (length es - JOURNAL_CAPACITY) es) \<and>
   rj_total (fold ring_event es ring_journal_new) = min (length es) u64_max"
proof
  have slot: "rj_entries (fold ring_event es ring_journal_new) ! (i mod 256) = Some (es ! i)"
    if "length es - 256 \<le> i" "i < length es" for i
    using that
  proof (induction es rule: rev_induct)
    case (snoc e es)
    note shape = ring_shape [of es]
    have now: "rj_entries (fold ring_event (es @ [e]) ring_journal_new) =
        (rj_entries (fold ring_event es ring_journal_new))[length es mod 256 := Some e]"
      by (simp add: ring_event_def shape)
    show ?case
    proof (cases "i = length es")
      case True then show ?thesis by (simp only: now) (simp add: shape)
    next
      case False
      with snoc.prems have i: "length es - 256 \<le> i" "i < length es" "length es < i + 256" by auto
      then have "i mod 256 \<noteq> length es mod 256"
        using mod_eq_dvd_iff_nat [of i "length es" 256] nat_dvd_not_less [of "length es - i" 256] by auto
      then show ?thesis using snoc.IH i by (simp only: now) (simp add: nth_append)
    qed
  qed simp
  show "map (\<lambda>i. rj_entries (fold ring_event es ring_journal_new) ! (i mod 256)) [length es - 256..<length es] =
      map Some (drop (length es - 256) es)"
    by (rule nth_equalityI) (auto simp: slot)
  show "rj_total (fold ring_event es ring_journal_new) = min (length es) u64_max"
    by (rule ring_shape)
qed

section \<open>Starting the device\<close>

abbreviation (input) STATUS_SUCCESS :: i32 where "STATUS_SUCCESS \<equiv> 0"
abbreviation (input) STATUS_DEVICE_NOT_READY :: i32 where "STATUS_DEVICE_NOT_READY \<equiv> - 1073741661"
abbreviation (input) STATUS_NOT_IMPLEMENTED :: i32 where "STATUS_NOT_IMPLEMENTED \<equiv> - 1073741822"
abbreviation (input) STATUS_INVALID_DEVICE_REQUEST :: i32 where "STATUS_INVALID_DEVICE_REQUEST \<equiv> - 1073741808"
abbreviation (input) STATUS_BUFFER_TOO_SMALL :: i32 where "STATUS_BUFFER_TOO_SMALL \<equiv> - 1073741789"

text \<open>
  \<open>evt_device_add\<close>, given the statuses of creating the device and its queue and the link that \<open>open\<close> answers.
  The session it opens is only tested: it goes out of scope at once. The result keeps that session, if there
  was one, as it was left.
\<close>

definition nabu_device_add ::
  "'t smb_transport \<Rightarrow> (nat \<Rightarrow> u64) \<Rightarrow> i32 \<Rightarrow> transport_error + 't \<Rightarrow> i32 \<Rightarrow> (i32 \<times> 't charger option) option" where
  "nabu_device_add T clk created link queued =
     (if created < 0 then Some (created, None)
      else case link of
        Inl _ \<Rightarrow> Some (STATUS_DEVICE_NOT_READY, None)
      | Inr t \<Rightarrow> (case charger_open T clk charger_config_for_nabu t of
          None \<Rightarrow> None
        | Some (opened, c) \<Rightarrow> (case charger_drop T clk c of
            None \<Rightarrow> None
          | Some (_, c) \<Rightarrow> Some (case opened of
              Inl _ \<Rightarrow> (STATUS_DEVICE_NOT_READY, Some c)
            | Inr _ \<Rightarrow> (if queued < 0 then queued else STATUS_SUCCESS, Some c)))))"

text \<open>
  Starting the device always ends, on every link and with every clock, and never leaves an open session
  behind: the session it opens to test the bus is closed again before the device answers.
\<close>

theorem device_add_leaves_no_session:
  "nabu_device_add T clk created link queued \<in> {Some (status, session) | status session.
     session \<in> {None} \<union> Some ` {c. ch_state c = StClosed}}"
proof (cases "created < 0 \<or> (\<exists>e. link = Inl e)")
  case True
  then show ?thesis by (auto simp: nabu_device_add_def)
next
  case False
  then obtain t where t: "link = Inr t" by (cases link) auto
  let ?cfg = charger_config_for_nabu
  have limit: "cc_max_transport_retries ?cfg < u8_max"
    by (simp add: charger_config_for_nabu_def charger_config_default_def u8_max_def)
  have "steady ?cfg 0 (charger_new ?cfg t)" using limit by (simp add: steady_start charger_new_def)
  from keepsD [OF steady.keeps_open this] obtain r c where
    c: "charger_open T clk ?cfg t = Some (r, c)" "steady ?cfg 0 c"
    unfolding charger_open_def by blast
  then have "cc_max_transport_retries (ch_config c) < u8_max" using limit by (simp add: steady_def)
  from close_closes [OF this, of T clk] obtain c' where
    "charger_drop T clk c = Some (Inr (), c')" "ch_state c' = StClosed"
    unfolding charger_drop_def by blast
  then show ?thesis using False c(1) t by (auto simp: nabu_device_add_def split: sum.splits)
qed

section \<open>Control requests\<close>

text \<open>Control codes and answers, \<open>ioctl.rs\<close>; \<open>nabu_status_size\<close> and its like are the sizes of the C layouts.\<close>

abbreviation (input) FILE_DEVICE_NABU_CHARGER :: u32 where "FILE_DEVICE_NABU_CHARGER \<equiv> 0x22"

definition nabu_ctl_code :: "u32 \<Rightarrow> u32 \<Rightarrow> u32 \<Rightarrow> u32" where
  "nabu_ctl_code func mode access =
     push_bit 16 FILE_DEVICE_NABU_CHARGER OR push_bit 14 access OR push_bit 2 func OR mode"

definition IOCTL_NABU_GET_STATUS :: u32 where "IOCTL_NABU_GET_STATUS = nabu_ctl_code 0x800 0 0"
definition IOCTL_NABU_DETECT_START :: u32 where "IOCTL_NABU_DETECT_START = nabu_ctl_code 0x801 0 0"
definition IOCTL_NABU_APPLY_POLICY :: u32 where "IOCTL_NABU_APPLY_POLICY = nabu_ctl_code 0x802 0 0"
definition IOCTL_NABU_SET_ICL :: u32 where "IOCTL_NABU_SET_ICL = nabu_ctl_code 0x803 0 0"
definition IOCTL_NABU_READ_REG :: u32 where "IOCTL_NABU_READ_REG = nabu_ctl_code 0x804 0 0"
definition IOCTL_NABU_WRITE_REG :: u32 where "IOCTL_NABU_WRITE_REG = nabu_ctl_code 0x805 0 0"
definition IOCTL_NABU_GET_JOURNAL :: u32 where "IOCTL_NABU_GET_JOURNAL = nabu_ctl_code 0x806 0 0"

lemmas nabu_codes = IOCTL_NABU_GET_STATUS_def IOCTL_NABU_DETECT_START_def IOCTL_NABU_APPLY_POLICY_def
  IOCTL_NABU_SET_ICL_def IOCTL_NABU_READ_REG_def IOCTL_NABU_WRITE_REG_def IOCTL_NABU_GET_JOURNAL_def nabu_ctl_code_def

abbreviation (input) NABU_STATUS_MAGIC :: u32 where "NABU_STATUS_MAGIC \<equiv> 0x4E414255"
abbreviation (input) NABU_STATUS_VERSION :: nat where "NABU_STATUS_VERSION \<equiv> 1"
abbreviation (input) NABU_CAPABILITIES :: u32 where "NABU_CAPABILITIES \<equiv> 1"

fun nabu_state_from_core :: "charger_state \<Rightarrow> u8" where
  "nabu_state_from_core StClosed = 0"
| "nabu_state_from_core StIdle = 1"
| "nabu_state_from_core StDetecting = 2"
| "nabu_state_from_core StReady = 3"
| "nabu_state_from_core StFaulted = 4"

record nabu_status =
  ns_magic :: u32
  ns_version :: nat
  ns_capabilities :: u32
  ns_state :: u8
  ns_adapter_code :: u8
  ns_pump_eligible :: u8
  ns_icl_ua :: u32
  ns_icl_raw :: u8
  ns_reads :: u64
  ns_writes :: u64
  ns_retries :: u64
  ns_resets :: u64
  ns_errors :: u64

record nabu_reg_request =
  nr_addr :: u16
  nr_value :: u8
  nr_error_code :: i32

abbreviation (input) nabu_status_size :: nat where "nabu_status_size \<equiv> 64"
abbreviation (input) nabu_reg_size :: nat where "nabu_reg_size \<equiv> 8"
abbreviation (input) nabu_icl_size :: nat where "nabu_icl_size \<equiv> 16"
abbreviation (input) nabu_journal_size :: nat where "nabu_journal_size \<equiv> 8"

text \<open>How a request ends: its status, the length of its answer, and the answer copied into its buffer.\<close>

datatype nabu_answer = AnswerStatus nabu_status | AnswerReg nabu_reg_request

record completion =
  cp_status :: i32
  cp_information :: nat
  cp_answer :: "nabu_answer option"

definition nabu_complete :: "i32 \<Rightarrow> nat \<Rightarrow> completion" where
  "nabu_complete status information = \<lparr>cp_status = status, cp_information = information, cp_answer = None\<rparr>"

text \<open>\<open>retrieve n\<close> is the status of asking the framework for an output buffer of at least \<open>n\<close> bytes.\<close>

definition nabu_write_output :: "(nat \<Rightarrow> i32) \<Rightarrow> nat \<Rightarrow> nabu_answer \<Rightarrow> completion" where
  "nabu_write_output retrieve len answer =
     (if retrieve len < 0 then nabu_complete (retrieve len) 0
      else (nabu_complete STATUS_SUCCESS len)\<lparr>cp_answer := Some answer\<rparr>)"

definition nabu_get_status :: "(nat \<Rightarrow> i32) \<Rightarrow> completion" where
  "nabu_get_status retrieve = nabu_write_output retrieve nabu_status_size (AnswerStatus
     \<lparr>ns_magic = NABU_STATUS_MAGIC, ns_version = NABU_STATUS_VERSION, ns_capabilities = NABU_CAPABILITIES,
      ns_state = nabu_state_from_core StClosed, ns_adapter_code = 0xFF, ns_pump_eligible = 0, ns_icl_ua = 0,
      ns_icl_raw = 0, ns_reads = 0, ns_writes = 0, ns_retries = 0, ns_resets = 0, ns_errors = 0\<rparr>)"

definition nabu_read_reg :: "(nat \<Rightarrow> i32) \<Rightarrow> nat \<Rightarrow> completion" where
  "nabu_read_reg retrieve input_length =
     (if input_length < nabu_reg_size then nabu_complete STATUS_BUFFER_TOO_SMALL 0
      else nabu_write_output retrieve nabu_reg_size
        (AnswerReg \<lparr>nr_addr = 0, nr_value = 0, nr_error_code = STATUS_NOT_IMPLEMENTED\<rparr>))"

definition nabu_write_reg :: "nat \<Rightarrow> completion" where
  "nabu_write_reg input_length =
     (if input_length < nabu_reg_size then nabu_complete STATUS_BUFFER_TOO_SMALL 0 else nabu_complete STATUS_NOT_IMPLEMENTED 0)"

definition nabu_set_icl :: "nat \<Rightarrow> completion" where
  "nabu_set_icl input_length =
     (if input_length < nabu_icl_size then nabu_complete STATUS_BUFFER_TOO_SMALL 0 else nabu_complete STATUS_NOT_IMPLEMENTED 0)"

definition nabu_get_journal :: "nat \<Rightarrow> completion" where
  "nabu_get_journal input_length =
     (if input_length < nabu_journal_size then nabu_complete STATUS_BUFFER_TOO_SMALL 0 else nabu_complete STATUS_NOT_IMPLEMENTED 0)"

definition nabu_device_control :: "(nat \<Rightarrow> i32) \<Rightarrow> nat \<Rightarrow> u32 \<Rightarrow> completion" where
  "nabu_device_control retrieve input_length code =
     (if code = IOCTL_NABU_GET_STATUS then nabu_get_status retrieve
      else if code = IOCTL_NABU_READ_REG then nabu_read_reg retrieve input_length
      else if code = IOCTL_NABU_WRITE_REG then nabu_write_reg input_length
      else if code = IOCTL_NABU_SET_ICL then nabu_set_icl input_length
      else if code = IOCTL_NABU_GET_JOURNAL then nabu_get_journal input_length
      else if code = IOCTL_NABU_DETECT_START \<or> code = IOCTL_NABU_APPLY_POLICY
      then nabu_complete STATUS_NOT_IMPLEMENTED 0
      else nabu_complete STATUS_INVALID_DEVICE_REQUEST 0)"

text \<open>
  The control codes are distinct, and an answer is only copied with a success status and then has the length
  announced, in a buffer the framework granted for it.
\<close>

lemma nabu_codes_distinct:
  "distinct [IOCTL_NABU_GET_STATUS, IOCTL_NABU_DETECT_START, IOCTL_NABU_APPLY_POLICY, IOCTL_NABU_SET_ICL,
     IOCTL_NABU_READ_REG, IOCTL_NABU_WRITE_REG, IOCTL_NABU_GET_JOURNAL]"
  by (simp add: nabu_codes)

lemma nabu_answer_granted:
  assumes "cp_answer (nabu_device_control retrieve input_length code) = Some answer"
  shows "cp_status (nabu_device_control retrieve input_length code) = STATUS_SUCCESS"
    "0 \<le> retrieve (cp_information (nabu_device_control retrieve input_length code))"
    "code \<in> {IOCTL_NABU_GET_STATUS, IOCTL_NABU_READ_REG}"
  using assms
  by (auto simp: nabu_device_control_def nabu_get_status_def nabu_read_reg_def nabu_write_reg_def nabu_set_icl_def
      nabu_get_journal_def nabu_write_output_def nabu_complete_def split: if_splits)

section \<open>Wide strings\<close>

text \<open>The device name, with its slashes turned, and the security descriptor of the device.\<close>

definition utf16_lit :: "u8 list \<Rightarrow> u16 list" where
  "utf16_lit bytes = fold (\<lambda>index out. out[index := if bytes ! index = of_char CHR ''/'' then of_char CHR 0x5C
       else ucast (bytes ! index)]) [0..<min (length bytes) 20] (replicate 20 0)"

definition DEVICE_NAME_UTF16 :: "u16 list" where
  "DEVICE_NAME_UTF16 = utf16_lit (map of_char ''/Device/RESOURCE_HUB'')"

definition SDDL_TEXT :: "u8 list" where
  "SDDL_TEXT = map of_char ''D:P(A;;GA;;;SY)(A;;GA;;;BA)''"

definition ascii_utf16 :: "u8 list \<Rightarrow> u16 list" where
  "ascii_utf16 bytes = fold (\<lambda>index out. out[index := ucast (bytes ! index)]) [0..<length bytes] (replicate (length bytes) 0)"

text \<open>The name is the path of a connection without its digits and its last separator; the descriptor is plain.\<close>

lemma device_name_prefix: "DEVICE_NAME_UTF16 @ [0x5C] = map ucast HUB_PATH_PREFIX"
proof -
  let ?name = "map of_char ''/Device/RESOURCE_HUB'' :: u8 list"
  have n: "min (length ?name) 20 = 20" by simp
  show ?thesis
    unfolding DEVICE_NAME_UTF16_def utf16_lit_def n
    using fold_list_update [of 0 20 "replicate 20 0" "\<lambda>index. if ?name ! index = of_char CHR ''/'' then of_char CHR 0x5C
       else ucast (?name ! index) :: u16"]
    by (simp add: HUB_PATH_PREFIX_def upt_rec)
qed

lemma ascii_utf16_eq: "ascii_utf16 bytes = map ucast bytes"
  using fold_list_update [of 0 "length bytes" "replicate (length bytes) 0" "\<lambda>index. ucast (bytes ! index) :: u16"]
  by (simp add: ascii_utf16_def) (rule nth_equalityI; simp)

end
