(* ===== verification/Kmdf_State.thy ===== *)
theory Kmdf_State
  imports Hvdcp_Safety Battery_Miniport Guard Pump_Returns
begin

text \<open>
  \<open>crates/ln8000-kmdf/src/lib.rs\<close>, first part: the state of the pump driver and the operations its timer and
  its control requests are made of. The driver is serialized by a mutex, so an operation is a function of
  the whole state; the bus, the devices of the PMIC and the clock are parameters.
\<close>

section \<open>Constants\<close>

abbreviation (input) TELEMETRY_MS_MIN :: u32 where "TELEMETRY_MS_MIN \<equiv> 100"
abbreviation (input) CHARGE_RETRY_MS :: u64 where "CHARGE_RETRY_MS \<equiv> 30000"
abbreviation (input) CHARGE_RETRY_DELTA_UV :: u32 where "CHARGE_RETRY_DELTA_UV \<equiv> 300000"
abbreviation (input) CHARGE_RETRY_FAST_MS :: u64 where "CHARGE_RETRY_FAST_MS \<equiv> 5000"
abbreviation (input) RE_ELEVATE_FIRST_MS :: u64 where "RE_ELEVATE_FIRST_MS \<equiv> 60000"
abbreviation (input) RE_ELEVATE_BACKOFF_MAX_MS :: u64 where "RE_ELEVATE_BACKOFF_MAX_MS \<equiv> 300000"
abbreviation (input) RE_ELEVATE_MAX_VBAT_UV :: u32 where "RE_ELEVATE_MAX_VBAT_UV \<equiv> 4350000"
abbreviation (input) FCC_STEP_UA :: u32 where "FCC_STEP_UA \<equiv> 50000"
abbreviation (input) FCC_PROBE_UA :: u32 where "FCC_PROBE_UA \<equiv> 1000000"
abbreviation (input) FCC_RESTORE_GRACE_MS :: u64 where "FCC_RESTORE_GRACE_MS \<equiv> 120000"
abbreviation (input) FCC_WRITE_MAX_UA :: u32 where "FCC_WRITE_MAX_UA \<equiv> 3000000"
abbreviation (input) WINDOW_PROGRESS_UV :: u32 where "WINDOW_PROGRESS_UV \<equiv> 50000"
abbreviation (input) WINDOW_STALL_MAX :: u32 where "WINDOW_STALL_MAX \<equiv> 4"
abbreviation (input) WINDOW_STALL_MS :: u64 where "WINDOW_STALL_MS \<equiv> 60000"
abbreviation (input) WINDOW_NUDGE_MS :: u64 where "WINDOW_NUDGE_MS \<equiv> 10000"
abbreviation (input) IIN_DEAD_FLOOR_UA :: u32 where "IIN_DEAD_FLOOR_UA \<equiv> 60000"
abbreviation (input) IIN_WINDOW_MS :: u64 where "IIN_WINDOW_MS \<equiv> 5000"
abbreviation (input) GAUGE_POLL_MS :: u64 where "GAUGE_POLL_MS \<equiv> 30000"
abbreviation (input) CHARGE_FAILS_BEFORE_RESET :: u32 where "CHARGE_FAILS_BEFORE_RESET \<equiv> 3"
abbreviation (input) ENGAGE_NO_INPUT :: u32 where "ENGAGE_NO_INPUT \<equiv> 0"
abbreviation (input) ENGAGE_STANDBY :: u32 where "ENGAGE_STANDBY \<equiv> 1"
abbreviation (input) ENGAGE_BYPASS :: u32 where "ENGAGE_BYPASS \<equiv> 2"
abbreviation (input) ENGAGE_SWITCHING :: u32 where "ENGAGE_SWITCHING \<equiv> 3"
abbreviation (input) ENGAGE_NO_HEADROOM :: u32 where "ENGAGE_NO_HEADROOM \<equiv> 4"
abbreviation (input) ERR_BYPASS_VIN_OUT_OF_WINDOW :: i32 where "ERR_BYPASS_VIN_OUT_OF_WINDOW \<equiv> - 20"
abbreviation (input) NO_SAMPLE :: u32 where "NO_SAMPLE \<equiv> 0xFFFFFFFF"

definition raw_for :: "u32 \<Rightarrow> u8" where
  "raw_for ua = (let raw = ua div FCC_STEP_UA; most = FCC_WRITE_MAX_UA div FCC_STEP_UA
     in if raw > most then word_of_nat most else word_of_nat raw)"

fun kmdf_error_code :: "pump_error \<Rightarrow> i32" where
  "kmdf_error_code (BusErr _) = - 1"
| "kmdf_error_code NotOpen = - 2"
| "kmdf_error_code (WrongDeviceId _) = - 3"
| "kmdf_error_code (ModeNotReached _ _) = - 4"
| "kmdf_error_code (FaultErr _ _) = - 5"
| "kmdf_error_code (OutOfRange _ _) = - 6"
| "kmdf_error_code WatchdogExpired = - 7"
| "kmdf_error_code (BypassNeedsFiveVoltVin _) = ERR_BYPASS_VIN_OUT_OF_WINDOW"

definition engage_state :: "bool \<Rightarrow> i32 \<Rightarrow> u32 \<Rightarrow> op_mode \<Rightarrow> u32" where
  "engage_state present vin vbat mode =
     (if \<not> present then ENGAGE_NO_INPUT
      else if vin \<ge> ELEVATED_MIN_VIN_UV \<and> charge_mode vin vbat = None then ENGAGE_NO_HEADROOM
      else case mode of Switching \<Rightarrow> ENGAGE_SWITCHING | Bypass \<Rightarrow> ENGAGE_BYPASS | _ \<Rightarrow> ENGAGE_STANDBY)"

section \<open>State\<close>

text \<open>
  \<open>DriverState\<close>, then the statics beside it: whether the device is there, the fuel gauge schedule, the
  battery module, whether the timer is armed, the power request. The registry marks are those of \<open>dv_hvdcp\<close>; \<open>dv_world\<close> is
  the rest of the machine.
\<close>

record ('b, 'w) driver =
  dv_pump :: "'b pump option"
  dv_telemetry :: telemetry
  dv_limits :: guard_limits
  dv_writes :: u32
  dv_reads :: u32
  dv_last_error :: i32
  dv_actions :: u32
  dv_telemetry_ms :: u32
  dv_last_charge_attempt_ms :: u64
  dv_last_attempt_vbus_uv :: u32
  dv_auto_starts :: u32
  dv_failed_attempts :: u32
  dv_charge_attempts :: u32
  dv_last_enable_ms :: u64
  dv_max_iin_ua :: u32
  dv_iin_window_start_ms :: u64
  dv_bypass_denied_strikes :: u32
  dv_usbin_id :: "u64 option"
  dv_hvdcp :: "unit hvdcp"
  dv_retry_pending :: bool
  dv_retry_attempts :: u32
  dv_retry_next_ms :: u64
  dv_last_input_present :: bool
  dv_adc_awake :: bool
  dv_adc_wake_n :: u32
  dv_edge_armed :: bool
  dv_last_window_nudge_ms :: u64
  dv_window_best_err_uv :: u32
  dv_window_stall_n :: u32
  dv_re_elevate_attempts :: u32
  dv_re_elevate_next_ms :: u64
  dv_re_elevate_backoff_ms :: u64
  dv_last_chgr_mark_ms :: u64
  dv_fg_vbatt_uv :: u32
  dv_fcc_cfg_raw :: u32
  dv_fcc_boot_raw :: u8
  dv_fcc_raised :: bool
  dv_fcc_restore_at_ms :: u64
  dv_fcc_probe_done :: bool
  dv_device :: bool
  dv_gauge_ready :: bool
  dv_gauge_last_ms :: u64
  dv_battery :: battery
  dv_timer_armed :: bool
  dv_request_held :: bool
  dv_requests_live :: nat
  dv_clock_reads :: nat
  dv_world :: 'w

definition driver_new :: "'w \<Rightarrow> ('b, 'w) driver" where
  "driver_new w = \<lparr>dv_pump = None, dv_telemetry = telemetry_new, dv_limits = limits_standard,
     dv_writes = 0, dv_reads = 0, dv_last_error = 0, dv_actions = 0, dv_telemetry_ms = 250,
     dv_last_charge_attempt_ms = 0, dv_last_attempt_vbus_uv = 0, dv_auto_starts = 0, dv_failed_attempts = 0,
     dv_charge_attempts = 0, dv_last_enable_ms = 0, dv_max_iin_ua = 0, dv_iin_window_start_ms = 0,
     dv_bypass_denied_strikes = 0, dv_usbin_id = None, dv_hvdcp = hvdcp_new (), dv_retry_pending = False,
     dv_retry_attempts = 0, dv_retry_next_ms = 0, dv_last_input_present = False, dv_adc_awake = False,
     dv_adc_wake_n = 0, dv_edge_armed = False, dv_last_window_nudge_ms = 0, dv_window_best_err_uv = u32_max,
     dv_window_stall_n = 0, dv_re_elevate_attempts = 0, dv_re_elevate_next_ms = 0, dv_re_elevate_backoff_ms = 0,
     dv_last_chgr_mark_ms = 0, dv_fg_vbatt_uv = 0, dv_fcc_cfg_raw = 0, dv_fcc_boot_raw = 0, dv_fcc_raised = False,
     dv_fcc_restore_at_ms = 0, dv_fcc_probe_done = False, dv_device = False, dv_gauge_ready = False,
     dv_gauge_last_ms = 0, dv_battery = battery_initial, dv_timer_armed = False, dv_request_held = False, dv_requests_live = 0, dv_clock_reads = 0, dv_world = w\<rparr>"

type_synonym ('b, 'w, 'e, 'a) dv_op = "(('b, 'w) driver, 'e, 'a) op"

text \<open>
  The machine: the bus of the pump, what the pause of a reset does to it, the platform of the voltage
  negotiation (its input voltage is not used: that is measured by the pump), and the readings of the clock.
\<close>

record ('b, 'w) kernel =
  kn_bus :: "'b reg_bus"
  kn_por :: "'b \<Rightarrow> 'b"
  kn_platform :: "'w platform"
  kn_clock :: "nat \<Rightarrow> u64"

section \<open>Access to the parts\<close>

definition monotonic_ms :: "('b, 'w) kernel \<Rightarrow> ('b, 'w, 'e, u64) dv_op" where
  "monotonic_ms K = and_then get_state (\<lambda>d.
     and_then (modify (\<lambda>d. d\<lparr>dv_clock_reads := Suc (dv_clock_reads d)\<rparr>)) (\<lambda>_.
       ret (kn_clock K (dv_clock_reads d))))"

definition mark_values :: "(string \<times> u32) list \<Rightarrow> ('b, 'w, 'e, unit) dv_op" where
  "mark_values ms = modify (\<lambda>d. d\<lparr>dv_hvdcp := (dv_hvdcp d)\<lparr>hv_marks := hv_marks (dv_hvdcp d) @ ms\<rparr>\<rparr>)"

text \<open>Marks of the timer, which writes them while the device is there.\<close>

definition tick_marks :: "(string \<times> u32) list \<Rightarrow> ('b, 'w, 'e, unit) dv_op" where
  "tick_marks ms = and_then get_state (\<lambda>d. when_op (dv_device d) (mark_values ms))"

text \<open>A method of the pump, with a default where there is no pump or the method fails.\<close>

definition with_pump :: "'a \<Rightarrow> ('b, 'a) pump_op \<Rightarrow> ('b, 'w, 'e, 'a) dv_op" where
  "with_pump dflt m = (\<lambda>d. case dv_pump d of
     None \<Rightarrow> Some (Inr dflt, d)
   | Some p \<Rightarrow> (case m p of
       None \<Rightarrow> None
     | Some (r, p) \<Rightarrow> Some (Inr (case r of Inl _ \<Rightarrow> dflt | Inr x \<Rightarrow> x), d\<lparr>dv_pump := Some p\<rparr>)))"

definition on_pump :: "('b, 'a) pump_op \<Rightarrow> ('b, 'w, 'e, pump_error + 'a) dv_op" where
  "on_pump m = with_pump (Inl NotOpen) (outcome m)"

definition on_devices :: "('w, 'e, 'a) op \<Rightarrow> ('b, 'w, 'e, 'a) dv_op" where
  "on_devices m = (\<lambda>d. case m (dv_world d) of None \<Rightarrow> None | Some (r, w) \<Rightarrow> Some (r, d\<lparr>dv_world := w\<rparr>))"

definition on_battery :: "(battery \<Rightarrow> battery) \<Rightarrow> ('b, 'w, 'e, unit) dv_op" where
  "on_battery f = modify (\<lambda>d. d\<lparr>dv_battery := f (dv_battery d)\<rparr>)"

text \<open>\<open>let _ = m\<close> of an operation that reports its failure as a value.\<close>

definition discard :: "('b, 'w, 'e, 'a) dv_op \<Rightarrow> ('b, 'w, 'e, unit) dv_op" where
  "discard m = and_then m (\<lambda>_. ret ())"

text \<open>
  The negotiation acts on the pump as well, whose ADC it reads: its world is the pump and the devices, with a
  flag for a reading that never returned. Then the whole operation never returns.
\<close>

type_synonym ('b, 'w) pump_world = "'b pump option \<times> bool \<times> 'w"

definition lift_device :: "'w superuser_dev \<Rightarrow> ('b, 'w) pump_world superuser_dev" where
  "lift_device D =
     \<lparr>dev_open = (\<lambda>(p, stuck, w). case dev_open D w of (r, w) \<Rightarrow> (r, p, stuck, w)),
      dev_ioctl = (\<lambda>code i n (p, stuck, w). case dev_ioctl D code i n w of (r, w) \<Rightarrow> (r, p, stuck, w)),
      dev_close = (\<lambda>(p, stuck, w). (p, stuck, dev_close D w))\<rparr>"

definition measure_vin :: "'b reg_bus \<Rightarrow> ('b, 'w) pump_world \<Rightarrow> i32 \<times> ('b, 'w) pump_world" where
  "measure_vin B = (\<lambda>(p, stuck, w). case p of
     None \<Rightarrow> (0, p, stuck, w)
   | Some q \<Rightarrow> (case read_adc B Vin q of
       None \<Rightarrow> (0, p, True, w)
     | Some (Inl _, q) \<Rightarrow> (0, Some q, stuck, w)
     | Some (Inr vin, q) \<Rightarrow> (vin, Some q, stuck, w)))"

definition pump_platform :: "('b, 'w) kernel \<Rightarrow> ('b, 'w) pump_world platform" where
  "pump_platform K = (let P = kn_platform K in
     \<lparr>pf_superuser = lift_device (pf_superuser P),
      pf_usbin_open = (\<lambda>usbin (p, stuck, w). case pf_usbin_open P usbin w of (r, w) \<Rightarrow> (r, p, stuck, w)),
      pf_usbin_transact = (\<lambda>a v be (p, stuck, w). case pf_usbin_transact P a v be w of (r, w) \<Rightarrow> (r, p, stuck, w)),
      pf_sleep_ms = (\<lambda>ms (p, stuck, w). (p, stuck, pf_sleep_ms P ms w)),
      pf_read_vin = measure_vin (kn_bus K)\<rparr>)"

definition hv_move :: "'v \<Rightarrow> 'w hvdcp \<Rightarrow> 'v hvdcp" where
  "hv_move v h = \<lparr>hv_pulse_cnt = hv_pulse_cnt h, hv_apsd_status = hv_apsd_status h, hv_apsd_result = hv_apsd_result h,
     hv_options1 = hv_options1 h, hv_phase = hv_phase h, hv_big_endian = hv_big_endian h,
     hv_endian_known = hv_endian_known h, hv_transport = hv_transport h, hv_force9v_latched = hv_force9v_latched h,
     hv_marks = hv_marks h, hv_world = v\<rparr>"

definition on_hvdcp :: "(('b, 'w) pump_world hvdcp, 'e, 'a) op \<Rightarrow> ('b, 'w, 'e, 'a) dv_op" where
  "on_hvdcp m = (\<lambda>d. case m (hv_move (dv_pump d, False, dv_world d) (dv_hvdcp d)) of
     None \<Rightarrow> None
   | Some (r, h) \<Rightarrow> (case hv_world h of (p, stuck, w) \<Rightarrow>
       if stuck then None
       else Some (r, d\<lparr>dv_hvdcp := hv_move () h, dv_pump := p, dv_world := w\<rparr>)))"

section \<open>The fuel gauge\<close>

datatype gauge_poll = GaugeSkipped | GaugeRaw u8 | GaugeFailed

text \<open>The compare-and-swap of the last poll time succeeds: the ticks of the model do not overlap.\<close>

definition read_gauge_if_due :: "('b, 'w) kernel \<Rightarrow> ('b, 'w, 'e, gauge_poll) dv_op" where
  "read_gauge_if_due K = and_then get_state (\<lambda>d.
     if \<not> dv_gauge_ready d \<or> \<not> dv_device d then ret GaugeSkipped
     else and_then (monotonic_ms K) (\<lambda>now.
       if dv_gauge_last_ms d \<noteq> 0 \<and> now - dv_gauge_last_ms d < GAUGE_POLL_MS then ret GaugeSkipped
       else and_then (modify (\<lambda>d. d\<lparr>dv_gauge_last_ms := now\<rparr>)) (\<lambda>_.
         and_then (on_devices (read_batt_soc_raw (pf_superuser (kn_platform K)))) (\<lambda>r.
           ret (case r of Some raw \<Rightarrow> GaugeRaw raw | None \<Rightarrow> GaugeFailed)))))"

section \<open>The power request\<close>

text \<open>
  \<open>sysreq.rs\<close>: the request that keeps the system from connected standby, held by the static \<open>REQUEST\<close>. The
  parameters are whether the device object is there and what the kernel answers; the number of
  requests that exist in the kernel is kept beside the static.
\<close>

definition sysreq_acquire :: "bool \<Rightarrow> i32 \<Rightarrow> i32 \<Rightarrow> ('b, 'w) driver \<Rightarrow> i32 \<times> ('b, 'w) driver" where
  "sysreq_acquire fdo created set_status d =
     (if dv_request_held d then (0, d)
      else if \<not> fdo then (- 1073741811, d)
      else if created < 0 then (created, d)
      else let d = d\<lparr>dv_requests_live := dv_requests_live d + 1\<rparr> in
        if set_status < 0 then (set_status, d\<lparr>dv_requests_live := dv_requests_live d - 1\<rparr>)
        else (0, d\<lparr>dv_request_held := True\<rparr>))"

definition sysreq_release :: "('b, 'w) driver \<Rightarrow> ('b, 'w) driver" where
  "sysreq_release d = (if \<not> dv_request_held d then d
     else d\<lparr>dv_requests_live := dv_requests_live d - 1, dv_request_held := False\<rparr>)"

section \<open>Charge attempts\<close>

definition mark_charge_attempt :: "u32 \<Rightarrow> u64 \<Rightarrow> pump_error + op_mode \<Rightarrow> ('b, 'w, 'e, unit) dv_op" where
  "mark_charge_attempt attempts now res = mark_values
     [(''ChargeAttemptN'', attempts),
      (''LastEnableErr'', as_u32 (case res of Inr _ \<Rightarrow> 0 | Inl err \<Rightarrow> kmdf_error_code err)),
      (''LastEnableMs'', min now u32_max)]"

datatype shutdown_recovery = NotInShutdown | Recovered "pump_error + op_mode"

definition por_delay :: "('b, 'w) kernel \<Rightarrow> ('b, unit) pump_op" where
  "por_delay K = modify (\<lambda>p. p\<lparr>p_bus := kn_por K (p_bus p)\<rparr>)"

definition recover_ln_shutdown :: "('b, 'w) kernel \<Rightarrow> ('b, shutdown_recovery) pump_op" where
  "recover_ln_shutdown K = (let B = kn_bus K in
     and_then (outcome (read_register B SYS_STS)) (\<lambda>r. case r of
       Inl _ \<Rightarrow> ret NotInShutdown
     | Inr sys \<Rightarrow>
         if sys AND SYS_STS_SHUTDOWN = 0 then ret NotInShutdown
         else and_then (ignore (soft_reset B)) (\<lambda>_.
              and_then (por_delay K) (\<lambda>_.
              and_then (ignore (configure B)) (\<lambda>_.
              and_then (outcome (set_charging B (kn_por K) True)) (\<lambda>res. ret (Recovered res)))))))"

text \<open>
  Leaving a shutdown of the chip, or else switching the charge on: whether the chip was rebuilt, and the
  result of the attempt. The callers write this match out.
\<close>

definition recover_or_charge :: "('b, 'w) kernel \<Rightarrow> ('b, 'w, 'e, bool \<times> (pump_error + op_mode)) dv_op" where
  "recover_or_charge K =
     and_then (with_pump NotInShutdown (recover_ln_shutdown K)) (\<lambda>recovery. case recovery of
       Recovered res \<Rightarrow> ret (True, res)
     | NotInShutdown \<Rightarrow> and_then (on_pump (set_charging (kn_bus K) (kn_por K) True)) (\<lambda>res. ret (False, res)))"

text \<open>One more charge attempt, counted and timed; \<open>marked\<close> says whether its marks are written.\<close>

definition count_attempt :: "('b, 'w) kernel \<Rightarrow> bool \<Rightarrow> pump_error + op_mode \<Rightarrow> ('b, 'w, 'e, unit) dv_op" where
  "count_attempt K marked res =
     and_then (modify (\<lambda>d. d\<lparr>dv_charge_attempts := sat_add_u32 (dv_charge_attempts d) 1\<rparr>)) (\<lambda>_.
     and_then (monotonic_ms K) (\<lambda>now.
     and_then (modify (\<lambda>d. d\<lparr>dv_last_enable_ms := now\<rparr>)) (\<lambda>_.
     and_then get_state (\<lambda>d.
       when_op marked (mark_charge_attempt (dv_charge_attempts d) (dv_last_enable_ms d) res)))))"

section \<open>The protection\<close>

text \<open>\<open>apply_guard\<close>; a failure of the pump is only logged.\<close>

definition set_strikes :: "(u32 \<Rightarrow> u32) \<Rightarrow> ('b, 'w, 'e, unit) dv_op" where
  "set_strikes f = modify (\<lambda>d. d\<lparr>dv_bypass_denied_strikes := f (dv_bypass_denied_strikes d)\<rparr>)"

fun apply_guard :: "('b, 'w) kernel \<Rightarrow> guard_action \<Rightarrow> i32 \<Rightarrow> u32 \<Rightarrow> ('b, 'w, 'e, unit) dv_op" where
  "apply_guard K GuardNone vin vbat = set_strikes (\<lambda>_. 0)"
| "apply_guard K (ReduceCurrent to_ua reason) vin vbat =
     and_then (set_strikes (\<lambda>_. 0)) (\<lambda>_. discard (on_pump (set_iin_limit (kn_bus K) to_ua)))"
| "apply_guard K (RestoreCurrent to_ua reason) vin vbat =
     and_then (set_strikes (\<lambda>_. 0)) (\<lambda>_. discard (on_pump (set_iin_limit (kn_bus K) to_ua)))"
| "apply_guard K (FallbackToBypass reason) vin vbat = and_then get_state (\<lambda>d.
     case resolve_bypass vin vbat (dv_bypass_denied_strikes d) (dv_limits d) of
       Allowed \<Rightarrow> and_then (set_strikes (\<lambda>_. 0)) (\<lambda>_. discard (on_pump (enable_bypass (kn_bus K))))
     | BypassReduce to_ua _ \<Rightarrow>
         and_then (set_strikes (\<lambda>n. sat_add_u32 n 1)) (\<lambda>_. discard (on_pump (set_iin_limit (kn_bus K) to_ua)))
     | BypassStop _ \<Rightarrow> discard (on_pump (pump_standby (kn_bus K))))"
| "apply_guard K (StopCharge reason) vin vbat =
     and_then (set_strikes (\<lambda>_. 0)) (\<lambda>_. discard (on_pump (pump_standby (kn_bus K))))"

section \<open>The charge current of the platform charger\<close>

definition write_fcc_and_publish :: "('b, 'w) kernel \<Rightarrow> u8 \<Rightarrow> ('b, 'w, 'e, bool) dv_op" where
  "write_fcc_and_publish K want =
     and_then (on_devices (write_fcc_raw (pf_superuser (kn_platform K)) want)) (\<lambda>r. case r of
       Some written \<Rightarrow>
         and_then (mark_values [(''ChgrFccSet'', unat written)]) (\<lambda>_.
           if written = want then and_then (mark_values [(''ChgrFccErr'', 0)]) (\<lambda>_. ret True)
           else and_then (mark_values [(''ChgrFccErr'', 1)]) (\<lambda>_. ret False))
     | None \<Rightarrow> and_then (mark_values [(''ChgrFccErr'', 1)]) (\<lambda>_. ret False))"

section \<open>Retries of the negotiation\<close>

definition schedule_or_clear_superuser_retry :: "('b, 'w) kernel \<Rightarrow> i32 \<Rightarrow> ('b, 'w, 'e, unit) dv_op" where
  "schedule_or_clear_superuser_retry K negotiate_rc =
     (if should_schedule_superuser_retry negotiate_rc then
        and_then get_state (\<lambda>d.
          if dv_retry_attempts d \<ge> HVDCP_SUPERUSER_RETRY_MAX then
            and_then (modify (\<lambda>d. d\<lparr>dv_retry_pending := False\<rparr>)) (\<lambda>_. mark_values [(''HvdcpRetryPend'', 2)])
          else
            and_then (modify (\<lambda>d. d\<lparr>dv_retry_pending := True\<rparr>)) (\<lambda>_.
            and_then (when_op (dv_retry_next_ms d = 0) (and_then (monotonic_ms K) (\<lambda>now.
              modify (\<lambda>d. d\<lparr>dv_retry_next_ms := sat_add_u64 now HVDCP_SUPERUSER_RETRY_MS\<rparr>)))) (\<lambda>_.
              mark_values [(''HvdcpRetryPend'', 1), (''HvdcpRetryN'', dv_retry_attempts d)])))
      else
        and_then (modify (\<lambda>d. d\<lparr>dv_retry_pending := False, dv_retry_attempts := 0, dv_retry_next_ms := 0\<rparr>)) (\<lambda>_.
          mark_values [(''HvdcpRetryPend'', 0)]))"

definition arm_hvdcp_input_edge :: "('b, 'w) kernel \<Rightarrow> ('b, 'w, 'e, unit) dv_op" where
  "arm_hvdcp_input_edge K =
     and_then (with_pump 0 (read_adc (kn_bus K) Vin)) (\<lambda>vin.
     and_then (modify (\<lambda>d. d\<lparr>dv_last_input_present := input_present_from_vin vin, dv_edge_armed := True\<rparr>)) (\<lambda>_.
       mark_values [(''HvdcpEdgeArm'', of_bool (input_present_from_vin vin))]))"

section \<open>Negotiating and landing\<close>

text \<open>\<open>u32::try_from(v.max(0)).unwrap_or(d)\<close> of an \<open>i32\<close>: the conversion cannot fail.\<close>

definition negotiated_vbat :: "('b, 'w) kernel \<Rightarrow> ('b, 'w, 'e, u32) dv_op" where
  "negotiated_vbat K = and_then (with_pump None (and_then (read_adc (kn_bus K) Vbat) (\<lambda>v. ret (Some v)))) (\<lambda>r.
     ret (case r of Some v \<Rightarrow> non_negative_uv v | None \<Rightarrow> 4000000))"

definition land_voltage :: "('b, 'w) kernel \<Rightarrow> i32 \<Rightarrow> u32 \<Rightarrow> ('b, 'w, 'e, i32 \<times> op_mode option) dv_op" where
  "land_voltage K vin vbat_now = and_then get_state (\<lambda>d.
       if charge_mode vin vbat_now \<noteq> Some Switching \<and> vin \<ge> FIVE_V_STAY_MAX_UV then
         and_then (discard (on_hvdcp (nudge_vin_into_window (pump_platform K) (dv_usbin_id d) vin vbat_now False))) (\<lambda>_.
         and_then (with_pump vin (read_adc (kn_bus K) Vin)) (\<lambda>vin. ret (vin, charge_mode vin vbat_now)))
       else ret (vin, charge_mode vin vbat_now))"

definition land_limits :: "('b, 'w) kernel \<Rightarrow> u32 \<Rightarrow> i32 \<Rightarrow> op_mode option \<Rightarrow> ('b, 'w, 'e, unit) dv_op" where
  "land_limits K vbat_now vin engage = and_then get_state (\<lambda>d.
     if engage = Some Switching then
       and_then (mark_values [(''SuAfc5vPath'', 0)]) (\<lambda>_.
       and_then (discard (on_hvdcp (nudge_vin_into_window (pump_platform K) (dv_usbin_id d) vin vbat_now False))) (\<lambda>_.
         discard (on_hvdcp (raise_icl_for_pump (pump_platform K) (dv_usbin_id d)))))
     else if engage = Some Bypass \<and> vin_stayed_near_5v vin then
       and_then (discard (on_hvdcp (raise_icl_for_5v_bypass (pump_platform K) (dv_usbin_id d)))) (\<lambda>_.
         discard (on_pump (set_iin_limit (kn_bus K) 2700000)))
     else ret ())"

definition land_charge :: "('b, 'w) kernel \<Rightarrow> ('b, 'w, 'e, unit) dv_op" where
  "land_charge K =
     and_then (recover_or_charge K) (\<lambda>(recovered, res).
     and_then (when_op recovered (and_then (monotonic_ms K) (\<lambda>now.
       modify (\<lambda>d. d\<lparr>dv_last_charge_attempt_ms := now\<rparr>)))) (\<lambda>_.
     and_then (count_attempt K True res) (\<lambda>_. case res of
       Inr mode \<Rightarrow>
         and_then (modify (\<lambda>d. d\<lparr>dv_auto_starts := sat_add_u32 (dv_auto_starts d) 1, dv_failed_attempts := 0,
           dv_last_error := 0\<rparr>)) (\<lambda>_.
           mark_values [(''PostHvdcpMode'', unat (op_mode_code mode)), (''PostHvdcpErr'', 0)])
     | Inl err \<Rightarrow>
         and_then (modify (\<lambda>d. d\<lparr>dv_last_error := kmdf_error_code err\<rparr>)) (\<lambda>_.
           mark_values [(''PostHvdcpMode'', 0), (''PostHvdcpErr'', as_u32 (kmdf_error_code err))]))))"

definition run_hvdcp_and_land :: "('b, 'w) kernel \<Rightarrow> ('b, 'w, 'e, i32) dv_op" where
  "run_hvdcp_and_land K = and_then get_state (\<lambda>d0.
     and_then (negotiated_vbat K) (\<lambda>pump_vbat.
     let vbat = anchor_cell_vbat_uv (dv_fg_vbatt_uv d0) pump_vbat in
     and_then (on_hvdcp (run_negotiate_report (pump_platform K) (dv_usbin_id d0) vbat)) (\<lambda>(code, _).
     and_then get_state (\<lambda>d.
     and_then (when_op (dv_pump d \<noteq> None)
       (and_then (with_pump 0 (read_adc (kn_bus K) Vin)) (\<lambda>vin.
        and_then (with_pump None (and_then (read_adc (kn_bus K) Vbat) (\<lambda>v. ret (Some v)))) (\<lambda>live.
        let vbat_now = anchor_cell_vbat_uv (dv_fg_vbatt_uv d) (case live of Some v \<Rightarrow> non_negative_uv v | None \<Rightarrow> vbat) in
        and_then (land_voltage K vin vbat_now) (\<lambda>(vin, engage).
        and_then (land_limits K vbat_now vin engage) (\<lambda>_. land_charge K)))))) (\<lambda>_.
       ret code)))))"

end
