(* ===== verification/Kmdf_Tick.thy ===== *)
theory Kmdf_Tick
  imports Kmdf_State
begin

text \<open>
  \<open>evt_telemetry_timer\<close> of \<open>crates/ln8000-kmdf/src/lib.rs\<close>, in the order of the source: the measurement, the
  battery module, the charge current of the platform charger, the protection, the choice of the mode with
  the correction of the bus voltage, the charge attempt, and the renegotiations.
\<close>

section \<open>Measuring\<close>

text \<open>What a tick has read: the status, the sample, the signed input voltage, which channels answered.\<close>

record tick_reading =
  tk_status :: status
  tk_sample :: telemetry_sample
  tk_vbus :: i32
  tk_vbat_ok :: bool
  tk_vbus_ok :: bool
  tk_iin_ok :: bool
  tk_unplug :: bool

definition answered :: "pump_error + 'a \<Rightarrow> bool" where
  "answered r = (case r of Inl _ \<Rightarrow> False | Inr _ \<Rightarrow> True)"

definition reading_or_zero :: "pump_error + i32 \<Rightarrow> i32" where
  "reading_or_zero r = (case r of Inl _ \<Rightarrow> 0 | Inr v \<Rightarrow> v)"

definition phantom_input :: "status \<Rightarrow> u32 \<Rightarrow> u32 \<Rightarrow> u32 \<Rightarrow> bool" where
  "phantom_input st vbat vbus iin \<longleftrightarrow> iin < IIN_DEAD_FLOOR_UA \<and> st_op_mode st \<noteq> Switching \<and> st_op_mode st \<noteq> Bypass \<and>
     (st_fault1_sts st AND FAULT1_VAC_UNPLUG \<noteq> 0 \<or> vin_is_doubled_vbat vbat vbus)"

definition tick_measure :: "('b, 'w) kernel \<Rightarrow> status \<Rightarrow> ('b, 'w, 'e, tick_reading) dv_op" where
  "tick_measure K st = (let B = kn_bus K in
     and_then (on_pump (read_adc B Vbat)) (\<lambda>vbat_read.
     and_then (on_pump (read_adc B Vin)) (\<lambda>vbus_read.
     and_then (on_pump (read_adc B Iin)) (\<lambda>iin_read.
     and_then (on_pump (read_adc B DieTemp)) (\<lambda>temp_read.
     and_then (monotonic_ms K) (\<lambda>now.
     let vbat = non_negative_uv (reading_or_zero vbat_read);
         vbus = non_negative_uv (reading_or_zero vbus_read);
         iin = non_negative_uv (reading_or_zero iin_read);
         sample = \<lparr>ts_ms = now, vbat_uv = vbat, vbus_uv = vbus, iin_ua = iin,
           die_temp_dc = reading_or_zero temp_read, ts_op_mode = st_op_mode st,
           input_present = (\<not> has_critical_fault st \<and> vbus > 0 \<and> \<not> phantom_input st vbat vbus iin),
           vbat_valid = vbat_reading_usable (answered vbat_read) vbat, die_temp_valid = answered temp_read\<rparr>
     in and_then (modify (\<lambda>d. d\<lparr>dv_telemetry := push sample (dv_telemetry d)\<rparr>)) (\<lambda>_.
       ret \<lparr>tk_status = st, tk_sample = sample, tk_vbus = reading_or_zero vbus_read, tk_vbat_ok = answered vbat_read,
            tk_vbus_ok = answered vbus_read, tk_iin_ok = answered iin_read,
            tk_unplug = (st_fault1_sts st AND FAULT1_VAC_UNPLUG \<noteq> 0)\<rparr>)))))))"

definition input_readings_usable :: "tick_reading \<Rightarrow> bool" where
  "input_readings_usable r \<longleftrightarrow> vbat_valid (tk_sample r) \<and> tk_vbus_ok r \<and> vbus_uv (tk_sample r) > 0"

definition pump_alive :: "tick_reading \<Rightarrow> bool" where
  "pump_alive r \<longleftrightarrow> st_op_mode (tk_status r) = Switching \<and> iin_ua (tk_sample r) > IIN_DEAD_FLOOR_UA"

definition tick_adc_wake :: "('b, 'w) kernel \<Rightarrow> tick_reading \<Rightarrow> ('b, 'w, 'e, unit) dv_op" where
  "tick_adc_wake K r = and_then get_state (\<lambda>d.
     case adc_wake_needed (input_readings_usable r) (tk_unplug r) of
       Some True \<Rightarrow> when_op (\<not> dv_adc_awake d) (
         and_then (on_pump (set_adc_mode (kn_bus K) AdcNormal)) (\<lambda>res. when_op (answered res) (
           modify (\<lambda>d. d\<lparr>dv_adc_awake := True, dv_adc_wake_n := sat_add_u32 (dv_adc_wake_n d) 1\<rparr>))))
     | Some False \<Rightarrow> when_op (dv_adc_awake d) (
         and_then (on_pump (set_adc_mode (kn_bus K) AdcAutoHibernate)) (\<lambda>res. when_op (answered res) (
           modify (\<lambda>d. d\<lparr>dv_adc_awake := False\<rparr>))))
     | None \<Rightarrow> ret ())"

section \<open>The battery module and the marks of the input\<close>

definition tick_battery :: "tick_reading \<Rightarrow> ('b, 'w, 'e, unit) dv_op" where
  "tick_battery r = (let s = tk_sample r in and_then get_state (\<lambda>d.
     on_battery (\<lambda>m. update_from_telemetry (vbat_uv s) (vbus_uv s) (iin_ua s) (dv_max_iin_ua d) (tk_unplug r)
       (input_readings_usable r) (tr_rising (bm_soc_trend m)) (ts_ms s) m)))"

definition evidence_code :: "bool option \<Rightarrow> u32" where
  "evidence_code e = (case e of None \<Rightarrow> 2 | Some False \<Rightarrow> 0 | Some True \<Rightarrow> 1)"

definition input_marks :: "tick_reading \<Rightarrow> ('b, 'w) driver \<Rightarrow> (string \<times> u32) list" where
  "input_marks r d = (let s = tk_sample r; m = dv_battery d in
     [(''BattPwr'', unat (bm_last_power_state m)),
      (''SuVinUv'', vbus_uv s),
      (''SuIin'', iin_ua s),
      (''SuMode'', unat (op_mode_code (st_op_mode (tk_status r)))),
      (''AdcValid'', of_bool (\<not> vbat_valid s) OR push_bit 1 (of_bool (\<not> die_temp_valid s)) OR
         push_bit 2 (of_bool (\<not> tk_iin_ok r)) OR push_bit 3 (of_bool (\<not> tk_vbus_ok r))),
      (''InputUsable'', of_bool (input_readings_usable r)),
      (''AdcAwake'', of_bool (dv_adc_awake d)),
      (''AdcWakeN'', dv_adc_wake_n d),
      (''VbatTickMv'', vbat_uv s div 1000),
      (''DoubledVeto'', of_bool (vin_is_doubled_vbat (vbat_uv s) (vbus_uv s))),
      (''OnlineRaw'', evidence_code (online_raw_with_evidence (vbus_uv s) (vbat_uv s) (iin_ua s) (tk_unplug r)
         (input_readings_usable r))),
      (''SocRising'', of_bool (tr_rising (bm_soc_trend m))),
      (''SocRiseAgeMs'', min (ts_ms s - tr_last_rise_ms (bm_soc_trend m)) u32_max)])"

text \<open>The peak of the input current over a window, published when the window ends.\<close>

definition tick_iin_window :: "tick_reading \<Rightarrow> ('b, 'w, 'e, unit) dv_op" where
  "tick_iin_window r = (let s = tk_sample r in
     and_then (modify (\<lambda>d. if iin_ua s > dv_max_iin_ua d then d\<lparr>dv_max_iin_ua := iin_ua s\<rparr> else d)) (\<lambda>_.
     and_then get_state (\<lambda>d.
       when_op (dv_iin_window_start_ms d = 0 \<or> ts_ms s - dv_iin_window_start_ms d \<ge> IIN_WINDOW_MS) (
         and_then (mark_values [(''MaxIinUa'', dv_max_iin_ua d)]) (\<lambda>_.
           modify (\<lambda>d. d\<lparr>dv_max_iin_ua := iin_ua s, dv_iin_window_start_ms := ts_ms s\<rparr>))))))"

definition tick_input :: "tick_reading \<Rightarrow> ('b, 'w, 'e, unit) dv_op" where
  "tick_input r = and_then get_state (\<lambda>d.
     when_op (dv_device d) (and_then (mark_values (input_marks r d)) (\<lambda>_. tick_iin_window r)))"

definition tick_gauge :: "gauge_poll \<Rightarrow> tick_reading \<Rightarrow> ('b, 'w, 'e, unit) dv_op" where
  "tick_gauge gauge r = (case gauge of
     GaugeRaw raw \<Rightarrow> and_then (on_battery (set_gauge_raw raw (ts_ms (tk_sample r)))) (\<lambda>_.
       mark_values [(''SocRaw'', unat raw)])
   | GaugeFailed \<Rightarrow> and_then (on_battery (\<lambda>m. snd (note_gauge_failure m))) (\<lambda>_.
       and_then get_state (\<lambda>d. mark_values [(''SocFail'', bm_gauge_fails (dv_battery d))]))
   | GaugeSkipped \<Rightarrow> ret ())"

definition status_marks :: "tick_reading \<Rightarrow> ('b, 'w) driver \<Rightarrow> (string \<times> u32) list" where
  "status_marks r d = (let s = tk_sample r; st = tk_status r; m = dv_battery d in
     [(''SocSrc'', bm_soc_src m),
      (''BattPct'', bm_last_pct m),
      (''BattVbat'', vbat_uv s div 1000),
      (''BattPwr'', unat (bm_last_power_state m)),
      (''SocAgeMs'', min (ts_ms s - dv_gauge_last_ms d) u32_max),
      (''GaugePollMs'', GAUGE_POLL_MS),
      (''Fault1Sts'', unat (st_fault1_sts st)),
      (''Fault2Sts'', unat (st_fault2_sts st)),
      (''SysSts'', unat (st_sys_sts st)),
      (''SysStsRaw'', unat (st_sys_sts st)),
      (''SafetySts'', unat (st_safety_sts st)),
      (''VoltQual'', of_bool (volt_qual st (st_op_mode st = Switching \<or> st_op_mode st = Bypass))),
      (''BypassStage'', (case dv_pump d of None \<Rightarrow> 0 | Some p \<Rightarrow> unat (p_bypass_stage p))),
      (''BypassPorSpent'', (case dv_pump d of None \<Rightarrow> 0 | Some p \<Rightarrow> of_bool (p_por_vin_uv p \<noteq> None)))])"

section \<open>The platform charger\<close>

text \<open>The one write that tries whether the charger takes a current limit at all, and takes it back.\<close>

definition fcc_probe :: "('b, 'w) kernel \<Rightarrow> tick_reading \<Rightarrow> ('b, 'w, 'e, unit) dv_op" where
  "fcc_probe K r = and_then get_state (\<lambda>d.
     when_op (\<not> dv_fcc_probe_done d \<and> dv_fcc_boot_raw d \<noteq> 0 \<and> \<not> has_critical_fault (tk_status r)) (
       let policy_owns = dv_fcc_raised d \<or> (pump_alive r \<and> vbat_uv (tk_sample r) < RE_ELEVATE_MAX_VBAT_UV);
           probe_raw = raw_for FCC_PROBE_UA;
           done = modify (\<lambda>d. d\<lparr>dv_fcc_probe_done := True\<rparr>)
       in if policy_owns then and_then (mark_values [(''ChgrProbeOk'', 3)]) (\<lambda>_. done)
          else if probe_raw \<ge> dv_fcc_boot_raw d then and_then (mark_values [(''ChgrProbeOk'', 2)]) (\<lambda>_. done)
          else
            and_then (on_devices (write_fcc_raw (pf_superuser (kn_platform K)) probe_raw)) (\<lambda>wrote.
            and_then (on_devices (write_fcc_raw (pf_superuser (kn_platform K)) (dv_fcc_boot_raw d))) (\<lambda>restored.
            and_then (mark_values
              [(''ChgrProbeWrote'', case wrote of None \<Rightarrow> u32_max | Some v \<Rightarrow> unat v),
               (''ChgrProbeRestored'', case restored of None \<Rightarrow> u32_max | Some v \<Rightarrow> unat v),
               (''ChgrProbeErr'', of_bool (wrote = None \<or> restored = None)),
               (''ChgrProbeOk'', of_bool (wrote = Some probe_raw))]) (\<lambda>_. done)))))"

definition charger_snapshot :: "('b, 'w) kernel \<Rightarrow> tick_reading \<Rightarrow> ('b, 'w, 'e, unit) dv_op" where
  "charger_snapshot K r =
     and_then (on_devices (read_charge_regs (pf_superuser (kn_platform K)))) (\<lambda>regs. case regs of
       Some regs \<Rightarrow>
         and_then (modify (\<lambda>d. if dv_fcc_boot_raw d = 0 then d\<lparr>dv_fcc_boot_raw := cr_fcc_raw regs\<rparr> else d)) (\<lambda>_.
         and_then (mark_values
           [(''ChgrFccRaw'', unat (cr_fcc_raw regs)), (''ChgrEn'', unat (cr_charge_enable regs)),
            (''ChgrInhibit'', unat (cr_inhibit regs)), (''ChgrStatus'', unat (cr_chgr_status regs)),
            (''ChgrFvRaw'', unat (cr_fv_raw regs)), (''ChgrIclRaw'', unat (cr_icl_raw regs)),
            (''ChgrAllow'', unat (cr_usbin_allow regs)), (''FgIbatUa'', cr_ibatt_ua regs),
            (''FgVbattMv'', cr_fg_vbatt_uv regs div 1000), (''VbatAdcMv'', vbat_uv (tk_sample r) div 1000),
            (''ChgrErr'', 0)]) (\<lambda>_.
         and_then (modify (\<lambda>d. d\<lparr>dv_fg_vbatt_uv := cr_fg_vbatt_uv regs\<rparr>)) (\<lambda>_. fcc_probe K r)))
     | None \<Rightarrow> mark_values (map (\<lambda>name. (name, NO_SAMPLE)) [''ChgrFccRaw'', ''ChgrEn'', ''ChgrInhibit'', ''ChgrStatus'',
           ''ChgrFvRaw'', ''ChgrIclRaw'', ''ChgrAllow'', ''FgIbatUa'', ''FgVbattMv''] @
         [(''VbatAdcMv'', vbat_uv (tk_sample r) div 1000), (''ChgrErr'', 1)]))"

text \<open>Raising the limit while the pump transfers, and returning it after the transfer was lost.\<close>

definition fcc_policy :: "('b, 'w) kernel \<Rightarrow> tick_reading \<Rightarrow> ('b, 'w, 'e, unit) dv_op" where
  "fcc_policy K r = when_op (\<not> has_critical_fault (tk_status r)) (
     if pump_alive r then
       and_then (modify (\<lambda>d. d\<lparr>dv_fcc_restore_at_ms := 0\<rparr>)) (\<lambda>_.
       and_then get_state (\<lambda>d.
         when_op (dv_fcc_cfg_raw d \<noteq> 0 \<and> \<not> dv_fcc_raised d \<and> dv_fcc_boot_raw d \<noteq> 0 \<and>
             vbat_uv (tk_sample r) < RE_ELEVATE_MAX_VBAT_UV) (
           and_then (write_fcc_and_publish K (raw_for (sat_mul_u32 (dv_fcc_cfg_raw d) FCC_STEP_UA))) (\<lambda>ok.
             when_op ok (modify (\<lambda>d. d\<lparr>dv_fcc_raised := True\<rparr>))))))
     else and_then get_state (\<lambda>d. when_op (dv_fcc_raised d) (
       if dv_fcc_restore_at_ms d = 0 then
         modify (\<lambda>d. d\<lparr>dv_fcc_restore_at_ms := sat_add_u64 (ts_ms (tk_sample r)) FCC_RESTORE_GRACE_MS\<rparr>)
       else when_op (ts_ms (tk_sample r) \<ge> dv_fcc_restore_at_ms d) (
         and_then (write_fcc_and_publish K (raw_for (sat_mul_u32 (unat (dv_fcc_boot_raw d)) FCC_STEP_UA))) (\<lambda>ok.
           when_op ok (modify (\<lambda>d. d\<lparr>dv_fcc_raised := False, dv_fcc_restore_at_ms := 0\<rparr>)))))))"

definition tick_charger :: "('b, 'w) kernel \<Rightarrow> tick_reading \<Rightarrow> ('b, 'w, 'e, unit) dv_op" where
  "tick_charger K r = and_then get_state (\<lambda>d.
     when_op (dv_last_chgr_mark_ms d = 0 \<or> ts_ms (tk_sample r) - dv_last_chgr_mark_ms d \<ge> GAUGE_POLL_MS) (
       and_then (modify (\<lambda>d. d\<lparr>dv_last_chgr_mark_ms := ts_ms (tk_sample r)\<rparr>)) (\<lambda>_.
       and_then (charger_snapshot K r) (\<lambda>_. fcc_policy K r))))"

definition tick_device :: "('b, 'w) kernel \<Rightarrow> gauge_poll \<Rightarrow> tick_reading \<Rightarrow> ('b, 'w, 'e, unit) dv_op" where
  "tick_device K gauge r = and_then get_state (\<lambda>d. when_op (dv_device d) (
     and_then (tick_gauge gauge r) (\<lambda>_.
     and_then get_state (\<lambda>d.
     and_then (mark_values (status_marks r d)) (\<lambda>_. tick_charger K r)))))"

section \<open>The protection of a tick\<close>

fun guard_action_code :: "guard_action \<Rightarrow> u32" where
  "guard_action_code GuardNone = 0"
| "guard_action_code (ReduceCurrent _ _) = 1"
| "guard_action_code (RestoreCurrent _ _) = 2"
| "guard_action_code (FallbackToBypass _) = 3"
| "guard_action_code (StopCharge _) = 4"

definition die_temp_mark :: "telemetry_sample \<Rightarrow> u32" where
  "die_temp_mark s = (if die_temp_valid s \<and> die_temp_dc s \<ge> 0 then nat (die_temp_dc s) else u32_max)"

definition tick_guard :: "('b, 'w) kernel \<Rightarrow> tick_reading \<Rightarrow> ('b, 'w, 'e, guard_action) dv_op" where
  "tick_guard K r = (let s = tk_sample r in
     and_then (modify (\<lambda>d. if bypass_strikes_expired s (dv_limits d) then d\<lparr>dv_bypass_denied_strikes := 0\<rparr> else d)) (\<lambda>_.
     and_then (with_pump None (applied_iin_ua (kn_bus K))) (\<lambda>applied.
     and_then get_state (\<lambda>d.
     let ov_latched = (st_fault1_sts (tk_status r) AND FAULT1_VBAT_OV \<noteq> 0);
         deliberate = (case dv_pump d of None \<Rightarrow> None
           | Some p \<Rightarrow> taper_setpoint_ua (p_config p) (vbat_uv s) (vbus_uv s) ov_latched);
         action = evaluate s (dv_limits d) applied deliberate
     in and_then (tick_marks [(''GuardAct'', guard_action_code action), (''DieTempDc'', die_temp_mark s)]) (\<lambda>_.
        and_then (when_op (is_change action) (
          and_then (apply_guard K action (tk_vbus r) (vbat_uv s)) (\<lambda>_.
            modify (\<lambda>d. d\<lparr>dv_actions := sat_add_u32 (dv_actions d) 1\<rparr>)))) (\<lambda>_.
          ret action))))))"

definition tick_latches :: "('b, 'w) kernel \<Rightarrow> tick_reading \<Rightarrow> ('b, 'w, 'e, unit) dv_op" where
  "tick_latches K r =
     when_op (st_fault1_sts (tk_status r) AND (FAULT1_WATCHDOG OR FAULT1_VBAT_OV) \<noteq> 0) (
       and_then (discard (on_pump (clear_latched_faults (kn_bus K)))) (\<lambda>_.
         when_op (st_fault1_sts (tk_status r) AND FAULT1_WATCHDOG \<noteq> 0) (discard (on_pump (service_watchdog (kn_bus K))))))"

section \<open>The mode a tick wants\<close>

definition cell_vbat :: "tick_reading \<Rightarrow> ('b, 'w) driver \<Rightarrow> u32" where
  "cell_vbat r d = anchor_cell_vbat_uv (dv_fg_vbatt_uv d) (vbat_uv (tk_sample r))"

definition desired_mode :: "tick_reading \<Rightarrow> u32 \<Rightarrow> op_mode option" where
  "desired_mode r cell =
     (if pump_alive r \<and> vbus_uv (tk_sample r) \<ge> max (window_floor_uv cell) (nat ELEVATED_MIN_VIN_UV) then Some Switching
      else charge_mode (tk_vbus r) cell)"

definition mode_ok :: "op_mode option \<Rightarrow> op_mode \<Rightarrow> bool" where
  "mode_ok desired mode \<longleftrightarrow> (case desired of
       Some Switching \<Rightarrow> mode = Switching
     | Some Bypass \<Rightarrow> mode = Bypass
     | None \<Rightarrow> mode = Standby \<or> mode = Unknown
     | _ \<Rightarrow> False)"

definition mode_marks :: "tick_reading \<Rightarrow> ('b, 'w) driver \<Rightarrow> (string \<times> u32) list" where
  "mode_marks r d = (let cell = cell_vbat r d in
     [(''CellVbatMv'', cell div 1000),
      (''CellSrc'', of_bool (cell = dv_fg_vbatt_uv d \<and> dv_fg_vbatt_uv d \<noteq> 0)),
      (''EngageState'', engage_state (input_present (tk_sample r)) (tk_vbus r) cell (st_op_mode (tk_status r)))])"

definition transferring :: "tick_reading \<Rightarrow> ('b, 'w) driver \<Rightarrow> bool" where
  "transferring r d \<longleftrightarrow> st_op_mode (tk_status r) = Switching \<and> transfer_is_useful (dv_max_iin_ua d)"

section \<open>Walking the bus into the window\<close>

definition window_open :: "tick_reading \<Rightarrow> u32 \<Rightarrow> op_mode option \<Rightarrow> bool" where
  "window_open r cell desired \<longleftrightarrow> (let vbus = vbus_uv (tk_sample r);
       above_five = (vbus \<ge> nat FIVE_V_STAY_MAX_UV)
     in cell > 0 \<and> (vbus \<ge> nat ELEVATED_MIN_VIN_UV \<or> desired = None \<and> above_five \<or> desired = Some Bypass \<and> above_five))"

definition window_dead :: "tick_reading \<Rightarrow> ('b, 'w) driver \<Rightarrow> bool" where
  "window_dead r d \<longleftrightarrow> st_op_mode (tk_status r) = Switching \<and> iin_ua (tk_sample r) \<le> IIN_DEAD_FLOOR_UA \<and>
     dv_max_iin_ua d \<le> IIN_DEAD_FLOOR_UA"

definition window_reset :: "('b, 'w, 'e, unit) dv_op" where
  "window_reset = modify (\<lambda>d. if dv_window_best_err_uv d \<noteq> u32_max \<or> dv_window_stall_n d \<noteq> 0
     then d\<lparr>dv_window_best_err_uv := u32_max, dv_window_stall_n := 0\<rparr> else d)"

text \<open>Progress towards the target restarts the count of corrections that brought none.\<close>

definition window_progress :: "u32 \<Rightarrow> ('b, 'w) driver \<Rightarrow> ('b, 'w) driver" where
  "window_progress err d = (if sat_add_u32 err WINDOW_PROGRESS_UV < dv_window_best_err_uv d
     then d\<lparr>dv_window_best_err_uv := err, dv_window_stall_n := 0\<rparr> else d)"

definition window_cooldown :: "('b, 'w) driver \<Rightarrow> u64" where
  "window_cooldown d = (if dv_window_stall_n d < WINDOW_STALL_MAX then WINDOW_NUDGE_MS else WINDOW_STALL_MS)"

definition window_walk ::
  "('b, 'w) kernel \<Rightarrow> tick_reading \<Rightarrow> u32 \<Rightarrow> bool \<Rightarrow> bool \<Rightarrow> u64 \<Rightarrow> ('b, 'w, 'e, bool) dv_op" where
  "window_walk K r cell outside dead now =
     and_then (modify (\<lambda>d. d\<lparr>dv_last_window_nudge_ms := now, dv_window_stall_n := sat_add_u32 (dv_window_stall_n d) 1\<rparr>)) (\<lambda>_.
     and_then (if st_op_mode (tk_status r) = Bypass then
         and_then (on_pump (pump_standby (kn_bus K))) (\<lambda>res.
         and_then (tick_marks [(''WalkStandby'', of_bool (answered res))]) (\<lambda>_. ret (answered res)))
       else ret False) (\<lambda>left.
     and_then get_state (\<lambda>d.
     and_then (on_hvdcp (nudge_vin_into_window (pump_platform K) (dv_usbin_id d) (tk_vbus r) cell dead)) (\<lambda>sent.
     and_then (tick_marks [(''WindowOut'', of_bool outside), (''WindowDead'', of_bool dead)]) (\<lambda>_.
     and_then (when_op (sent > 0) (modify (\<lambda>d. d\<lparr>dv_last_charge_attempt_ms := 0\<rparr>))) (\<lambda>_.
       ret left))))))"

text \<open>The correction of a tick; it says whether the pump was taken out of 1:1 for it.\<close>

definition tick_window :: "('b, 'w) kernel \<Rightarrow> tick_reading \<Rightarrow> u32 \<Rightarrow> op_mode option \<Rightarrow> ('b, 'w, 'e, bool) dv_op" where
  "tick_window K r cell desired = and_then get_state (\<lambda>d0.
     let dead = window_dead r d0; outside = (\<not> vin_in_switching_window (tk_vbus r) cell) in
     if \<not> window_open r cell desired then and_then window_reset (\<lambda>_. ret False)
     else if \<not> (outside \<or> dead) then and_then window_reset (\<lambda>_. ret False)
     else
       and_then (monotonic_ms K) (\<lambda>now.
       and_then (modify (window_progress (abs_diff (vbus_uv (tk_sample r)) (target_vbus_uv cell)))) (\<lambda>_.
       and_then get_state (\<lambda>d.
       let urgent = (desired = Some Bypass \<and> st_op_mode (tk_status r) = Bypass \<and> dv_window_stall_n d = 0);
           walk_allowed = should_walk_window dead (transferring r d) (vbus_uv (tk_sample r) < window_floor_uv cell)
       in and_then (tick_marks [(''WindowLive'', of_bool (\<not> walk_allowed))]) (\<lambda>_.
          if walk_allowed \<and> (urgent \<or> now - dv_last_window_nudge_ms d \<ge> window_cooldown d)
          then window_walk K r cell outside dead now else ret False)))))"

section \<open>The charge attempt\<close>

definition five_v_regime :: "tick_reading \<Rightarrow> bool" where
  "five_v_regime r \<longleftrightarrow> vbus_uv (tk_sample r) \<ge> nat CHARGE_MIN_VIN_UV \<and> vbus_uv (tk_sample r) < nat FIVE_V_STAY_MAX_UV"

definition bypass_carrying :: "tick_reading \<Rightarrow> ('b, 'w) driver \<Rightarrow> bool" where
  "bypass_carrying r d \<longleftrightarrow> st_op_mode (tk_status r) = Bypass \<and>
     (iin_ua (tk_sample r) > IIN_DEAD_FLOOR_UA \<or> dv_max_iin_ua d > IIN_DEAD_FLOOR_UA)"

definition reelevate_owns :: "tick_reading \<Rightarrow> ('b, 'w) driver \<Rightarrow> bool" where
  "reelevate_owns r d \<longleftrightarrow> input_present (tk_sample r) \<and> tk_vbat_ok r \<and> tk_iin_ok r \<and> five_v_regime r \<and>
     \<not> bypass_carrying r d \<and> \<not> pump_alive r \<and> vbat_uv (tk_sample r) < RE_ELEVATE_MAX_VBAT_UV"

definition attempt_due :: "tick_reading \<Rightarrow> op_mode option \<Rightarrow> u64 \<Rightarrow> ('b, 'w) driver \<Rightarrow> bool" where
  "attempt_due r desired now d \<longleftrightarrow> (let since = now - dv_last_charge_attempt_ms d in
     since \<ge> CHARGE_RETRY_MS \<or>
     abs_diff (dv_last_attempt_vbus_uv d) (vbus_uv (tk_sample r)) \<ge> CHARGE_RETRY_DELTA_UV \<and>
       since \<ge> CHARGE_RETRY_FAST_MS \<and> \<not> reelevate_owns r d \<or>
     desired = Some Switching \<and> st_op_mode (tk_status r) = Bypass)"

definition note_attempt :: "u64 \<Rightarrow> ('b, 'w, 'e, unit) dv_op" where
  "note_attempt now = modify (\<lambda>d. d\<lparr>dv_last_charge_attempt_ms := now\<rparr>)"

text \<open>What follows the third failed attempt in a row.\<close>

definition rebuild_after_failures :: "('b, 'w) kernel \<Rightarrow> tick_reading \<Rightarrow> bool \<Rightarrow> ('b, 'w, 'e, unit) dv_op" where
  "rebuild_after_failures K r recovered = (let B = kn_bus K in
     and_then (modify (\<lambda>d. d\<lparr>dv_failed_attempts := 0\<rparr>)) (\<lambda>_.
     if recovered then ret ()
     else and_then (with_pump NotInShutdown (recover_ln_shutdown K)) (\<lambda>recovery. and_then get_state (\<lambda>d.
       case recovery of
         Recovered res \<Rightarrow>
           and_then (monotonic_ms K) (\<lambda>now. and_then (note_attempt now) (\<lambda>_. count_attempt K (dv_device d) res))
       | NotInShutdown \<Rightarrow>
           if tk_vbus r < SWITCHING_MIN_VIN_UV then
             and_then (discard (on_pump (soft_reset B))) (\<lambda>_.
             and_then (with_pump () (por_delay K)) (\<lambda>_.
             and_then (discard (on_pump (configure B))) (\<lambda>_.
             and_then (on_pump (set_charging B (kn_por K) True)) (\<lambda>res. count_attempt K (dv_device d) res))))
           else discard (on_pump (clear_latched_faults B))))))"

definition tick_attempt :: "('b, 'w) kernel \<Rightarrow> tick_reading \<Rightarrow> u64 \<Rightarrow> ('b, 'w, 'e, unit) dv_op" where
  "tick_attempt K r now =
     and_then (modify (\<lambda>d. d\<lparr>dv_last_charge_attempt_ms := now, dv_last_attempt_vbus_uv := vbus_uv (tk_sample r)\<rparr>)) (\<lambda>_.
     and_then (recover_or_charge K) (\<lambda>(recovered, res).
     and_then (when_op recovered (and_then (monotonic_ms K) note_attempt)) (\<lambda>_.
     and_then get_state (\<lambda>d.
     and_then (count_attempt K (dv_device d) res) (\<lambda>_. case res of
       Inr mode \<Rightarrow> modify (\<lambda>d. d\<lparr>dv_auto_starts := sat_add_u32 (dv_auto_starts d) 1, dv_failed_attempts := 0,
         dv_last_error := 0\<rparr>)
     | Inl err \<Rightarrow>
         and_then (modify (\<lambda>d. d\<lparr>dv_last_error := kmdf_error_code err,
           dv_failed_attempts := sat_add_u32 (dv_failed_attempts d) 1\<rparr>)) (\<lambda>_.
         and_then get_state (\<lambda>d.
           when_op (dv_failed_attempts d \<ge> CHARGE_FAILS_BEFORE_RESET) (rebuild_after_failures K r recovered))))))))"

definition tick_charge ::
  "('b, 'w) kernel \<Rightarrow> tick_reading \<Rightarrow> op_mode option \<Rightarrow> guard_action \<Rightarrow> bool \<Rightarrow> ('b, 'w, 'e, unit) dv_op" where
  "tick_charge K r desired action left_bypass = (let mode = st_op_mode (tk_status r) in
     if mode_ok desired mode \<and> \<not> left_bypass then
       and_then (monotonic_ms K) (\<lambda>now. modify (\<lambda>d. d\<lparr>dv_last_charge_attempt_ms := now,
         dv_last_attempt_vbus_uv := vbus_uv (tk_sample r)\<rparr>))
     else if desired \<noteq> None \<and> \<not> is_change action \<and> \<not> left_bypass then
       and_then (monotonic_ms K) (\<lambda>now. and_then get_state (\<lambda>d.
         when_op (attempt_due r desired now d) (tick_attempt K r now)))
     else and_then get_state (\<lambda>d.
       when_op ((mode = Switching \<or> mode = Bypass) \<and> \<not> is_change action \<and>
           stop_running_charge (desired \<noteq> None) (transferring r d)) (
         discard (on_pump (set_charging (kn_bus K) (kn_por K) False)))))"

section \<open>Renegotiations\<close>

record tick_wants =
  wants_replug :: bool
  wants_retry :: bool
  wants_reelevate :: bool

definition reelevate_step :: "u64 \<Rightarrow> bool \<Rightarrow> ('b, 'w) driver \<Rightarrow> bool \<times> ('b, 'w) driver" where
  "reelevate_step now owns d =
     (if owns then
        if dv_re_elevate_next_ms d = 0 then (False, d\<lparr>dv_re_elevate_next_ms := sat_add_u64 now RE_ELEVATE_FIRST_MS\<rparr>)
        else if now \<ge> dv_re_elevate_next_ms d then
          let backoff = (if dv_re_elevate_backoff_ms d = 0 then RE_ELEVATE_FIRST_MS
                else min (sat_mul_u64 (dv_re_elevate_backoff_ms d) 2) RE_ELEVATE_BACKOFF_MAX_MS)
          in (True, d\<lparr>dv_re_elevate_attempts := sat_add_u32 (dv_re_elevate_attempts d) 1,
                dv_re_elevate_backoff_ms := backoff, dv_re_elevate_next_ms := sat_add_u64 now backoff\<rparr>)
        else (False, d)
      else if dv_re_elevate_next_ms d \<noteq> 0 \<or> dv_re_elevate_attempts d \<noteq> 0 then
        (False, d\<lparr>dv_re_elevate_next_ms := 0, dv_re_elevate_attempts := 0, dv_re_elevate_backoff_ms := 0\<rparr>)
      else (False, d))"

definition tick_wanted :: "('b, 'w) kernel \<Rightarrow> tick_reading \<Rightarrow> bool \<Rightarrow> ('b, 'w, 'e, tick_wants) dv_op" where
  "tick_wanted K r owns = and_then get_state (\<lambda>d.
     let input_now = input_present_from_vin (tk_vbus r);
         replug = (dv_edge_armed d \<and> should_renegotiate_on_input_edge (phase_code (hv_phase (dv_hvdcp d)))
           (dv_last_input_present d) input_now)
     in and_then (monotonic_ms K) (\<lambda>now.
        let retry = superuser_retry_due (dv_retry_pending d) (dv_retry_attempts d) now (dv_retry_next_ms d)
        in and_then get_state (\<lambda>d. let (reelevate, d') = reelevate_step now owns d in
           and_then (modify (\<lambda>_. d'\<lparr>dv_last_input_present := input_now\<rparr>)) (\<lambda>_.
             ret \<lparr>wants_replug = replug, wants_retry = retry, wants_reelevate = reelevate\<rparr>))))"

definition renegotiate :: "('b, 'w) kernel \<Rightarrow> tick_wants \<Rightarrow> ('b, 'w, 'e, unit) dv_op" where
  "renegotiate K wants =
     (if wants_replug wants then
        and_then (mark_values [(''HvdcpReplug'', 1)]) (\<lambda>_.
        and_then (modify (\<lambda>d. d\<lparr>dv_hvdcp := (dv_hvdcp d)\<lparr>hv_force9v_latched := False\<rparr>\<rparr>)) (\<lambda>_.
        and_then (run_hvdcp_and_land K) (\<lambda>code.
        and_then (schedule_or_clear_superuser_retry K code) (\<lambda>_. arm_hvdcp_input_edge K))))
      else if wants_retry wants then
        and_then (modify (\<lambda>d. d\<lparr>dv_retry_attempts := sat_add_u32 (dv_retry_attempts d) 1\<rparr>)) (\<lambda>_.
        and_then (monotonic_ms K) (\<lambda>now.
        and_then (modify (\<lambda>d. d\<lparr>dv_retry_next_ms := sat_add_u64 now HVDCP_SUPERUSER_RETRY_MS\<rparr>)) (\<lambda>_.
        and_then get_state (\<lambda>d.
        and_then (mark_values [(''HvdcpRetryN'', dv_retry_attempts d)]) (\<lambda>_.
        and_then (run_hvdcp_and_land K) (\<lambda>code.
        and_then (schedule_or_clear_superuser_retry K code) (\<lambda>_.
          when_op (code = 0) (arm_hvdcp_input_edge K))))))))
      else if wants_reelevate wants then
        and_then get_state (\<lambda>d.
        and_then (mark_values [(''ReElevateN'', dv_re_elevate_attempts d)]) (\<lambda>_.
        and_then (run_hvdcp_and_land K) (\<lambda>code.
        and_then (schedule_or_clear_superuser_retry K code) (\<lambda>_. arm_hvdcp_input_edge K))))
      else ret ())"

definition arm_telemetry_timer :: "('b, 'w, 'e, unit) dv_op" where
  "arm_telemetry_timer = modify (\<lambda>d. d\<lparr>dv_timer_armed := True\<rparr>)"

section \<open>The tick\<close>

text \<open>The part under the borrow of the pump, from a status that was read.\<close>

definition tick_control :: "('b, 'w) kernel \<Rightarrow> tick_reading \<Rightarrow> guard_action \<Rightarrow> ('b, 'w, 'e, tick_wants) dv_op" where
  "tick_control K r action = and_then get_state (\<lambda>d.
     let cell = cell_vbat r d; desired = desired_mode r cell; owns = reelevate_owns r d in
     and_then (tick_marks (mode_marks r d)) (\<lambda>_.
     and_then (tick_window K r cell desired) (\<lambda>left.
     and_then (tick_charge K r desired action left) (\<lambda>_.
     and_then (discard (on_pump (service_watchdog (kn_bus K)))) (\<lambda>_.
       tick_wanted K r owns)))))"

definition tick_live :: "('b, 'w) kernel \<Rightarrow> gauge_poll \<Rightarrow> status \<Rightarrow> ('b, 'w, 'e, tick_wants) dv_op" where
  "tick_live K gauge st =
     and_then (tick_measure K st) (\<lambda>r.
     and_then (tick_adc_wake K r) (\<lambda>_.
     and_then (tick_battery r) (\<lambda>_.
     and_then (tick_input r) (\<lambda>_.
     and_then (tick_device K gauge r) (\<lambda>_.
     and_then (tick_guard K r) (\<lambda>action.
     and_then (tick_latches K r) (\<lambda>_.
       tick_control K r action)))))))"

text \<open>The timer is one-shot: it is not armed while its callback runs.\<close>

definition evt_telemetry_timer :: "('b, 'w) kernel \<Rightarrow> ('b, 'w, 'e, unit) dv_op" where
  "evt_telemetry_timer K =
     and_then (modify (\<lambda>d. d\<lparr>dv_timer_armed := False\<rparr>)) (\<lambda>_.
     and_then (read_gauge_if_due K) (\<lambda>gauge.
     and_then get_state (\<lambda>d.
       if dv_pump d = None then ret ()
       else and_then (on_pump (pump_status (kn_bus K))) (\<lambda>res. case res of
         Inl _ \<Rightarrow> and_then (modify (\<lambda>d. d\<lparr>dv_last_error := - 10\<rparr>)) (\<lambda>_. arm_telemetry_timer)
       | Inr st \<Rightarrow>
           and_then (tick_live K gauge st) (\<lambda>wants.
           and_then get_state (\<lambda>d. when_op (dv_device d) (
             and_then (renegotiate K wants) (\<lambda>_. arm_telemetry_timer))))))))"

end
