(* ===== verification/Kmdf_Ioctl.thy ===== *)
theory Kmdf_Ioctl
  imports Kmdf_Tick
begin

text \<open>
  The control requests of the pump driver (\<open>evt_io_device_control\<close> and its handlers in
  \<open>crates/ln8000-kmdf/src/lib.rs\<close>, the codes and structures of \<open>ioctl.rs\<close>), and the release of the hardware.
\<close>

section \<open>Requests\<close>

definition ctl_code :: "u32 \<Rightarrow> u32 \<Rightarrow> u32 \<Rightarrow> u32" where
  "ctl_code function method access = 0x22 * 2 ^ 16 + access * 2 ^ 14 + function * 2 ^ 2 + method"

definition IOCTL_LN8000_GET_STATUS :: u32 where "IOCTL_LN8000_GET_STATUS = ctl_code 0x810 0 0"
definition IOCTL_LN8000_READ_REG :: u32 where "IOCTL_LN8000_READ_REG = ctl_code 0x811 0 0"
definition IOCTL_LN8000_WRITE_REG :: u32 where "IOCTL_LN8000_WRITE_REG = ctl_code 0x812 0 0"
definition IOCTL_LN8000_SET_LIMITS :: u32 where "IOCTL_LN8000_SET_LIMITS = ctl_code 0x813 0 0"
definition IOCTL_LN8000_SET_MODE :: u32 where "IOCTL_LN8000_SET_MODE = ctl_code 0x814 0 0"
definition IOCTL_LN8000_GET_SESSIONS :: u32 where "IOCTL_LN8000_GET_SESSIONS = ctl_code 0x815 0 0"
definition IOCTL_LN8000_GET_SAMPLES :: u32 where "IOCTL_LN8000_GET_SAMPLES = ctl_code 0x816 0 0"
definition IOCTL_LN8000_SET_CHARGE :: u32 where "IOCTL_LN8000_SET_CHARGE = ctl_code 0x817 0 0"
definition IOCTL_LN8000_RUN_HVDCP :: u32 where "IOCTL_LN8000_RUN_HVDCP = ctl_code 0x818 0 0"

abbreviation (input) LN8000_STATUS_MAGIC :: u32 where "LN8000_STATUS_MAGIC \<equiv> 0x4C4E3830"
abbreviation (input) LN8000_STATUS_VERSION :: nat where "LN8000_STATUS_VERSION \<equiv> 1"

record ln8000_status =
  ls_magic :: u32
  ls_version :: nat
  ls_op_mode :: u8
  ls_state :: u8
  ls_sys_sts :: u8
  ls_fault1_sts :: u8
  ls_fault2_sts :: u8
  ls_safety_sts :: u8
  ls_critical_fault :: u8
  ls_iin_ua :: u32
  ls_vbat_uv :: u32
  ls_vbus_uv :: u32
  ls_die_temp_dc :: i32
  ls_sessions :: u64
  ls_samples :: u64
  ls_writes :: u32
  ls_reads :: u32
  ls_last_error :: i32

record reg_request =
  rr_addr :: u8
  rr_value :: u8
  rr_error :: i32

record limits_request =
  lr_iin_ua :: u32
  lr_vbat_uv :: u32
  lr_applied_iin_ua :: u32
  lr_error :: i32

record mode_request =
  mr_mode :: u8
  mr_applied_mode :: u8
  mr_error :: i32

record charge_request =
  cq_on :: u8
  cq_applied_mode :: u8
  cq_sys_sts :: u8
  cq_error :: i32

record sessions_answer =
  sa_total :: u64
  sa_current_ms :: u64
  sa_current_peak_iin_ua :: u32
  sa_current_fast :: u8
  sa_last_ms :: u64
  sa_last_peak_iin_ua :: u32
  sa_last_peak_temp_dc :: i32
  sa_last_fast :: u8

record ln8000_sample =
  sm_ts_ms :: u64
  sm_vbat_uv :: u32
  sm_vbus_uv :: u32
  sm_iin_ua :: u32
  sm_die_temp_dc :: i32
  sm_op_mode :: u8
  sm_input_present :: u8

record hvdcp_request =
  hr_command :: u8
  hr_apsd_status :: u8
  hr_apsd_result :: u8
  hr_pulse_cnt :: u8
  hr_phase :: u32
  hr_target_vbus_uv :: u32
  hr_estimated_vbus_uv :: u32
  hr_error :: i32

text \<open>
  The samples of an answer are the values written into the buffer with their byte offsets; the header stands
  at offset 0.
\<close>

datatype ioctl_answer =
    AnsStatus ln8000_status
  | AnsReg reg_request
  | AnsLimits limits_request
  | AnsMode mode_request
  | AnsCharge charge_request
  | AnsSessions sessions_answer
  | AnsSamples u32 u32 "ln8000_sample option" "(nat \<times> ln8000_sample) list"
  | AnsHvdcp hvdcp_request

text \<open>\<open>size_of\<close> of the \<open>repr(C)\<close> structures, with the padding of their alignment.\<close>

abbreviation (input) SAMPLE_SIZE :: nat where "SAMPLE_SIZE \<equiv> 32"
abbreviation (input) SAMPLES_REQUEST_SIZE :: nat where "SAMPLES_REQUEST_SIZE \<equiv> 40"

fun answer_size :: "ioctl_answer \<Rightarrow> nat" where
  "answer_size (AnsStatus _) = 64"
| "answer_size (AnsReg _) = 8"
| "answer_size (AnsLimits _) = 16"
| "answer_size (AnsMode _) = 8"
| "answer_size (AnsCharge _) = 8"
| "answer_size (AnsSessions _) = 48"
| "answer_size (AnsSamples _ _ _ _) = SAMPLES_REQUEST_SIZE"
| "answer_size (AnsHvdcp _) = 20"

text \<open>
  A request: its code, the input length it declares, the bytes the framework hands out as its input buffer
  (\<open>None\<close> where it refuses) and, for a demanded minimum, the length of the output buffer or a status.
\<close>

record ioctl_request =
  rq_code :: u32
  rq_input_length :: nat
  rq_input :: "u8 list option"
  rq_output_buffer :: "nat \<Rightarrow> i32 + nat"

record completion =
  cp_status :: i32
  cp_information :: nat
  cp_answer :: "ioctl_answer option"

abbreviation (input) ST_SUCCESS :: i32 where "ST_SUCCESS \<equiv> 0"
abbreviation (input) ST_INVALID_PARAMETER :: i32 where "ST_INVALID_PARAMETER \<equiv> - 1073741811"
abbreviation (input) ST_INVALID_DEVICE_REQUEST :: i32 where "ST_INVALID_DEVICE_REQUEST \<equiv> - 1073741808"
abbreviation (input) ST_BUFFER_TOO_SMALL :: i32 where "ST_BUFFER_TOO_SMALL \<equiv> - 1073741789"

definition complete_with :: "i32 \<Rightarrow> nat \<Rightarrow> completion" where
  "complete_with status information = \<lparr>cp_status = status, cp_information = information, cp_answer = None\<rparr>"

definition write_output :: "ioctl_request \<Rightarrow> ioctl_answer \<Rightarrow> completion" where
  "write_output rq a = (case rq_output_buffer rq (answer_size a) of
     Inl status \<Rightarrow> complete_with status 0
   | Inr _ \<Rightarrow> \<lparr>cp_status = ST_SUCCESS, cp_information = answer_size a, cp_answer = Some a\<rparr>)"

section \<open>Reading the input\<close>

definition read_input :: "ioctl_request \<Rightarrow> nat \<Rightarrow> (u8 list \<Rightarrow> 'a) \<Rightarrow> 'a option" where
  "read_input rq n parse = (case rq_input rq of
     None \<Rightarrow> None
   | Some bytes \<Rightarrow> if length bytes < n then None else Some (parse (take n bytes)))"

definition u32_at :: "u8 list \<Rightarrow> nat \<Rightarrow> u32" where
  "u32_at b i = unat (b ! i) + 256 * unat (b ! (i + 1)) + 65536 * unat (b ! (i + 2)) + 16777216 * unat (b ! (i + 3))"

definition i32_at :: "u8 list \<Rightarrow> nat \<Rightarrow> i32" where
  "i32_at b i = (let v = int (u32_at b i) in if v > i32_max then v - 4294967296 else v)"

definition parse_reg :: "u8 list \<Rightarrow> reg_request" where
  "parse_reg b = \<lparr>rr_addr = b ! 0, rr_value = b ! 1, rr_error = i32_at b 4\<rparr>"

definition parse_limits :: "u8 list \<Rightarrow> limits_request" where
  "parse_limits b = \<lparr>lr_iin_ua = u32_at b 0, lr_vbat_uv = u32_at b 4, lr_applied_iin_ua = u32_at b 8, lr_error = i32_at b 12\<rparr>"

definition parse_mode :: "u8 list \<Rightarrow> mode_request" where
  "parse_mode b = \<lparr>mr_mode = b ! 0, mr_applied_mode = b ! 1, mr_error = i32_at b 4\<rparr>"

definition parse_charge :: "u8 list \<Rightarrow> charge_request" where
  "parse_charge b = \<lparr>cq_on = b ! 0, cq_applied_mode = b ! 1, cq_sys_sts = b ! 2, cq_error = i32_at b 4\<rparr>"

text \<open>The shape the handlers with an input share: too short, unreadable, or a parsed request.\<close>

definition with_input ::
  "ioctl_request \<Rightarrow> nat \<Rightarrow> (u8 list \<Rightarrow> 'a) \<Rightarrow> ('a \<Rightarrow> ('b, 'w, 'e, completion) dv_op) \<Rightarrow> ('b, 'w, 'e, completion) dv_op" where
  "with_input rq n parse handle =
     (if rq_input_length rq < n then ret (complete_with ST_BUFFER_TOO_SMALL 0)
      else case read_input rq n parse of
        None \<Rightarrow> ret (complete_with ST_INVALID_PARAMETER 0)
      | Some x \<Rightarrow> handle x)"

section \<open>Registers, limits and modes\<close>

definition note_counters :: "('b, 'w, 'e, unit) dv_op" where
  "note_counters = modify (\<lambda>d. case dv_pump d of None \<Rightarrow> d | Some p \<Rightarrow> d\<lparr>dv_writes := p_writes p, dv_reads := p_reads p\<rparr>)"

definition handle_read_reg :: "('b, 'w) kernel \<Rightarrow> ioctl_request \<Rightarrow> ('b, 'w, 'e, completion) dv_op" where
  "handle_read_reg K rq = with_input rq 8 parse_reg (\<lambda>a. and_then get_state (\<lambda>d.
     if dv_pump d = None then ret (write_output rq (AnsReg (a\<lparr>rr_error := - 1\<rparr>)))
     else and_then (on_pump (read_register (kn_bus K) (rr_addr a))) (\<lambda>r.
          and_then note_counters (\<lambda>_.
            ret (write_output rq (AnsReg (case r of Inr v \<Rightarrow> a\<lparr>rr_value := v\<rparr> | Inl e \<Rightarrow> a\<lparr>rr_error := kmdf_error_code e\<rparr>)))))))"

definition handle_write_reg :: "('b, 'w) kernel \<Rightarrow> ioctl_request \<Rightarrow> ('b, 'w, 'e, completion) dv_op" where
  "handle_write_reg K rq = with_input rq 8 parse_reg (\<lambda>a. and_then get_state (\<lambda>d.
     if dv_pump d = None then ret (write_output rq (AnsReg (a\<lparr>rr_error := - 1\<rparr>)))
     else and_then (on_pump (write_register (kn_bus K) (rr_addr a) (rr_value a))) (\<lambda>r.
          and_then note_counters (\<lambda>_.
            ret (write_output rq (AnsReg (case r of Inr _ \<Rightarrow> a | Inl e \<Rightarrow> a\<lparr>rr_error := kmdf_error_code e\<rparr>)))))))"

definition apply_limit :: "('b, 'w) kernel \<Rightarrow> limits_request \<Rightarrow> ('b, 'w, 'e, limits_request) dv_op" where
  "apply_limit K a =
     (if lr_iin_ua a > 0 then
        and_then (on_pump (set_iin_limit (kn_bus K) (lr_iin_ua a))) (\<lambda>r. case r of
          Inr code \<Rightarrow> let applied = decode_iin_limit code in
            and_then (modify (\<lambda>d. d\<lparr>dv_limits := (dv_limits d)\<lparr>iin_max_ua := applied, iin_target_ua := applied\<rparr>\<rparr>)) (\<lambda>_.
              ret (a\<lparr>lr_applied_iin_ua := applied\<rparr>))
        | Inl e \<Rightarrow> ret (a\<lparr>lr_error := kmdf_error_code e\<rparr>))
      else ret a)"

definition apply_float :: "('b, 'w) kernel \<Rightarrow> limits_request \<Rightarrow> ('b, 'w, 'e, limits_request) dv_op" where
  "apply_float K a =
     (if lr_vbat_uv a > 0 then
        and_then (on_pump (set_vbat_float (kn_bus K) (lr_vbat_uv a))) (\<lambda>r.
          ret (case r of Inr _ \<Rightarrow> a | Inl e \<Rightarrow> a\<lparr>lr_error := kmdf_error_code e\<rparr>))
      else ret a)"

definition handle_set_limits :: "('b, 'w) kernel \<Rightarrow> ioctl_request \<Rightarrow> ('b, 'w, 'e, completion) dv_op" where
  "handle_set_limits K rq = with_input rq 16 parse_limits (\<lambda>a. and_then get_state (\<lambda>d.
     if dv_pump d = None then ret (write_output rq (AnsLimits (a\<lparr>lr_error := - 1\<rparr>)))
     else and_then (apply_limit K a) (\<lambda>a. and_then (apply_float K a) (\<lambda>a. ret (write_output rq (AnsLimits a))))))"

definition bypass_refused :: "('b, 'w) kernel \<Rightarrow> u8 \<Rightarrow> ('b, 'w, 'e, bool) dv_op" where
  "bypass_refused K mode =
     (if mode = 2 then
        and_then (with_pump 0 (read_adc (kn_bus K) Vin)) (\<lambda>vin.
        and_then (with_pump 0 (read_adc (kn_bus K) Vbat)) (\<lambda>vbat.
          ret (\<not> bypass_allowed_by_vin vin (non_negative_uv vbat))))
      else ret False)"

definition change_mode :: "'b reg_bus \<Rightarrow> u8 \<Rightarrow> ('b, u8) pump_op" where
  "change_mode B mode =
     (if mode = 1 then and_then (pump_standby B) (\<lambda>_. ret (op_mode_code Standby))
      else if mode = 2 then and_then (enable_bypass B) (\<lambda>m. ret (op_mode_code m))
      else and_then (enable_switching B) (\<lambda>m. ret (op_mode_code m)))"

definition handle_set_mode :: "('b, 'w) kernel \<Rightarrow> ioctl_request \<Rightarrow> ('b, 'w, 'e, completion) dv_op" where
  "handle_set_mode K rq = with_input rq 8 parse_mode (\<lambda>a.
     if \<not> (1 \<le> mr_mode a \<and> mr_mode a \<le> 3) then ret (complete_with ST_INVALID_PARAMETER 0)
     else and_then get_state (\<lambda>d.
       if dv_pump d = None then ret (write_output rq (AnsMode (a\<lparr>mr_error := - 1\<rparr>)))
       else and_then (bypass_refused K (mr_mode a)) (\<lambda>refused.
         if refused then ret (write_output rq (AnsMode (a\<lparr>mr_error := ERR_BYPASS_VIN_OUT_OF_WINDOW\<rparr>)))
         else and_then (on_pump (change_mode (kn_bus K) (mr_mode a))) (\<lambda>r.
           ret (write_output rq (AnsMode (case r of
             Inr mode \<Rightarrow> a\<lparr>mr_applied_mode := mode\<rparr> | Inl e \<Rightarrow> a\<lparr>mr_error := kmdf_error_code e\<rparr>)))))))"

definition handle_set_charge :: "('b, 'w) kernel \<Rightarrow> ioctl_request \<Rightarrow> ('b, 'w, 'e, completion) dv_op" where
  "handle_set_charge K rq = with_input rq 8 parse_charge (\<lambda>a. and_then get_state (\<lambda>d.
     if dv_pump d = None then ret (write_output rq (AnsCharge (a\<lparr>cq_error := - 1\<rparr>)))
     else and_then
       (if cq_on a \<noteq> 0 then
          and_then (recover_or_charge K) (\<lambda>(_, res). and_then (count_attempt K True res) (\<lambda>_. ret res))
        else on_pump (set_charging (kn_bus K) (kn_por K) False)) (\<lambda>res. case res of
         Inr applied \<Rightarrow>
           and_then (on_pump (pump_status (kn_bus K))) (\<lambda>st.
           and_then (modify (\<lambda>d. d\<lparr>dv_last_error := 0\<rparr>)) (\<lambda>_.
             ret (write_output rq (AnsCharge (a\<lparr>cq_applied_mode := op_mode_code applied,
               cq_sys_sts := (case st of Inl _ \<Rightarrow> 0 | Inr s \<Rightarrow> st_sys_sts s), cq_error := 0\<rparr>)))))
       | Inl e \<Rightarrow>
           and_then (modify (\<lambda>d. d\<lparr>dv_last_error := kmdf_error_code e\<rparr>)) (\<lambda>_.
             ret (write_output rq (AnsCharge (a\<lparr>cq_error := kmdf_error_code e\<rparr>)))))))"

section \<open>The negotiation on request\<close>

definition hvdcp_command :: "ioctl_request \<Rightarrow> completion + u8" where
  "hvdcp_command rq =
     (if rq_input_length rq \<ge> 20 then Inr (case read_input rq 20 (\<lambda>b. b ! 0) of Some c \<Rightarrow> c | None \<Rightarrow> 0)
      else if rq_input_length rq > 0 then Inl (complete_with ST_BUFFER_TOO_SMALL 0)
      else Inr 1)"

definition handle_run_hvdcp :: "('b, 'w) kernel \<Rightarrow> ioctl_request \<Rightarrow> ('b, 'w, 'e, completion) dv_op" where
  "handle_run_hvdcp K rq = (case hvdcp_command rq of
     Inl done \<Rightarrow> ret done
   | Inr command \<Rightarrow>
       and_then (negotiated_vbat K) (\<lambda>vbat.
       and_then
         (if command = 0 then and_then get_state (\<lambda>d.
            ret (if hv_phase (dv_hvdcp d) = PhIdle \<and> dv_usbin_id d = None then 0
                 else int (phase_code (hv_phase (dv_hvdcp d)))))
          else
            and_then (run_hvdcp_and_land K) (\<lambda>code.
            and_then (schedule_or_clear_superuser_retry K code) (\<lambda>_.
            and_then (arm_hvdcp_input_edge K) (\<lambda>_. ret code)))) (\<lambda>code.
       and_then get_state (\<lambda>d. let h = dv_hvdcp d in
         ret (write_output rq (AnsHvdcp
           \<lparr>hr_command = command, hr_apsd_status = hv_apsd_status h, hr_apsd_result = hv_apsd_result h,
            hr_pulse_cnt = word_of_nat (min (hv_pulse_cnt h) 255), hr_phase = phase_code (hv_phase h),
            hr_target_vbus_uv = target_vbus_uv vbat, hr_estimated_vbus_uv = estimated_vbus_uv (hv_pulse_cnt h),
            hr_error = code\<rparr>))))))"

section \<open>Status\<close>

definition kmdf_state_code :: "'b pump option \<Rightarrow> u8" where
  "kmdf_state_code p = (case p of None \<Rightarrow> 0
     | Some p \<Rightarrow> (case p_state p of Probed \<Rightarrow> 1 | Configured \<Rightarrow> 2 | PumpSwitching \<Rightarrow> 3 | Faulted \<Rightarrow> 4 | Closed \<Rightarrow> 0))"

definition status_base :: "('b, 'w) driver \<Rightarrow> ln8000_status" where
  "status_base d =
     \<lparr>ls_magic = LN8000_STATUS_MAGIC, ls_version = LN8000_STATUS_VERSION,
      ls_op_mode = (case dv_pump d of None \<Rightarrow> 0 | Some p \<Rightarrow> op_mode_code (p_op_mode p)),
      ls_state = kmdf_state_code (dv_pump d), ls_sys_sts = 0, ls_fault1_sts = 0, ls_fault2_sts = 0, ls_safety_sts = 0,
      ls_critical_fault = 0, ls_iin_ua = 0, ls_vbat_uv = 0, ls_vbus_uv = 0, ls_die_temp_dc = 0,
      ls_sessions = tm_session_total (dv_telemetry d), ls_samples = tm_sample_total (dv_telemetry d),
      ls_writes = dv_writes d, ls_reads = dv_reads d, ls_last_error = dv_last_error d\<rparr>"

definition status_live :: "status option \<Rightarrow> ln8000_status \<Rightarrow> ln8000_status" where
  "status_live live ls = (case live of None \<Rightarrow> ls
     | Some st \<Rightarrow> ls\<lparr>ls_op_mode := op_mode_code (st_op_mode st), ls_sys_sts := st_sys_sts st,
         ls_fault1_sts := st_fault1_sts st, ls_fault2_sts := st_fault2_sts st, ls_safety_sts := st_safety_sts st,
         ls_critical_fault := of_bool (has_critical_fault st)\<rparr>)"

text \<open>The last sample of the timer, or the channels themselves where there is none yet.\<close>

definition status_readings :: "('b, 'w) kernel \<Rightarrow> ln8000_status \<Rightarrow> ('b, 'w, 'e, ln8000_status) dv_op" where
  "status_readings K ls = (let B = kn_bus K in and_then get_state (\<lambda>d. case last_sample (dv_telemetry d) of
     Some s \<Rightarrow> ret ((if dv_pump d = None then ls\<lparr>ls_op_mode := op_mode_code (ts_op_mode s)\<rparr> else ls)
         \<lparr>ls_iin_ua := iin_ua s, ls_vbat_uv := vbat_uv s, ls_vbus_uv := vbus_uv s, ls_die_temp_dc := die_temp_dc s\<rparr>)
   | None \<Rightarrow>
       and_then (with_pump 0 (read_adc B Vbat)) (\<lambda>vbat.
       and_then (with_pump 0 (read_adc B Vin)) (\<lambda>vbus.
       and_then (with_pump 0 (read_adc B Iin)) (\<lambda>iin.
       and_then (with_pump 0 (read_adc B DieTemp)) (\<lambda>temp.
         ret (ls\<lparr>ls_vbat_uv := non_negative_uv vbat, ls_vbus_uv := non_negative_uv vbus,
           ls_iin_ua := non_negative_uv iin, ls_die_temp_dc := temp\<rparr>)))))))"

definition status_battery :: "('b, 'w) kernel \<Rightarrow> ln8000_status \<Rightarrow> ('b, 'w, 'e, unit) dv_op" where
  "status_battery K ls = when_op (ls_vbat_uv ls > 0 \<or> ls_vbus_uv ls > 0) (
     and_then (monotonic_ms K) (\<lambda>now.
     and_then get_state (\<lambda>d.
     and_then (on_battery (\<lambda>m. update_from_telemetry (ls_vbat_uv ls) (ls_vbus_uv ls) (ls_iin_ua ls) (dv_max_iin_ua d)
       (ls_fault1_sts ls AND FAULT1_VAC_UNPLUG \<noteq> 0) (ls_vbat_uv ls > 0 \<and> ls_vbus_uv ls > 0)
       (tr_rising (bm_soc_trend m)) now m)) (\<lambda>_.
     and_then get_state (\<lambda>d.
       tick_marks [(''BattPct'', bm_last_pct (dv_battery d)), (''BattVbat'', ls_vbat_uv ls div 1000),
         (''BattPwr'', unat (bm_last_power_state (dv_battery d)))])))))"

definition handle_get_status :: "('b, 'w) kernel \<Rightarrow> ioctl_request \<Rightarrow> ('b, 'w, 'e, completion) dv_op" where
  "handle_get_status K rq = and_then get_state (\<lambda>d.
     and_then (with_pump None (and_then (pump_status (kn_bus K)) (\<lambda>st. ret (Some st)))) (\<lambda>live.
     and_then (status_readings K (status_live live (status_base d))) (\<lambda>ls.
     and_then (status_battery K ls) (\<lambda>_.
       ret (write_output rq (AnsStatus ls))))))"

section \<open>The journal\<close>

definition handle_get_sessions :: "('b, 'w) kernel \<Rightarrow> ioctl_request \<Rightarrow> ('b, 'w, 'e, completion) dv_op" where
  "handle_get_sessions K rq =
     and_then (monotonic_ms K) (\<lambda>now. and_then get_state (\<lambda>d.
     let t = dv_telemetry d; current = tm_current t; last = last_completed t
     in ret (write_output rq (AnsSessions
       \<lparr>sa_total = tm_session_total t,
        sa_current_ms = (case current of None \<Rightarrow> 0 | Some s \<Rightarrow> duration_ms s now),
        sa_current_peak_iin_ua = (case current of None \<Rightarrow> 0 | Some s \<Rightarrow> peak_iin_ua s),
        sa_current_fast = (case current of None \<Rightarrow> 0 | Some s \<Rightarrow> of_bool (had_fast_mode s)),
        sa_last_ms = (case last of None \<Rightarrow> 0 | Some s \<Rightarrow> duration_ms s now),
        sa_last_peak_iin_ua = (case last of None \<Rightarrow> 0 | Some s \<Rightarrow> peak_iin_ua s),
        sa_last_peak_temp_dc = (case last of None \<Rightarrow> 0 | Some s \<Rightarrow> peak_die_temp_dc s),
        sa_last_fast = (case last of None \<Rightarrow> 0 | Some s \<Rightarrow> of_bool (had_fast_mode s))\<rparr>))))"

definition to_sample :: "telemetry_sample \<Rightarrow> ln8000_sample" where
  "to_sample s = \<lparr>sm_ts_ms = ts_ms s, sm_vbat_uv = vbat_uv s, sm_vbus_uv = vbus_uv s, sm_iin_ua = iin_ua s,
     sm_die_temp_dc = die_temp_dc s, sm_op_mode = op_mode_code (ts_op_mode s), sm_input_present = of_bool (input_present s)\<rparr>"

text \<open>The visit of the samples: each is written while the limit is not reached.\<close>

primrec write_samples :: "nat \<Rightarrow> nat \<Rightarrow> telemetry_sample list \<Rightarrow> (nat \<times> ln8000_sample) list" where
  "write_samples lim written [] = []"
| "write_samples lim written (s # ss) =
     (if written < lim then (SAMPLES_REQUEST_SIZE + written * SAMPLE_SIZE, to_sample s) # write_samples lim (written + 1) ss
      else write_samples lim written ss)"

definition samples_limit :: "ioctl_request \<Rightarrow> nat \<Rightarrow> nat" where
  "samples_limit rq len = (let capacity = (len - SAMPLES_REQUEST_SIZE) div SAMPLE_SIZE;
       requested = (case read_input rq SAMPLES_REQUEST_SIZE (\<lambda>b. u32_at b 0) of None \<Rightarrow> capacity | Some n \<Rightarrow> n)
     in min (min capacity requested) SAMPLE_RING)"

definition samples_answer :: "nat \<Rightarrow> telemetry \<Rightarrow> ioctl_answer" where
  "samples_answer lim t = (let placed = write_samples lim 0 (for_each_sample t) in
     AnsSamples lim (length placed) (case placed of [] \<Rightarrow> None | (_, s) # _ \<Rightarrow> Some s) placed)"

definition handle_get_samples :: "ioctl_request \<Rightarrow> ('b, 'w, 'e, completion) dv_op" where
  "handle_get_samples rq =
     (if rq_input_length rq < SAMPLES_REQUEST_SIZE then ret (complete_with ST_BUFFER_TOO_SMALL 0)
      else case rq_output_buffer rq SAMPLES_REQUEST_SIZE of
        Inl status \<Rightarrow> ret (complete_with status 0)
      | Inr len \<Rightarrow> and_then get_state (\<lambda>d.
          let lim = samples_limit rq len; written = length (write_samples lim 0 (for_each_sample (dv_telemetry d)))
          in ret \<lparr>cp_status = ST_SUCCESS, cp_information = SAMPLES_REQUEST_SIZE + written * SAMPLE_SIZE,
               cp_answer = Some (samples_answer lim (dv_telemetry d))\<rparr>))"

section \<open>Dispatch\<close>

definition evt_io_device_control :: "('b, 'w) kernel \<Rightarrow> ioctl_request \<Rightarrow> ('b, 'w, 'e, completion) dv_op" where
  "evt_io_device_control K rq = (let code = rq_code rq in
     if code = IOCTL_LN8000_GET_STATUS then handle_get_status K rq
     else if code = IOCTL_LN8000_READ_REG then handle_read_reg K rq
     else if code = IOCTL_LN8000_WRITE_REG then handle_write_reg K rq
     else if code = IOCTL_LN8000_SET_LIMITS then handle_set_limits K rq
     else if code = IOCTL_LN8000_SET_MODE then handle_set_mode K rq
     else if code = IOCTL_LN8000_SET_CHARGE then handle_set_charge K rq
     else if code = IOCTL_LN8000_RUN_HVDCP then handle_run_hvdcp K rq
     else if code = IOCTL_LN8000_GET_SESSIONS then handle_get_sessions K rq
     else if code = IOCTL_LN8000_GET_SAMPLES then handle_get_samples rq
     else ret (complete_with ST_INVALID_DEVICE_REQUEST 0))"

section \<open>Start of the negotiation and release of the hardware\<close>

definition try_autostart_hvdcp :: "('b, 'w) kernel \<Rightarrow> ('b, 'w, 'e, unit) dv_op" where
  "try_autostart_hvdcp K =
     and_then (mark_values [(''HvdcpAuto'', 1)]) (\<lambda>_.
     and_then (run_hvdcp_and_land K) (\<lambda>code.
     and_then (schedule_or_clear_superuser_retry K code) (\<lambda>_. arm_hvdcp_input_edge K)))"

definition evt_release_hardware :: "('b, 'w) kernel \<Rightarrow> ('b, 'w, 'e, unit) dv_op" where
  "evt_release_hardware K =
     and_then (modify (\<lambda>d. d\<lparr>dv_gauge_ready := False\<rparr>)) (\<lambda>_.
     and_then (modify (\<lambda>d. d\<lparr>dv_timer_armed := False\<rparr>)) (\<lambda>_.
     and_then (on_battery unload) (\<lambda>_.
     and_then (modify sysreq_release) (\<lambda>_.
     and_then (discard (on_pump (pump_standby (kn_bus K)))) (\<lambda>_.
     and_then (with_pump () (pump_close (kn_bus K))) (\<lambda>_.
       modify (\<lambda>d. d\<lparr>dv_pump := None, dv_retry_pending := False, dv_edge_armed := False,
         dv_last_input_present := False, dv_device := False\<rparr>)))))))"

end
