(* ===== verification/Kmdf_Prepare.thy ===== *)
theory Kmdf_Prepare
  imports Kmdf_Ioctl Spb_Bus
begin

text \<open>
  The start of the pump driver in \<open>crates/ln8000-kmdf/src/lib.rs\<close>: the connections of the device node, the
  parameters of the registry, the probes of the two bus routes, and \<open>evt_prepare_hardware\<close> from the pump's
  session to the armed timer.
\<close>

section \<open>Connections\<close>

text \<open>A connection is its id, class and type; a resource descriptor says whether it is one.\<close>

type_synonym connection = "u64 \<times> u32 \<times> u32"

abbreviation (input) CONNECTION_CLASS_SERIAL :: u32 where "CONNECTION_CLASS_SERIAL \<equiv> 0x02"
abbreviation (input) CONNECTION_TYPE_SERIAL_I2C :: u32 where "CONNECTION_TYPE_SERIAL_I2C \<equiv> 0x01"
abbreviation (input) CONNECTION_TYPE_SERIAL_SPI :: u32 where "CONNECTION_TYPE_SERIAL_SPI \<equiv> 0x02"
abbreviation (input) CONNECTION_TYPE_SERIAL_SPMI_VENDOR :: u32 where "CONNECTION_TYPE_SERIAL_SPMI_VENDOR \<equiv> 0xC1"

record descriptor =
  ds_connection :: bool
  ds_low :: u32
  ds_high :: u32
  ds_class :: u32
  ds_type :: u32

text \<open>The first four connections of the list; the array of the source has four places.\<close>

definition collect_connections :: "descriptor list \<Rightarrow> connection list" where
  "collect_connections ds = take 4 (map (\<lambda>x. (ds_high x * 2 ^ 32 + ds_low x, ds_class x, ds_type x)) (filter ds_connection ds))"

definition select_i2c_connection :: "connection list \<Rightarrow> u64 option" where
  "select_i2c_connection cs =
     (case find (\<lambda>(_, class, kind). class = CONNECTION_CLASS_SERIAL \<and> kind = CONNECTION_TYPE_SERIAL_I2C) cs of
        Some (i, _, _) \<Rightarrow> Some i
      | None \<Rightarrow> (case find (\<lambda>(_, class, kind). class = CONNECTION_CLASS_SERIAL \<and> kind = CONNECTION_TYPE_SERIAL_SPI) cs of
          Some (i, _, _) \<Rightarrow> Some i
        | None \<Rightarrow> None))"

definition select_usbin_connection :: "connection list \<Rightarrow> u64 \<Rightarrow> u64 option" where
  "select_usbin_connection cs i2c_id =
     (case find (\<lambda>(i, class, kind). \<not> (i = i2c_id \<or> class \<noteq> CONNECTION_CLASS_SERIAL) \<and>
           (kind = CONNECTION_TYPE_SERIAL_SPMI_VENDOR \<or> kind \<noteq> CONNECTION_TYPE_SERIAL_I2C)) cs of
        Some (i, _, _) \<Rightarrow> Some i
      | None \<Rightarrow> (case find (\<lambda>(i, class, _). class = CONNECTION_CLASS_SERIAL \<and> i \<noteq> i2c_id) cs of
          Some (i, _, _) \<Rightarrow> Some i
        | None \<Rightarrow> None))"

definition connection_marks :: "nat \<Rightarrow> connection \<Rightarrow> (string \<times> u32) list" where
  "connection_marks index c = (case c of (i, class, kind) \<Rightarrow>
     let n = (if index = 0 then ''C0'' else if index = 1 then ''C1'' else if index = 2 then ''C2'' else ''C3'')
     in [(n @ ''Class'', class), (n @ ''Type'', kind), (n @ ''Low'', i mod 2 ^ 32)])"

section \<open>Parameters\<close>

text \<open>The registry: whether its two keys open, and the values of the second.\<close>

record registry =
  rg_device_key :: bool
  rg_parameters_key :: bool
  rg_value :: "string \<Rightarrow> u32 option"

record driver_params =
  pr_config :: pump_config
  pr_limits :: guard_limits
  pr_telemetry_ms :: u32
  pr_fcc_raw :: u32
  pr_publish_battery :: bool

abbreviation (input) PROFILE_NOT_SET :: u32 where "PROFILE_NOT_SET \<equiv> 0xFFFFFFFF"

definition profile_marks :: "pump_config \<Rightarrow> u32 option \<Rightarrow> (string \<times> u32) list" where
  "profile_marks config selected =
     [(''ProfLoops'', of_bool (\<not> cfg_vbat_reg_disabled config \<and> \<not> cfg_iin_reg_disabled config)),
      (''ProfSel'', case selected of Some v \<Rightarrow> v | None \<Rightarrow> PROFILE_NOT_SET)]"

definition config_names :: "string list" where
  "config_names = [''ProtectionProfile'', ''IinLimitUa'', ''VbatFloatUv'', ''VacOvpUv'', ''NtcAlarmCfg'', ''WatchdogEnabled'']"

definition limit_names :: "string list" where
  "limit_names = [''TempReduceDc'', ''TempBypassDc'', ''TempStopDc'', ''IinMaxUa'', ''IinTargetUa'', ''IinFloorUa'', ''VbatReduceUv'']"

definition read_config :: "(string \<Rightarrow> u32 option) \<Rightarrow> pump_config \<Rightarrow> pump_config \<times> u32 option" where
  "read_config query config = fold (\<lambda>name (config, profile). case query name of
       None \<Rightarrow> (config, profile)
     | Some v \<Rightarrow> (case config_apply_parameter name v config of (accepted, config) \<Rightarrow>
         (config, if accepted \<and> name = ''ProtectionProfile'' then Some v else profile)))
     config_names (config, None)"

definition read_limits :: "(string \<Rightarrow> u32 option) \<Rightarrow> guard_limits \<Rightarrow> guard_limits" where
  "read_limits query before =
     (let limits = fold (\<lambda>name l. case query name of None \<Rightarrow> l | Some v \<Rightarrow> snd (apply_parameter_lenient name v l)) limit_names before
      in if \<not> limits_validate limits then before else limits)"

definition params_default :: driver_params where
  "params_default = \<lparr>pr_config = for_qc35_class_b,
     pr_limits = limits_standard\<lparr>iin_profile_ua := cfg_iin_limit_ua for_qc35_class_b\<rparr>,
     pr_telemetry_ms = 250, pr_fcc_raw = 0, pr_publish_battery = True\<rparr>"

definition read_parameters :: "registry \<Rightarrow> driver_params \<times> (string \<times> u32) list" where
  "read_parameters g =
     (let query = rg_value g; d = params_default in
      if \<not> rg_device_key g \<or> \<not> rg_parameters_key g
      then (d, (''FccCfgRaw'', 0) # profile_marks (pr_config d) None)
      else let (config, profile) = read_config query (pr_config d);
               limits = (pr_limits d)\<lparr>iin_profile_ua := cfg_iin_limit_ua config\<rparr>;
               telemetry = (case query ''TelemetryMs'' of
                 Some ms \<Rightarrow> if 100 \<le> ms \<and> ms \<le> 60000 then ms else pr_telemetry_ms d | None \<Rightarrow> pr_telemetry_ms d);
               publish = (case query ''PublishBattery'' of Some v \<Rightarrow> v \<noteq> 0 | None \<Rightarrow> True);
               fcc = (case query ''FccRaw'' of Some raw \<Rightarrow> raw | None \<Rightarrow> 0)
           in (\<lparr>pr_config = config, pr_limits = read_limits query limits, pr_telemetry_ms = telemetry, pr_fcc_raw = fcc,
                pr_publish_battery = publish\<rparr>,
               (''FccCfgRaw'', fcc) # profile_marks config profile))"

section \<open>Probes of a bus\<close>

text \<open>The mark of a value that was not read.\<close>

abbreviation (input) NO_ANSWER :: u32 where "NO_ANSWER \<equiv> 0xFFFFFFFF"
abbreviation (input) USBIN_APSD_STATUS :: u16 where "USBIN_APSD_STATUS \<equiv> 0x1307"
abbreviation (input) IOCTL_SPB_LOCK_CONTROLLER :: u32 where "IOCTL_SPB_LOCK_CONTROLLER \<equiv> 0x00041800"
abbreviation (input) IOCTL_SPB_UNLOCK_CONTROLLER :: u32 where "IOCTL_SPB_UNLOCK_CONTROLLER \<equiv> 0x00041804"
abbreviation (input) IOCTL_SPB_UNLOCK_CONNECTION :: u32 where "IOCTL_SPB_UNLOCK_CONNECTION \<equiv> 0x00041810"
abbreviation (input) IOCTL_SPB_FULL_DUPLEX :: u32 where "IOCTL_SPB_FULL_DUPLEX \<equiv> 0x00041814"
abbreviation (input) IOCTL_SPB_MULTI_SPI_TRANSFER :: u32 where "IOCTL_SPB_MULTI_SPI_TRANSFER \<equiv> 0x00041818"

definition probe_names :: "(u8 \<times> string \<times> string) list" where
  "probe_names = [(0, ''Ok0'', ''St0''), (1, ''Ok1'', ''St1''), (2, ''Ok2'', ''St2''), (3, ''Ok3'', ''St3''),
     (4, ''Ok4'', ''St4''), (5, ''Ok5'', ''St5'')]"

definition hub_names :: "(u8 \<times> string \<times> string) list" where
  "hub_names = [(0, ''Hub0'', ''HubS0''), (1, ''Hub1'', ''HubS1''), (2, ''Hub2'', ''HubS2''), (3, ''Hub3'', ''HubS3''),
     (4, ''Hub4'', ''HubS4''), (5, ''Hub5'', ''HubS5'')]"

text \<open>The loop over the transfer variants, for the parent route and for the resource node.\<close>

definition probe_variant ::
  "'x wdf \<Rightarrow> string \<Rightarrow> u8 \<times> string \<times> string \<Rightarrow> 'x spb_bus \<times> u8 option \<times> (string \<times> u32) list \<Rightarrow>
     'x spb_bus \<times> u8 option \<times> (string \<times> u32) list" where
  "probe_variant W value_name probe acc = (case probe of (variant, ok_name, st_name) \<Rightarrow> case acc of (bus, working, ms) \<Rightarrow>
     case transact W DEVICE_ID None (set_variant variant bus) of (r, bus) \<Rightarrow>
       (case r of
          Inr v \<Rightarrow> (bus, if v = DEVICE_ID_VALUE \<and> working = None then Some variant else working,
            ms @ [(ok_name, 1), (value_name, unat v), (st_name, as_u32 (sb_last_status bus))])
        | Inl _ \<Rightarrow> (bus, working, ms @ [(ok_name, 0), (st_name, as_u32 (sb_last_status bus))])))"

definition probe_variants ::
  "'x wdf \<Rightarrow> string \<Rightarrow> (u8 \<times> string \<times> string) list \<Rightarrow> 'x spb_bus \<Rightarrow> 'x spb_bus \<times> u8 option \<times> (string \<times> u32) list" where
  "probe_variants W value_name names bus = fold (probe_variant W value_name) names (bus, None, [])"

definition probe_attach :: "'x wdf \<Rightarrow> 'x spb_bus \<Rightarrow> 'x spb_bus \<times> (string \<times> u32) list" where
  "probe_attach W bus = (case attach W bus of (status, bus) \<Rightarrow>
     (bus, (''AttachStatus'', as_u32 status) #
       map (\<lambda>(i, name). (name, attach_word i bus)) [(0, ''Att0''), (1, ''Att1''), (2, ''Att2''), (3, ''Att3'')]))"

definition probe_parent :: "'x wdf \<Rightarrow> 'x spb_bus \<Rightarrow> 'x spb_bus \<times> (string \<times> u32) list" where
  "probe_parent W bus = (case probe_attach W bus of (bus, attached) \<Rightarrow>
     case probe_variants W ''ProbeValue'' probe_names bus of (bus, working, ms) \<Rightarrow>
       (case working of
          Some variant \<Rightarrow> (set_variant variant bus, attached @ ms @ [(''Variant'', unat variant)])
        | None \<Rightarrow> (bus, attached @ ms)))"

definition probe_locked :: "'x wdf \<Rightarrow> 'x spb_bus \<Rightarrow> 'x spb_bus \<times> (string \<times> u32) list" where
  "probe_locked W bus = (case lock_connection W bus of (lock, bus) \<Rightarrow>
     case transact W DEVICE_ID None (set_variant 0 bus) of (r, bus) \<Rightarrow>
       (bus, [(''LockStatus'', as_u32 lock), (''LockOk'', of_bool (lock \<ge> 0))] @
         (case r of Inr v \<Rightarrow> [(''LockedOk'', 1), (''LockedValue'', unat v)] | Inl _ \<Rightarrow> [(''LockedOk'', 0)]) @
         [(''LockedStatus'', as_u32 (sb_last_status bus))]))"

definition probe_registers :: "'x wdf \<Rightarrow> 'x spb_bus \<Rightarrow> 'x spb_bus \<times> (string \<times> u32) list" where
  "probe_registers W bus = fold (\<lambda>(address, name) (bus, ms).
     case transact W address None (set_variant 0 bus) of (r, bus) \<Rightarrow>
       (bus, ms @ [(name, case r of Inr v \<Rightarrow> unat v | Inl _ \<Rightarrow> NO_ANSWER)]))
     [(0x00, ''Reg00''), (0x03, ''Reg03''), (0x31, ''Reg31'')] (bus, [])"

definition probe_ioctls :: "'x wdf \<Rightarrow> 'x spb_bus \<Rightarrow> 'x spb_bus \<times> (string \<times> u32) list" where
  "probe_ioctls W bus = fold (\<lambda>(name, code) (bus, ms).
     case probe_ioctl W code bus of (status, bus) \<Rightarrow> (bus, ms @ [(name, as_u32 status)]))
     [(''Io0'', IOCTL_SPB_LOCK_CONTROLLER), (''Io1'', IOCTL_SPB_UNLOCK_CONTROLLER), (''Io2'', IOCTL_SPB_EXECUTE_SEQUENCE),
      (''Io3'', IOCTL_SPB_LOCK_CONNECTION), (''Io4'', IOCTL_SPB_UNLOCK_CONNECTION), (''Io5'', IOCTL_SPB_FULL_DUPLEX),
      (''Io6'', IOCTL_SPB_MULTI_SPI_TRANSFER)] (bus, [])"

text \<open>The resource node of the pump, and other connection ids that may lead to it.\<close>

definition probe_hub ::
  "'x wdf \<Rightarrow> (u64 \<Rightarrow> bool \<Rightarrow> 'x spb_bus option) \<Rightarrow> u64 \<Rightarrow> 'x spb_bus option \<times> u8 option \<times> (string \<times> u32) list" where
  "probe_hub W open_bus peripheral_id = (case open_bus peripheral_id True of
     None \<Rightarrow> (None, None, [(''Hub0'', NO_ANSWER)])
   | Some hub \<Rightarrow> (case probe_variants W ''HubValue'' hub_names hub of (hub, working, ms) \<Rightarrow> (Some hub, working, ms)))"

definition candidates :: "(u64 \<times> string) list" where
  "candidates = [(2, ''Sc2''), (3, ''Sc3''), (4, ''Sc4''), (5, ''Sc5''), (6, ''Sc6''), (8, ''Sc8''), (16, ''Sc16''),
     (56, ''Sc56''), (0x13, ''Sc13''), (0x31, ''Sc31''), (0x131, ''Sc131''), (0x135, ''Sc135''), (0x213, ''Sc213'')]"

definition probe_candidate ::
  "'x wdf \<Rightarrow> (u64 \<Rightarrow> bool \<Rightarrow> 'x spb_bus option) \<Rightarrow> u64 \<times> string \<Rightarrow> (string \<times> u32) list" where
  "probe_candidate W open_bus c = (case c of (candidate, name) \<Rightarrow> case open_bus candidate True of
     Some probe \<Rightarrow> (case transact W DEVICE_ID None (set_variant 0 probe) of (r, probe) \<Rightarrow>
       [(name @ ''Open'', 1), (name @ ''St'', as_u32 (sb_last_status probe)),
        (name @ ''Val'', case r of Inr v \<Rightarrow> unat v | Inl _ \<Rightarrow> NO_ANSWER)])
   | None \<Rightarrow> [(name @ ''Open'', 0), (name @ ''St'', NO_ANSWER), (name @ ''Val'', NO_ANSWER)])"

definition probe_usbin_spmi ::
  "'x wdf \<Rightarrow> (u64 \<Rightarrow> bool \<Rightarrow> 'x spb_bus option) \<Rightarrow> u64 option \<Rightarrow> (string \<times> u32) list" where
  "probe_usbin_spmi W open_bus usbin = (case usbin of
     None \<Rightarrow> [(''UsbinOpen'', NO_ANSWER)]
   | Some i \<Rightarrow> (case open_bus i True of
       None \<Rightarrow> [(''UsbinOpen'', 0)]
     | Some bus \<Rightarrow> snd (fold (\<lambda>(big_endian, st_name, val_name) (bus, ms).
         case transact_spmi16 W USBIN_APSD_STATUS None big_endian bus of (r, bus) \<Rightarrow>
           (bus, ms @ (case r of
              Inr v \<Rightarrow> [(st_name, 0), (val_name, unat v)]
            | Inl _ \<Rightarrow> [(st_name, as_u32 (sb_last_status bus)), (val_name, NO_ANSWER)])))
         [(True, ''UsbinBeSt'', ''UsbinBeVal''), (False, ''UsbinLeSt'', ''UsbinLeVal'')]
         (set_variant 0 bus, [(''UsbinOpen'', 1)]))))"

text \<open>The names of other device objects, with the access and the sharing they are opened with.\<close>

definition device_name :: "string list \<Rightarrow> string" where
  "device_name parts = concat (map (\<lambda>part. CHR 0x5C # part) parts)"

abbreviation (input) PROBE_SHARE_ALL :: u32 where "PROBE_SHARE_ALL \<equiv> 7"

definition named_targets :: "(string \<times> string list \<times> u32 \<times> u32) list" where
  "named_targets =
     [(''SpmiProbeSuperuser'', [''Device'', ''Spmi'', ''SUPERUSER''], 0x001F01FF, 0),
      (''SpmiProbeSpmi'', [''Device'', ''Spmi''], 0x001F01FF, 0), (''SpmiProbeUpperName'', [''Device'', ''SPMI''], 0x001F01FF, 0),
      (''SpmiProbeLowerName'', [''Device'', ''spmi''], 0x001F01FF, 0), (''SpmiProbeArb'', [''Device'', ''SpmiArb''], 0x001F01FF, 0)] @
     map (\<lambda>(mark, access). (mark, [''Device'', ''Spmi'', ''SUPERUSER''], access, 0))
       [(''SpmiSuAcc0'', 0), (''SpmiSuAcc1'', 1), (''SpmiSuAcc2'', 2), (''SpmiSuAcc3'', 3), (''SpmiSuAcc4'', 0x80000000),
        (''SpmiSuAcc5'', 0x40000000), (''SpmiSuAcc6'', 0xC0000000), (''SpmiSuAcc7'', 0x00010000)] @
     map (\<lambda>(mark, parts). (mark, parts, 0x001F01FF, PROBE_SHARE_ALL))
       [(''PmicOpenQcompmic'', [''DosDevices'', ''Global'', ''QCOMPMIC'']), (''PmicOpenBattmgr'', [''DosDevices'', ''Global'', ''QCOMBATTMGR'']),
        (''PmicOpenPmictcc'', [''DosDevices'', ''Global'', ''QCOMPMICTCC'']), (''PmicOpenPmicapps'', [''DosDevices'', ''Global'', ''QCOMPMICAPPS'']),
        (''PmicOpenMiceic'', [''DosDevices'', ''Global'', ''QCOMPMICEIC'']), (''PmicOpenBattmini'', [''DosDevices'', ''Global'', ''QCBatteryMiniclass'']),
        (''AdcOpenQcomAdc'', [''??'', ''QCOM_ADC'']), (''AdcOpenQcomAdc2'', [''??'', ''QCOM_ADC2'']), (''AdcOpenQcomAdc3'', [''??'', ''QCOM_ADC3'']),
        (''HubOpenBare'', [''Device'', ''RESOURCE_HUB'']), (''SpmiSuShare'', [''Device'', ''Spmi'', ''SUPERUSER''])]"

text \<open>\<open>SuperuserApsdProbe\<close>, and what the operations of \<open>Kmdf_Probes\<close> leave while the hardware is prepared.\<close>

record apsd_probe =
  ap_open_status :: i32
  ap_grant_status :: i32
  ap_read_status :: i32
  ap_value :: u8

record diagnostics =
  dg_parent_attach :: "i32 \<times> u32 list"
  dg_parent_sequence :: "i32 \<times> u32"
  dg_named :: "string \<Rightarrow> u32 \<Rightarrow> u32 \<Rightarrow> i32"
  dg_apsd :: apsd_probe

definition attach_marks :: "i32 \<times> u32 list \<Rightarrow> (string \<times> u32) list" where
  "attach_marks res = (case res of (status, words) \<Rightarrow>
     (if status \<ge> 0 then zip [''Par0'', ''Par1'', ''Par2'', ''Par3''] words else []) @
     [(''ParAttachStatus'', as_u32 status), (''ParAttachOk'', of_bool (status \<ge> 0))])"

definition sequence_marks :: "i32 \<times> u32 \<Rightarrow> (string \<times> u32) list" where
  "sequence_marks res = (case res of (status, value_read) \<Rightarrow>
     (if status \<ge> 0 then [(''ParSeqValue'', value_read)] else []) @
     [(''ParSeqStatus'', as_u32 status), (''ParSeqOk'', of_bool (status \<ge> 0))])"

definition named_marks :: "diagnostics \<Rightarrow> (string \<times> u32) list" where
  "named_marks g =
     map (\<lambda>(mark, parts, access, share). (mark, as_u32 (dg_named g (device_name parts) access share))) named_targets"

definition apsd_marks :: "apsd_probe \<Rightarrow> (string \<times> u32) list" where
  "apsd_marks a = [(''SuOpen'', as_u32 (ap_open_status a)), (''SuGrant'', as_u32 (ap_grant_status a)),
     (''SuApsdSt'', as_u32 (ap_read_status a)), (''SuApsdVal'', unat (ap_value a))]"

section \<open>Starting the pump\<close>

abbreviation (input) ST_DEVICE_NOT_READY :: i32 where "ST_DEVICE_NOT_READY \<equiv> - 1073741661"
abbreviation (input) ST_UNSUCCESSFUL :: i32 where "ST_UNSUCCESSFUL \<equiv> - 1073741823"

definition stage_marks :: "u32 \<Rightarrow> i32 \<Rightarrow> (string \<times> u32) list" where
  "stage_marks stage status = [(''AddStage'', stage), (''AddStatus'', as_u32 status)]"

text \<open>What the system answers while the hardware is prepared.\<close>

record system_answers =
  sy_fdo :: bool
  sy_pdo :: bool
  sy_class_status :: int
  sy_class_handle :: bool
  sy_wmi_status :: int
  sy_power_create :: i32
  sy_power_set :: i32

record first_sample =
  fs_vbat :: i32
  fs_vbus :: i32
  fs_iin :: i32
  fs_usable :: bool
  fs_unplug :: bool

text \<open>Up to three readings, until the cell answers.\<close>

primrec first_readings :: "('b, 'w) kernel \<Rightarrow> nat \<Rightarrow> first_sample \<Rightarrow> ('b, 'w, 'e, first_sample) dv_op" where
  "first_readings K 0 s = ret s"
| "first_readings K (Suc n) s = (let B = kn_bus K in
     and_then (on_pump (read_adc B Vbat)) (\<lambda>vbat.
     and_then (on_pump (read_adc B Vin)) (\<lambda>vbus.
     and_then (on_pump (read_adc B Iin)) (\<lambda>iin.
     and_then (on_pump (read_register B FAULT1_STS)) (\<lambda>f1.
     let s = \<lparr>fs_vbat = reading_or_zero vbat, fs_vbus = reading_or_zero vbus, fs_iin = reading_or_zero iin,
              fs_usable = (answered vbat \<and> answered vbus \<and> reading_or_zero vbat > 0 \<and> reading_or_zero vbus > 0),
              fs_unplug = (case f1 of Inl _ \<Rightarrow> False | Inr v \<Rightarrow> v AND FAULT1_VAC_UNPLUG \<noteq> 0)\<rparr>
     in if fs_vbat s > 0 then ret s else first_readings K n s)))))"

definition publish_battery :: "('b, 'w) kernel \<Rightarrow> system_answers \<Rightarrow> bool \<Rightarrow> ('b, 'w, 'e, unit) dv_op" where
  "publish_battery K sys publish =
     and_then (mark_values [(''BattPub'', of_bool publish)]) (\<lambda>_. when_op publish (
     and_then get_state (\<lambda>d.
     let (status, m) = initialize (sy_fdo sys) (sy_pdo sys) (sy_class_status sys) (sy_class_handle sys) (sy_wmi_status sys) (dv_battery d)
     in and_then (on_battery (\<lambda>_. m)) (\<lambda>_. when_op (status = STATUS_SUCCESS) (
       and_then (first_readings K 3 \<lparr>fs_vbat = 0, fs_vbus = 0, fs_iin = 0, fs_usable = False, fs_unplug = False\<rparr>) (\<lambda>s.
       and_then (monotonic_ms K) (\<lambda>now.
       and_then get_state (\<lambda>d.
       and_then (on_battery (\<lambda>m. update_from_telemetry (non_negative_uv (fs_vbat s)) (non_negative_uv (fs_vbus s))
         (non_negative_uv (fs_iin s)) (max (dv_max_iin_ua d) (non_negative_uv (fs_iin s))) (fs_unplug s) (fs_usable s)
         (tr_rising (bm_soc_trend m)) now m)) (\<lambda>_.
       and_then get_state (\<lambda>d. mark_values [(''BattPct'', bm_last_pct (dv_battery d)),
         (''BattVbat'', non_negative_uv (fs_vbat s) div 1000), (''BattPwr'', unat (bm_last_power_state (dv_battery d)))]))))))))))"

text \<open>A method on the session that is not yet the driver's.\<close>

definition on_session :: "'b pump \<Rightarrow> ('b, 'a) pump_op \<Rightarrow> ('b, 'w, 'e, (pump_error + 'a) \<times> 'b pump) dv_op" where
  "on_session p m = (\<lambda>d. case m p of None \<Rightarrow> None | Some (r, q) \<Rightarrow> Some (Inr (r, q), d))"

definition hold_power :: "system_answers \<Rightarrow> ('b, 'w, 'e, unit) dv_op" where
  "hold_power sys = and_then get_state (\<lambda>d.
     let (status, d') = sysreq_acquire (sy_fdo sys) (sy_power_create sys) (sy_power_set sys) d
     in and_then (modify (\<lambda>_. d')) (\<lambda>_. mark_values [(''SysReqSt'', as_u32 status), (''SysReqOk'', of_bool (status \<ge> 0))]))"

definition adopt_pump ::
  "('b, 'w) kernel \<Rightarrow> driver_params \<Rightarrow> system_answers \<Rightarrow> 'b pump \<Rightarrow> ('b, 'w, 'e, i32) dv_op" where
  "adopt_pump K params sys p =
     and_then (mark_values [(''PumpOpen'', 1)]) (\<lambda>_.
     and_then (modify (\<lambda>d. d\<lparr>dv_pump := Some p, dv_telemetry_ms := pr_telemetry_ms params,
       dv_fcc_cfg_raw := pr_fcc_raw params, dv_limits := pr_limits params\<rparr>)) (\<lambda>_.
     and_then (try_autostart_hvdcp K) (\<lambda>_.
     and_then (publish_battery K sys (pr_publish_battery params)) (\<lambda>_.
     and_then (hold_power sys) (\<lambda>_.
     and_then arm_telemetry_timer (\<lambda>_.
     and_then (modify (\<lambda>d. d\<lparr>dv_gauge_ready := True\<rparr>)) (\<lambda>_.
     and_then (mark_values (stage_marks 0xFE 0)) (\<lambda>_. ret ST_SUCCESS))))))))"

definition start_pump ::
  "('b, 'w) kernel \<Rightarrow> driver_params \<Rightarrow> system_answers \<Rightarrow> 'b \<Rightarrow> ('b, 'w, 'e, i32) dv_op" where
  "start_pump K params sys bus = (case pump_open (kn_bus K) (pr_config params) bus of
     Inl _ \<Rightarrow>
       and_then (modify (\<lambda>d. d\<lparr>dv_last_error := - 2\<rparr>)) (\<lambda>_.
       and_then (mark_values ([(''PumpOpen'', 0), (''PumpFailStatus'', as_u32 ST_UNSUCCESSFUL)] @ stage_marks 32 ST_UNSUCCESSFUL)) (\<lambda>_.
         ret ST_SUCCESS))
   | Inr p \<Rightarrow>
       and_then (on_session p (configure (kn_bus K))) (\<lambda>(r, p). case r of
         Inl _ \<Rightarrow>
           and_then (modify (\<lambda>d. d\<lparr>dv_last_error := - 3\<rparr>)) (\<lambda>_.
           and_then (mark_values (stage_marks 33 0)) (\<lambda>_. ret ST_DEVICE_NOT_READY))
       | Inr _ \<Rightarrow> and_then (on_session p (pump_standby (kn_bus K))) (\<lambda>(_, p). adopt_pump K params sys p)))"

section \<open>Preparing the hardware\<close>

text \<open>
  The route of the pump, and what the probes leave in the registry. \<open>open_bus\<close> is \<open>SpbBus::open\<close> of a
  connection, over the parent or the resource node. The variant is the one that answered on the resource
  node, also for the parent route.
\<close>

definition choose_pump_bus ::
  "'x wdf \<Rightarrow> (u64 \<Rightarrow> bool \<Rightarrow> 'x spb_bus option) \<Rightarrow> diagnostics \<Rightarrow> u64 \<Rightarrow> u64 option \<Rightarrow> 'x spb_bus \<Rightarrow>
     'x spb_bus \<times> (string \<times> u32) list" where
  "choose_pump_bus W open_bus dg peripheral_id usbin bus =
     (let (bus, parent_marks) = probe_parent W bus;
          (bus, locked_marks) = probe_locked W bus;
          (bus, register_marks) = probe_registers W bus;
          (bus, ioctl_marks) = probe_ioctls W bus;
          (hub, hub_working, hub_marks) = probe_hub W open_bus peripheral_id;
          scanned = (if hub \<noteq> None then concat (map (probe_candidate W open_bus) candidates) else []);
          variant = (case hub_working of Some v \<Rightarrow> v | None \<Rightarrow> 0)
      in (set_variant variant (case hub of Some h \<Rightarrow> h | None \<Rightarrow> bus),
          [(''ConnLow'', peripheral_id mod 2 ^ 32), (''ConnHigh'', peripheral_id div 2 ^ 32), (''RegAddr'', unat DEVICE_ID)] @
          attach_marks (dg_parent_attach dg) @ sequence_marks (dg_parent_sequence dg) @ parent_marks @ locked_marks @ register_marks @ ioctl_marks @ hub_marks @ scanned @
          [(''PumpBusOpen'', of_bool (hub \<noteq> None))] @ named_marks dg @ apsd_marks (dg_apsd dg) @
          probe_usbin_spmi W open_bus usbin @ [(''PumpVariant'', unat variant)]))"

definition evt_prepare_hardware ::
  "'x wdf \<Rightarrow> ('x spb_bus, 'w) kernel \<Rightarrow> (u64 \<Rightarrow> bool \<Rightarrow> 'x spb_bus option) \<Rightarrow> diagnostics \<Rightarrow>
   registry \<Rightarrow> system_answers \<Rightarrow> descriptor list \<Rightarrow> ('x spb_bus, 'w, 'e, i32) dv_op" where
  "evt_prepare_hardware W K open_bus dg g sys ds = (let cs = collect_connections ds in
     and_then (mark_values (stage_marks 30 0 @ [(''ConnCount'', length cs)] @
       concat (map (\<lambda>(i, c). connection_marks i c) (enumerate 0 cs)))) (\<lambda>_.
     case select_i2c_connection cs of
       None \<Rightarrow> and_then (mark_values (stage_marks 31 ST_DEVICE_NOT_READY)) (\<lambda>_. ret ST_DEVICE_NOT_READY)
     | Some peripheral_id \<Rightarrow>
         let usbin = select_usbin_connection cs peripheral_id in
         and_then (mark_values (case usbin of
           Some i \<Rightarrow> [(''UsbinConn'', 1), (''UsbinLow'', i mod 2 ^ 32), (''UsbinHigh'', i div 2 ^ 32)]
         | None \<Rightarrow> [(''UsbinConn'', 0)])) (\<lambda>_.
         case open_bus peripheral_id False of
           None \<Rightarrow>
             and_then (modify (\<lambda>d. d\<lparr>dv_last_error := - 1\<rparr>)) (\<lambda>_.
             and_then (mark_values (stage_marks 31 ST_DEVICE_NOT_READY)) (\<lambda>_. ret ST_DEVICE_NOT_READY))
         | Some bus \<Rightarrow>
             let (params, parameter_marks) = read_parameters g;
                 (pump_bus, probe_marks) = choose_pump_bus W open_bus dg peripheral_id usbin bus
             in and_then (mark_values (parameter_marks @ probe_marks)) (\<lambda>_.
                and_then (modify (\<lambda>d. d\<lparr>dv_usbin_id := usbin\<rparr>)) (\<lambda>_.
                  start_pump K params sys pump_bus)))))"

end
