(* ===== verification/Kmdf_Safety.thy ===== *)
theory Kmdf_Safety
  imports Kmdf_Prepare
begin

text \<open>
  What holds of the pump driver over every run of timer ticks and control requests, whatever the buses, the
  PMIC and the clock do: every event returns, the timer keeps being armed, and the PMIC is written only as
  the negotiation may write it and in the one charge current register, within bounds.
\<close>

section \<open>Operations that always complete\<close>

text \<open>\<open>completes P m\<close>: from a state of \<open>P\<close>, \<open>m\<close> returns a value, never an error, in a state of \<open>P\<close>.\<close>

definition completes :: "('s \<Rightarrow> bool) \<Rightarrow> ('s, 'e, 'a) op \<Rightarrow> bool" where
  "completes P m \<longleftrightarrow> (\<forall>s. P s \<longrightarrow> (\<exists>x t. m s = Some (Inr x, t) \<and> P t))"

named_theorems completes_intros "rules for operations that always complete"

lemma completesD: "completes P m \<Longrightarrow> P s \<Longrightarrow> \<exists>x t. m s = Some (Inr x, t) \<and> P t"
  by (simp add: completes_def)

lemma completesI: "(\<And>s. P s \<Longrightarrow> \<exists>x t. m s = Some (Inr x, t) \<and> P t) \<Longrightarrow> completes P m"
  by (simp add: completes_def)

lemma completes_iff: "completes P m \<longleftrightarrow> keeps P m \<and> (\<forall>s e t. P s \<longrightarrow> m s \<noteq> Some (Inl e, t))"
proof -
  have "(\<exists>x t. m s = Some (Inr x, t) \<and> P t) \<longleftrightarrow>
      (\<exists>r t. m s = Some (r, t) \<and> P t) \<and> (\<forall>e t. m s \<noteq> Some (Inl e, t))" for s
    by (metis Inl_Inr_False obj_sumE option.inject prod.inject)
  then show ?thesis unfolding completes_def keeps_def by blast
qed

lemma completes_keeps: "keeps P m \<Longrightarrow> raises (\<lambda>_. False) m \<Longrightarrow> completes P m"
  by (auto simp: completes_iff raises_def)

lemma completes_ret [completes_intros]: "completes P (ret x)"
  and completes_modify [completes_intros]: "(\<And>s. P s \<Longrightarrow> P (f s)) \<Longrightarrow> completes P (modify f)"
  by (auto simp: completes_def)

lemma completes_and_then [completes_intros]:
  assumes "completes P m" and "\<And>x. completes P (f x)"
  shows "completes P (and_then m f)"
proof (rule completesI)
  fix s assume "P s"
  with assms(1) obtain x t where "m s = Some (Inr x, t)" "P t" by (blast dest: completesD)
  with assms(2) [of x] show "\<exists>x t. and_then m f s = Some (Inr x, t) \<and> P t"
    by (auto simp: and_then_def dest: completesD)
qed

lemma completes_get [completes_intros]:
  "(\<And>s. P s \<Longrightarrow> completes P (f s)) \<Longrightarrow> completes P (and_then get_state f)"
  by (auto simp: completes_def and_then_def)

lemma completes_get_state [completes_intros]: "completes P get_state"
  by (simp add: completes_def)

lemma completes_when [completes_intros]: "(b \<Longrightarrow> completes P m) \<Longrightarrow> completes P (when_op b m)"
  by (auto simp: when_op_def intro: completes_ret)

lemma completes_if [completes_intros]:
  "(b \<Longrightarrow> completes P m) \<Longrightarrow> (\<not> b \<Longrightarrow> completes P n) \<Longrightarrow> completes P (if b then m else n)"
  by simp

lemma completes_case_option [completes_intros]:
  "(x = None \<Longrightarrow> completes P m) \<Longrightarrow> (\<And>y. x = Some y \<Longrightarrow> completes P (f y)) \<Longrightarrow>
   completes P (case x of None \<Rightarrow> m | Some y \<Rightarrow> f y)"
  by (cases x) auto

lemma completes_case_sum [completes_intros]:
  "(\<And>e. x = Inl e \<Longrightarrow> completes P (g e)) \<Longrightarrow> (\<And>y. x = Inr y \<Longrightarrow> completes P (f y)) \<Longrightarrow>
   completes P (case x of Inl e \<Rightarrow> g e | Inr y \<Rightarrow> f y)"
  by (cases x) auto

lemma completes_case_prod [completes_intros]:
  "(\<And>a b. x = (a, b) \<Longrightarrow> completes P (f a b)) \<Longrightarrow> completes P (case x of (a, b) \<Rightarrow> f a b)"
  by (cases x) auto

lemma completes_Let [completes_intros]: "completes P (f x) \<Longrightarrow> completes P (Let x f)"
  by (simp add: Let_def)

lemma completes_discard [completes_intros]: "completes P m \<Longrightarrow> completes P (discard m)"
  unfolding discard_def by (intro completes_intros)

section \<open>The negotiation never fails\<close>

abbreviation safe_op :: "('s, 'e, 'a) op \<Rightarrow> bool" where
  "safe_op m \<equiv> raises (\<lambda>_. False) m"

lemma safe_if: "(b \<Longrightarrow> safe_op m) \<Longrightarrow> (\<not> b \<Longrightarrow> safe_op n) \<Longrightarrow> safe_op (if b then m else n)"
  and safe_sum: "(\<And>e. x = Inl e \<Longrightarrow> safe_op (g e)) \<Longrightarrow> (\<And>y. x = Inr y \<Longrightarrow> safe_op (f y)) \<Longrightarrow> safe_op (case_sum g f x)"
  and safe_option: "safe_op m \<Longrightarrow> (\<And>y. safe_op (h y)) \<Longrightarrow> safe_op (case_option m h z)"
  by (auto split: sum.split option.split)

lemma safe_mark: "safe_op (mark name v)" "safe_op (marks ms)" "safe_op (set_phase ph)"
  by (simp_all add: mark_def marks_def set_phase_def)

lemmas safe_rules = raises_and_then raises_outcome safe_if safe_sum safe_option safe_mark

lemma safe_closing: "safe_op m \<Longrightarrow> safe_op (closing P m)"
  unfolding raises_def closing_def su_close_def
  by (auto simp: and_then_def outcome_def raise_def ret_def modify_def split: option.splits prod.splits sum.splits)

lemma safe_open_bus: "(\<And>bus. safe_op (body bus)) \<Longrightarrow> safe_op (on_open_bus P usbin body none)"
  unfolding on_open_bus_def by (intro safe_rules safe_closing | simp)+

lemma safe_trim_loop: "safe_op (trim_loop P bus stop low dec vin)"
proof (induction P bus stop low dec vin rule: trim_loop.induct)
  case (1 P bus stop low dec vin)
  then show ?case by (subst trim_loop.simps) (intro safe_rules | simp)+
qed

lemma safe_boost_loop: "safe_op (boost_loop P bus stop high inc vin)"
proof (induction P bus stop high inc vin rule: boost_loop.induct)
  case (1 P bus stop high inc vin)
  then show ?case by (subst boost_loop.simps, unfold Let_def) (intro safe_rules | simp)+
qed

lemma safe_nudge: "safe_op (nudge_vin_into_window P usbin vin vbat dead)"
  unfolding nudge_vin_into_window_def trim_vin_for_pump_def boost_vin_for_pump_def one_dec_pulse_def Let_def
  by (intro safe_rules safe_open_bus safe_trim_loop safe_boost_loop | simp)+

lemma safe_raise_icl: "safe_op (raise_icl P usbin name target)"
  unfolding raise_icl_def Let_def by (intro safe_rules safe_closing | simp)+

lemma safe_hvdcp:
  "safe_op (run_negotiate_report P usbin vbat)" "safe_op (raise_icl_for_pump P usbin)"
  "safe_op (raise_icl_for_5v_bypass P usbin)"
  unfolding run_negotiate_report_def raise_icl_for_pump_def raise_icl_for_5v_bypass_def
  by (intro safe_rules safe_raise_icl | simp)+

section \<open>The machine that records\<close>

definition recording_kernel :: "('b, 'w) kernel \<Rightarrow> ('b, 'w \<times> write_log) kernel" where
  "recording_kernel K = \<lparr>kn_bus = kn_bus K, kn_por = kn_por K, kn_platform = recording (kn_platform K), kn_clock = kn_clock K\<rparr>"

text \<open>
  A write of the charge current limit is within bounds if it is not above the limit the driver found at its
  first snapshot or, with the policy on, not above 3 A (60 steps).
\<close>

definition fcc_write_ok :: "u8 \<Rightarrow> u32 \<Rightarrow> u8 \<Rightarrow> bool" where
  "fcc_write_ok boot cfg v \<longleftrightarrow> v \<le> boot \<or> cfg \<noteq> 0 \<and> v \<le> 60"

definition driver_log_ok :: "u8 \<Rightarrow> u32 \<Rightarrow> write_log \<Rightarrow> bool" where
  "driver_log_ok boot cfg l \<longleftrightarrow> (\<forall>(cur, sid, a, data)\<in>set (writes l). sid = 2 \<and>
     (\<exists>v. data = [v] \<and> (allowed_write cur a v \<or> a = SPMI_REG_CHGR_FCC \<and> fcc_write_ok boot cfg v)))"

lemma driver_log_ok_append [simp]:
  "driver_log_ok b c []" "driver_log_ok b c (l @ [Command v]) = driver_log_ok b c l"
  "driver_log_ok b c (l @ [Wrote sid a data]) \<longleftrightarrow> driver_log_ok b c l \<and> sid = 2 \<and>
     (\<exists>v. data = [v] \<and> (allowed_write (last_command 0 l) a v \<or> a = SPMI_REG_CHGR_FCC \<and> fcc_write_ok b c v))"
  by (auto simp: driver_log_ok_def)

lemma driver_log_ok_boot: "driver_log_ok 0 c l \<Longrightarrow> driver_log_ok b c l"
  by (fastforce simp: driver_log_ok_def fcc_write_ok_def)

text \<open>
  The invariant, for the limit found at boot, the configured limit, whether the device and the pump are
  there, and, where it is of interest, whether the timer is armed; the driver holds each power request that
  exists.
\<close>

definition backoff_ok :: "u64 \<Rightarrow> bool" where
  "backoff_ok ms \<longleftrightarrow> ms \<in> {0, 60000, 120000, 240000, 300000}"

definition request_ok :: "bool \<Rightarrow> nat \<Rightarrow> bool" where
  "request_ok held live \<longleftrightarrow> live = of_bool held"

lemma request_ok_simps [simp]: "request_ok False 0" "request_ok True (Suc 0)"
  by (simp_all add: request_ok_def)

type_synonym presence = "(bool \<times> bool) \<times> bool option"

definition driver_ok :: "u8 \<Rightarrow> u32 \<Rightarrow> presence \<Rightarrow> ('b, 'w \<times> write_log) driver \<Rightarrow> bool" where
  "driver_ok boot cfg there d \<longleftrightarrow>
     (\<forall>p. dv_pump d = Some p \<longrightarrow> patient p) \<and> honest (dv_hvdcp d) \<and> driver_log_ok boot cfg (snd (dv_world d)) \<and>
     dv_fcc_boot_raw d = boot \<and> dv_fcc_cfg_raw d = cfg \<and> (dv_fcc_raised d \<longrightarrow> boot \<noteq> 0 \<and> cfg \<noteq> 0) \<and>
     dv_retry_attempts d \<le> HVDCP_SUPERUSER_RETRY_MAX \<and> backoff_ok (dv_re_elevate_backoff_ms d) \<and>
     fst (fst there) = dv_device d \<and> snd (fst there) = (dv_pump d \<noteq> None) \<and> (\<forall>a. snd there = Some a \<longrightarrow> dv_timer_armed d = a) \<and>
     request_ok (dv_request_held d) (dv_requests_live d)"

definition pump_world_ok :: "u8 \<Rightarrow> u32 \<Rightarrow> bool \<Rightarrow> ('b, 'w \<times> write_log) pump_world hvdcp \<Rightarrow> bool" where
  "pump_world_ok boot cfg pumped h \<longleftrightarrow> honest h \<and> (case hv_world h of (p, stuck, w) \<Rightarrow>
     (\<forall>q. p = Some q \<longrightarrow> patient q) \<and> (p \<noteq> None) = pumped \<and> \<not> stuck \<and> driver_log_ok boot cfg (snd w))"

lemma kernel_fields [simp]:
  "kn_bus (recording_kernel K) = kn_bus K" "kn_por (recording_kernel K) = kn_por K"
  "kn_platform (recording_kernel K) = recording (kn_platform K)" "kn_clock (recording_kernel K) = kn_clock K"
  by (simp_all add: recording_kernel_def)

lemma measure_vin_ok:
  assumes "\<forall>q. p = Some q \<longrightarrow> patient q"
  shows "\<exists>v p'. measure_vin B (p, stuck, w) = (v, p', stuck, w) \<and> (\<forall>q. p' = Some q \<longrightarrow> patient q) \<and> (p' = None) = (p = None)"
proof (cases p)
  case (Some q)
  with keepsD [OF read_adc_keeps, of q B Vin] assms obtain r t where "read_adc B Vin q = Some (r, t)" "patient t" by auto
  with Some show ?thesis by (cases r) (auto simp: measure_vin_def)
qed (simp add: measure_vin_def)

interpretation pump_platform: hvdcp_invariant "pump_platform (recording_kernel K)" "pump_world_ok boot cfg pumped"
    "\<lambda>(p, stuck, w). {last_command 0 (snd w)}"
  for K :: "('b, 'w) kernel" and boot cfg pumped
proof
  fix h :: "('b, 'w \<times> write_log) pump_world hvdcp"
  assume I: "pump_world_ok boot cfg pumped h"
  obtain p stuck w where w: "hv_world h = (p, stuck, w)" by (cases "hv_world h")
  obtain v p' where m: "measure_vin (kn_bus K) (p, stuck, w) = (v, p', stuck, w)"
      "\<forall>q. p' = Some q \<longrightarrow> patient q" "(p' = None) = (p = None)"
    using measure_vin_ok [of p "kn_bus K" stuck w] I w by (auto simp: pump_world_ok_def)
  from I w m show "pump_world_ok boot cfg pumped
      (h\<lparr>hv_world := snd (pf_read_vin (pump_platform (recording_kernel K)) (hv_world h))\<rparr>)"
    by (cases p; cases p') (auto simp: pump_platform_def pump_world_ok_def honest_def Let_def)
qed (auto simp: pump_world_ok_def pump_platform_def lift_device_def Let_def honest_def vbus_marks_ok_def recording_def
    recording_dev_def frame_header frame_header_Nil case_prod_beta split: prod.splits dest!: recorded_eq)

section \<open>The parts of an event\<close>

lemma completes_with_pump [completes_intros]:
  assumes "keeps patient m"
  shows "completes (driver_ok b c v) (with_pump x m)"
proof (rule completesI, goal_cases)
  case d: (1 d)
  show "\<exists>y t. with_pump x m d = Some (Inr y, t) \<and> driver_ok b c v t"
  proof (cases "dv_pump d")
    case (Some p)
    with d have "patient p" by (auto simp: driver_ok_def)
    with assms obtain r q where "m p = Some (r, q)" "patient q" by (blast dest: keepsD)
    with Some d show ?thesis by (auto simp: with_pump_def driver_ok_def)
  qed (use d in \<open>simp add: with_pump_def\<close>)
qed

lemma completes_on_pump [completes_intros]: "keeps patient m \<Longrightarrow> completes (driver_ok b c v) (on_pump m)"
  unfolding on_pump_def by (intro completes_intros keeps_outcome)

lemma completes_on_devices:
  assumes "keeps (\<lambda>w. driver_log_ok b c (snd w)) m" "safe_op m"
  shows "completes (driver_ok b c v) (on_devices m)"
proof (rule completesI, goal_cases)
  case d: (1 d)
  then have "driver_log_ok b c (snd (dv_world d))" by (simp add: driver_ok_def)
  with completesD [OF completes_keeps [OF assms]] obtain x w
    where "m (dv_world d) = Some (Inr x, w)" "driver_log_ok b c (snd w)" by blast
  with d show "\<exists>y t. on_devices m d = Some (Inr y, t) \<and> driver_ok b c v t"
    by (auto simp: on_devices_def driver_ok_def)
qed

lemma honest_move [simp]: "honest (hv_move w h) = honest h"
  by (simp add: honest_def hv_move_def)

lemma completes_on_hvdcp:
  assumes "keeps (pump_world_ok b c (snd (fst v))) m" "safe_op m"
  shows "completes (driver_ok b c v) (on_hvdcp m)"
proof (rule completesI, goal_cases)
  case d: (1 d)
  let ?h = "hv_move (dv_pump d, False, dv_world d) (dv_hvdcp d)"
  from d have "pump_world_ok b c (snd (fst v)) ?h"
     by (auto simp: pump_world_ok_def driver_ok_def) (simp_all add: hv_move_def)
  with completesD [OF completes_keeps [OF assms]] obtain x h where "m ?h = Some (Inr x, h)" "pump_world_ok b c (snd (fst v)) h"
    by blast
  with d show "\<exists>y t. on_hvdcp m d = Some (Inr y, t) \<and> driver_ok b c v t"
    by (auto simp: on_hvdcp_def pump_world_ok_def driver_ok_def split: prod.splits)
qed

lemma hvdcp_completes [completes_intros]:
  "completes (driver_ok b c v) (on_hvdcp (run_negotiate_report (pump_platform (recording_kernel K)) usbin vbat))"
  "completes (driver_ok b c v) (on_hvdcp (nudge_vin_into_window (pump_platform (recording_kernel K)) usbin vin vbat dead))"
  "completes (driver_ok b c v) (on_hvdcp (raise_icl_for_pump (pump_platform (recording_kernel K)) usbin))"
  "completes (driver_ok b c v) (on_hvdcp (raise_icl_for_5v_bypass (pump_platform (recording_kernel K)) usbin))"
proof -
  have "keeps (pump_world_ok b c (snd (fst v))) (run_negotiate_report (pump_platform (recording_kernel K)) usbin vbat)"
    unfolding run_negotiate_report_def
    by (intro keeps_and_then keeps_outcome keeps_ret pump_platform.keeps_run_negotiate)
  note on = this pump_platform.keeps_nudge pump_platform.keeps_raise_limit
  show "completes (driver_ok b c v) (on_hvdcp (run_negotiate_report (pump_platform (recording_kernel K)) usbin vbat))"
    "completes (driver_ok b c v) (on_hvdcp (nudge_vin_into_window (pump_platform (recording_kernel K)) usbin vin vbat dead))"
    "completes (driver_ok b c v) (on_hvdcp (raise_icl_for_pump (pump_platform (recording_kernel K)) usbin))"
    "completes (driver_ok b c v) (on_hvdcp (raise_icl_for_5v_bypass (pump_platform (recording_kernel K)) usbin))"
    by (rule completes_on_hvdcp [OF on(1) safe_hvdcp(1)] completes_on_hvdcp [OF on(2) safe_nudge]
        completes_on_hvdcp [OF on(3) safe_hvdcp(2)] completes_on_hvdcp [OF on(4) safe_hvdcp(3)])+
qed

lemma clock_completes [completes_intros]: "completes (driver_ok b c v) (monotonic_ms K)"
  unfolding monotonic_ms_def by (intro completes_intros) (simp add: driver_ok_def)

lemma marks_complete [completes_intros]:
  "vbus_marks_ok ms \<Longrightarrow> completes (driver_ok b c v) (mark_values ms)"
  "vbus_marks_ok ms \<Longrightarrow> completes (driver_ok b c v) (tick_marks ms)"
proof -
  assume "vbus_marks_ok ms"
  then show *: "completes (driver_ok b c v) (mark_values ms)" for b c v
    unfolding mark_values_def
    by (intro completes_intros) (auto simp: driver_ok_def honest_def vbus_marks_ok_def)
  show "completes (driver_ok b c v) (tick_marks ms)"
    unfolding tick_marks_def by (intro completes_intros *)
qed

lemma battery_completes [completes_intros]: "completes (driver_ok b c v) (on_battery f)"
  unfolding on_battery_def by (intro completes_intros) (simp add: driver_ok_def)

text \<open>The devices of the PMIC.\<close>

lemma log_keeps_call: "(\<And>w. driver_log_ok b c (snd w) \<Longrightarrow> driver_log_ok b c (snd (snd (f w)))) \<Longrightarrow>
  keeps (\<lambda>w. driver_log_ok b c (snd w)) (nt_call f)"
  by (rule keepsI) (metis nt_call_def prod.collapse)

lemma log_keeps_request: "code \<noteq> IOCTL_SPMI_SUPERUSER_WRITE \<Longrightarrow>
  keeps (\<lambda>w. driver_log_ok b c (snd w)) (ioctl_in_out (recording_dev D) code i n)"
  unfolding ioctl_in_out_def by (intro keeps_and_then keeps_ret log_keeps_call) (simp add: recording_dev_def)

lemma log_keeps_grant: "keeps (\<lambda>w. driver_log_ok b c (snd w)) (su_grant (recording_dev D) peri)"
  unfolding su_grant_def ioctl_in_def by (intro keeps_and_then keeps_ret log_keeps_request) simp

lemma log_keeps_bytes: "keeps (\<lambda>w. driver_log_ok b c (snd w)) (su_read_bytes (recording_dev D) sid a n)"
  unfolding su_read_bytes_def by (intro keeps_and_then keeps_if keeps_ret keeps_raise log_keeps_request) simp

lemma log_keeps_read: "keeps (\<lambda>w. driver_log_ok b c (snd w)) (su_read_u8 (recording_dev D) sid a)"
  unfolding su_read_u8_def by (intro keeps_and_then keeps_ret log_keeps_bytes)

lemma log_keeps_write:
  assumes "fcc_write_ok b c raw"
  shows "keeps (\<lambda>w. driver_log_ok b c (snd w)) (su_write_u8 (recording_dev D) 2 SPMI_REG_CHGR_FCC raw)"
proof -
  have "su_write_u8 (recording_dev D) 2 SPMI_REG_CHGR_FCC raw =
      ioctl_in (recording_dev D) IOCTL_SPMI_SUPERUSER_WRITE (su_header 2 SPMI_REG_CHGR_FCC 1 @ [raw])"
    by (simp add: su_write_u8_def su_write_bytes_def)
  then show ?thesis
    unfolding ioctl_in_def ioctl_in_out_def
    by (simp only:) (intro keeps_and_then keeps_ret log_keeps_call, simp add: assms recording_dev_def frame_header)
qed

lemma log_keeps_session:
  "keeps (\<lambda>w. driver_log_ok b c (snd w)) m \<Longrightarrow> keeps (\<lambda>w. driver_log_ok b c (snd w)) (or_none (with_superuser (recording_dev D) m))"
  unfolding or_none_def with_superuser_def
  by (intro keeps_and_then keeps_outcome keeps_ret keeps_raise log_keeps_call keeps_modify keeps_case_sum)
     (auto simp: recording_dev_def)

lemma safe_or_none: "safe_op (or_none m)"
  unfolding or_none_def by (intro safe_rules | simp)+

lemma devices_complete [completes_intros]:
  "completes (driver_ok b c v) (on_devices (read_batt_soc_raw (pf_superuser (kn_platform (recording_kernel K)))))"
  "completes (driver_ok b c v) (on_devices (read_charge_regs (pf_superuser (kn_platform (recording_kernel K)))))"
  "fcc_write_ok b c raw \<Longrightarrow> completes (driver_ok b c v) (on_devices (write_fcc_raw (pf_superuser (kn_platform (recording_kernel K))) raw))"
  unfolding read_batt_soc_raw_def read_charge_regs_def read_gauge_def read_shadowed_def write_fcc_raw_def Let_def kernel_fields recording_def
  by (intro completes_on_devices log_keeps_session keeps_and_then keeps_if keeps_ret keeps_raise keeps_case_option log_keeps_grant
      log_keeps_read log_keeps_bytes log_keeps_write safe_or_none | simp)+

section \<open>The steps of a tick\<close>

text \<open>
  The bodies follow one pattern: their structure by \<open>completes_intros\<close>, the changes of the record by the
  definition of the invariant.
\<close>

lemma recovery_keeps [keeps_intros]: "keeps patient (por_delay K)" "keeps patient (recover_ln_shutdown K)"
proof -
  show *: "keeps patient (por_delay K)" for K :: "('a, 'b) kernel"
    unfolding por_delay_def by (intro keeps_modify) simp
  show "keeps patient (recover_ln_shutdown K)"
    unfolding recover_ln_shutdown_def Let_def by (auto intro!: keeps_intros *)
qed

lemma attempt_completes [completes_intros]:
  "completes (driver_ok b c v) (recover_or_charge K)" "completes (driver_ok b c v) (count_attempt K marked res)"
proof -
  show "completes (driver_ok b c v) (recover_or_charge K)"
    unfolding recover_or_charge_def
    by (intro completes_intros keeps_intros) (auto intro!: completes_intros keeps_intros split: shutdown_recovery.split)
  show "completes (driver_ok b c v) (count_attempt K marked res)"
    unfolding count_attempt_def mark_charge_attempt_def
    by (intro completes_intros) (auto simp: driver_ok_def vbus_marks_ok_def)
qed

lemma strikes_complete [completes_intros]: "completes (driver_ok b c v) (set_strikes f)"
  unfolding set_strikes_def by (intro completes_intros) (simp add: driver_ok_def)

lemma guard_completes [completes_intros]: "completes (driver_ok b c v) (apply_guard K action vin vbat)"
  by (cases action) (auto intro!: completes_intros keeps_intros split: bypass_resolution.split)

lemma publish_fcc_completes [completes_intros]:
  "fcc_write_ok b c want \<Longrightarrow> completes (driver_ok b c v) (write_fcc_and_publish (recording_kernel K) want)"
  unfolding write_fcc_and_publish_def by (intro completes_intros) (auto simp: vbus_marks_ok_def)

lemma retry_completes [completes_intros]:
  "completes (driver_ok b c v) (schedule_or_clear_superuser_retry K code)"
  "completes (driver_ok b c v) (arm_hvdcp_input_edge K)"
  unfolding schedule_or_clear_superuser_retry_def arm_hvdcp_input_edge_def
  by (intro completes_intros keeps_intros; simp add: driver_ok_def vbus_marks_ok_def)+

lemma landing_completes [completes_intros]:
  "completes (driver_ok b c v) (negotiated_vbat K')"
  "completes (driver_ok b c v) (land_voltage (recording_kernel K) vin vbat)"
  "completes (driver_ok b c v) (land_limits (recording_kernel K) vbat vin engage)"
  "completes (driver_ok b c v) (land_charge K')"
  unfolding negotiated_vbat_def land_voltage_def land_limits_def land_charge_def
  by (intro completes_intros keeps_intros; simp add: driver_ok_def vbus_marks_ok_def)+

lemma run_and_land_completes [completes_intros]: "completes (driver_ok b c v) (run_hvdcp_and_land (recording_kernel K))"
  unfolding run_hvdcp_and_land_def Let_def
  by (intro completes_intros keeps_intros)

lemma gauge_completes [completes_intros]: "completes (driver_ok b c v) (read_gauge_if_due (recording_kernel K))"
  unfolding read_gauge_if_due_def by (intro completes_intros) (simp add: driver_ok_def)

lemma vbus_marks_plain: "''SuVbusEst'' \<notin> fst ` set ms \<Longrightarrow> vbus_marks_ok ms"
  by (force simp: vbus_marks_ok_def)

lemma measuring_completes [completes_intros]:
  "completes (driver_ok b c v) (tick_measure K st)" "completes (driver_ok b c v) (tick_adc_wake K r)"
  "completes (driver_ok b c v) (tick_battery r)" "completes (driver_ok b c v) (tick_input r)"
  "completes (driver_ok b c v) (tick_gauge gauge r)"
proof -
  show "completes (driver_ok b c v) (tick_measure K st)" "completes (driver_ok b c v) (tick_battery r)"
    unfolding tick_measure_def tick_battery_def Let_def
    by (intro completes_intros keeps_intros; simp add: driver_ok_def)+
  show "completes (driver_ok b c v) (tick_adc_wake K r)"
    unfolding tick_adc_wake_def
    by (auto intro!: completes_intros keeps_intros simp: driver_ok_def split: option.split bool.split)
  show "completes (driver_ok b c v) (tick_input r)"
    unfolding tick_input_def tick_iin_window_def input_marks_def Let_def
    by (intro completes_intros; simp add: driver_ok_def vbus_marks_plain)
  show "completes (driver_ok b c v) (tick_gauge gauge r)"
    unfolding tick_gauge_def
    by (cases gauge) (auto intro!: completes_intros simp: vbus_marks_plain)
qed

lemma raw_for_le: "raw_for ua \<le> 60"
  by (auto simp: raw_for_def Let_def word_le_nat_alt unat_of_nat)

lemma fcc_completes [completes_intros]:
  "completes (driver_ok b c v) (fcc_probe (recording_kernel K) r)"
  "completes (driver_ok b c v) (fcc_policy (recording_kernel K) r)"
proof -
  show "completes (driver_ok b c v) (fcc_probe (recording_kernel K) r)"
    unfolding fcc_probe_def Let_def
    by (intro completes_intros; auto simp: driver_ok_def fcc_write_ok_def vbus_marks_plain not_le)
  show "completes (driver_ok b c v) (fcc_policy (recording_kernel K) r)"
    unfolding fcc_policy_def
    by (intro completes_intros; auto simp: driver_ok_def fcc_write_ok_def raw_for_le)
qed

text \<open>The first snapshot fixes the limit found at boot.\<close>

definition driver_inv :: "u32 \<Rightarrow> presence \<Rightarrow> ('b, 'w \<times> write_log) driver \<Rightarrow> bool" where
  "driver_inv c v d \<longleftrightarrow> driver_ok (dv_fcc_boot_raw d) c v d"

lemma driver_ok_inv: "driver_ok b c v d \<Longrightarrow> driver_inv c v d"
  by (simp add: driver_inv_def driver_ok_def)

lemma completes_inv: "(\<And>b. completes (driver_ok b c v) m) \<Longrightarrow> completes (driver_inv c v) m"
  unfolding completes_def by (meson driver_inv_def driver_ok_inv)

lemma boot_raw_inv: "driver_inv c v d \<Longrightarrow>
  driver_inv c v (if dv_fcc_boot_raw d = 0 then d\<lparr>dv_fcc_boot_raw := raw\<rparr> else d)"
  by (auto simp: driver_inv_def driver_ok_def intro: driver_log_ok_boot)

lemma charger_completes [completes_intros]:
  "completes (driver_inv c v) (tick_charger (recording_kernel K) r)"
  "completes (driver_inv c v) (tick_device (recording_kernel K) gauge r)"
proof -
  have snapshot: "completes (driver_inv c v) (charger_snapshot (recording_kernel K) r)" for c v K r
    unfolding charger_snapshot_def
    by (intro completes_and_then completes_case_option completes_modify boot_raw_inv completes_inv completes_intros)
       (auto simp: driver_ok_def driver_inv_def vbus_marks_plain)
  have modify: "completes (driver_inv c v) (modify (\<lambda>d. d\<lparr>dv_last_chgr_mark_ms := now\<rparr>))" for c v now
    by (intro completes_modify) (simp add: driver_inv_def driver_ok_def)
  show *: "completes (driver_inv c v) (tick_charger (recording_kernel K) r)" for c v K r
    unfolding tick_charger_def
    by (intro completes_get completes_when completes_and_then snapshot modify)
       (intro completes_inv completes_intros)
  show "completes (driver_inv c v) (tick_device (recording_kernel K) gauge r)"
    unfolding tick_device_def
    by (intro completes_get completes_when completes_and_then *)
       (intro completes_inv completes_intros; simp add: status_marks_def Let_def vbus_marks_plain)+
qed

lemma protection_completes [completes_intros]:
  "completes (driver_ok b c v) (tick_guard K r)" "completes (driver_ok b c v) (tick_latches K r)"
proof -
  show "completes (driver_ok b c v) (tick_guard K r)"
    unfolding tick_guard_def Let_def
    by (intro completes_intros keeps_intros; simp add: driver_ok_def vbus_marks_plain)
  show "completes (driver_ok b c v) (tick_latches K r)"
    unfolding tick_latches_def by (intro completes_intros keeps_intros)
qed

lemma window_completes [completes_intros]: "completes (driver_ok b c v) (tick_window (recording_kernel K) r cell desired)"
proof -
  have reset: "completes (driver_ok b c v) window_reset" and
    progress: "completes (driver_ok b c v) (modify (window_progress err))" for b c v err
    unfolding window_reset_def by (intro completes_modify; simp add: driver_ok_def window_progress_def)+
  have walk: "completes (driver_ok b c v) (window_walk (recording_kernel K) r cell outside dead now)" for b c v K outside dead now
    unfolding window_walk_def
    by (intro completes_intros keeps_intros; simp add: driver_ok_def vbus_marks_plain)
  show ?thesis
    unfolding tick_window_def Let_def
    by (intro completes_intros reset progress walk; simp add: vbus_marks_plain)
qed

lemma tick_charge_completes [completes_intros]: "completes (driver_ok b c v) (tick_charge K r desired action left)"
proof -
  have note_ok: "completes (driver_ok b c v) (note_attempt now)" for b c v now
    unfolding note_attempt_def by (intro completes_modify) (simp add: driver_ok_def)
  have rebuild: "completes (driver_ok b c v) (rebuild_after_failures K r recovered)" for b c v K recovered
    unfolding rebuild_after_failures_def Let_def
    by (intro completes_intros keeps_intros; simp add: driver_ok_def)
       (auto intro!: completes_intros keeps_intros note_ok split: shutdown_recovery.split)
  have attempt: "completes (driver_ok b c v) (tick_attempt K r now)" for b c v K now
    unfolding tick_attempt_def
    by (intro completes_intros keeps_intros note_ok rebuild; simp add: driver_ok_def)
  show ?thesis
    unfolding tick_charge_def Let_def
    by (intro completes_intros keeps_intros attempt; simp add: driver_ok_def)
qed

section \<open>The events\<close>

text \<open>A postcondition besides the invariant.\<close>

definition completes_with :: "('s \<Rightarrow> bool) \<Rightarrow> ('s, 'e, 'a) op \<Rightarrow> ('a \<Rightarrow> 's \<Rightarrow> bool) \<Rightarrow> bool" where
  "completes_with P m Q \<longleftrightarrow> (\<forall>s. P s \<longrightarrow> (\<exists>x t. m s = Some (Inr x, t) \<and> Q x t))"

lemma completes_withD: "completes_with P m Q \<Longrightarrow> P s \<Longrightarrow> \<exists>x t. m s = Some (Inr x, t) \<and> Q x t"
  by (simp add: completes_with_def)

lemma completes_with_then:
  assumes "completes_with P m R" "\<And>x. completes_with (R x) (f x) Q"
  shows "completes_with P (and_then m f) Q"
  unfolding completes_with_def
proof (intro allI impI)
  fix s assume "P s"
  with assms(1) obtain x t where "m s = Some (Inr x, t)" "R x t" by (blast dest: completes_withD)
  with completes_withD [OF assms(2) this(2)] show "\<exists>x t. and_then m f s = Some (Inr x, t) \<and> Q x t"
    by (auto simp: and_then_def)
qed

lemma completes_with_after: "completes P m \<Longrightarrow> (\<And>x. completes_with P (f x) Q) \<Longrightarrow> completes_with P (and_then m f) Q"
  by (rule completes_with_then) (simp_all add: completes_with_def completes_def)

lemma completes_with_get: "(\<And>s. P s \<Longrightarrow> completes_with P (f s) Q) \<Longrightarrow> completes_with P (and_then get_state f) Q"
  by (auto simp: completes_with_def and_then_def)

lemma completes_with_mono: "completes P m \<Longrightarrow> (\<And>x s. P s \<Longrightarrow> Q x s) \<Longrightarrow> completes_with P m Q"
  unfolding completes_def completes_with_def by blast

lemma completes_withI: "(\<And>s. P s \<Longrightarrow> \<exists>x t. m s = Some (Inr x, t) \<and> Q x t) \<Longrightarrow> completes_with P m Q"
  by (simp add: completes_with_def)

text \<open>A retry is only wanted while the limit of attempts is not reached.\<close>

definition retry_allowed :: "u32 \<Rightarrow> presence \<Rightarrow> tick_wants \<Rightarrow> ('b, 'w \<times> write_log) driver \<Rightarrow> bool" where
  "retry_allowed c v w d \<longleftrightarrow> driver_inv c v d \<and> (wants_retry w \<longrightarrow> dv_retry_attempts d < HVDCP_SUPERUSER_RETRY_MAX)"

lemma reelevate_step_inv:
  assumes "driver_inv c v d" "reelevate_step now owns d = (wanted, d')"
  shows "driver_inv c v d' \<and> dv_retry_attempts d' = dv_retry_attempts d"
proof -
  obtain n a bo where d': "d' = d\<lparr>dv_re_elevate_next_ms := n, dv_re_elevate_attempts := a, dv_re_elevate_backoff_ms := bo\<rparr>"
      and bo: "bo = dv_re_elevate_backoff_ms d \<or> bo = 0 \<or> bo = 60000 \<or> bo = min (dv_re_elevate_backoff_ms d * 2) 300000"
  proof -
    have "d' = d\<lparr>dv_re_elevate_next_ms := dv_re_elevate_next_ms d', dv_re_elevate_attempts := dv_re_elevate_attempts d',
        dv_re_elevate_backoff_ms := dv_re_elevate_backoff_ms d'\<rparr>"
      and "dv_re_elevate_backoff_ms d' = dv_re_elevate_backoff_ms d \<or> dv_re_elevate_backoff_ms d' = 0 \<or>
        dv_re_elevate_backoff_ms d' = 60000 \<or> dv_re_elevate_backoff_ms d' = min (dv_re_elevate_backoff_ms d * 2) 300000"
      using assms(2) by (auto simp: reelevate_step_def Let_def sat_mul_u64_def u64_max_def split: if_split_asm)
    then show ?thesis by (rule that)
  qed
  have "backoff_ok (dv_re_elevate_backoff_ms d)" using assms(1) by (simp add: driver_inv_def driver_ok_def)
  with bo have "backoff_ok bo" by (auto simp: backoff_ok_def)
  with assms(1) d' show ?thesis by (simp add: driver_inv_def driver_ok_def)
qed

lemma tick_wanted_result: "completes_with (driver_inv c v) (tick_wanted K r owns) (retry_allowed c v)"
proof (rule completes_withI)
  fix d :: "('a, 'b \<times> write_log) driver"
  assume d: "driver_inv c v d"
  let ?d = "d\<lparr>dv_clock_reads := Suc (dv_clock_reads d)\<rparr>"
  obtain w d' where s: "reelevate_step (kn_clock K (dv_clock_reads d)) owns ?d = (w, d')" by fastforce
  have "driver_inv c v ?d" using d by (simp add: driver_inv_def driver_ok_def)
  from reelevate_step_inv [OF this s] have d': "driver_inv c v d'" "dv_retry_attempts d' = dv_retry_attempts d" by simp_all
  moreover from d' have "driver_inv c v (d'\<lparr>dv_last_input_present := input_present_from_vin (tk_vbus r)\<rparr>)"
    by (simp add: driver_inv_def driver_ok_def)
  ultimately show "\<exists>x t. tick_wanted K r owns d = Some (Inr x, t) \<and> retry_allowed c v x t"
    using s by (simp add: tick_wanted_def monotonic_ms_def and_then_def Let_def retry_allowed_def superuser_retry_due_def)
qed

lemma tick_live_result: "completes_with (driver_inv c v) (tick_live (recording_kernel K) gauge st) (retry_allowed c v)"
proof -
  have control: "completes_with (driver_inv c v) (tick_control (recording_kernel K) r action) (retry_allowed c v)" for r action
    unfolding tick_control_def Let_def
    by (intro completes_with_get completes_with_after tick_wanted_result)
       (intro completes_inv completes_intros keeps_intros; simp add: mode_marks_def Let_def vbus_marks_plain)+
  show ?thesis
    unfolding tick_live_def
    by (intro completes_with_after control charger_completes)
       (intro completes_inv completes_intros)+
qed

lemma modify_then: "and_then (modify f) g s = g () (f s)"
  by (simp add: and_then_def)

lemma retry_body_completes: "completes (driver_ok b c v) (and_then (monotonic_ms (recording_kernel K)) (\<lambda>now.
    and_then (modify (\<lambda>d. d\<lparr>dv_retry_next_ms := sat_add_u64 now HVDCP_SUPERUSER_RETRY_MS\<rparr>)) (\<lambda>_.
    and_then get_state (\<lambda>d.
    and_then (mark_values [(''HvdcpRetryN'', dv_retry_attempts d)]) (\<lambda>_.
    and_then (run_hvdcp_and_land (recording_kernel K)) (\<lambda>code.
    and_then (schedule_or_clear_superuser_retry (recording_kernel K) code) (\<lambda>_.
      when_op (code = 0) (arm_hvdcp_input_edge (recording_kernel K)))))))))"
  by (intro completes_intros) (auto simp: driver_ok_def vbus_marks_plain)

lemma renegotiate_result:
  "completes_with (retry_allowed c v w) (renegotiate (recording_kernel K) w) (\<lambda>_. driver_inv c v)"
proof (rule completes_withI, goal_cases)
  case (1 d)
  show ?case
  proof (cases "wants_retry w \<and> \<not> wants_replug w")
    case False
    show ?thesis
      by (rule completesD [of "driver_inv c v"], unfold renegotiate_def, use False in \<open>intro completes_inv completes_intros\<close>)
         (use 1 in \<open>auto simp: driver_ok_def honest_def vbus_marks_plain retry_allowed_def\<close>)
  next
    case True
    let ?d = "d\<lparr>dv_retry_attempts := sat_add_u32 (dv_retry_attempts d) 1\<rparr>"
    have "driver_inv c v ?d"
      using 1 True by (auto simp: retry_allowed_def driver_inv_def driver_ok_def sat_add_u32_def)
    from completesD [OF completes_inv [OF retry_body_completes] this] True show ?thesis
      by (simp only: renegotiate_def modify_then if_False if_True simp_thms)
  qed
qed

text \<open>A tick returns; where the device and the pump are there, the timer is armed again.\<close>

definition tick_armed :: "u32 \<Rightarrow> bool \<times> bool \<Rightarrow> ('b, 'w \<times> write_log) driver \<Rightarrow> bool" where
  "tick_armed c u d \<longleftrightarrow> driver_inv c (u, None) d \<and> (u = (True, True) \<longrightarrow> dv_timer_armed d)"

lemma arm_result: "completes_with (driver_inv c (u, None)) arm_telemetry_timer (\<lambda>_. tick_armed c u)"
  by (rule completes_withI) (simp add: arm_telemetry_timer_def tick_armed_def driver_inv_def driver_ok_def)

lemma tick_end_result: "completes_with (retry_allowed c (u, None) w) (and_then get_state (\<lambda>d. when_op (dv_device d)
  (and_then (renegotiate (recording_kernel K) w) (\<lambda>_. arm_telemetry_timer)))) (\<lambda>_. tick_armed c u)"
proof (rule completes_with_get, goal_cases)
  case (1 d)
  then have v: "dv_device d = fst u" by (auto simp: retry_allowed_def driver_inv_def driver_ok_def)
  show ?case
  proof (cases "fst u")
    case True
    with v show ?thesis by (simp add: when_op_def completes_with_then [OF renegotiate_result arm_result])
  next
    case False
    with v show ?thesis by (auto simp: when_op_def completes_with_def ret_def tick_armed_def retry_allowed_def)
  qed
qed

lemma tick_rest_result: "completes_with (driver_inv c (u, None)) (case res of
     Inl _ \<Rightarrow> and_then (modify (\<lambda>d. d\<lparr>dv_last_error := - 10\<rparr>)) (\<lambda>_. arm_telemetry_timer)
   | Inr st \<Rightarrow> and_then (tick_live (recording_kernel K) gauge st) (\<lambda>wants. and_then get_state (\<lambda>d. when_op (dv_device d)
       (and_then (renegotiate (recording_kernel K) wants) (\<lambda>_. arm_telemetry_timer))))) (\<lambda>_. tick_armed c u)"
proof (cases res)
  case (Inl e)
  then show ?thesis
    by (simp only: sum.case, intro completes_with_after [OF _ arm_result] completes_modify)
       (simp add: driver_inv_def driver_ok_def)
qed (simp add: completes_with_then [OF tick_live_result tick_end_result])

lemma tick_pumped_result: "completes_with (driver_inv c (u, None)) (and_then get_state (\<lambda>d.
    if dv_pump d = None then ret ()
    else and_then (on_pump (pump_status (kn_bus (recording_kernel K)))) (\<lambda>res. case res of
      Inl _ \<Rightarrow> and_then (modify (\<lambda>d. d\<lparr>dv_last_error := - 10\<rparr>)) (\<lambda>_. arm_telemetry_timer)
    | Inr st \<Rightarrow> and_then (tick_live (recording_kernel K) gauge st) (\<lambda>wants. and_then get_state (\<lambda>d. when_op (dv_device d)
        (and_then (renegotiate (recording_kernel K) wants) (\<lambda>_. arm_telemetry_timer))))))) (\<lambda>_. tick_armed c u)"
proof (rule completes_with_get, goal_cases)
  case (1 d)
  show ?case
  proof (cases "dv_pump d = None")
    case True
    with 1 have "snd u = False" by (auto simp: driver_inv_def driver_ok_def)
    then show ?thesis
      using True by (auto simp: completes_with_def ret_def tick_armed_def)
  next
    case False
    show ?thesis
      by (simp only: False if_False) (rule completes_with_after [OF completes_inv [OF completes_on_pump [OF status_keeps]] tick_rest_result])
  qed
qed

lemma tick_result: "completes_with (driver_inv c (u, None)) (evt_telemetry_timer (recording_kernel K)) (\<lambda>_. tick_armed c u)"
  unfolding evt_telemetry_timer_def
  by (intro completes_with_after tick_pumped_result completes_modify completes_inv gauge_completes)
     (simp add: driver_inv_def driver_ok_def)

section \<open>Control requests\<close>

lemma with_input_completes [completes_intros]:
  "(\<And>a. completes P (h a)) \<Longrightarrow> completes P (with_input rq n parse h)"
  unfolding with_input_def by (intro completes_intros)

lemma register_requests_complete [completes_intros]:
  "completes (driver_ok b c v) (handle_read_reg K rq)" "completes (driver_ok b c v) (handle_write_reg K rq)"
  "completes (driver_ok b c v) (handle_set_limits K rq)" "completes (driver_ok b c v) (handle_set_mode K rq)"
proof -
  have counters: "completes (driver_ok b c v) note_counters" for b c v
    unfolding note_counters_def by (intro completes_modify) (auto simp: driver_ok_def split: option.split)
  show "completes (driver_ok b c v) (handle_read_reg K rq)" "completes (driver_ok b c v) (handle_write_reg K rq)"
    unfolding handle_read_reg_def handle_write_reg_def
    by (intro completes_intros keeps_intros counters)+
  show "completes (driver_ok b c v) (handle_set_limits K rq)"
    unfolding handle_set_limits_def apply_limit_def apply_float_def Let_def
    by (intro completes_intros keeps_intros; simp add: driver_ok_def)
  have change: "keeps patient (change_mode B m)" for B :: "'a reg_bus" and m
    unfolding change_mode_def by (intro keeps_intros)
  show "completes (driver_ok b c v) (handle_set_mode K rq)"
    unfolding handle_set_mode_def bypass_refused_def
    by (intro completes_intros keeps_intros change)
qed

lemma charge_request_completes [completes_intros]: "completes (driver_ok b c v) (handle_set_charge K rq)"
  unfolding handle_set_charge_def
  by (intro completes_intros keeps_intros; simp add: driver_ok_def)

lemma report_requests_complete [completes_intros]:
  "completes (driver_ok b c v) (handle_get_status K rq)" "completes (driver_ok b c v) (handle_get_sessions K rq)"
  "completes (driver_ok b c v) (handle_get_samples rq)"
  unfolding handle_get_status_def status_readings_def status_battery_def handle_get_sessions_def handle_get_samples_def Let_def
  by (intro completes_intros keeps_intros; simp add: vbus_marks_plain)+

lemma hvdcp_request_completes [completes_intros]:
  "completes (driver_ok b c v) (handle_run_hvdcp (recording_kernel K) rq)"
  "completes (driver_ok b c v) (try_autostart_hvdcp (recording_kernel K))"
  unfolding handle_run_hvdcp_def try_autostart_hvdcp_def Let_def
  by (intro completes_intros; simp add: vbus_marks_plain)+

lemma control_completes [completes_intros]: "completes (driver_ok b c v) (evt_io_device_control (recording_kernel K) rq)"
  unfolding evt_io_device_control_def Let_def by (intro completes_intros)

section \<open>The start\<close>

text \<open>Whatever the registry holds, the retry limit of the bus is the built-in one.\<close>

lemma parameters_patient: "cfg_max_bus_retries (pr_config (fst (read_parameters g))) = 2"
proof -
  have step: "cfg_max_bus_retries (snd (config_apply_parameter name v c)) = cfg_max_bus_retries c" if "name \<noteq> ''BusRetryCount''" for name v c
    using that by (auto simp: config_apply_parameter_def split: sum.split option.split)
  have "cfg_max_bus_retries (fst (fold (\<lambda>name (config, profile). case rg_value g name of
       None \<Rightarrow> (config, profile)
     | Some v \<Rightarrow> (case config_apply_parameter name v config of (accepted, config) \<Rightarrow>
         (config, if accepted \<and> name = ''ProtectionProfile'' then Some v else profile))) names (c, prof))) = cfg_max_bus_retries c"
    if "''BusRetryCount'' \<notin> set names" for names c prof
    using that
    by (induction names arbitrary: c prof) (auto simp: case_prod_beta step split: option.split)
  from this [of config_names for_qc35_class_b None] show ?thesis
    by (auto simp: read_parameters_def read_config_def params_default_def for_qc35_class_b_def config_default_def
        config_names_def Let_def split: prod.splits)
qed

lemma open_patient:
  assumes "pump_open B (pr_config (fst (read_parameters g))) bus = Inr p"
  shows "patient p"
proof -
  from assms have "p_config p = pr_config (fst (read_parameters g))"
    by (auto simp: pump_open_def Let_def split: prod.splits sum.splits if_splits)
  with parameters_patient [of g] show ?thesis by (simp add: patient_def u8_max_def)
qed

lemma session_result:
  assumes "keeps patient m" "patient p"
  shows "completes_with P (on_session p m) (\<lambda>x d. P d \<and> patient (snd x))"
proof (rule completes_withI, goal_cases)
  case (1 d)
  from keepsD [OF assms] obtain r q where "m p = Some (r, q)" "patient q" by blast
  with 1 show ?case by (auto simp: on_session_def)
qed

lemma power_request_ok:
  assumes "driver_ok b c v d"
  shows "driver_ok b c v (snd (sysreq_acquire fdo created set_status d))"
    "driver_ok b c v (sysreq_release d) \<and> \<not> dv_request_held (sysreq_release d) \<and> dv_requests_live (sysreq_release d) = 0"
proof -
  have *: "driver_ok b c v (d\<lparr>dv_requests_live := of_bool h, dv_request_held := h\<rparr>)" for h
    using assms by (simp add: driver_ok_def request_ok_def)
  have held: "dv_requests_live d = of_bool (dv_request_held d)" using assms by (simp add: driver_ok_def request_ok_def)
  have none: "driver_ok b c v (d\<lparr>dv_requests_live := 0\<rparr>)" if "\<not> dv_request_held d"
    using assms that by (simp add: driver_ok_def)
  show "driver_ok b c v (snd (sysreq_acquire fdo created set_status d))"
    using assms held * [of True] none by (cases "dv_request_held d") (simp_all add: sysreq_acquire_def Let_def)
  show "driver_ok b c v (sysreq_release d) \<and> \<not> dv_request_held (sysreq_release d) \<and> dv_requests_live (sysreq_release d) = 0"
    using assms held * [of False] by (cases "dv_request_held d") (simp_all add: sysreq_release_def)
qed

lemma publishing_completes [completes_intros]:
  "completes (driver_ok b c v) (publish_battery K sys publish)" "completes (driver_ok b c v) (hold_power sys)"
proof -
  have "completes (driver_ok b c v) (first_readings K n s)" for b c v K n s
    by (induction n arbitrary: s) (auto intro!: completes_intros keeps_intros simp: Let_def)
  note readings = this
  show "completes (driver_ok b c v) (publish_battery K sys publish)"
    unfolding publish_battery_def Let_def
    by (intro completes_intros readings; simp add: vbus_marks_plain)
  show "completes (driver_ok b c v) (hold_power sys)"
    unfolding hold_power_def
  proof (rule completes_get, rule completes_Let, rule completes_case_prod, rule completes_and_then, rule completes_modify, goal_cases)
    case (1 d status d' d'')
    with power_request_ok(1) [of b c v d] show ?case by (metis snd_conv)
  qed (rule marks_complete, simp add: vbus_marks_plain)
qed

text \<open>Between events: the configured limit is in force once a pump was started.\<close>

definition started :: "u32 \<Rightarrow> bool \<Rightarrow> ('b, 'w \<times> write_log) driver \<Rightarrow> bool" where
  "started c dev d \<longleftrightarrow> driver_inv (dv_fcc_cfg_raw d) ((dev, dv_pump d \<noteq> None), None) d \<and> dv_fcc_cfg_raw d \<in> {0, c}"

lemma completes_with_started:
  assumes "\<And>c u. completes (driver_inv c (u, None)) m"
  shows "completes_with (started c dev) m (\<lambda>_. started c dev)"
proof (rule completes_withI, goal_cases)
  case (1 d)
  then have "driver_inv (dv_fcc_cfg_raw d) ((dev, dv_pump d \<noteq> None), None) d" "dv_fcc_cfg_raw d \<in> {0, c}"
    by (auto simp: started_def)
  with completesD [OF assms this(1)] show ?case
    by (auto simp: started_def driver_inv_def driver_ok_def)
qed

lemma adopt_result:
  assumes "patient p"
  shows "completes_with (started (pr_fcc_raw params) dev) (adopt_pump (recording_kernel K) params sys p)
    (\<lambda>_. started (pr_fcc_raw params) dev)"
proof -
  let ?c = "pr_fcc_raw params" and ?v = "((dev, True), None)"
  have adopt: "completes_with (started ?c dev) (modify (\<lambda>d. d\<lparr>dv_pump := Some p,
      dv_telemetry_ms := pr_telemetry_ms params, dv_fcc_cfg_raw := pr_fcc_raw params, dv_limits := pr_limits params\<rparr>))
      (\<lambda>_. driver_inv ?c ?v)"
  proof (rule completes_withI, goal_cases)
    case (1 d)
    then have "driver_log_ok (dv_fcc_boot_raw d) ?c (snd (dv_world d))"
      by (fastforce simp: started_def driver_inv_def driver_ok_def driver_log_ok_def fcc_write_ok_def)
    with 1 assms show ?case by (auto simp: started_def driver_inv_def driver_ok_def)
  qed
  have arm: "completes (driver_inv ?c ?v) arm_telemetry_timer"
    unfolding arm_telemetry_timer_def by (intro completes_modify) (simp add: driver_inv_def driver_ok_def)
  have rest: "completes (driver_inv ?c ?v) (and_then (try_autostart_hvdcp (recording_kernel K)) (\<lambda>_.
     and_then (publish_battery (recording_kernel K) sys (pr_publish_battery params)) (\<lambda>_.
     and_then (hold_power sys) (\<lambda>_.
     and_then arm_telemetry_timer (\<lambda>_.
     and_then (modify (\<lambda>d. d\<lparr>dv_gauge_ready := True\<rparr>)) (\<lambda>_.
     and_then (mark_values (stage_marks 0xFE 0)) (\<lambda>_. ret ST_SUCCESS)))))))"
    by (intro completes_and_then arm completes_inv completes_intros)
       (simp_all add: driver_ok_def stage_marks_def vbus_marks_plain)
  have open_mark: "completes_with (started ?c dev) (mark_values [(''PumpOpen'', 1)]) (\<lambda>_. started ?c dev)"
    by (intro completes_with_started completes_inv completes_intros) (simp add: vbus_marks_plain)
  have final: "completes_with (driver_inv ?c ?v) m (\<lambda>_. started ?c dev)" if "completes (driver_inv ?c ?v) m" for m
    by (rule completes_with_mono [OF that]) (auto simp: started_def driver_inv_def driver_ok_def)
  show ?thesis
    unfolding adopt_pump_def by (intro completes_with_then [OF open_mark] completes_with_then [OF adopt] final rest)
qed

lemma start_result:
  assumes "params = fst (read_parameters g)"
  shows "completes_with (started (pr_fcc_raw params) dev) (start_pump (recording_kernel K) params sys bus)
    (\<lambda>_. started (pr_fcc_raw params) dev)"
proof (cases "pump_open (kn_bus K) (pr_config params) bus")
  case (Inl e)
  have "completes (driver_inv c (u, None)) (and_then (modify (\<lambda>d. d\<lparr>dv_last_error := - 2\<rparr>)) (\<lambda>_.
      and_then (mark_values ([(''PumpOpen'', 0), (''PumpFailStatus'', as_u32 ST_UNSUCCESSFUL)] @ stage_marks 32 ST_UNSUCCESSFUL)) (\<lambda>_.
      ret ST_SUCCESS)))" for c u
    by (intro completes_inv completes_intros) (simp_all add: driver_ok_def stage_marks_def vbus_marks_plain)
  from completes_with_started [OF this] Inl show ?thesis by (simp add: start_pump_def)
next
  case (Inr p)
  have p: "patient p" using open_patient [of "kn_bus K" g bus p] Inr assms by simp
  have failed: "completes (driver_inv c (u, None)) (and_then (modify (\<lambda>d. d\<lparr>dv_last_error := - 3\<rparr>)) (\<lambda>_.
      and_then (mark_values (stage_marks 33 0)) (\<lambda>_. ret ST_DEVICE_NOT_READY)))" for c u
    by (intro completes_inv completes_intros) (simp_all add: driver_ok_def stage_marks_def vbus_marks_plain)
  have go: "completes_with (started (pr_fcc_raw params) dev)
      (and_then (on_session q (pump_standby (kn_bus K))) (\<lambda>(_, p). adopt_pump (recording_kernel K) params sys p))
      (\<lambda>_. started (pr_fcc_raw params) dev)" if "patient q" for q
  proof (rule completes_with_then [OF session_result [OF fallback_keeps(2) that]], goal_cases)
    case (1 x)
    show ?case
      by (cases x) (use adopt_result in \<open>fastforce simp: completes_with_def\<close>)
  qed
  show ?thesis
    unfolding start_pump_def kernel_fields Inr sum.case
  proof (rule completes_with_then [OF session_result [OF configure_keeps p]], goal_cases)
    case (1 x)
    show ?case
    proof (cases x)
      case (Pair r q)
      show ?thesis
      proof (cases r)
        case (Inl e)
        with Pair completes_with_started [OF failed] show ?thesis
          by (fastforce simp: completes_with_def)
      next
        case (Inr u)
        with Pair go [of q] show ?thesis by (fastforce simp: completes_with_def)
      qed
    qed
  qed
qed

text \<open>The release leaves nothing behind: no pump, no device, no armed timer, no power request.\<close>

definition released :: "u32 \<Rightarrow> ('b, 'w \<times> write_log) driver \<Rightarrow> bool" where
  "released c d \<longleftrightarrow> started c False d \<and> dv_pump d = None \<and> \<not> dv_timer_armed d \<and> \<not> dv_gauge_ready d \<and>
     \<not> dv_request_held d \<and> dv_requests_live d = 0 \<and> \<not> dv_edge_armed d \<and> \<not> dv_retry_pending d"

lemma release_result: "completes_with (started c dev) (evt_release_hardware K) (\<lambda>_. released c)"
proof -
  text \<open>What the steps before the last leave, with the power request gone after the fourth.\<close>
  define R where "R power d \<longleftrightarrow> started c dev d \<and> \<not> dv_timer_armed d \<and> \<not> dv_gauge_ready d \<and>
      (power \<longrightarrow> \<not> dv_request_held d \<and> dv_requests_live d = 0)" for power and d :: "('a, 'b \<times> write_log) driver"
  have flags: "completes_with (started c dev) (modify (\<lambda>d. d\<lparr>dv_gauge_ready := False\<rparr>)) (\<lambda>_ d. started c dev d \<and> \<not> dv_gauge_ready d)"
    "completes_with (\<lambda>d. started c dev d \<and> \<not> dv_gauge_ready d) (modify (\<lambda>d. d\<lparr>dv_timer_armed := False\<rparr>)) (\<lambda>_. R False)"
    by (rule completes_withI, simp add: R_def started_def driver_inv_def driver_ok_def)+
  have battery: "completes_with (R False) (on_battery unload) (\<lambda>_. R False)"
    unfolding on_battery_def by (rule completes_withI) (simp add: R_def started_def driver_inv_def driver_ok_def)
  have power: "completes_with (R False) (modify sysreq_release) (\<lambda>_. R True)"
  proof (rule completes_withI, goal_cases)
    case (1 d)
    have same: "dv_pump (sysreq_release d) = dv_pump d" "dv_fcc_cfg_raw (sysreq_release d) = dv_fcc_cfg_raw d"
      "dv_fcc_boot_raw (sysreq_release d) = dv_fcc_boot_raw d" "dv_timer_armed (sysreq_release d) = dv_timer_armed d"
      "dv_gauge_ready (sysreq_release d) = dv_gauge_ready d" by (simp_all add: sysreq_release_def)
    from 1 show ?case
      using power_request_ok(2) [of "dv_fcc_boot_raw d" "dv_fcc_cfg_raw d" "((dev, dv_pump d \<noteq> None), None)" d]
      by (simp add: R_def started_def driver_inv_def same)
  qed
  have chip: "completes_with (R True) (with_pump x m) (\<lambda>_. R True)" if "keeps patient m" for x m
  proof (rule completes_withI, goal_cases)
    case (1 d)
    show ?case
    proof (cases "dv_pump d")
      case None
      with 1 show ?thesis by (simp add: with_pump_def)
    next
      case (Some p)
      with 1 have "patient p" by (auto simp: R_def started_def driver_inv_def driver_ok_def)
      with that obtain r q where "m p = Some (r, q)" "patient q" by (blast dest: keepsD)
      with Some 1 show ?thesis by (simp add: with_pump_def R_def started_def driver_inv_def driver_ok_def)
    qed
  qed
  have standby: "completes_with (R True) (discard (on_pump (pump_standby (kn_bus K)))) (\<lambda>_. R True)"
    unfolding discard_def on_pump_def
    by (rule completes_with_then [OF chip [OF keeps_outcome [OF fallback_keeps(2)]]]) (simp add: completes_with_def)
  have last: "completes_with (R True) (modify (\<lambda>d. d\<lparr>dv_pump := None, dv_retry_pending := False, dv_edge_armed := False,
      dv_last_input_present := False, dv_device := False\<rparr>)) (\<lambda>_. released c)"
    by (rule completes_withI) (auto simp: R_def released_def started_def driver_inv_def driver_ok_def)
  show ?thesis
    unfolding evt_release_hardware_def
    by (rule completes_with_then [OF flags(1)], rule completes_with_then [OF flags(2)], rule completes_with_then [OF battery],
        rule completes_with_then [OF power], rule completes_with_then [OF standby],
        rule completes_with_then [OF chip [OF latch_keeps(4)]], rule last)
qed

end
