(* ===== verification/Kmdf_Sessions.thy ===== *)
theory Kmdf_Sessions
  imports Kmdf_Safety
begin

text \<open>
  Whole lives of the pump driver: the hardware is prepared, timer ticks and control requests follow in any
  order, the hardware is released, any number of times.
\<close>

section \<open>The preparation\<close>

text \<open>
  The whole preparation. What it leaves in the registry besides has nothing to do with the estimates of the
  input voltage.
\<close>

abbreviation apart :: "(string \<times> u32) list \<Rightarrow> bool" where
  "apart ms \<equiv> ''SuVbusEst'' \<notin> fst ` set ms"

lemma variants_apart:
  assumes "apart ms" "value_name \<noteq> ''SuVbusEst''" "\<forall>(v, ok, st) \<in> set names. ok \<noteq> ''SuVbusEst'' \<and> st \<noteq> ''SuVbusEst''"
  shows "apart (snd (snd (fold (probe_variant W value_name) names (bus, working, ms))))"
  using assms
proof (induction names arbitrary: bus working ms)
  case (Cons probe names)
  obtain b2 w2 m2 where step: "probe_variant W value_name probe (bus, working, ms) = (b2, w2, m2)" by (metis prod_cases3)
  with Cons.prems have "apart m2" by (auto simp: probe_variant_def split: prod.splits sum.splits)
  with Cons.IH Cons.prems(2,3) show ?case by (simp add: step)
qed simp

lemma steps_apart:
  assumes "apart ms" "\<And>x b ms. x \<in> set xs \<Longrightarrow> apart ms \<Longrightarrow> apart (snd (f x (b, ms)))"
  shows "apart (snd (fold f xs (bus, ms)))"
  using assms
proof (induction xs arbitrary: bus ms)
  case (Cons x xs)
  obtain b2 m2 where step: "f x (bus, ms) = (b2, m2)" by (cases "f x (bus, ms)")
  with Cons.prems(2) [of x ms bus] Cons.prems(1) have "apart m2" by simp
  with Cons show ?case by (simp add: step)
qed simp

lemma parent_apart: "apart (snd (probe_parent W bus))"
proof -
  obtain b ms where attached: "probe_attach W bus = (b, ms)" by (cases "probe_attach W bus")
  obtain b2 working ms2 where tried: "probe_variants W ''ProbeValue'' probe_names b = (b2, working, ms2)" by (metis prod_cases3)
  have "apart (snd (snd (probe_variants W ''ProbeValue'' probe_names b)))"
    unfolding probe_variants_def by (rule variants_apart) (simp_all add: probe_names_def)
  moreover have "apart ms" using attached by (auto simp: probe_attach_def split: prod.splits)
  ultimately show ?thesis by (auto simp: probe_parent_def attached tried split: option.split)
qed

lemma hub_apart: "apart (snd (snd (probe_hub W open_bus i)))"
proof (cases "open_bus i True")
  case (Some hub)
  obtain b working ms where tried: "probe_variants W ''HubValue'' hub_names hub = (b, working, ms)" by (metis prod_cases3)
  have "apart (snd (snd (probe_variants W ''HubValue'' hub_names hub)))"
    unfolding probe_variants_def by (rule variants_apart) (simp_all add: hub_names_def)
  then show ?thesis by (simp add: probe_hub_def Some tried)
qed (simp add: probe_hub_def)

lemma usbin_apart: "apart (probe_usbin_spmi W open_bus usbin)"
proof (cases usbin)
  case (Some i)
  show ?thesis
  proof (cases "open_bus i True")
    case (Some bus)
    show ?thesis
      unfolding probe_usbin_spmi_def \<open>usbin = _\<close> option.case Some
      by (rule steps_apart) (auto split: prod.splits sum.splits)
  qed (simp add: probe_usbin_spmi_def Some)
qed (simp add: probe_usbin_spmi_def)

lemma bus_probes_apart:
  "apart (snd (probe_locked W bus))" "apart (snd (probe_registers W bus))" "apart (snd (probe_ioctls W bus))"
proof -
  show "apart (snd (probe_locked W bus))" by (auto simp: probe_locked_def split: prod.splits sum.splits)
  show "apart (snd (probe_registers W bus))" "apart (snd (probe_ioctls W bus))"
    unfolding probe_registers_def probe_ioctls_def by (rule steps_apart; auto split: prod.splits)+
qed

lemma named_apart: "apart (named_marks dg)" "apart (apsd_marks a)"
  by (simp_all add: named_marks_def named_targets_def apsd_marks_def)

lemma candidates_apart: "apart (concat (map (probe_candidate W open_bus) candidates))"
proof -
  have "apart (probe_candidate W open_bus (c, CHR ''S'' # CHR ''c'' # name))" for c name
    by (auto simp: probe_candidate_def split: option.splits prod.splits)
  moreover have "\<exists>name. snd x = CHR ''S'' # CHR ''c'' # name" if "x \<in> set candidates" for x
    using that by (auto simp: candidates_def)
  ultimately have "apart (probe_candidate W open_bus x)" if "x \<in> set candidates" for x
    using that by (metis prod.collapse)
  then show ?thesis by auto
qed

lemma route_apart: "apart (snd (choose_pump_bus W open_bus dg i usbin bus))"
proof -
  obtain b1 m1 where p1: "probe_parent W bus = (b1, m1)" by (cases "probe_parent W bus")
  obtain b2 m2 where p2: "probe_locked W b1 = (b2, m2)" by (cases "probe_locked W b1")
  obtain b3 m3 where p3: "probe_registers W b2 = (b3, m3)" by (cases "probe_registers W b2")
  obtain b4 m4 where p4: "probe_ioctls W b3 = (b4, m4)" by (cases "probe_ioctls W b3")
  obtain h hw m5 where p5: "probe_hub W open_bus i = (h, hw, m5)" by (metis prod_cases3)
  have "apart (attach_marks r)" for r by (auto simp: attach_marks_def split: prod.splits dest: set_zip_leftD)
  moreover have "apart (sequence_marks r)" for r by (auto simp: sequence_marks_def split: prod.splits)
  ultimately show ?thesis
    using parent_apart [of W bus] bus_probes_apart(1) [of W b1] bus_probes_apart(2) [of W b2] bus_probes_apart(3) [of W b3]
      hub_apart [of W open_bus i] named_apart usbin_apart [of W open_bus usbin] candidates_apart [of W open_bus]
    by (cases h) (simp_all add: choose_pump_bus_def p1 p2 p3 p4 p5 image_Un Let_def)
qed

lemma marks_started: "apart ms \<Longrightarrow> completes_with (started c dev) (mark_values ms) (\<lambda>_. started c dev)"
  by (intro completes_with_started completes_inv completes_intros) (simp add: vbus_marks_plain)

lemma steps_started:
  "completes_with (started c dev) (modify (\<lambda>d. d\<lparr>dv_last_error := x\<rparr>)) (\<lambda>_. started c dev)"
  "completes_with (started c dev) (modify (\<lambda>d. d\<lparr>dv_usbin_id := i\<rparr>)) (\<lambda>_. started c dev)"
  "completes_with (started c dev) (ret y) (\<lambda>_. started c dev)"
  by (auto simp: completes_with_def started_def driver_inv_def driver_ok_def)

lemma connection_marks_apart: "apart (concat (map (\<lambda>(i, c). connection_marks i c) ics))"
  by (auto simp: connection_marks_def split: if_splits)

lemma prepare_result:
  "completes_with (started (pr_fcc_raw (fst (read_parameters g))) dev)
    (evt_prepare_hardware W (recording_kernel K) open_bus dg g sys ds)
    (\<lambda>_. started (pr_fcc_raw (fst (read_parameters g))) dev)"
proof -
  let ?S = "started (pr_fcc_raw (fst (read_parameters g))) dev"
  obtain params pm where params: "read_parameters g = (params, pm)" by (cases "read_parameters g")
  have pm: "apart pm"
    using params by (auto simp: read_parameters_def profile_marks_def Let_def split: if_splits prod.splits)
  show ?thesis
    unfolding evt_prepare_hardware_def Let_def
  proof (rule completes_with_then [OF marks_started], goal_cases)
    case 1
    show ?case using connection_marks_apart by (simp add: stage_marks_def image_Un)
  next
    case (2 x)
    show ?case
    proof (cases "select_i2c_connection (collect_connections ds)")
      case None
      then show ?thesis by (simp add: completes_with_then [OF marks_started steps_started(3)] stage_marks_def)
    next
      case (Some i)
      show ?thesis
        unfolding Some option.case
      proof (rule completes_with_then [OF marks_started], goal_cases)
        case 1
        show ?case by (simp split: option.split)
      next
        case (2 x)
        show ?case
        proof (cases "open_bus i False")
          case None
          then show ?thesis
            by (simp add: completes_with_then [OF steps_started(1) completes_with_then [OF marks_started steps_started(3)]] stage_marks_def)
        next
          case (Some bus)
          obtain b ms where route: "choose_pump_bus W open_bus dg i (select_usbin_connection (collect_connections ds) i) bus = (b, ms)"
            by (cases "choose_pump_bus W open_bus dg i (select_usbin_connection (collect_connections ds) i) bus")
          have "apart (pm @ ms)" using pm route_apart [of W open_bus dg i "select_usbin_connection (collect_connections ds) i" bus]
            by (simp add: route image_Un)
          then show ?thesis
            unfolding Some option.case params route prod.case fst_conv
            by (intro completes_with_then [OF marks_started] completes_with_then [OF steps_started(2)] start_result [where g = g])
               (simp_all add: params)
        qed
      qed
    qed
  qed
qed

section \<open>Runs of the driver\<close>

datatype driver_event = TimerTick | Control ioctl_request

fun driver_event_op :: "('b, 'w) kernel \<Rightarrow> driver_event \<Rightarrow> ('b, 'w, unit, unit) dv_op" where
  "driver_event_op K TimerTick = evt_telemetry_timer K"
| "driver_event_op K (Control rq) = discard (evt_io_device_control K rq)"

text \<open>What one start of the device finds: the framework, the connections and what the system answers.\<close>

record 'x hardware =
  hw_wdf :: "'x wdf"
  hw_open_bus :: "u64 \<Rightarrow> bool \<Rightarrow> 'x spb_bus option"
  hw_diagnostics :: diagnostics
  hw_system :: system_answers
  hw_resources :: "descriptor list"

text \<open>The device has been added; then its hardware is prepared, and any events follow, in any order.\<close>

definition driver_added :: "'w \<Rightarrow> ('b, 'w) driver" where
  "driver_added w = (driver_new w)\<lparr>dv_device := True\<rparr>"

definition driver_run ::
  "('x spb_bus, 'w) kernel \<Rightarrow> registry \<Rightarrow> 'x hardware \<Rightarrow> driver_event list \<Rightarrow> ('x spb_bus, 'w, unit, unit) dv_op" where
  "driver_run K g hw es =
     and_then (evt_prepare_hardware (hw_wdf hw) K (hw_open_bus hw) (hw_diagnostics hw) g (hw_system hw) (hw_resources hw))
       (\<lambda>_. block (map (driver_event_op K) es))"

lemma event_completes: "completes (driver_inv c (u, None)) (driver_event_op (recording_kernel K) e)"
proof (cases e)
  case TimerTick
  with tick_result [of c u K] show ?thesis
    by (fastforce simp: completes_def completes_with_def tick_armed_def)
next
  case (Control rq)
  then show ?thesis by (simp, intro completes_discard completes_inv control_completes)
qed

lemma events_complete: "completes (driver_inv c (u, None)) (block (map (driver_event_op (recording_kernel K)) es))"
proof (induction es)
  case Nil
  show ?case by (simp add: completes_def)
qed (simp add: completes_and_then event_completes)

lemma added_started: "started c True (driver_added (w, []))"
  by (auto simp: started_def driver_inv_def driver_ok_def driver_added_def driver_new_def honest_def hvdcp_new_def
      backoff_ok_def vbus_marks_ok_def)

lemma run_result: "completes_with (started (pr_fcc_raw (fst (read_parameters g))) dev)
  (driver_run (recording_kernel K) g hw es) (\<lambda>_. started (pr_fcc_raw (fst (read_parameters g))) dev)"
  unfolding driver_run_def
  by (rule completes_with_then [OF prepare_result completes_with_started [OF events_complete]])

text \<open>Whole lives: the hardware is prepared and released any number of times, under one registry.\<close>

primrec driver_lives ::
  "('x spb_bus, 'w) kernel \<Rightarrow> registry \<Rightarrow> ('x hardware \<times> driver_event list) list \<Rightarrow> ('x spb_bus, 'w, unit, unit) dv_op" where
  "driver_lives K g [] = ret ()"
| "driver_lives K g (life # lives) = (case life of (hw, es) \<Rightarrow>
     and_then (driver_run K g hw es) (\<lambda>_. and_then (evt_release_hardware K) (\<lambda>_. driver_lives K g lives)))"

lemma lives_result: "completes_with (\<lambda>d. \<exists>dev. started (pr_fcc_raw (fst (read_parameters g))) dev d)
  (driver_lives (recording_kernel K) g lives) (\<lambda>_ d. \<exists>dev. started (pr_fcc_raw (fst (read_parameters g))) dev d)"
proof (induction lives)
  case Nil
  show ?case by (simp add: completes_with_def)
next
  case (Cons life lives)
  obtain hw es where life: "life = (hw, es)" by (cases life)
  have "completes_with (started (pr_fcc_raw (fst (read_parameters g))) dev) (driver_lives (recording_kernel K) g (life # lives))
      (\<lambda>_ d. \<exists>dev. started (pr_fcc_raw (fst (read_parameters g))) dev d)" for dev
    unfolding life driver_lives.simps prod.case
    by (rule completes_with_then [OF run_result], rule completes_with_then [OF release_result])
       (use Cons.IH in \<open>auto simp: completes_with_def released_def\<close>)
  then show ?case by (auto simp: completes_with_def)
qed

text \<open>The reachable states: lives, then a start and events.\<close>

definition driver_session ::
  "('x spb_bus, 'w) kernel \<Rightarrow> registry \<Rightarrow> ('x hardware \<times> driver_event list) list \<Rightarrow> 'x hardware \<Rightarrow>
   driver_event list \<Rightarrow> ('x spb_bus, 'w, unit, unit) dv_op" where
  "driver_session K g lives hw es = and_then (driver_lives K g lives) (\<lambda>_. driver_run K g hw es)"

lemma added_somehow: "\<exists>dev. started c dev (driver_added (w, []))"
  by (rule exI [of _ True]) (rule added_started)

lemma completes_with_unit: "completes_with P m Q \<Longrightarrow> P s \<Longrightarrow> \<exists>t. m s = Some (Inr (), t) \<and> Q () t"
  by (auto dest: completes_withD)

lemma lives_from_added:
  "\<exists>t dev. driver_lives (recording_kernel K) g lives (driver_added (w, [])) = Some (Inr (), t) \<and>
    started (pr_fcc_raw (fst (read_parameters g))) dev t"
  using completes_with_unit [OF lives_result added_somehow, of K g lives w] by blast

lemma session_started: "\<exists>d dev. driver_session (recording_kernel K) g lives hw es (driver_added (w, [])) = Some (Inr (), d) \<and>
  started (pr_fcc_raw (fst (read_parameters g))) dev d"
proof -
  obtain t dev where t: "driver_lives (recording_kernel K) g lives (driver_added (w, [])) = Some (Inr (), t)"
      "started (pr_fcc_raw (fst (read_parameters g))) dev t"
    using lives_from_added [of K g lives w] by blast
  from completes_withD [OF run_result t(2), of K hw es] t(1) show ?thesis
    by (auto simp: driver_session_def and_then_def)
qed

lemma block_one: "block [m] = (m :: ('s, 'e, unit) op)"
  by (auto simp: fun_eq_iff and_then_def ret_def split: option.split sum.split)

lemma run_append: "driver_run K g hw (es @ [e]) = and_then (driver_run K g hw es) (\<lambda>_. driver_event_op K e)"
  by (auto simp: driver_run_def block_append block_one fun_eq_iff and_then_def split: option.split sum.split)

text \<open>
  C6. Whatever the registry, the pump's bus, the PMIC, the adapter and the clock do, the driver answers: any
  number of lives (the preparation of the hardware, timer ticks and control requests in any order, the release)
  and a last preparation with any events all return, and without an error that is lost.
\<close>

theorem driver_always_returns:
  "\<exists>d. driver_session (recording_kernel K) g lives hw es (driver_added (w, [])) = Some (Inr (), d)"
  using session_started [of K g lives hw es w] by blast

text \<open>
  C7. The protection does not stop: after the first start of the added device and any events, one more tick
  leaves the one-shot timer armed again unless there is no pump, also when the status cannot be read and when
  the tick renegotiates.
\<close>

theorem tick_rearms:
  "\<exists>d. driver_run (recording_kernel K) g hw (es @ [TimerTick]) (driver_added (w, [])) = Some (Inr (), d) \<and>
    (dv_pump d = None \<or> dv_timer_armed d)"
proof -
  obtain t where t: "driver_run (recording_kernel K) g hw es (driver_added (w, [])) = Some (Inr (), t)"
    "driver_inv (dv_fcc_cfg_raw t) ((True, dv_pump t \<noteq> None), None) t"
    using completes_withD [OF run_result added_started, of K g hw es w] by (auto simp: started_def)
  from completes_withD [OF tick_result t(2), of K] obtain x d where
    d: "driver_event_op (recording_kernel K) TimerTick t = Some (Inr x, d)" "tick_armed (dv_fcc_cfg_raw t) (True, dv_pump t \<noteq> None) d"
    by auto
  then have "dv_pump d = None \<or> dv_timer_armed d"
    by (auto simp: tick_armed_def driver_inv_def driver_ok_def)
  with t(1) d(1) show ?thesis by (simp add: run_append and_then_def)
qed

text \<open>
  C5. Over every such session the PMIC is written only in two ways: as the negotiation may write the charger (the
  ten registers of \<open>allowed_write\<close> with their safe values, a command only as made of the last reading of the
  command register before the write), and in the charge current limit, never above the
  limit found at the first snapshot unless the policy is configured on, and then never above 3 A. With the
  policy off the driver therefore never raises the charge current of the platform charger.
\<close>

theorem driver_writes_bounded:
  "\<exists>d. driver_session (recording_kernel K) g lives hw es (driver_added (w, [])) = Some (Inr (), d) \<and>
    (\<forall>(cur, sid, a, data) \<in> set (writes (snd (dv_world d))). sid = 2 \<and> (\<exists>v. data = [v] \<and>
      (allowed_write cur a v \<or> a = SPMI_REG_CHGR_FCC \<and>
        (v \<le> dv_fcc_boot_raw d \<or> pr_fcc_raw (fst (read_parameters g)) \<noteq> 0 \<and> v \<le> 60))))"
  using session_started [of K g lives hw es w]
  by (fastforce simp: started_def driver_inv_def driver_ok_def driver_log_ok_def fcc_write_ok_def)

text \<open>
  C8. The bookkeeping of the driver stays in bounds over every session: a raised charge current limit was
  configured and has a limit to return to, at most 30 renegotiations are retried in a row, and the delay of
  the renegotiations at 5 V is one of none, one, two, four and five minutes.
\<close>

theorem driver_bookkeeping:
  "\<exists>d. driver_session (recording_kernel K) g lives hw es (driver_added (w, [])) = Some (Inr (), d) \<and>
    (dv_fcc_raised d \<longrightarrow> dv_fcc_boot_raw d \<noteq> 0 \<and> pr_fcc_raw (fst (read_parameters g)) \<noteq> 0) \<and>
    dv_retry_attempts d \<le> 30 \<and> dv_re_elevate_backoff_ms d \<in> {0, 60000, 120000, 240000, 300000}"
  using session_started [of K g lives hw es w]
  by (fastforce simp: started_def driver_inv_def driver_ok_def backoff_ok_def)

text \<open>
  C9. The release leaves nothing behind: after any session it returns with no pump, no device, the timer
  stopped, no renegotiation or edge pending, and every power request the driver created deleted.
\<close>

theorem release_leaves_nothing:
  "\<exists>d. and_then (driver_session (recording_kernel K) g lives hw es) (\<lambda>_. evt_release_hardware (recording_kernel K))
      (driver_added (w, [])) = Some (Inr (), d) \<and>
    dv_pump d = None \<and> \<not> dv_device d \<and> \<not> dv_timer_armed d \<and> \<not> dv_gauge_ready d \<and> \<not> dv_retry_pending d \<and>
    \<not> dv_edge_armed d \<and> \<not> dv_request_held d \<and> dv_requests_live d = 0"
proof -
  obtain t dev where t: "driver_session (recording_kernel K) g lives hw es (driver_added (w, [])) = Some (Inr (), t)"
    "started (pr_fcc_raw (fst (read_parameters g))) dev t" using session_started [of K g lives hw es w] by blast
  from completes_withD [OF release_result t(2), of "recording_kernel K"] t(1) show ?thesis
    by (auto simp: and_then_def released_def started_def driver_inv_def driver_ok_def)
qed

lemma lives_end_without_device:
  "completes_with (\<lambda>d. \<exists>dev. started (pr_fcc_raw (fst (read_parameters g))) dev d)
    (driver_lives (recording_kernel K) g (life # lives)) (\<lambda>_. started (pr_fcc_raw (fst (read_parameters g))) False)"
proof (induction lives arbitrary: life)
  case Nil
  obtain hw es where life: "life = (hw, es)" by (cases life)
  have "completes_with (started (pr_fcc_raw (fst (read_parameters g))) dev) (driver_lives (recording_kernel K) g [life])
      (\<lambda>_. started (pr_fcc_raw (fst (read_parameters g))) False)" for dev
    unfolding life driver_lives.simps prod.case
    by (rule completes_with_then [OF run_result], rule completes_with_then [OF release_result])
       (simp add: completes_with_def released_def)
  then show ?case by (auto simp: completes_with_def)
next
  case (Cons later lives)
  obtain hw es where life: "life = (hw, es)" by (cases life)
  have "completes_with (started (pr_fcc_raw (fst (read_parameters g))) dev) (driver_lives (recording_kernel K) g (life # later # lives))
      (\<lambda>_. started (pr_fcc_raw (fst (read_parameters g))) False)" for dev
    unfolding life driver_lives.simps(2) [of _ _ "(hw, es)"] prod.case
    by (rule completes_with_then [OF run_result], rule completes_with_then [OF release_result])
       (use Cons.IH [of later] in \<open>auto simp: completes_with_def released_def\<close>)
  then show ?case by (auto simp: completes_with_def)
qed

lemma orphan_tick:
  fixes d :: "('b, 'w \<times> write_log) driver"
  assumes "driver_inv c ((False, True), None) d" "dv_pump d = Some p" "pump_status (kn_bus K) p = Some (Inr st, q)"
  shows "\<exists>t. driver_event_op (recording_kernel K) TimerTick d = Some (Inr (), t) \<and> \<not> dv_timer_armed t"
proof -
  let ?d = "d\<lparr>dv_timer_armed := False\<rparr>" and ?v = "((False, True), Some False)"
  have dev: "\<not> dv_device d" and "patient p" using assms(1,2) by (auto simp: driver_inv_def driver_ok_def)
  then have "patient q" using keepsD [OF status_keeps, of p "kn_bus K"] assms(3) by auto
  then have inv: "driver_inv c ?v (?d\<lparr>dv_pump := Some q\<rparr>)"
    using assms(1) by (auto simp: driver_inv_def driver_ok_def)
  obtain w t where
    t: "(tick_live (recording_kernel K) GaugeSkipped st :: ('b, 'w \<times> write_log, unit, tick_wants) dv_op)
          (?d\<lparr>dv_pump := Some q\<rparr>) = Some (Inr w, t)" "driver_inv c ?v t"
    using completes_withD [OF tick_live_result inv, of K GaugeSkipped st] by (auto simp: retry_allowed_def)
  from t(2) have "\<not> dv_device t" "\<not> dv_timer_armed t" by (auto simp: driver_inv_def driver_ok_def)
  then show ?thesis
    using assms(2,3) dev t(1)
    by (simp add: evt_telemetry_timer_def read_gauge_if_due_def and_then_def on_pump_def with_pump_def outcome_def when_op_def)
qed

text \<open>
  C10. A device whose hardware is released and prepared again without being added again loses its timer: the
  release clears the device, the preparation does not set it, and so the first tick that reads the status
  returns without arming the timer. From then on nothing measures or protects.
\<close>

theorem restart_loses_timer:
  "\<exists>d. driver_session (recording_kernel K) g (life # lives) hw [] (driver_added (w, [])) = Some (Inr (), d) \<and>
    (\<forall>p st q. dv_pump d = Some p \<longrightarrow> pump_status (kn_bus K) p = Some (Inr st, q) \<longrightarrow>
      (\<exists>t. driver_event_op (recording_kernel K) TimerTick d = Some (Inr (), t) \<and> \<not> dv_timer_armed t))"
proof -
  obtain t where t: "driver_lives (recording_kernel K) g (life # lives) (driver_added (w, [])) = Some (Inr (), t)"
      "started (pr_fcc_raw (fst (read_parameters g))) False t"
    using completes_with_unit [OF lives_end_without_device added_somehow, of K g life lives w] by blast
  obtain d where
    d: "driver_session (recording_kernel K) g (life # lives) hw [] (driver_added (w, [])) = Some (Inr (), d)"
      "started (pr_fcc_raw (fst (read_parameters g))) False d"
    using t(1) completes_with_unit [OF run_result t(2), of K hw "[]"]
    by (auto simp: driver_session_def and_then_def simp del: driver_lives.simps)
  then have "dv_pump d = Some p \<Longrightarrow> driver_inv (dv_fcc_cfg_raw d) ((False, True), None) d" for p
    by (auto simp: started_def)
  with d(1) orphan_tick show ?thesis by (fastforce simp del: driver_lives.simps)
qed

end
