(* ===== verification/Kmdf_Requests.thy ===== *)
theory Kmdf_Requests
  imports Kmdf_Sessions
begin

text \<open>
  What the parameters of the registry promise the pump driver, and what its control requests promise: which mode requests are refused, what a limits request
  does to the guard, and that the samples stay in the caller's buffer. Then concrete kernels and requests, and
  the whole-session theorems of \<open>Kmdf_Sessions\<close> at them.
\<close>

section \<open>The parameters of the registry\<close>

lemma read_config_sane:
  "config_sane c \<Longrightarrow> config_sane (fst (read_config query c))"
proof -
  have "config_sane (fst (fold (\<lambda>name (config, profile). case query name of
       None \<Rightarrow> (config, profile)
     | Some v \<Rightarrow> (case config_apply_parameter name v config of (accepted, config) \<Rightarrow>
         (config, if accepted \<and> name = ''ProtectionProfile'' then Some v else profile))) names (c, prof)))"
    if "config_sane c" for names c prof
    using that
    by (induction names arbitrary: c prof) (auto simp: case_prod_beta config_apply_parameter_sane split: option.split)
  then show "config_sane c \<Longrightarrow> config_sane (fst (read_config query c))" by (simp add: read_config_def)
qed

lemma parameter_keeps_profile: "iin_profile_ua (snd (apply_parameter_lenient name v l)) = iin_profile_ua l"
  by (auto simp: apply_parameter_lenient_def set_parameter_def split: option.split)

lemma read_limits_valid:
  assumes "limits_validate l"
  shows "limits_validate (read_limits query l) \<and> iin_profile_ua (read_limits query l) = iin_profile_ua l"
proof -
  have "iin_profile_ua (fold (\<lambda>name l. case query name of None \<Rightarrow> l | Some v \<Rightarrow> snd (apply_parameter_lenient name v l)) names l) =
      iin_profile_ua l" for names
    by (induction names arbitrary: l) (auto simp: parameter_keeps_profile split: option.split)
  with assms show ?thesis by (simp add: read_limits_def Let_def)
qed

text \<open>
  C11. Whatever the registry holds, the parameters the driver starts with are valid: the pump's configuration is
  within its documented ranges, so that configuring never fails on it; the limits of the guard are consistent, with
  the profile current of that configuration; the timer's period is between 100 ms and a minute. The number of bus
  retries is the built-in 2 whatever the registry says: \<open>read_parameters\<close> never asks for \<open>BusRetryCount\<close>, which
  the deployment guide, the acceptance list and the INF file offer as a parameter of 0 to 8, so a bus access is
  tried at most three times on every machine.
\<close>

theorem parameters_always_valid:
  "let p = fst (read_parameters g) in
    config_sane (pr_config p) \<and> limits_validate (pr_limits p) \<and> iin_profile_ua (pr_limits p) = cfg_iin_limit_ua (pr_config p) \<and>
    100 \<le> pr_telemetry_ms p \<and> pr_telemetry_ms p \<le> 60000 \<and> cfg_max_bus_retries (pr_config p) = 2"
proof -
  have c: "config_sane for_qc35_class_b" by (simp add: config_sane_def for_qc35_class_b_def config_default_def)
  have l: "limits_validate (limits_standard\<lparr>iin_profile_ua := n\<rparr>)" for n
    by (simp add: limits_validate_def is_consistent_def limits_standard_def)
  show ?thesis
    using c l [of "cfg_iin_limit_ua for_qc35_class_b"] read_config_sane [OF c, of "rg_value g"]
      read_limits_valid [OF l] parameters_patient [of g]
    by (auto simp: read_parameters_def params_default_def Let_def case_prod_beta split: option.split)
qed

section \<open>What the requests promise\<close>

lemma run_on_pump:
  "dv_pump d = Some p \<Longrightarrow> m p = Some (r, q) \<Longrightarrow> on_pump m d = Some (Inr r, d\<lparr>dv_pump := Some q\<rparr>)"
  "dv_pump d = Some p \<Longrightarrow> m p = Some (r, q) \<Longrightarrow>
     with_pump x m d = Some (Inr (case r of Inl _ \<Rightarrow> x | Inr y \<Rightarrow> y), d\<lparr>dv_pump := Some q\<rparr>)"
  by (auto simp: on_pump_def with_pump_def outcome_def split: sum.split)

text \<open>
  C12. A mode request never reaches the chip when it must not: a mode other than 1, 2 and 3 is an invalid
  parameter, without a pump the answer carries error -1, and a 1:1 request whose measured input is outside
  the bypass window is answered with error -20, and nothing is done to the chip but the two readings.
\<close>

lemma set_mode_refusals:
  assumes "8 \<le> rq_input_length rq" "read_input rq 8 parse_mode = Some a"
  shows "(\<not> (1 \<le> mr_mode a \<and> mr_mode a \<le> 3) \<longrightarrow>
      handle_set_mode K rq d = Some (Inr (complete_with ST_INVALID_PARAMETER 0), d)) \<and>
    (1 \<le> mr_mode a \<and> mr_mode a \<le> 3 \<and> dv_pump d = None \<longrightarrow>
      handle_set_mode K rq d = Some (Inr (write_output rq (AnsMode (a\<lparr>mr_error := - 1\<rparr>))), d)) \<and>
    (\<forall>p vin p1 vbat p2. mr_mode a = 2 \<and> dv_pump d = Some p \<and> read_adc (kn_bus K) Vin p = Some (vin, p1) \<and>
      read_adc (kn_bus K) Vbat p1 = Some (vbat, p2) \<and>
      \<not> bypass_allowed_by_vin (reading_or_zero vin) (non_negative_uv (reading_or_zero vbat)) \<longrightarrow>
      handle_set_mode K rq d =
        Some (Inr (write_output rq (AnsMode (a\<lparr>mr_error := - 20\<rparr>))), d\<lparr>dv_pump := Some p2\<rparr>))"
  using assms
  by (simp add: handle_set_mode_def with_input_def bypass_refused_def and_then_def reading_or_zero_def run_on_pump)

text \<open>
  C14. A limits request sets both current limits of the guard to what the register can hold, and nothing else
  of it: the floor stays, so the guard's limits are consistent afterwards exactly when the floor is not above
  the applied current. The handler does not check it.
\<close>

lemma set_limits_consistency:
  assumes "16 \<le> rq_input_length rq" "read_input rq 16 parse_limits = Some a" "0 < lr_iin_ua a"
    and "dv_pump d = Some p" "patient p" "set_iin_limit (kn_bus K) (lr_iin_ua a) p = Some (Inr code, q)"
    and "is_consistent (dv_limits d)"
  shows "\<exists>cp d'. handle_set_limits K rq d = Some (Inr cp, d') \<and>
    dv_limits d' = (dv_limits d)\<lparr>iin_max_ua := decode_iin_limit code, iin_target_ua := decode_iin_limit code\<rparr> \<and>
    (is_consistent (dv_limits d') \<longleftrightarrow> iin_floor_ua (dv_limits d) \<le> decode_iin_limit code)"
proof -
  have "patient q" using keepsD [OF limit_keeps(2) assms(5), of "kn_bus K" "lr_iin_ua a"] assms(6) by simp
  from keepsD [OF limit_keeps(3) this] obtain r q' where "set_vbat_float (kn_bus K) (lr_vbat_uv a) q = Some (r, q')" by blast
  with assms show ?thesis
    by (simp add: handle_set_limits_def with_input_def apply_limit_def apply_float_def and_then_def run_on_pump(1)
        is_consistent_def Let_def)
qed

lemma write_samples_map:
  "write_samples lim n ss = map (\<lambda>i. (SAMPLES_REQUEST_SIZE + i * SAMPLE_SIZE, to_sample (ss ! (i - n)))) [n..<min lim (n + length ss)]"
proof (induction ss arbitrary: n)
  case (Cons s ss)
  have "[n..<min lim (n + length (s # ss))] = n # [n + 1..<min lim (n + 1 + length ss)]" if "n < lim"
    using that by (simp add: upt_rec [of n])
  then show ?case using Cons.IH [of "n + 1"] Cons.IH [of n] by (auto simp: nth_Cons split: nat.split) (metis Suc_diff_Suc Suc_le_lessD nat.inject)
qed simp

text \<open>
  C13. The samples never leave the caller's buffer: with an output buffer at least as long as the header, as
  the framework guarantees, the answer holds the oldest retained samples in order, one after the other from
  byte 40, as many as the buffer has room for and the caller asked for, and the reported length is that of
  the bytes written. A count of 0 is taken literally: no sample is returned, where the deployment guide says
  that 0 asks for as many as fit.
\<close>

theorem samples_within_buffer:
  assumes "40 \<le> rq_input_length rq" "rq_output_buffer rq 40 = Inr len" "40 \<le> len"
  shows "\<exists>n cp. handle_get_samples rq d = Some (Inr cp, d) \<and> cp_status cp = 0 \<and>
    cp_information cp = 40 + n * 32 \<and> 40 + n * 32 \<le> len \<and>
    n = min (samples_limit rq len) (length (for_each_sample (dv_telemetry d))) \<and>
    (\<exists>c h. cp_answer cp = Some (AnsSamples c n h
       (map (\<lambda>i. (40 + i * 32, to_sample (for_each_sample (dv_telemetry d) ! i))) [0..<n])))"
proof -
  let ?ss = "for_each_sample (dv_telemetry d)" and ?lim = "samples_limit rq len"
  have w: "write_samples ?lim 0 ?ss = map (\<lambda>i. (40 + i * 32, to_sample (?ss ! i))) [0..<min ?lim (length ?ss)]"
    by (simp add: write_samples_map)
  have "?lim \<le> (len - 40) div 32" by (simp add: samples_limit_def Let_def)
  then have "40 + min ?lim (length ?ss) * 32 \<le> len"
    using assms(3) div_times_less_eq_dividend [of "len - 40" 32] by (simp add: min_def) linarith
  then show ?thesis
    using assms by (auto simp: handle_get_samples_def samples_answer_def and_then_def w Let_def)
qed


text \<open>Concrete requests and machines, on a bus that never answers.\<close>

definition silent_dev :: "unit superuser_dev" where
  "silent_dev = \<lparr>dev_open = (\<lambda>w. (Inl (- 1), w)), dev_ioctl = (\<lambda>_ _ _ w. (Inl (- 1), w)), dev_close = id\<rparr>"

definition silent_kernel :: "(unit, unit) kernel" where
  "silent_kernel = \<lparr>kn_bus = dead_bus, kn_por = id, kn_platform =
     \<lparr>pf_superuser = silent_dev, pf_usbin_open = (\<lambda>_ w. (Inl (), w)), pf_usbin_transact = (\<lambda>_ _ _ w. (Inl (), w)),
      pf_sleep_ms = (\<lambda>_. id), pf_read_vin = (\<lambda>w. (0, w))\<rparr>,
     kn_clock = (\<lambda>n. 250 * n)\<rparr>"

definition open_pump :: "unit pump" where
  "open_pump = dead_pump\<lparr>p_state := Probed\<rparr>"

definition request_of :: "u32 \<Rightarrow> u8 list \<Rightarrow> ioctl_request" where
  "request_of code bytes = \<lparr>rq_code = code, rq_input_length = length bytes, rq_input = Some bytes, rq_output_buffer = (\<lambda>n. Inr n)\<rparr>"

definition bare_registry :: registry where
  "bare_registry = \<lparr>rg_device_key = True, rg_parameters_key = True, rg_value = (\<lambda>_. None)\<rparr>"

definition bare_system :: system_answers where
  "bare_system = \<lparr>sy_fdo = True, sy_pdo = False, sy_class_status = 0, sy_class_handle = False, sy_wmi_status = 0,
     sy_power_create = 0, sy_power_set = 0\<rparr>"

text \<open>A tablet whose pump answers on both routes with the device id of the chip, and a PMIC that never answers.\<close>

definition quiet_kernel :: "(chip spb_bus, unit) kernel" where
  "quiet_kernel = \<lparr>kn_bus = spb_reg_bus (chip_wdf 1), kn_por = id, kn_platform = kn_platform silent_kernel,
     kn_clock = kn_clock silent_kernel\<rparr>"

definition quiet_hardware :: "chip hardware" where
  "quiet_hardware = \<lparr>hw_wdf = chip_wdf 1,
     hw_open_bus = (\<lambda>_ _. Some (spb_open 64 512 1024 2048 1 (\<lambda>_. 0) (\<lambda>a. if a = 0 then DEVICE_ID_VALUE else 0, 0))),
     hw_diagnostics = \<lparr>dg_parent_attach = (- 3, []), dg_parent_sequence = (- 3, 0), dg_named = (\<lambda>_ _ _. - 1),
       dg_apsd = \<lparr>ap_open_status = - 1, ap_grant_status = - 1, ap_read_status = - 1, ap_value = 0\<rparr>\<rparr>,
     hw_system = bare_system,
     hw_resources = [\<lparr>ds_connection = True, ds_low = 5, ds_high = 0, ds_class = 2, ds_type = 1\<rparr>]\<rparr>"

lemma driver_writes_bounded_witness:
  "\<exists>d. driver_session (recording_kernel quiet_kernel) bare_registry [(quiet_hardware, [TimerTick])] quiet_hardware
      [TimerTick, Control (request_of 0 [])] (driver_added ((), [])) = Some (Inr (), d) \<and>
    (\<forall>(cur, sid, a, data) \<in> set (writes (snd (dv_world d))). sid = 2 \<and> (\<exists>v. data = [v] \<and>
      (allowed_write cur a v \<or> a = SPMI_REG_CHGR_FCC \<and>
        (v \<le> dv_fcc_boot_raw d \<or> pr_fcc_raw (fst (read_parameters bare_registry)) \<noteq> 0 \<and> v \<le> 60))))"
  by (rule driver_writes_bounded)

lemma driver_bookkeeping_witness:
  "\<exists>d. driver_session (recording_kernel quiet_kernel) bare_registry [] quiet_hardware [TimerTick] (driver_added ((), [])) =
      Some (Inr (), d) \<and>
    (dv_fcc_raised d \<longrightarrow> dv_fcc_boot_raw d \<noteq> 0 \<and> pr_fcc_raw (fst (read_parameters bare_registry)) \<noteq> 0) \<and>
    dv_retry_attempts d \<le> 30 \<and> dv_re_elevate_backoff_ms d \<in> {0, 60000, 120000, 240000, 300000}"
  by (rule driver_bookkeeping)

lemma restart_loses_timer_witness:
  "\<exists>d. driver_session (recording_kernel quiet_kernel) bare_registry [(quiet_hardware, [TimerTick])] quiet_hardware []
      (driver_added ((), [])) = Some (Inr (), d) \<and>
    (\<forall>p st q. dv_pump d = Some p \<longrightarrow> pump_status (kn_bus quiet_kernel) p = Some (Inr st, q) \<longrightarrow>
      (\<exists>t. driver_event_op (recording_kernel quiet_kernel) TimerTick d = Some (Inr (), t) \<and> \<not> dv_timer_armed t))"
  by (rule restart_loses_timer)

text \<open>Two samples are recorded, two are asked for, and the buffer of 72 bytes has room for one.\<close>

definition sample_at :: "u64 \<Rightarrow> telemetry_sample" where
  "sample_at ms = \<lparr>ts_ms = ms, vbat_uv = 4000000, vbus_uv = 8400000, iin_ua = 1500000, die_temp_dc = 350, ts_op_mode = Switching,
     input_present = True, vbat_valid = True, die_temp_valid = True\<rparr>"

definition two_samples :: "(unit, unit) driver" where
  "two_samples = (driver_new ())\<lparr>dv_telemetry := push_sample (sample_at 500) (push_sample (sample_at 250) telemetry_new)\<rparr>"

definition samples_request :: "u8 \<Rightarrow> ioctl_request" where
  "samples_request count = \<lparr>rq_code = IOCTL_LN8000_GET_SAMPLES, rq_input_length = 72,
     rq_input = Some (count # replicate 71 0), rq_output_buffer = (\<lambda>_. Inr 72)\<rparr>"

lemma two_samples_recorded: "for_each_sample (dv_telemetry two_samples) = [sample_at 250, sample_at 500]"
  by (simp add: two_samples_def samples.put_shown samples.put_good telemetry_new_ok lastn_def)

lemma samples_within_buffer_witness:
  "\<exists>cp c h. handle_get_samples (samples_request 2) two_samples = Some (Inr cp, two_samples) \<and>
    cp_status cp = 0 \<and> cp_information cp = 72 \<and>
    cp_answer cp = Some (AnsSamples c 1 h [(40, to_sample (sample_at 250))])"
proof -
  have lim: "samples_limit (samples_request 2) 72 = 1"
    by (simp add: samples_limit_def samples_request_def read_input_def u32_at_def Let_def)
  from samples_within_buffer [of "samples_request 2" 72 two_samples] show ?thesis
    unfolding lim two_samples_recorded by (auto simp: samples_request_def)
qed

text \<open>A register file that always answers, with a session on it.\<close>

definition memory_bus :: "(u8 \<Rightarrow> u8) reg_bus" where
  "memory_bus = \<lparr>rb_read = \<lambda>a m. (Inr (m a), m), rb_write = \<lambda>a v m. (Inr (), m(a := v)),
     rb_reset = \<lambda>m. (Inr (), m), rb_read_pair = \<lambda>a m. (Inr (byte_pair (m a) (m (a + 1))), m)\<rparr>"

definition memory_kernel :: "(u8 \<Rightarrow> u8, unit) kernel" where
  "memory_kernel = \<lparr>kn_bus = memory_bus, kn_por = id, kn_platform = kn_platform silent_kernel, kn_clock = kn_clock silent_kernel\<rparr>"

definition memory_pump :: "(u8 \<Rightarrow> u8) pump" where
  "memory_pump = \<lparr>p_bus = (\<lambda>_. 0), p_config = config_default, p_state = Probed, p_op_mode = Unknown, p_bypass_stage = 0,
     p_por_vin_uv = None, p_writes = 0, p_reads = 0\<rparr>"

lemma memory_access:
  "pump_read memory_bus a p = Some (Inr (p_bus p a), p\<lparr>p_reads := sat_add_u32 (p_reads p) 1\<rparr>)"
  "pump_write memory_bus a v p = Some (Inr (), p\<lparr>p_bus := (p_bus p)(a := v), p_writes := sat_add_u32 (p_writes p) 1\<rparr>)"
  "pump_read_pair memory_bus a p = Some (Inr (byte_pair (p_bus p a) (p_bus p (a + 1))), p\<lparr>p_reads := sat_add_u32 (p_reads p) 2\<rparr>)"
  unfolding pump_read_def pump_write_def pump_read_pair_def by (subst retry.simps, simp add: memory_bus_def)+

lemma memory_limit: "\<exists>q. set_iin_limit memory_bus 600000 memory_pump = Some (Inr 12, q)"
proof -
  have "encode_iin_limit 600000 = Inr 12"
    by (simp add: encode_iin_limit_def u8_try_from_def u8_max_def Let_def)
  then show ?thesis
    by (simp add: set_iin_limit_def write_iin_limit_def update_def and_then_def memory_access masked_def Let_def)
qed

text \<open>A configured floor of 1 A, and a request for 600 mA.\<close>

lemma set_limits_consistency_witness:
  "\<exists>cp d'. handle_set_limits memory_kernel (request_of IOCTL_LN8000_SET_LIMITS [0xC0, 0x27, 0x09, 0, 0, 0, 0, 0, 0, 0, 0, 0, 0, 0, 0, 0])
      ((driver_new ())\<lparr>dv_pump := Some memory_pump, dv_limits := limits_standard\<lparr>iin_floor_ua := 1000000\<rparr>\<rparr>) = Some (Inr cp, d') \<and>
    is_consistent (limits_standard\<lparr>iin_floor_ua := 1000000\<rparr>) \<and> \<not> is_consistent (dv_limits d')"
proof -
  let ?rq = "request_of IOCTL_LN8000_SET_LIMITS [0xC0, 0x27, 0x09, 0, 0, 0, 0, 0, 0, 0, 0, 0, 0, 0, 0, 0]"
  let ?d = "(driver_new ())\<lparr>dv_pump := Some memory_pump, dv_limits := limits_standard\<lparr>iin_floor_ua := 1000000\<rparr>\<rparr>"
  obtain q where q: "set_iin_limit (kn_bus memory_kernel) 600000 memory_pump = Some (Inr 12, q)"
    using memory_limit by (auto simp: memory_kernel_def)
  have c: "is_consistent (limits_standard\<lparr>iin_floor_ua := 1000000\<rparr>)" by (simp add: is_consistent_def limits_standard_def)
  have rq: "16 \<le> rq_input_length ?rq"
    "read_input ?rq 16 parse_limits = Some \<lparr>lr_iin_ua = 600000, lr_vbat_uv = 0, lr_applied_iin_ua = 0, lr_error = 0\<rparr>"
    by (simp_all add: request_of_def read_input_def parse_limits_def u32_at_def i32_at_def Let_def i32_max_def)
  have p: "patient memory_pump" by (simp add: patient_def memory_pump_def config_default_def u8_max_def)
  have "decode_iin_limit 12 = 600000" by (simp add: decode_iin_limit_def sat_mul_u32_def u32_max_def)
  with set_limits_consistency [OF rq, of ?d memory_pump memory_kernel 12 q] q c p show ?thesis by auto
qed

lemma open_pump_adc:
  "read_adc dead_bus ch open_pump = Some (Inl (BusErr (bus_error_new BkTimeout 0 ''no answer'')), open_pump\<lparr>p_state := Faulted\<rparr>)"
  "read_adc dead_bus ch (open_pump\<lparr>p_state := Faulted\<rparr>) =
     Some (Inl (BusErr (bus_error_new BkTimeout 0 ''no answer'')), open_pump\<lparr>p_state := Faulted\<rparr>)"
proof -
  have "pump_read dead_bus a (open_pump\<lparr>p_state := s\<rparr>) =
      Some (Inl (BusErr (bus_error_new BkTimeout 0 ''no answer'')), open_pump\<lparr>p_state := Faulted\<rparr>)" for a s
    unfolding pump_read_def
    by (subst retry.simps) (simp add: dead_bus_def open_pump_def dead_pump_def sat_add_u8_def u8_max_def Let_def)
  note this [of _ Probed] this [of _ Faulted]
  moreover have "open_pump\<lparr>p_state := Probed\<rparr> = open_pump" by (simp add: open_pump_def)
  ultimately show "read_adc dead_bus ch open_pump = Some (Inl (BusErr (bus_error_new BkTimeout 0 ''no answer'')), open_pump\<lparr>p_state := Faulted\<rparr>)"
    "read_adc dead_bus ch (open_pump\<lparr>p_state := Faulted\<rparr>) =
     Some (Inl (BusErr (bus_error_new BkTimeout 0 ''no answer'')), open_pump\<lparr>p_state := Faulted\<rparr>)"
    by (simp_all add: read_adc_def update_def and_then_def)
qed

lemma set_mode_refusals_witness:
  "handle_set_mode silent_kernel (request_of IOCTL_LN8000_SET_MODE [2, 0, 0, 0, 0, 0, 0, 0])
      ((driver_new ())\<lparr>dv_pump := Some open_pump\<rparr>) =
    Some (Inr (write_output (request_of IOCTL_LN8000_SET_MODE [2, 0, 0, 0, 0, 0, 0, 0])
      (AnsMode \<lparr>mr_mode = 2, mr_applied_mode = 0, mr_error = - 20\<rparr>)),
      (driver_new ())\<lparr>dv_pump := Some (open_pump\<lparr>p_state := Faulted\<rparr>)\<rparr>)"
proof -
  let ?rq = "request_of IOCTL_LN8000_SET_MODE [2, 0, 0, 0, 0, 0, 0, 0]"
  have rq: "8 \<le> rq_input_length ?rq" "read_input ?rq 8 parse_mode = Some \<lparr>mr_mode = 2, mr_applied_mode = 0, mr_error = 0\<rparr>"
    by (simp_all add: request_of_def read_input_def parse_mode_def i32_at_def u32_at_def Let_def i32_max_def)
  have "reading_or_zero (Inl e) = 0" for e by (simp add: reading_or_zero_def)
  moreover have "\<not> bypass_allowed_by_vin 0 v" for v by (simp add: bypass_allowed_by_vin_def charge_mode_def Let_def)
  moreover have "kn_bus silent_kernel = dead_bus" by (simp add: silent_kernel_def)
  ultimately show ?thesis
    using set_mode_refusals [OF rq, of silent_kernel "(driver_new ())\<lparr>dv_pump := Some open_pump\<rparr>"] open_pump_adc by simp
qed

end
