(* ===== verification/Spec2Isabelle.thy ===== *)
theory Spec2Isabelle
  imports Status Battery_Miniport Guard Pump_Chip Charger_Confirm Charger_Runner Hvdcp_Brick Spmi_Link
    Kmdf_Requests
begin

text \<open>
  A verification development for nabu-charger, the Windows charging stack of the Xiaomi Pad 5.

  The stack drives the LN8000 charge pump. \<open>crates/ln8000\<close> holds the hardware-independent logic: the
  pump driver on an abstract register bus, the register encodings, the charge-mode, HVDCP, battery and
  guard policies, and the charge telemetry. \<open>crates/ln8000-kmdf\<close> is the Windows driver around it.
  The stack also drives the SMB charger of the PMIC, which detects the adapter and limits the input
  current: \<open>crates/core\<close> is its driver on an abstract link, clock and journal, \<open>crates/host\<close> runs sessions
  of it on a development host.

  Theories, in the order they build on each other:

    \<^item> \<open>Prelude\<close>: integer ranges with Rust's saturating operations, bit tests, and the monad of
      driver operations (a state transformer that may not return, with errors as values).
    \<^item> \<open>Pump_Regs\<close>, \<open>Pump_Error\<close>: \<open>regs.rs\<close>, \<open>error.rs\<close>.
    \<^item> \<open>Encoding\<close>, \<open>Status\<close>, \<open>Hvdcp_Policy\<close>, \<open>Battery_Policy\<close>, \<open>Guard\<close>, \<open>Session\<close>: the pure modules
      of the same names.
    \<^item> \<open>Register_Bus\<close>: the bus trait of \<open>transport.rs\<close> and, as locales, the contract of a working chip.
    \<^item> \<open>Pump_Config\<close>, \<open>Pump\<close>: \<open>driver.rs\<close>. \<open>Pump_Returns\<close>: termination and error paths of every
      method, on every bus. \<open>Mock_Pump_Bus\<close>: \<open>testkit.rs\<close>, on which the contract is interpreted.
      \<open>Pump_Chip\<close>: what configuring and switching the charge do to a working chip.
    \<^item> \<open>Battery_Miniport\<close>: \<open>battery.rs\<close> of the Windows driver, as a transition system of events.
    \<^item> \<open>Smb_Regs\<close>, \<open>Charger_Error\<close>, \<open>Adapter\<close>, \<open>Icl\<close>, \<open>Charger_Journal\<close>, \<open>Smb_Transport\<close>, \<open>Charger\<close>: the
      modules of \<open>crates/core\<close>; \<open>Adapter\<close> holds \<open>apsd.rs\<close> and \<open>policy.rs\<close>, \<open>Charger\<close> every method of
      \<open>driver.rs\<close>. The session record holds the events it has emitted and the number of clock readings
      it has made; the clock is any sequence of readings.
    \<^item> \<open>Charger_Invariant\<close>: the interface of session invariants, a locale that lists the elementary
      changes an operation can make and proves that every operation keeps what they keep.
      \<open>Charger_Trace\<close> and \<open>Charger_Confirm\<close> interpret it: termination and the configuration, the journal
      against the counters and the state, the confirmation of writes.
    \<^item> \<open>Register_Slots\<close>, \<open>Smb_Mock\<close>: the register store of the two test kits and the scripted charger
      of \<open>crates/core/src/testkit.rs\<close>, on which the contract of a working link is interpreted.
    \<^item> \<open>Charger_Link\<close>: what the operations of the charger do on every working link, as weakest
      precondition rules in a locale. \<open>Charger_Runner\<close>: \<open>runner.rs\<close> of \<open>crates/host\<close> and whole sessions on
      the scripted charger: bring-up, hot plug, close, and detection that never completes.
    \<^item> \<open>Spmi_Superuser\<close>: the SUPERUSER sessions of \<open>spb.rs\<close> (\<open>SuperuserBus\<close>, \<open>read_batt_soc_raw\<close>,
      \<open>read_charge_regs\<close>, \<open>write_fcc_raw\<close>), by the frames they send. The Windows driver that answers is a
      parameter; a simulated PMIC that parses the frames shows that they mean what they should.
    \<^item> \<open>Hvdcp_Link\<close>, \<open>Hvdcp_Negotiate\<close>: \<open>hvdcp.rs\<close>, in the order of the file. The record \<open>hvdcp\<close> is
      \<open>HvdcpState\<close> with the registry marks written and the world behind it; the record \<open>platform\<close> holds what
      is not under \<open>src/\<close>: the SUPERUSER device, the Resource Hub connection, the delay and the ADC.
    \<^item> \<open>Hvdcp_Safety\<close>: the locale \<open>hvdcp_invariant\<close> lists the accesses the negotiation makes and proves that
      every operation keeps what they keep; interpreted on the pulse budget and the published estimates, it
      gives termination on every platform, interpreted on a recording platform, the registers and values
      written, a command of the voltage only as made of the last reading of the command register before it; the
      record holds the writes and those readings. \<open>Hvdcp_Outcome\<close>: the published phase and error against the result. \<open>Hvdcp_Brick\<close>: the voltage
      targets, and the corrections on an ideal adapter of 200 mV steps.
    \<^item> \<open>Spb_List\<close>: \<open>crates/spb\<close>, the transfer list of the serial bus framework as bytes of a memory, and the
      path of a connection. \<open>Spb_Bus\<close>: the bus of \<open>spb.rs\<close> that sends such lists. The calls of the driver
      framework are parameters; a simulated chip that executes the lists shows that the bus keeps the
      contract of \<open>Register_Bus\<close>, on which the locale is interpreted. \<open>Spmi_Link\<close>: the other Windows
      driver, \<open>crates/kmdf\<close>: its SPMI link, journal ring, device start and control requests. Its controller
      comes in two kinds, one that checks the length of a list, as \<open>spb.rs\<close> documents of the node, and refuses
      the link's lists, and one that does not.

    \<^item> \<open>Kmdf_State\<close>, \<open>Kmdf_Tick\<close>, \<open>Kmdf_Ioctl\<close>, \<open>Kmdf_Prepare\<close>: \<open>lib.rs\<close> of \<open>crates/ln8000-kmdf\<close>, with
      \<open>ioctl.rs\<close> and \<open>sysreq.rs\<close>. The record \<open>driver\<close> is \<open>DriverState\<close> with the statics beside it; the record
      \<open>kernel\<close> holds the pump's bus, the platform of the negotiation and the clock. \<open>Kmdf_Tick\<close> is
      \<open>evt_telemetry_timer\<close>, one definition per block of its body: measuring, the battery, the charge current
      policy, the guard, the walk into the transfer window, the charge attempts, the renegotiations.
      \<open>Kmdf_Ioctl\<close> is every control request, \<open>Kmdf_Prepare\<close> the parameters of the registry and
      \<open>evt_prepare_hardware\<close> with its probes.
    \<^item> \<open>Kmdf_Safety\<close>: a calculus of operations that always complete, the invariant of the driver's state, and
      an interpretation of \<open>hvdcp_invariant\<close> on the pump's platform; every step of the driver keeps it.
      \<open>Kmdf_Sessions\<close>: lives of the driver, from the preparation through any ticks and requests to the
      release, any number of times, and what holds of them whatever the devices do. \<open>Kmdf_Requests\<close>: the
      parameters a start can have, and what the control requests promise.

  Not modelled: the registration of the drivers and \<open>evt_device_add\<close> (framework calls whose results are
  handles), the mutex around the driver's state (the callbacks of the model do not overlap), the encoding of
  registry names, the texts that are printed, the bug check of the panic handler, the security descriptors,
  the sockets and files of \<open>crates/host\<close> and the argument parsing of \<open>crates/cli\<close>. The diagnostic probes that
  open other device objects enter \<open>evt_prepare_hardware\<close> by their statuses.

  Conventions. A register byte is an \<open>8 word\<close>; wider integers are \<open>nat\<close> and \<open>int\<close> with their bounds and
  saturation written out. Every driver method is a function from a session to an optional pair of a
  result and the session after it; \<open>None\<close> means the method never returns, which only the unbounded
  retry loop can cause. The settle loop of the status poll runs a fixed number of times and is a
  recursion on that number.
\<close>

end
